(* ===== verification/Prelude.thy ===== *)
theory Prelude
  imports Main "HOL-Library.State_Monad" "HOL-Library.AList" "HOL-Library.Word"
begin

text \<open>
  Shared ground of the development: Go errors as values, the logging state monad in which every
  operation of the operator is written, and a small calculus for it.

  The operator is a client of many services (the Kubernetes API server, the dogu registries,
  container runtimes). None of that code is part of the repository, so it is a parameter: an
  operation is run against an \<^emph>\<open>environment\<close>, a function from the list of calls made so far to the
  answers the services would give next. An operation is then a state transformer over that list of
  calls, and "which calls does the operator make, in which order, and on which answers" is a
  statement about the list. The environment may answer anything, fail at any call, and change its
  mind between two equal calls, so a theorem without hypotheses on it holds under every
  interference by other actors of the cluster.
\<close>

named_theorems emits_rules \<open>which calls an operation may append to the log\<close>
named_theorems ordered_rules \<open>which calls must come before which\<close>
named_theorems io_defs \<open>wrappers of external calls\<close>

section \<open>Go errors\<close>

text \<open>
  A Go \<^verbatim>\<open>error\<close> is a chain: \<^verbatim>\<open>fmt.Errorf("...: %w", err)\<close> wraps one error, \<^verbatim>\<open>errors.Join\<close> several.
  An error type of the operator without an \<^verbatim>\<open>Unwrap\<close> method hides its cause from that search
  (\<open>ErrOpaque\<close>). A run-time panic (a nil pointer dereference) is \<open>ErrPanic\<close>: it ends the operation as
  an error would. The leaves are an API status error (with the reason the API server gave), an error of the dogu
  registry libraries (with its class), or a plain message of the operator. Messages are kept as the
  constant part of the source's format string.
\<close>

datatype api_reason = NotFound | Conflict | AlreadyExists | OtherReason

datatype reg_kind = RegNotFound | RegAlreadyExists | RegConflict | RegConnection | RegOther

datatype err =
    ErrApi api_reason string
  | ErrReg reg_kind string
  | ErrMsg string
  | ErrWrap string err
  | ErrOpaque string err
  | ErrJoin "err list"
  | ErrPanic string

text \<open>
  The classification functions of the libraries (\<^verbatim>\<open>apierrors.IsNotFound\<close>,
  \<^verbatim>\<open>cloudoguerrors.IsNotFoundError\<close>, ...) look for the first error of their own type in the chain
  with \<^verbatim>\<open>errors.As\<close>, a depth-first search, and test its class.
\<close>

fun api_reasons :: "err \<Rightarrow> api_reason list" where
  "api_reasons (ErrApi r _) = [r]"
| "api_reasons (ErrReg _ _) = []"
| "api_reasons (ErrMsg _) = []"
| "api_reasons (ErrWrap _ e) = api_reasons e"
| "api_reasons (ErrOpaque _ _) = []"
| "api_reasons (ErrPanic _) = []"
| "api_reasons (ErrJoin es) = concat (map api_reasons es)"

fun reg_kinds :: "err \<Rightarrow> reg_kind list" where
  "reg_kinds (ErrApi _ _) = []"
| "reg_kinds (ErrReg k _) = [k]"
| "reg_kinds (ErrMsg _) = []"
| "reg_kinds (ErrWrap _ e) = reg_kinds e"
| "reg_kinds (ErrOpaque _ _) = []"
| "reg_kinds (ErrPanic _) = []"
| "reg_kinds (ErrJoin es) = concat (map reg_kinds es)"

definition first_is :: "'a \<Rightarrow> 'a list \<Rightarrow> bool" where
  "first_is k ks = (case ks of [] \<Rightarrow> False | k' # _ \<Rightarrow> k' = k)"

definition IsNotFound :: "err \<Rightarrow> bool" where
  "IsNotFound e = first_is NotFound (api_reasons e)"

definition IsConflict :: "err \<Rightarrow> bool" where
  "IsConflict e = first_is Conflict (api_reasons e)"

definition IsNotFoundError :: "err \<Rightarrow> bool" where
  "IsNotFoundError e = first_is RegNotFound (reg_kinds e)"

definition IsAlreadyExistsError :: "err \<Rightarrow> bool" where
  "IsAlreadyExistsError e = first_is RegAlreadyExists (reg_kinds e)"

definition IsConflictError :: "err \<Rightarrow> bool" where
  "IsConflictError e = first_is RegConflict (reg_kinds e)"

definition IsConnectionError :: "err \<Rightarrow> bool" where
  "IsConnectionError e = first_is RegConnection (reg_kinds e)"

lemmas err_class_defs = first_is_def IsNotFound_def IsConflict_def IsNotFoundError_def
  IsAlreadyExistsError_def IsConflictError_def IsConnectionError_def

lemma IsNotFound_wrap [simp]: "IsNotFound (ErrWrap m e) = IsNotFound e"
  by (simp add: IsNotFound_def)

lemma IsNotFound_leaf [simp]:
  "IsNotFound (ErrApi r m) = (r = NotFound)" "\<not> IsNotFound (ErrMsg m)" "\<not> IsNotFound (ErrReg k m)"
  by (auto simp: err_class_defs)

lemma IsConflict_wrap [simp]: "IsConflict (ErrWrap m e) = IsConflict e"
  by (simp add: IsConflict_def)

lemma IsConflict_leaf [simp]:
  "IsConflict (ErrApi r m) = (r = Conflict)" "\<not> IsConflict (ErrMsg m)" "\<not> IsConflict (ErrReg k m)"
  by (auto simp: err_class_defs)

lemma IsNotFoundError_wrap [simp]: "IsNotFoundError (ErrWrap m e) = IsNotFoundError e"
  by (simp add: IsNotFoundError_def)

lemma IsNotFoundError_leaf [simp]:
  "IsNotFoundError (ErrReg k m) = (k = RegNotFound)" "\<not> IsNotFoundError (ErrMsg m)"
  "\<not> IsNotFoundError (ErrApi r m)"
  by (auto simp: err_class_defs)

lemma IsAlreadyExistsError_wrap [simp]: "IsAlreadyExistsError (ErrWrap m e) = IsAlreadyExistsError e"
  by (simp add: IsAlreadyExistsError_def)

lemma IsAlreadyExistsError_leaf [simp]:
  "IsAlreadyExistsError (ErrReg k m) = (k = RegAlreadyExists)" "\<not> IsAlreadyExistsError (ErrMsg m)"
  "\<not> IsAlreadyExistsError (ErrApi r m)"
  by (auto simp: err_class_defs)

text \<open>\<^verbatim>\<open>client.IgnoreNotFound\<close>: nil for a not-found error, the error itself otherwise.\<close>

definition IgnoreNotFound :: "err option \<Rightarrow> err option" where
  "IgnoreNotFound eo = (case eo of None \<Rightarrow> None | Some e \<Rightarrow> if IsNotFound e then None else Some e)"

text \<open>
  \<^verbatim>\<open>errors.Join\<close> of the standard library drops nil errors and yields nil if none is left.
\<close>

definition errors_Join :: "err option list \<Rightarrow> err option" where
  "errors_Join eos = (let es = List.map_filter id eos in if es = [] then None else Some (ErrJoin es))"

lemma errors_Join_None [simp]: "errors_Join eos = None \<longleftrightarrow> (\<forall>eo \<in> set eos. eo = None)"
proof -
  have "List.map_filter id eos = [] \<longleftrightarrow> (\<forall>eo \<in> set eos. eo = None)"
    by (induction eos) (auto simp: List.map_filter_simps split: option.splits)
  then show ?thesis by (simp add: errors_Join_def Let_def)
qed

definition wrap_err :: "string \<Rightarrow> err option \<Rightarrow> err option" where
  "wrap_err m eo = map_option (ErrWrap m) eo"

lemma wrap_err_None [simp]: "wrap_err m eo = None \<longleftrightarrow> eo = None"
  by (simp add: wrap_err_def)

text \<open>A function that returns a value or an error.\<close>

type_synonym 'a res = "err + 'a"

definition err_of :: "'a res \<Rightarrow> err option" where
  "err_of r = (case r of Inl e \<Rightarrow> Some e | Inr _ \<Rightarrow> None)"

lemma err_of_simps [simp]: "err_of (Inl e) = Some e" "err_of (Inr x) = None"
  by (simp_all add: err_of_def)

lemma err_of_None: "err_of r = None \<longleftrightarrow> (\<exists>x. r = Inr x)"
  by (cases r) simp_all

section \<open>Operations that log their external calls\<close>

type_synonym ('e, 'a) io = "('e list, 'a) state"

text \<open>
  An external call: the answer is what the environment gives at this point of the log, and the call
  is appended to the log together with its outcome.
\<close>

definition ask :: "('e list \<Rightarrow> 'r) \<Rightarrow> ('r \<Rightarrow> 'e) \<Rightarrow> ('e, 'r) io" where
  "ask f ev = State (\<lambda>h. let r = f h in (r, h @ [ev r]))"

definition tell :: "'e \<Rightarrow> ('e, unit) io" where
  "tell e = ask (\<lambda>_. ()) (\<lambda>_. e)"

lemma run_ask [simp]: "run_state (ask f ev) h = (f h, h @ [ev (f h)])"
  by (simp add: ask_def Let_def)

lemma run_tell [simp]: "run_state (tell e) h = ((), h @ [e])"
  by (simp add: tell_def)

text \<open>
  \<^verbatim>\<open>x, err := f(); if err != nil { return h(err) }; k(x)\<close> and the same for a call that returns only
  an error.
\<close>

definition attempt :: "('e, 'a res) io \<Rightarrow> (err \<Rightarrow> ('e, 'b) io) \<Rightarrow> ('a \<Rightarrow> ('e, 'b) io) \<Rightarrow> ('e, 'b) io" where
  "attempt m h k = do { r \<leftarrow> m; case r of Inl e \<Rightarrow> h e | Inr x \<Rightarrow> k x }"

definition check_err :: "('e, err option) io \<Rightarrow> (err \<Rightarrow> ('e, 'b) io) \<Rightarrow> ('e, 'b) io \<Rightarrow> ('e, 'b) io" where
  "check_err m h k = do { r \<leftarrow> m; case r of Some e \<Rightarrow> h e | None \<Rightarrow> k }"

lemma run_attempt: "run_state (attempt m f k) h =
    (case run_state m h of (Inl e, h') \<Rightarrow> run_state (f e) h' | (Inr x, h') \<Rightarrow> run_state (k x) h')"
  by (auto simp: attempt_def split: prod.splits sum.splits)

lemma run_check_err: "run_state (check_err m f k) h =
    (case run_state m h of (Some e, h') \<Rightarrow> run_state (f e) h' | (None, h') \<Rightarrow> run_state k h')"
  by (auto simp: check_err_def split: prod.splits option.splits)

text \<open>A loop over a slice that may stop early: \<^verbatim>\<open>Some\<close> leaves the loop with that value.\<close>

fun for_each :: "('x \<Rightarrow> ('e, 'b option) io) \<Rightarrow> 'x list \<Rightarrow> ('e, 'b option) io" where
  "for_each f [] = State_Monad.return None"
| "for_each f (x # xs) =
     do { r \<leftarrow> f x; case r of Some b \<Rightarrow> State_Monad.return (Some b) | None \<Rightarrow> for_each f xs }"

text \<open>A loop over a slice that threads a value.\<close>

fun fold_io :: "('x \<Rightarrow> 's \<Rightarrow> ('e, 's) io) \<Rightarrow> 'x list \<Rightarrow> 's \<Rightarrow> ('e, 's) io" where
  "fold_io f [] s = State_Monad.return s"
| "fold_io f (x # xs) s = do { s' \<leftarrow> f x s; fold_io f xs s' }"

text \<open>
  \<^verbatim>\<open>retry.OnError\<close> and its relatives of the retry library: the function is run again while it
  returns an error the predicate accepts, at most \<open>n\<close> further times. A limit of \<open>n\<close> tries is \<open>n - 1\<close> further
  runs; for a limit of time the bound is a parameter of the model. The last outcome is returned.
\<close>

fun retry_on :: "nat \<Rightarrow> (err \<Rightarrow> bool) \<Rightarrow> ('e, 'a res) io \<Rightarrow> ('e, 'a res) io" where
  "retry_on 0 p m = m"
| "retry_on (Suc n) p m =
     do { r \<leftarrow> m; case r of Inr x \<Rightarrow> State_Monad.return (Inr x)
        | Inl e \<Rightarrow> if p e then retry_on n p m else State_Monad.return (Inl e) }"

section \<open>What a run appends to the log\<close>

text \<open>
  \<open>spec m Q\<close>: from every log, \<open>m\<close> only appends, and its result \<open>r\<close> and the appended calls \<open>t\<close>
  satisfy \<open>Q r t\<close>.
\<close>

definition spec :: "('e, 'a) io \<Rightarrow> ('a \<Rightarrow> 'e list \<Rightarrow> bool) \<Rightarrow> bool" where
  "spec m Q \<longleftrightarrow> (\<forall>h. \<exists>t. snd (run_state m h) = h @ t \<and> Q (fst (run_state m h)) t)"

lemma specI: "(\<And>h. \<exists>t. snd (run_state m h) = h @ t \<and> Q (fst (run_state m h)) t) \<Longrightarrow> spec m Q"
  by (simp add: spec_def)

lemma specD: "spec m Q \<Longrightarrow> run_state m h = (r, h') \<Longrightarrow> \<exists>t. h' = h @ t \<and> Q r t"
  unfolding spec_def by (metis fst_conv snd_conv)

lemma spec_return: "Q x [] \<Longrightarrow> spec (State_Monad.return x) Q"
  by (simp add: spec_def)

lemma spec_ask: "(\<And>r. Q r [ev r]) \<Longrightarrow> spec (ask f ev) Q"
  by (simp add: spec_def)

lemma spec_conseq: "spec m Q \<Longrightarrow> (\<And>r t. Q r t \<Longrightarrow> Q' r t) \<Longrightarrow> spec m Q'"
  unfolding spec_def by meson

lemma spec_bind:
  assumes m: "spec m Q" and k: "\<And>x t. Q x t \<Longrightarrow> spec (f x) (\<lambda>r t'. R r (t @ t'))"
  shows "spec (State_Monad.bind m f) R"
proof (rule specI)
  fix h
  obtain x h' where x: "run_state m h = (x, h')" by fastforce
  with m obtain t where t: "h' = h @ t" "Q x t" by (blast dest: specD)
  obtain r h'' where r: "run_state (f x) h' = (r, h'')" by fastforce
  with k [OF t(2)] obtain t' where "h'' = h' @ t'" "R r (t @ t')" by (blast dest: specD)
  with x r t show "\<exists>t. snd (run_state (State_Monad.bind m f) h) = h @ t \<and>
      R (fst (run_state (State_Monad.bind m f) h)) t" by simp
qed

lemma spec_attempt:
  assumes "spec m Q"
    and "\<And>e t. Q (Inl e) t \<Longrightarrow> spec (h e) (\<lambda>r t'. R r (t @ t'))"
    and "\<And>x t. Q (Inr x) t \<Longrightarrow> spec (k x) (\<lambda>r t'. R r (t @ t'))"
  shows "spec (attempt m h k) R"
  unfolding attempt_def using assms by (intro spec_bind [OF assms(1)]) (auto split: sum.splits)

lemma spec_check_err:
  assumes "spec m Q"
    and "\<And>e t. Q (Some e) t \<Longrightarrow> spec (h e) (\<lambda>r t'. R r (t @ t'))"
    and "\<And>t. Q None t \<Longrightarrow> spec k (\<lambda>r t'. R r (t @ t'))"
  shows "spec (check_err m h k) R"
  unfolding check_err_def using assms by (intro spec_bind [OF assms(1)]) (auto split: option.splits)

subsection \<open>Every appended call satisfies a predicate\<close>

definition emits :: "('e \<Rightarrow> bool) \<Rightarrow> ('e, 'a) io \<Rightarrow> bool" where
  "emits P m \<longleftrightarrow> spec m (\<lambda>_ t. list_all P t)"

lemma emitsD: "emits P m \<Longrightarrow> run_state m h = (r, h') \<Longrightarrow> \<exists>t. h' = h @ t \<and> list_all P t"
  unfolding emits_def by (drule (1) specD)

lemma emits_return [emits_rules]: "emits P (State_Monad.return x)"
  by (simp add: emits_def spec_return)

lemma emits_ask [emits_rules]: "(\<And>r. P (ev r)) \<Longrightarrow> emits P (ask f ev)"
  by (simp add: emits_def spec_ask)

lemma emits_tell [emits_rules]: "P e \<Longrightarrow> emits P (tell e)"
  by (simp add: tell_def emits_ask)

lemma emits_bind [emits_rules]:
  "emits P m \<Longrightarrow> (\<And>x. emits P (f x)) \<Longrightarrow> emits P (State_Monad.bind m f)"
  unfolding emits_def by (erule spec_bind) (auto elim: spec_conseq)

lemma emits_attempt [emits_rules]:
  "emits P m \<Longrightarrow> (\<And>e. emits P (h e)) \<Longrightarrow> (\<And>x. emits P (k x)) \<Longrightarrow> emits P (attempt m h k)"
  unfolding emits_def by (erule spec_attempt) (auto elim: spec_conseq)

lemma emits_check_err [emits_rules]:
  "emits P m \<Longrightarrow> (\<And>e. emits P (h e)) \<Longrightarrow> emits P k \<Longrightarrow> emits P (check_err m h k)"
  unfolding emits_def by (erule spec_check_err) (auto elim: spec_conseq)

lemma emits_if [emits_rules]: "emits P m \<Longrightarrow> emits P n \<Longrightarrow> emits P (if b then m else n)"
  by simp

lemma emits_option [emits_rules]:
  "emits P m \<Longrightarrow> (\<And>x. emits P (f x)) \<Longrightarrow> emits P (case v of None \<Rightarrow> m | Some x \<Rightarrow> f x)"
  by (cases v) auto

lemma emits_sum [emits_rules]:
  "(\<And>x. emits P (f x)) \<Longrightarrow> (\<And>y. emits P (g y)) \<Longrightarrow> emits P (case v of Inl x \<Rightarrow> f x | Inr y \<Rightarrow> g y)"
  by (cases v) auto

lemma emits_prod [emits_rules]: "(\<And>x y. emits P (f x y)) \<Longrightarrow> emits P (case v of (x, y) \<Rightarrow> f x y)"
  by (cases v) auto

lemma emits_list [emits_rules]:
  "emits P m \<Longrightarrow> (\<And>x xs. emits P (f x xs)) \<Longrightarrow> emits P (case v of [] \<Rightarrow> m | x # xs \<Rightarrow> f x xs)"
  by (cases v) auto

lemma emits_let [emits_rules]: "(\<And>x. emits P (f x)) \<Longrightarrow> emits P (Let v f)"
  by simp

lemma emits_for_each [emits_rules]: "(\<And>x. emits P (f x)) \<Longrightarrow> emits P (for_each f xs)"
  by (induction xs) (auto intro!: emits_rules)

lemma emits_fold_io [emits_rules]: "(\<And>x s. emits P (f x s)) \<Longrightarrow> emits P (fold_io f xs s)"
  by (induction xs arbitrary: s) (auto intro!: emits_rules)

lemma emits_retry_on [emits_rules]: "emits P m \<Longrightarrow> emits P (retry_on n p m)"
  by (induction n) (auto intro!: emits_rules)

lemma emits_mono: "emits P m \<Longrightarrow> (\<And>e. P e \<Longrightarrow> Q e) \<Longrightarrow> emits Q m"
  unfolding emits_def by (erule spec_conseq) (auto simp: list_all_iff)

subsection \<open>Order of calls\<close>

text \<open>\<open>precedes Q P t\<close>: no \<open>P\<close> call before the first \<open>Q\<close> call.\<close>

fun precedes :: "('e \<Rightarrow> bool) \<Rightarrow> ('e \<Rightarrow> bool) \<Rightarrow> 'e list \<Rightarrow> bool" where
  "precedes Q P [] = True"
| "precedes Q P (e # t) = (Q e \<or> \<not> P e \<and> precedes Q P t)"

lemma precedes_append: "precedes Q P (s @ t) \<longleftrightarrow> precedes Q P s \<and> (list_ex Q s \<or> precedes Q P t)"
  by (induction s) auto

lemma precedes_none: "list_all (\<lambda>e. \<not> P e) t \<Longrightarrow> precedes Q P t"
  by (induction t) auto

lemma precedes_iff: "precedes Q P t \<longleftrightarrow> (\<forall>a e b. t = a @ e # b \<longrightarrow> P e \<longrightarrow> list_ex Q a \<or> Q e)"
proof (induction t)
  case (Cons x t)
  show ?case
  proof
    assume *: "precedes Q P (x # t)"
    show "\<forall>a e b. x # t = a @ e # b \<longrightarrow> P e \<longrightarrow> list_ex Q a \<or> Q e"
    proof (intro allI impI)
      fix a e b
      assume "x # t = a @ e # b" "P e"
      with * Cons.IH show "list_ex Q a \<or> Q e" by (cases a) auto
    qed
  next
    assume *: "\<forall>a e b. x # t = a @ e # b \<longrightarrow> P e \<longrightarrow> list_ex Q a \<or> Q e"
    then have "P x \<longrightarrow> Q x" by fastforce
    moreover have "Q x \<or> precedes Q P t"
    proof (rule disjCI)
      assume "\<not> precedes Q P t"
      then obtain a e b where "t = a @ e # b" "P e" "\<not> list_ex Q a" "\<not> Q e" using Cons.IH by auto
      with * [rule_format, of "x # a" e b] show "Q x" by auto
    qed
    ultimately show "precedes Q P (x # t)" by auto
  qed
qed simp

definition ordered :: "('e \<Rightarrow> bool) \<Rightarrow> ('e \<Rightarrow> bool) \<Rightarrow> ('e, 'a) io \<Rightarrow> bool" where
  "ordered Q P m \<longleftrightarrow> spec m (\<lambda>_ t. precedes Q P t)"

text \<open>\<open>m\<close> makes no \<open>P\<close> call, and if it succeeds it has made a \<open>Q\<close> call.\<close>

definition establishes :: "('e \<Rightarrow> bool) \<Rightarrow> ('e \<Rightarrow> bool) \<Rightarrow> ('e, 'a res) io \<Rightarrow> bool" where
  "establishes Q P m \<longleftrightarrow> spec m (\<lambda>r t. list_all (\<lambda>e. \<not> P e) t \<and> ((\<exists>x. r = Inr x) \<longrightarrow> list_ex Q t))"

lemma orderedD: "ordered Q P m \<Longrightarrow> run_state m h = (r, h') \<Longrightarrow> \<exists>t. h' = h @ t \<and> precedes Q P t"
  unfolding ordered_def by (drule (1) specD)

lemma ordered_emits: "emits (\<lambda>e. \<not> P e) m \<Longrightarrow> ordered Q P m"
  unfolding ordered_def emits_def by (erule spec_conseq) (rule precedes_none)

lemma ordered_return [ordered_rules]: "ordered Q P (State_Monad.return x)"
  by (rule ordered_emits) (rule emits_return)

lemma spec_append_quiet:
  "list_all (\<lambda>e. \<not> P e) t \<Longrightarrow> spec m (\<lambda>_ t. precedes Q P t) \<Longrightarrow> spec m (\<lambda>_ t'. precedes Q P (t @ t'))"
  by (erule spec_conseq) (auto simp: precedes_append precedes_none)

lemma ordered_bind:
  "emits (\<lambda>e. \<not> P e) m \<Longrightarrow> (\<And>x. ordered Q P (f x)) \<Longrightarrow> ordered Q P (State_Monad.bind m f)"
  unfolding ordered_def emits_def by (erule spec_bind) (auto intro: spec_append_quiet)

lemma ordered_bind_last:
  assumes "ordered Q P m" "\<And>x. emits (\<lambda>e. \<not> P e) (f x)"
  shows "ordered Q P (State_Monad.bind m f)"
  using assms(1) unfolding ordered_def
  by (rule spec_bind)
     (auto simp: precedes_append intro: precedes_none spec_conseq [OF assms(2) [unfolded emits_def]])

lemma ordered_attempt:
  "emits (\<lambda>e. \<not> P e) m \<Longrightarrow> (\<And>e. ordered Q P (h e)) \<Longrightarrow> (\<And>x. ordered Q P (k x)) \<Longrightarrow> ordered Q P (attempt m h k)"
  unfolding ordered_def emits_def by (erule spec_attempt) (auto intro: spec_append_quiet)

lemma ordered_check_err:
  "emits (\<lambda>e. \<not> P e) m \<Longrightarrow> (\<And>e. ordered Q P (h e)) \<Longrightarrow> ordered Q P k \<Longrightarrow> ordered Q P (check_err m h k)"
  unfolding ordered_def emits_def by (erule spec_check_err) (auto intro: spec_append_quiet)

text \<open>After an operation that establishes \<open>Q\<close>, anything may follow.\<close>

lemma ordered_attempt_establishes:
  assumes "establishes Q P m" "\<And>e. ordered Q P (h e)" "\<And>x. emits (\<lambda>_. True) (k x)"
  shows "ordered Q P (attempt m h k)"
  using assms(1) unfolding ordered_def establishes_def
  by (rule spec_attempt)
     (auto simp: precedes_append precedes_none intro: spec_append_quiet spec_conseq [OF assms(3) [unfolded emits_def]]
        spec_conseq [OF assms(2) [unfolded ordered_def]])

lemma ordered_if [ordered_rules]: "ordered Q P m \<Longrightarrow> ordered Q P n \<Longrightarrow> ordered Q P (if b then m else n)"
  by simp

lemma ordered_option [ordered_rules]:
  "ordered Q P m \<Longrightarrow> (\<And>x. ordered Q P (f x)) \<Longrightarrow> ordered Q P (case v of None \<Rightarrow> m | Some x \<Rightarrow> f x)"
  by (cases v) auto

lemma ordered_sum [ordered_rules]:
  "(\<And>x. ordered Q P (f x)) \<Longrightarrow> (\<And>y. ordered Q P (g y)) \<Longrightarrow> ordered Q P (case v of Inl x \<Rightarrow> f x | Inr y \<Rightarrow> g y)"
  by (cases v) auto

lemma ordered_prod [ordered_rules]: "(\<And>x y. ordered Q P (f x y)) \<Longrightarrow> ordered Q P (case v of (x, y) \<Rightarrow> f x y)"
  by (cases v) auto

lemma establishes_attempt:
  assumes "emits (\<lambda>e. \<not> P e) m" "\<And>x. establishes Q P (k x)"
  shows "establishes Q P (attempt m (\<lambda>e. State_Monad.return (Inl (f e))) k)"
  using assms(1) unfolding establishes_def emits_def
  by (rule spec_attempt) (auto intro: spec_return spec_conseq [OF assms(2) [unfolded establishes_def]])

lemma establishes_then:
  assumes "establishes Q P m" "\<And>x. emits (\<lambda>e. \<not> P e) (k x)"
  shows "establishes Q P (attempt m (\<lambda>e. State_Monad.return (Inl (f e))) k)"
  using assms(1) unfolding establishes_def
  by (rule spec_attempt) (auto intro: spec_return spec_conseq [OF assms(2) [unfolded emits_def]])

lemma establishes_if: "establishes Q P m \<Longrightarrow> establishes Q P n \<Longrightarrow> establishes Q P (if b then m else n)"
  by simp

lemma establishes_option:
  "(\<And>e. x = Some e \<Longrightarrow> establishes Q P (f e)) \<Longrightarrow> (x = None \<Longrightarrow> establishes Q P m) \<Longrightarrow>
    establishes Q P (case x of Some e \<Rightarrow> f e | None \<Rightarrow> m)"
  by (cases x) auto

lemma establishes_fail: "establishes Q P (State_Monad.return (Inl e))"
  by (simp add: establishes_def spec_return)

lemma establishes_ask:
  "(\<And>r. \<not> P (ev r)) \<Longrightarrow> (\<And>x. Q (ev (Inr x))) \<Longrightarrow> establishes Q P (ask f ev)"
  by (auto simp: establishes_def intro!: spec_ask)

section \<open>Association lists as Go maps\<close>

text \<open>
  A Go map is iterated in an unspecified order. Maps are association lists: their order is the
  order in which the runtime happens to visit the entries.
\<close>

type_synonym smap = "(string \<times> string) list"

text \<open>\<^verbatim>\<open>m[k]\<close> on a \<^verbatim>\<open>map[string]string\<close>: the empty string for a missing key.\<close>

definition smap_get :: "smap \<Rightarrow> string \<Rightarrow> string" where
  "smap_get m k = (case map_of m k of None \<Rightarrow> [] | Some v \<Rightarrow> v)"

definition smap_add :: "smap \<Rightarrow> smap \<Rightarrow> smap" where
  "smap_add m n = fold (\<lambda>(k, v) acc. AList.update k v acc) n m"

lemma map_of_smap_add: "map_of (smap_add m n) = map_of m ++ map_of (rev n)"
proof (induction n arbitrary: m)
  case Nil
  then show ?case by (simp add: smap_add_def)
next
  case (Cons kv n)
  obtain k v where kv: "kv = (k, v)" by (cases kv)
  have "map_of (smap_add m (kv # n)) = map_of (smap_add (AList.update k v m) n)"
    by (simp add: smap_add_def kv)
  also have "\<dots> = map_of (AList.update k v m) ++ map_of (rev n)" by (rule Cons.IH)
  finally show ?case by (simp add: kv update_conv')
qed

end
