(* ===== verification/GoStrings.thy ===== *)
theory GoStrings
  imports Prelude
begin

text \<open>
  The parts of Go's \<^verbatim>\<open>strings\<close>, \<^verbatim>\<open>strconv\<close>, \<^verbatim>\<open>path\<close> and \<^verbatim>\<open>fmt\<close> packages the operator uses, on
  \<open>string = char list\<close> (bytes). White space and letter case are those of ASCII.
\<close>

section \<open>strings\<close>

fun HasPrefix :: "string \<Rightarrow> string \<Rightarrow> bool" where
  "HasPrefix _ [] = True"
| "HasPrefix [] _ = False"
| "HasPrefix (c # s) (p # ps) = (c = p \<and> HasPrefix s ps)"

definition HasSuffix :: "string \<Rightarrow> string \<Rightarrow> bool" where
  "HasSuffix s suf = HasPrefix (rev s) (rev suf)"

definition TrimPrefix :: "string \<Rightarrow> string \<Rightarrow> string" where
  "TrimPrefix s p = (if HasPrefix s p then drop (length p) s else s)"

definition TrimSuffix :: "string \<Rightarrow> string \<Rightarrow> string" where
  "TrimSuffix s suf = (if HasSuffix s suf then take (length s - length suf) s else s)"

definition is_space :: "char \<Rightarrow> bool" where
  "is_space c = (c \<in> {CHR '' '', CHR 0x09, CHR 0x0A, CHR 0x0B, CHR 0x0C, CHR 0x0D})"

definition TrimSpace :: "string \<Rightarrow> string" where
  "TrimSpace s = rev (dropWhile is_space (rev (dropWhile is_space s)))"

fun Contains :: "string \<Rightarrow> string \<Rightarrow> bool" where
  "Contains [] sub = (sub = [])"
| "Contains (c # s) sub = (HasPrefix (c # s) sub \<or> Contains s sub)"

text \<open>\<^verbatim>\<open>strings.Split(s, sep)\<close> for a one-byte separator: always at least one part.\<close>

fun Split :: "char \<Rightarrow> string \<Rightarrow> string list" where
  "Split c [] = [[]]"
| "Split c (x # s) =
     (if x = c then [] # Split c s
      else case Split c s of [] \<Rightarrow> [[x]] | p # ps \<Rightarrow> (x # p) # ps)"

text \<open>\<^verbatim>\<open>strings.SplitN(s, sep, 2)\<close>: split at the first separator only.\<close>

fun SplitN2 :: "char \<Rightarrow> string \<Rightarrow> string list" where
  "SplitN2 c [] = [[]]"
| "SplitN2 c (x # s) =
     (if x = c then [[], s]
      else case SplitN2 c s of [] \<Rightarrow> [[x]] | p # ps \<Rightarrow> (x # p) # ps)"

text \<open>\<^verbatim>\<open>strings.Replace(s, old, new, 1)\<close> for a one-byte \<open>old\<close>.\<close>

fun Replace1 :: "char \<Rightarrow> string \<Rightarrow> string \<Rightarrow> string" where
  "Replace1 c new [] = []"
| "Replace1 c new (x # s) = (if x = c then new @ s else x # Replace1 c new s)"

fun Join :: "string list \<Rightarrow> string \<Rightarrow> string" where
  "Join [] sep = []"
| "Join [s] sep = s"
| "Join (s # ss) sep = s @ sep @ Join ss sep"

definition upper_char :: "char \<Rightarrow> char" where
  "upper_char c = (let n = of_char c :: nat in if 97 \<le> n \<and> n \<le> 122 then char_of (n - 32) else c)"

definition lower_char :: "char \<Rightarrow> char" where
  "lower_char c = (let n = of_char c :: nat in if 65 \<le> n \<and> n \<le> 90 then char_of (n + 32) else c)"

definition ToUpper :: "string \<Rightarrow> string" where "ToUpper = map upper_char"
definition ToLower :: "string \<Rightarrow> string" where "ToLower = map lower_char"

lemma HasPrefix_append [simp]: "HasPrefix (p @ s) p"
  by (induction p) auto

lemma HasPrefix_iff: "HasPrefix s p \<longleftrightarrow> (\<exists>r. s = p @ r)"
  by (induction s p rule: HasPrefix.induct) auto

lemma HasSuffix_iff: "HasSuffix s suf \<longleftrightarrow> (\<exists>r. s = r @ suf)"
proof -
  have "HasSuffix s suf \<longleftrightarrow> (\<exists>r. rev s = rev suf @ r)"
    by (simp add: HasSuffix_def HasPrefix_iff)
  also have "\<dots> \<longleftrightarrow> (\<exists>r. s = r @ suf)"
    by (metis rev_append rev_rev_ident)
  finally show ?thesis .
qed

lemma TrimSuffix_append [simp]: "TrimSuffix (s @ suf) suf = s"
  by (auto simp: TrimSuffix_def HasSuffix_iff)

lemma TrimPrefix_append [simp]: "TrimPrefix (p @ s) p = s"
  by (simp add: TrimPrefix_def)

lemma Split_nonempty [simp]: "Split c s \<noteq> []"
  by (induction s) (auto split: list.splits)

lemma Split_no_sep: "c \<notin> set s \<Longrightarrow> Split c s = [s]"
  by (induction s) auto

lemma Split_append: "c \<notin> set s \<Longrightarrow> Split c (s @ c # r) = s # Split c r"
  by (induction s) auto

lemma length_Split: "length (Split c s) = Suc (count_list s c)"
proof (induction s)
  case (Cons x s)
  then show ?case
    by (cases "Split c s") auto
qed simp

lemma SplitN2_nonempty [simp]: "SplitN2 c s \<noteq> []"
  by (induction s) (auto split: list.splits)

lemma SplitN2_no_sep: "c \<notin> set s \<Longrightarrow> SplitN2 c s = [s]"
  by (induction s) auto

lemma SplitN2_append: "c \<notin> set s \<Longrightarrow> SplitN2 c (s @ c # r) = [s, r]"
  by (induction s) auto

lemma dropWhile_spaces_idem: "s \<noteq> [] \<Longrightarrow> \<not> is_space (hd s) \<Longrightarrow> dropWhile is_space s = s"
  by (cases s) auto

lemma dropWhile_spaces_all: "list_all is_space s \<Longrightarrow> dropWhile is_space s = []"
  by (simp add: list_all_iff)

lemma dropWhile_spaces_append: "list_all is_space a \<Longrightarrow> dropWhile is_space (a @ s) = dropWhile is_space s"
  by (induction a) auto

text \<open>A string without blanks at its ends is unchanged by \<^verbatim>\<open>TrimSpace\<close>.\<close>

definition trimmed :: "string \<Rightarrow> bool" where
  "trimmed s = (s = [] \<or> \<not> is_space (hd s) \<and> \<not> is_space (last s))"

lemma TrimSpace_trimmed: "trimmed s \<Longrightarrow> TrimSpace s = s"
  by (cases "s = []") (auto simp: TrimSpace_def trimmed_def dropWhile_spaces_idem hd_rev)

lemma TrimSpace_pad:
  assumes "trimmed s" "list_all is_space a" "list_all is_space b"
  shows "TrimSpace (a @ s @ b) = s"
proof (cases "s = []")
  case True
  with assms show ?thesis
    by (simp add: TrimSpace_def dropWhile_spaces_append dropWhile_spaces_all)
next
  case False
  with assms have "dropWhile is_space (a @ s @ b) = s @ b"
    by (simp add: dropWhile_spaces_append dropWhile_spaces_idem trimmed_def)
  moreover from False assms have "dropWhile is_space (rev b @ rev s) = rev s"
    by (simp add: dropWhile_spaces_append dropWhile_spaces_idem trimmed_def hd_rev)
  ultimately show ?thesis by (simp add: TrimSpace_def)
qed

section \<open>strconv\<close>

definition digit_val :: "char \<Rightarrow> int option" where
  "digit_val c = (let n = of_char c :: nat in if 48 \<le> n \<and> n \<le> 57 then Some (int n - 48) else None)"

fun digits_val :: "int \<Rightarrow> string \<Rightarrow> int option" where
  "digits_val acc [] = Some acc"
| "digits_val acc (c # s) =
     (case digit_val c of None \<Rightarrow> None | Some d \<Rightarrow> digits_val (10 * acc + d) s)"

text \<open>
  \<^verbatim>\<open>strconv.Atoi\<close> on a 64-bit platform: an optional sign, at least one decimal digit, and a value
  that fits; anything else is an error. \<^verbatim>\<open>strconv.ParseInt(s, 10, 64)\<close> accepts the same strings.
\<close>

definition Atoi :: "string \<Rightarrow> int res" where
  "Atoi s =
     (let (neg, ds) = (case s of [] \<Rightarrow> (False, [])
                       | c # r \<Rightarrow> if c = CHR ''-'' then (True, r) else if c = CHR ''+'' then (False, r) else (False, s))
      in if ds = [] then Inl (ErrMsg ''invalid syntax'')
         else case digits_val 0 ds of
             None \<Rightarrow> Inl (ErrMsg ''invalid syntax'')
           | Some n \<Rightarrow> let v = (if neg then - n else n) in
               if - (2 ^ 63) \<le> v \<and> v < 2 ^ 63 then Inr v else Inl (ErrMsg ''value out of range''))"

lemma digits_val_nonneg: "0 \<le> acc \<Longrightarrow> digits_val acc s = Some n \<Longrightarrow> 0 \<le> n"
  by (induction acc s rule: digits_val.induct)
    (auto simp: digit_val_def Let_def split: option.splits if_splits)

lemma Atoi_bounds: "Atoi s = Inr v \<Longrightarrow> - (2 ^ 63) \<le> v \<and> v < 2 ^ 63"
  by (auto simp: Atoi_def Let_def split: prod.splits option.splits if_splits)

text \<open>The conversion \<^verbatim>\<open>int32(n)\<close>: the low 32 bits, read as two's complement.\<close>

definition int32 :: "int \<Rightarrow> int" where
  "int32 n = sint (word_of_int n :: 32 word)"

lemma int32_id: "- (2 ^ 31) \<le> n \<Longrightarrow> n < 2 ^ 31 \<Longrightarrow> int32 n = n"
  by (simp add: int32_def sint_sbintrunc' signed_take_bit_int_eq_self)

lemma int32_range: "- (2 ^ 31) \<le> int32 n" "int32 n < 2 ^ 31"
  using sint_range_size [of "word_of_int n :: 32 word"]
  by (auto simp: int32_def word_size)

text \<open>\<^verbatim>\<open>strconv.ParseBool\<close>: \<open>None\<close> where Go returns a syntax error.\<close>

definition ParseBool :: "string \<Rightarrow> bool option" where
  "ParseBool s =
     (if s \<in> {''1'', ''t'', ''T'', ''TRUE'', ''true'', ''True''} then Some True
      else if s \<in> {''0'', ''f'', ''F'', ''FALSE'', ''false'', ''False''} then Some False
      else None)"

text \<open>Decimal printing, \<^verbatim>\<open>strconv.Itoa\<close> and \<^verbatim>\<open>%d\<close>.\<close>

function digits_of :: "nat \<Rightarrow> string" where
  "digits_of n = (if n < 10 then [char_of (48 + n)] else digits_of (n div 10) @ [char_of (48 + n mod 10)])"
  by pat_completeness auto
termination by (relation "measure id") auto

declare digits_of.simps [simp del]

definition Itoa :: "int \<Rightarrow> string" where
  "Itoa n = (if n < 0 then CHR ''-'' # digits_of (nat (- n)) else digits_of (nat n))"

lemma digit_val_char [simp]: "n < 10 \<Longrightarrow> digit_val (char_of (48 + n)) = Some (int n)"
  by (simp add: digit_val_def Let_def of_char_of)

lemma digits_val_append:
  "digits_val acc (s @ r) = (case digits_val acc s of None \<Rightarrow> None | Some a \<Rightarrow> digits_val a r)"
  by (induction acc s rule: digits_val.induct) (auto split: option.splits)

lemma digits_val_digits_of: "digits_val 0 (digits_of n) = Some (int n)"
proof (induction n rule: digits_of.induct)
  case (1 n)
  show ?case
  proof (cases "n < 10")
    case True
    then show ?thesis by (simp add: digits_of.simps [of n])
  next
    case False
    with 1 have "digits_val 0 (digits_of (n div 10)) = Some (int (n div 10))" by blast
    moreover have "10 * int (n div 10) + int (n mod 10) = int n" by presburger
    ultimately show ?thesis using False
      by (simp add: digits_of.simps [of n] digits_val_append)
  qed
qed

lemma digits_of_nonempty: "digits_of n \<noteq> []"
  by (subst digits_of.simps) simp

lemma hd_digits_of: "\<exists>d::nat. d < 10 \<and> hd (digits_of n) = char_of (48 + d)"
proof (induction n rule: digits_of.induct)
  case (1 n)
  then show ?case
    by (cases "n < 10") (auto simp: digits_of.simps [of n] digits_of_nonempty)
qed

lemma Atoi_Itoa_nonneg: "n < 2 ^ 63 \<Longrightarrow> Atoi (digits_of n) = Inr (int n)"
proof -
  assume n: "n < 2 ^ 63"
  obtain c r where cr: "digits_of n = c # r" by (metis digits_of_nonempty neq_Nil_conv)
  obtain d :: nat where d: "d < 10" "c = char_of (48 + d)"
    using hd_digits_of [of n] cr by auto
  have "digit_val c = Some (int d)" using d by simp
  then have "c \<noteq> CHR ''-''" "c \<noteq> CHR ''+''" by (auto simp: digit_val_def Let_def)
  with n cr digits_val_digits_of [of n] show ?thesis
    by (auto simp: Atoi_def Let_def)
qed

section \<open>path\<close>

text \<open>\<^verbatim>\<open>filepath.Base\<close> of a path without trailing slashes: what follows the last slash.\<close>

definition path_Base :: "string \<Rightarrow> string" where
  "path_Base p = (if p = [] then ''.'' else last (Split CHR ''/'' p))"

text \<open>\<^verbatim>\<open>path.Clean\<close>: empty and \<open>.\<close> elements vanish, \<open>..\<close> removes the element before it.\<close>

definition clean_part :: "bool \<Rightarrow> string \<Rightarrow> string list \<Rightarrow> string list" where
  "clean_part rooted x stack =
     (if x = [] \<or> x = ''.'' then stack
      else if x = ''..'' then
        (case stack of [] \<Rightarrow> if rooted then [] else [''..'']
         | y # ys \<Rightarrow> if y = ''..'' then ''..'' # stack else ys)
      else x # stack)"

definition path_Clean :: "string \<Rightarrow> string" where
  "path_Clean p =
     (let rooted = HasPrefix p ''/'';
          parts = rev (fold (clean_part rooted) (Split CHR ''/'' p) [])
      in if rooted then CHR ''/'' # Join parts ''/''
         else if parts = [] then ''.'' else Join parts ''/'')"

text \<open>\<^verbatim>\<open>path.Join\<close>: the non-empty elements joined by slashes, cleaned; empty if there is none.\<close>

definition path_Join :: "string list \<Rightarrow> string" where
  "path_Join es =
     (let es' = filter (\<lambda>e. e \<noteq> []) es in if es' = [] then [] else path_Clean (Join es' ''/''))"

lemma path_Join_example: "path_Join [''/dogumount'', ''/var/lib/data'', ''sub/../x/''] = ''/dogumount/var/lib/data/x''"
  by (simp add: path_Join_def path_Clean_def clean_part_def Let_def)

section \<open>Keys of a map as text\<close>

text \<open>
  \<^verbatim>\<open>util/util.go\<close>: each key is written after a comma, and \<^verbatim>\<open>strings.TrimLeft\<close> takes all leading commas and blanks away.
\<close>

definition TrimLeft :: "string \<Rightarrow> char set \<Rightarrow> string" where
  "TrimLeft s cutset = dropWhile (\<lambda>c. c \<in> cutset) s"

definition GetMapKeysAsString :: "(string \<times> 'v) list \<Rightarrow> string" where
  "GetMapKeysAsString input = TrimLeft (fold (\<lambda>(key, _) output. output @ '', '' @ key) input []) {CHR '','', CHR '' ''}"

lemma fold_keys: "fold (\<lambda>(key, _) output. output @ '', '' @ key) input acc = acc @ concat (map (\<lambda>(key, _). '', '' @ key) input)"
  by (induction input arbitrary: acc) auto

lemma concat_Join: "ss \<noteq> [] \<Longrightarrow> concat (map ((@) sep) ss) = sep @ Join ss sep"
  by (induction ss sep rule: Join.induct) auto

text \<open>The keys joined by commas, unless the first one starts with a comma or blank of its own.\<close>

lemma GetMapKeysAsString_joins:
  assumes "fst (hd input) \<noteq> []" "hd (fst (hd input)) \<notin> {CHR '','', CHR '' ''}" "input \<noteq> []"
  shows "GetMapKeysAsString input = Join (map fst input) '', ''"
proof -
  obtain c cs v rest where input: "input = ((c # cs), v) # rest"
    using assms by (metis list.collapse prod.collapse)
  have "concat (map (\<lambda>(key, _). '', '' @ key) input) = '', '' @ Join (map fst input) '', ''"
    using concat_Join [of "map fst input" "'', ''"] assms(3) by (simp add: comp_def case_prod_beta')
  moreover have "\<exists>r. Join (map fst input) '', '' = c # r" by (cases rest) (auto simp: input)
  ultimately show ?thesis
    using assms(2) unfolding GetMapKeysAsString_def TrimLeft_def fold_keys by (auto simp: input)
qed

end
