(* ===== verification/Objects.thy ===== *)
theory Objects
  imports GoStrings
begin

text \<open>
  The data the operator handles, each struct as a record with the fields the operator reads or
  writes: the \<^verbatim>\<open>Dogu\<close> and \<^verbatim>\<open>DoguRestart\<close> custom resources, the dogu descriptor (\<^verbatim>\<open>dogu.json\<close>) and the
  Kubernetes objects. A pointer that may be nil is an option. Times and durations are integers
  (nanoseconds).
\<close>

section \<open>Conditions\<close>

datatype cond_status = ConditionTrue | ConditionFalse | ConditionUnknown

record condition =
  c_Type :: string
  c_Status :: cond_status
  c_Reason :: string
  c_Message :: string
  c_ObservedGeneration :: int

text \<open>A resource quantity is an opaque value of the API machinery, known by its text.\<close>

datatype quantity = Quantity (q_text: string)

section \<open>The Dogu resource\<close>

record data_mount =
  dm_SourceType :: string
  dm_Name :: string
  dm_Volume :: string
  dm_Subfolder :: string

record selinux_options =
  se_User :: string
  se_Role :: string
  se_Type :: string
  se_Level :: string

text \<open>Seccomp and AppArmor profiles have the same two fields.\<close>

record sec_profile =
  sp_Type :: string
  sp_LocalhostProfile :: "string option"

record security_spec =
  sec_CapAdd :: "string list"
  sec_CapDrop :: "string list"
  sec_RunAsNonRoot :: "bool option"
  sec_ReadOnlyRootFS :: "bool option"
  sec_SELinux :: "selinux_options option"
  sec_Seccomp :: "sec_profile option"
  sec_AppArmor :: "sec_profile option"

record dogu_spec =
  s_Name :: string
  s_Version :: string
  s_Stopped :: bool
  s_PauseReconciliation :: bool
  s_SupportMode :: bool
  s_ExportMode :: bool
  s_AllowNamespaceSwitch :: bool
  s_ForceUpgrade :: bool
  s_AdditionalMounts :: "data_mount list"
  s_StorageClassName :: "string option"
  s_MinDataVolumeSize :: string
  s_Security :: security_spec

record dogu_status =
  t_Status :: string
  t_Health :: string
  t_Conditions :: "condition list"
  t_InstalledVersion :: string
  t_Stopped :: bool
  t_ExportMode :: bool
  t_StartedAt :: int
  t_RequeueTime :: int
  t_DataVolumeSize :: "quantity option"

record dogu =
  d_Name :: string
  d_Namespace :: string
  d_UID :: string
  d_Generation :: int
  d_Annotations :: smap
  d_Finalizers :: "string list"
  d_DeletionTimestamp :: "int option"
  d_Spec :: dogu_spec
  d_Status :: dogu_status

text \<open>The zero value \<^verbatim>\<open>Dogu{}\<close>.\<close>

definition empty_security :: security_spec where
  "empty_security = \<lparr> sec_CapAdd = [], sec_CapDrop = [], sec_RunAsNonRoot = None,
     sec_ReadOnlyRootFS = None, sec_SELinux = None, sec_Seccomp = None, sec_AppArmor = None \<rparr>"

definition empty_spec :: dogu_spec where
  "empty_spec = \<lparr> s_Name = [], s_Version = [], s_Stopped = False, s_PauseReconciliation = False,
     s_SupportMode = False, s_ExportMode = False, s_AllowNamespaceSwitch = False,
     s_ForceUpgrade = False, s_AdditionalMounts = [], s_StorageClassName = None,
     s_MinDataVolumeSize = [], s_Security = empty_security \<rparr>"

definition empty_status :: dogu_status where
  "empty_status = \<lparr> t_Status = [], t_Health = [], t_Conditions = [], t_InstalledVersion = [],
     t_Stopped = False, t_ExportMode = False, t_StartedAt = 0, t_RequeueTime = 0,
     t_DataVolumeSize = None \<rparr>"

definition empty_dogu :: dogu where
  "empty_dogu = \<lparr> d_Name = [], d_Namespace = [], d_UID = [], d_Generation = 0, d_Annotations = [],
     d_Finalizers = [], d_DeletionTimestamp = None, d_Spec = empty_spec, d_Status = empty_status \<rparr>"

text \<open>
  Constants of the custom resource definition the operator refers to by name. Their text is not
  part of the repository; only that they differ matters.
\<close>

definition ConditionHealthy :: string where "ConditionHealthy = ''healthy''"
definition ConditionReady :: string where "ConditionReady = ''ready''"
definition ConditionSupportMode :: string where "ConditionSupportMode = ''supportMode''"
definition ConditionMeetsMinVolumeSize :: string where "ConditionMeetsMinVolumeSize = ''meetsMinVolumeSize''"
definition ConditionPauseReconciliation :: string where "ConditionPauseReconciliation = ''pauseReconciliation''"

lemmas condition_type_defs = ConditionHealthy_def ConditionReady_def ConditionSupportMode_def
  ConditionMeetsMinVolumeSize_def ConditionPauseReconciliation_def

definition AvailableHealthStatus :: string where "AvailableHealthStatus = ''available''"
definition UnavailableHealthStatus :: string where "UnavailableHealthStatus = ''unavailable''"
definition UnknownHealthStatus :: string where "UnknownHealthStatus = ''unknown''"
definition DoguStatusInstalled :: string where "DoguStatusInstalled = ''installed''"
definition DoguStatusUpgrading :: string where "DoguStatusUpgrading = ''upgrading''"
definition DoguStatusDeleting :: string where "DoguStatusDeleting = ''deleting''"
definition DoguStatusChangingExportMode :: string where "DoguStatusChangingExportMode = ''changing export mode''"

lemmas status_text_defs = AvailableHealthStatus_def UnavailableHealthStatus_def UnknownHealthStatus_def
  DoguStatusInstalled_def DoguStatusUpgrading_def DoguStatusDeleting_def DoguStatusChangingExportMode_def

definition DataSourceConfigMap :: string where "DataSourceConfigMap = ''ConfigMap''"
definition DataSourceSecret :: string where "DataSourceSecret = ''Secret''"
definition DoguLabelName :: string where "DoguLabelName = ''dogu.name''"
definition DoguLabelVersion :: string where "DoguLabelVersion = ''dogu.version''"

section \<open>The DoguRestart resource\<close>

datatype restart_phase =
    PhaseNew | PhaseStopping | PhaseStopped | PhaseStarting | PhaseCompleted
  | PhaseDoguNotFound | PhaseFailedGetDogu | PhaseFailedStop | PhaseFailedStart | PhaseOther string

record dogu_restart =
  r_Name :: string
  r_DoguName :: string
  r_Phase :: restart_phase
  r_CreationTimestamp :: int

section \<open>The dogu descriptor\<close>

text \<open>
  The parameters of a volume client are generic JSON. The fields of an object are listed in the order in which \<^verbatim>\<open>json.Marshal\<close>
  writes the keys of a map.
\<close>

datatype json =
    JNull
  | JBool bool
  | JNumber string
  | JString string
  | JArray "json list"
  | JObject "(string \<times> json) list"

record volume_client =
  vc_Name :: string
  vc_Params :: json

record dvolume =
  v_Name :: string
  v_Path :: string
  v_Owner :: string
  v_Group :: string
  v_NeedsBackup :: bool
  v_Clients :: "volume_client list"

record dependency =
  dep_Type :: string
  dep_Name :: string
  dep_Version :: string

record service_account =
  sa_Type :: string
  sa_Kind :: string
  sa_Params :: "string list"

record health_check =
  hc_Type :: string
  hc_State :: string
  hc_Port :: int

record exposed_port =
  ep_Type :: string
  ep_Container :: int
  ep_Host :: int

record exposed_command =
  ec_Name :: string
  ec_Command :: string

record config_field =
  cf_Name :: string
  cf_Default :: string

record descriptor =
  n_Name :: string
  n_Version :: string
  n_Image :: string
  n_Volumes :: "dvolume list"
  n_Dependencies :: "dependency list"
  n_OptionalDependencies :: "dependency list"
  n_ServiceAccounts :: "service_account list"
  n_HealthChecks :: "health_check list"
  n_ExposedPorts :: "exposed_port list"
  n_ExposedCommands :: "exposed_command list"
  n_Configuration :: "config_field list"
  n_RunAsNonRoot :: bool
  n_ReadOnlyRootFS :: bool

text \<open>A parsed version is identified by its raw text; its order is that of the version library.\<close>

datatype version = Version (Raw: string)

record simple_name_version =
  snv_Name :: string
  snv_Version :: version

section \<open>Kubernetes objects\<close>

record capabilities =
  cap_Drop :: "string list"
  cap_Add :: "string list"

record security_context =
  sc_RunAsUser :: "int option"
  sc_RunAsGroup :: "int option"
  sc_Capabilities :: capabilities
  sc_RunAsNonRoot :: "bool option"
  sc_ReadOnlyRootFS :: "bool option"
  sc_SELinux :: "selinux_options option"
  sc_Seccomp :: "sec_profile option"
  sc_AppArmor :: "sec_profile option"
  sc_Privileged :: "bool option"

record pod_security_context =
  psc_RunAsNonRoot :: "bool option"
  psc_SELinux :: "selinux_options option"
  psc_AppArmor :: "sec_profile option"
  psc_Seccomp :: "sec_profile option"
  psc_FSGroup :: "int option"
  psc_FSGroupChangePolicy :: "string option"

datatype probe_handler = ExecProbe "string list" | TCPProbe int

record probe =
  pr_Handler :: probe_handler
  pr_TimeoutSeconds :: int
  pr_PeriodSeconds :: int
  pr_SuccessThreshold :: int
  pr_FailureThreshold :: int

datatype env_value = EnvLiteral string | EnvFieldRef string | EnvConfigMapKey string string

record env_var =
  ev_Name :: string
  ev_Value :: env_value

record volume_mount =
  vm_Name :: string
  vm_ReadOnly :: bool
  vm_MountPath :: string
  vm_SubPath :: string

datatype volume_source =
    VSConfigMap string "bool option" "(string \<times> string) list"
  | VSSecret string
  | VSEmptyDir
  | VSPersistentVolumeClaim string
  | VSNone

record volume =
  vol_Name :: string
  vol_Source :: volume_source

record requirements =
  rq_Limits :: "(string \<times> quantity) list"
  rq_Requests :: "(string \<times> quantity) list"

record container =
  k_Name :: string
  k_Image :: string
  k_Command :: "string list"
  k_Args :: "string list"
  k_Env :: "env_var list"
  k_VolumeMounts :: "volume_mount list"
  k_LivenessProbe :: "probe option"
  k_ReadinessProbe :: "probe option"
  k_StartupProbe :: "probe option"
  k_ImagePullPolicy :: string
  k_Resources :: requirements
  k_SecurityContext :: "security_context option"
  k_TerminationMessagePath :: string
  k_TerminationMessagePolicy :: string

record pod_template =
  p_Labels :: smap
  p_Annotations :: smap
  p_Hostname :: string
  p_HostAliases :: "(string \<times> string list) list"
  p_ImagePullSecrets :: "string list"
  p_Volumes :: "volume list"
  p_EnableServiceLinks :: bool
  p_ServiceAccountName :: string
  p_AutomountServiceAccountToken :: bool
  p_InitContainers :: "container list"
  p_SecurityContext :: "pod_security_context option"
  p_Containers :: "container list"

text \<open>The controller reference of an object: the name of the dogu that owns it.\<close>

record deployment =
  dep_ObjName :: string
  dep_ObjNamespace :: string
  dep_Labels :: smap
  dep_Owner :: "string option"
  dep_Selector :: smap
  dep_Strategy :: string
  dep_Replicas :: "int option"
  dep_Template :: pod_template
  dep_ProgressDeadlineSeconds :: "int option"
  dep_RevisionHistoryLimit :: "int option"
  dep_StatusReplicas :: int
  dep_UpdatedReplicas :: int
  dep_AvailableReplicas :: int

record container_status =
  cst_Name :: string
  cst_Ready :: bool
  cst_Started :: "bool option"

record pod =
  pod_Name :: string
  pod_Namespace :: string
  pod_Labels :: smap
  pod_Annotations :: smap
  pod_Owner :: "string option"
  pod_Containers :: "container list"
  pod_ImagePullSecrets :: "string list"
  pod_AutomountServiceAccountToken :: "bool option"
  pod_Phase :: string
  pod_StartTime :: "int option"
  pod_ContainerStatuses :: "container_status list"

record service_port =
  svp_Name :: string
  svp_Protocol :: string
  svp_Port :: int

record service =
  svc_Name :: string
  svc_Namespace :: string
  svc_Labels :: smap
  svc_Annotations :: smap
  svc_Owner :: "string option"
  svc_Type :: string
  svc_ClusterIP :: string
  svc_Selector :: smap
  svc_Ports :: "service_port list"

record pvc =
  pvc_Name :: string
  pvc_Namespace :: string
  pvc_Labels :: smap
  pvc_Owner :: "string option"
  pvc_DeletionTimestamp :: "int option"
  pvc_StorageClassName :: "string option"
  pvc_AccessModes :: "string list"
  pvc_RequestStorage :: quantity
  pvc_CapacityStorage :: quantity

record netpol_peer =
  np_PodSelector :: smap
  np_NamespaceSelector :: smap

record netpol =
  np_Name :: string
  np_Namespace :: string
  np_Labels :: smap
  np_Owner :: "string option"
  np_Selector :: smap
  np_PolicyTypes :: "string list"
  np_From :: "netpol_peer list"

record config_map =
  cm_Name :: string
  cm_Data :: smap

record secret =
  sct_Name :: string
  sct_Data :: smap

text \<open>The configuration of a container image, as the image registry returns it.\<close>

record image_config =
  ic_Env :: "string list"
  ic_Labels :: smap
  ic_ExposedPorts :: "string list"

text \<open>A dogu configuration: entries under a dogu name, with the time of the last update.\<close>

record dogu_config =
  cfg_DoguName :: string
  cfg_Entries :: smap
  cfg_LastUpdated :: int

record owner_reference =
  or_Name :: string
  or_Kind :: string
  or_APIVersion :: string
  or_UID :: string
  or_Controller :: bool
  or_BlockOwnerDeletion :: bool

text \<open>Group and version of the Dogu resource, as an owner reference names it.\<close>

definition DoguAPIVersion :: string where "DoguAPIVersion = ''k8s.cloudogu.com/v2''"

record auth_registration =
  ar_Name :: string
  ar_Owners :: "owner_reference list"
  ar_Protocol :: string
  ar_Consumer :: string
  ar_LogoutURL :: "string option"
  ar_ResolvedSecretRef :: string
  ar_Conditions :: "condition list"

record shell_command =
  sh_Command :: string
  sh_Args :: "string list"
  sh_Stdin :: "string option"

text \<open>A request to run a command in a container of a pod, without a terminal, with standard output and error.\<close>

record exec_request =
  xr_Pod :: string
  xr_Namespace :: string
  xr_Container :: string
  xr_Command :: "string list"
  xr_Stdin :: bool

text \<open>The annotations on a dogu's service: reachable web services and exposed ports.\<close>

record ces_service =
  cs_Name :: string
  cs_Port :: int
  cs_Location :: string
  cs_Pass :: string
  cs_Rewrite :: string

record ces_exposed_port =
  cp_Protocol :: string
  cp_Port :: int
  cp_TargetPort :: int

text \<open>A parsed URL of \<^verbatim>\<open>net/url\<close>: user name and password if present, host and port.\<close>

record parsed_url =
  url_User :: "(string \<times> string option) option"
  url_Hostname :: string
  url_Port :: string

end
