(* ===== verification/Cluster.thy ===== *)
theory Cluster
  imports Objects
begin

text \<open>
  The outside of the operator. \<open>call\<close> lists the external calls the operator makes, \<open>cluster\<close> the
  answers the services give to them, and \<open>env\<close> the answers as a function of all calls made before:
  the cluster's controllers, users and other operators act between two calls, so the same call may be
  answered differently later. Each wrapper below performs one call and logs it with its error, if any.
  Objects are addressed by name: the operator works in one namespace.

  \<open>lib\<close> collects the pure functions of the libraries the operator calls (methods of the custom
  resource and descriptor types, version and quantity arithmetic, condition lists) and the process
  environment. They are parameters as well.
\<close>

section \<open>Calls and their log\<close>

datatype config_repo = NormalConfig | SensitiveConfig

datatype owned_repo = OwnDoguConfig | OwnSensitiveConfig | OwnLocalDescriptor

record http_request =
  hq_Method :: string
  hq_URL :: string
  hq_ApiKey :: string
  hq_Consumer :: string
  hq_Params :: "string list"

record http_response =
  hs_StatusCode :: int
  hs_Body :: string

datatype dogu_call =
    QGetDogu string
  | QListDogus
  | QUpdateDogu dogu
  | QUpdateDoguStatus string dogu_status
  | QUpdateDoguSpec string dogu_spec

datatype deployment_call =
    QGetDeployment string
  | QListDeployments string
  | QCreateDeployment deployment
  | QUpdateDeployment deployment
  | QGetScale string
  | QUpdateScale string int

datatype pod_call =
    QGetPod string
  | QListPods smap
  | QGetPodForLabels smap
  | QCreatePod pod
  | QDeletePods smap

datatype service_call =
    QGetService string
  | QListServices string string
  | QCreateService service
  | QUpdateService service

datatype storage_call =
    QGetPVC string
  | QCreatePVC pvc
  | QUpdatePVC pvc
  | QGetConfigMap string
  | QCreateConfigMap config_map
  | QUpdateConfigMap config_map
  | QDeleteConfigMap string
  | QGetSecret string

datatype netpol_call =
    QGetNetPol string
  | QListNetPols smap
  | QCreateNetPol netpol
  | QUpdateNetPol netpol
  | QDeleteNetPol string
  | QDeleteNetPols smap

datatype registry_call =
    QGetCurrent string
  | QIsEnabled simple_name_version
  | QEnableVersion simple_name_version
  | QGetDescriptor simple_name_version
  | QAddDescriptor string descriptor
  | QDeleteDescriptors string
  | QGetRemoteDescriptor string version

datatype config_call =
    QConfigGet config_repo string
  | QConfigCreate config_repo dogu_config
  | QConfigUpdate config_repo dogu_config
  | QConfigSaveOrMerge config_repo dogu_config
  | QConfigDelete config_repo string
  | QSetOwnerReference owned_repo string owner_reference
  | QGlobalConfigGet

datatype exec_call =
    QExec pod shell_command
  | QHttp http_request
  | QPullImage string bool
  | QImageConfigFile string bool
  | QApplyYaml string string
  | QHostAliases

datatype auth_call =
    QGetAuthReg string
  | QCreateAuthReg auth_registration
  | QUpdateAuthReg auth_registration
  | QDeleteAuthReg string

datatype restart_call =
    QGetRestart string
  | QListRestarts
  | QUpdateRestartPhase string restart_phase
  | QDeleteRestart string

datatype notify_call =
    QRecord string string
  | QEnqueue string

datatype call =
    DoguCall dogu_call
  | DeploymentCall deployment_call
  | PodCall pod_call
  | ServiceCall service_call
  | StorageCall storage_call
  | NetPolCall netpol_call
  | RegistryCall registry_call
  | ConfigCall config_call
  | ExecCall exec_call
  | AuthCall auth_call
  | RestartCall restart_call
  | NotifyCall notify_call

abbreviation "CGetDogu x \<equiv> DoguCall (QGetDogu x)"
abbreviation "CListDogus \<equiv> DoguCall QListDogus"
abbreviation "CUpdateDogu x \<equiv> DoguCall (QUpdateDogu x)"
abbreviation "CUpdateDoguStatus x y \<equiv> DoguCall (QUpdateDoguStatus x y)"
abbreviation "CUpdateDoguSpec x y \<equiv> DoguCall (QUpdateDoguSpec x y)"
abbreviation "CGetDeployment x \<equiv> DeploymentCall (QGetDeployment x)"
abbreviation "CListDeployments x \<equiv> DeploymentCall (QListDeployments x)"
abbreviation "CCreateDeployment x \<equiv> DeploymentCall (QCreateDeployment x)"
abbreviation "CUpdateDeployment x \<equiv> DeploymentCall (QUpdateDeployment x)"
abbreviation "CGetScale x \<equiv> DeploymentCall (QGetScale x)"
abbreviation "CUpdateScale x y \<equiv> DeploymentCall (QUpdateScale x y)"
abbreviation "CGetPod x \<equiv> PodCall (QGetPod x)"
abbreviation "CListPods x \<equiv> PodCall (QListPods x)"
abbreviation "CGetPodForLabels x \<equiv> PodCall (QGetPodForLabels x)"
abbreviation "CCreatePod x \<equiv> PodCall (QCreatePod x)"
abbreviation "CDeletePods x \<equiv> PodCall (QDeletePods x)"
abbreviation "CGetService x \<equiv> ServiceCall (QGetService x)"
abbreviation "CListServices x y \<equiv> ServiceCall (QListServices x y)"
abbreviation "CCreateService x \<equiv> ServiceCall (QCreateService x)"
abbreviation "CUpdateService x \<equiv> ServiceCall (QUpdateService x)"
abbreviation "CGetPVC x \<equiv> StorageCall (QGetPVC x)"
abbreviation "CCreatePVC x \<equiv> StorageCall (QCreatePVC x)"
abbreviation "CUpdatePVC x \<equiv> StorageCall (QUpdatePVC x)"
abbreviation "CGetConfigMap x \<equiv> StorageCall (QGetConfigMap x)"
abbreviation "CCreateConfigMap x \<equiv> StorageCall (QCreateConfigMap x)"
abbreviation "CUpdateConfigMap x \<equiv> StorageCall (QUpdateConfigMap x)"
abbreviation "CDeleteConfigMap x \<equiv> StorageCall (QDeleteConfigMap x)"
abbreviation "CGetSecret x \<equiv> StorageCall (QGetSecret x)"
abbreviation "CGetNetPol x \<equiv> NetPolCall (QGetNetPol x)"
abbreviation "CListNetPols x \<equiv> NetPolCall (QListNetPols x)"
abbreviation "CCreateNetPol x \<equiv> NetPolCall (QCreateNetPol x)"
abbreviation "CUpdateNetPol x \<equiv> NetPolCall (QUpdateNetPol x)"
abbreviation "CDeleteNetPol x \<equiv> NetPolCall (QDeleteNetPol x)"
abbreviation "CDeleteNetPols x \<equiv> NetPolCall (QDeleteNetPols x)"
abbreviation "CGetCurrent x \<equiv> RegistryCall (QGetCurrent x)"
abbreviation "CIsEnabled x \<equiv> RegistryCall (QIsEnabled x)"
abbreviation "CEnableVersion x \<equiv> RegistryCall (QEnableVersion x)"
abbreviation "CGetDescriptor x \<equiv> RegistryCall (QGetDescriptor x)"
abbreviation "CAddDescriptor x y \<equiv> RegistryCall (QAddDescriptor x y)"
abbreviation "CDeleteDescriptors x \<equiv> RegistryCall (QDeleteDescriptors x)"
abbreviation "CGetRemoteDescriptor x y \<equiv> RegistryCall (QGetRemoteDescriptor x y)"
abbreviation "CConfigGet x y \<equiv> ConfigCall (QConfigGet x y)"
abbreviation "CConfigCreate x y \<equiv> ConfigCall (QConfigCreate x y)"
abbreviation "CConfigUpdate x y \<equiv> ConfigCall (QConfigUpdate x y)"
abbreviation "CConfigSaveOrMerge x y \<equiv> ConfigCall (QConfigSaveOrMerge x y)"
abbreviation "CConfigDelete x y \<equiv> ConfigCall (QConfigDelete x y)"
abbreviation "CSetOwnerReference x y z \<equiv> ConfigCall (QSetOwnerReference x y z)"
abbreviation "CGlobalConfigGet \<equiv> ConfigCall QGlobalConfigGet"
abbreviation "CExec x y \<equiv> ExecCall (QExec x y)"
abbreviation "CHttp x \<equiv> ExecCall (QHttp x)"
abbreviation "CPullImage x y \<equiv> ExecCall (QPullImage x y)"
abbreviation "CImageConfigFile x y \<equiv> ExecCall (QImageConfigFile x y)"
abbreviation "CApplyYaml x y \<equiv> ExecCall (QApplyYaml x y)"
abbreviation "CHostAliases \<equiv> ExecCall QHostAliases"
abbreviation "CGetAuthReg x \<equiv> AuthCall (QGetAuthReg x)"
abbreviation "CCreateAuthReg x \<equiv> AuthCall (QCreateAuthReg x)"
abbreviation "CUpdateAuthReg x \<equiv> AuthCall (QUpdateAuthReg x)"
abbreviation "CDeleteAuthReg x \<equiv> AuthCall (QDeleteAuthReg x)"
abbreviation "CGetRestart x \<equiv> RestartCall (QGetRestart x)"
abbreviation "CListRestarts \<equiv> RestartCall QListRestarts"
abbreviation "CUpdateRestartPhase x y \<equiv> RestartCall (QUpdateRestartPhase x y)"
abbreviation "CDeleteRestart x \<equiv> RestartCall (QDeleteRestart x)"
abbreviation "CRecord x y \<equiv> NotifyCall (QRecord x y)"
abbreviation "CEnqueue x \<equiv> NotifyCall (QEnqueue x)"

datatype event = Event (ev_call: call) (ev_err: "err option")

type_synonym log = "event list"
type_synonym 'a op = "(event, 'a) io"

abbreviation ret :: "'a \<Rightarrow> 'a op" where "ret \<equiv> State_Monad.return"
abbreviation ok :: "'a \<Rightarrow> 'a res op" where "ok x \<equiv> State_Monad.return (Inr x)"
abbreviation throw :: "err \<Rightarrow> 'a res op" where "throw e \<equiv> State_Monad.return (Inl e)"
abbreviation throw_wrap :: "string \<Rightarrow> err \<Rightarrow> 'a res op" where "throw_wrap m e \<equiv> State_Monad.return (Inl (ErrWrap m e))"

text \<open>
  The calls that change something outside the operator; recording a Kubernetes event and enqueueing
  a reconcile request are notifications and not counted.
\<close>

fun dogu_call_mutates :: "dogu_call \<Rightarrow> bool" where
  "dogu_call_mutates (QGetDogu _) = False"
| "dogu_call_mutates QListDogus = False"
| "dogu_call_mutates (QUpdateDogu _) = True"
| "dogu_call_mutates (QUpdateDoguStatus _ _) = True"
| "dogu_call_mutates (QUpdateDoguSpec _ _) = True"

fun deployment_call_mutates :: "deployment_call \<Rightarrow> bool" where
  "deployment_call_mutates (QGetDeployment _) = False"
| "deployment_call_mutates (QListDeployments _) = False"
| "deployment_call_mutates (QCreateDeployment _) = True"
| "deployment_call_mutates (QUpdateDeployment _) = True"
| "deployment_call_mutates (QGetScale _) = False"
| "deployment_call_mutates (QUpdateScale _ _) = True"

fun pod_call_mutates :: "pod_call \<Rightarrow> bool" where
  "pod_call_mutates (QGetPod _) = False"
| "pod_call_mutates (QListPods _) = False"
| "pod_call_mutates (QGetPodForLabels _) = False"
| "pod_call_mutates (QCreatePod _) = True"
| "pod_call_mutates (QDeletePods _) = True"

fun service_call_mutates :: "service_call \<Rightarrow> bool" where
  "service_call_mutates (QGetService _) = False"
| "service_call_mutates (QListServices _ _) = False"
| "service_call_mutates (QCreateService _) = True"
| "service_call_mutates (QUpdateService _) = True"

fun storage_call_mutates :: "storage_call \<Rightarrow> bool" where
  "storage_call_mutates (QGetPVC _) = False"
| "storage_call_mutates (QCreatePVC _) = True"
| "storage_call_mutates (QUpdatePVC _) = True"
| "storage_call_mutates (QGetConfigMap _) = False"
| "storage_call_mutates (QCreateConfigMap _) = True"
| "storage_call_mutates (QUpdateConfigMap _) = True"
| "storage_call_mutates (QDeleteConfigMap _) = True"
| "storage_call_mutates (QGetSecret _) = False"

fun netpol_call_mutates :: "netpol_call \<Rightarrow> bool" where
  "netpol_call_mutates (QGetNetPol _) = False"
| "netpol_call_mutates (QListNetPols _) = False"
| "netpol_call_mutates (QCreateNetPol _) = True"
| "netpol_call_mutates (QUpdateNetPol _) = True"
| "netpol_call_mutates (QDeleteNetPol _) = True"
| "netpol_call_mutates (QDeleteNetPols _) = True"

fun registry_call_mutates :: "registry_call \<Rightarrow> bool" where
  "registry_call_mutates (QGetCurrent _) = False"
| "registry_call_mutates (QIsEnabled _) = False"
| "registry_call_mutates (QEnableVersion _) = True"
| "registry_call_mutates (QGetDescriptor _) = False"
| "registry_call_mutates (QAddDescriptor _ _) = True"
| "registry_call_mutates (QDeleteDescriptors _) = True"
| "registry_call_mutates (QGetRemoteDescriptor _ _) = False"

fun config_call_mutates :: "config_call \<Rightarrow> bool" where
  "config_call_mutates (QConfigGet _ _) = False"
| "config_call_mutates (QConfigCreate _ _) = True"
| "config_call_mutates (QConfigUpdate _ _) = True"
| "config_call_mutates (QConfigSaveOrMerge _ _) = True"
| "config_call_mutates (QConfigDelete _ _) = True"
| "config_call_mutates (QSetOwnerReference _ _ _) = True"
| "config_call_mutates QGlobalConfigGet = False"

fun exec_call_mutates :: "exec_call \<Rightarrow> bool" where
  "exec_call_mutates (QExec _ _) = True"
| "exec_call_mutates (QHttp _) = True"
| "exec_call_mutates (QPullImage _ _) = False"
| "exec_call_mutates (QImageConfigFile _ _) = False"
| "exec_call_mutates (QApplyYaml _ _) = True"
| "exec_call_mutates QHostAliases = False"

fun auth_call_mutates :: "auth_call \<Rightarrow> bool" where
  "auth_call_mutates (QGetAuthReg _) = False"
| "auth_call_mutates (QCreateAuthReg _) = True"
| "auth_call_mutates (QUpdateAuthReg _) = True"
| "auth_call_mutates (QDeleteAuthReg _) = True"

fun restart_call_mutates :: "restart_call \<Rightarrow> bool" where
  "restart_call_mutates (QGetRestart _) = False"
| "restart_call_mutates QListRestarts = False"
| "restart_call_mutates (QUpdateRestartPhase _ _) = True"
| "restart_call_mutates (QDeleteRestart _) = True"

fun notify_call_mutates :: "notify_call \<Rightarrow> bool" where
  "notify_call_mutates (QRecord _ _) = False"
| "notify_call_mutates (QEnqueue _) = False"

fun mutates :: "call \<Rightarrow> bool" where
  "mutates (DoguCall q) = dogu_call_mutates q"
| "mutates (DeploymentCall q) = deployment_call_mutates q"
| "mutates (PodCall q) = pod_call_mutates q"
| "mutates (ServiceCall q) = service_call_mutates q"
| "mutates (StorageCall q) = storage_call_mutates q"
| "mutates (NetPolCall q) = netpol_call_mutates q"
| "mutates (RegistryCall q) = registry_call_mutates q"
| "mutates (ConfigCall q) = config_call_mutates q"
| "mutates (ExecCall q) = exec_call_mutates q"
| "mutates (AuthCall q) = auth_call_mutates q"
| "mutates (RestartCall q) = restart_call_mutates q"
| "mutates (NotifyCall q) = notify_call_mutates q"

section \<open>The services\<close>

record cluster =
  a_GetDogu :: "string \<Rightarrow> dogu res"
  a_ListDogus :: "(dogu list) res"
  a_UpdateDogu :: "dogu \<Rightarrow> dogu res"
  a_GetDeployment :: "string \<Rightarrow> deployment res"
  a_ListDeployments :: "string \<Rightarrow> (deployment list) res"
  a_CreateDeployment :: "deployment \<Rightarrow> unit res"
  a_UpdateDeployment :: "deployment \<Rightarrow> deployment res"
  a_GetScale :: "string \<Rightarrow> int res"
  a_UpdateScale :: "string \<Rightarrow> int \<Rightarrow> int res"
  a_GetPod :: "string \<Rightarrow> pod res"
  a_ListPods :: "smap \<Rightarrow> (pod list) res"
  a_GetPodForLabels :: "smap \<Rightarrow> pod res"
  a_CreatePod :: "pod \<Rightarrow> unit res"
  a_DeletePods :: "smap \<Rightarrow> unit res"
  a_GetService :: "string \<Rightarrow> service res"
  a_ListServices :: "string \<Rightarrow> string \<Rightarrow> (service list) res"
  a_CreateService :: "service \<Rightarrow> service res"
  a_UpdateService :: "service \<Rightarrow> service res"
  a_GetPVC :: "string \<Rightarrow> pvc res"
  a_CreatePVC :: "pvc \<Rightarrow> unit res"
  a_UpdatePVC :: "pvc \<Rightarrow> unit res"
  a_GetConfigMap :: "string \<Rightarrow> config_map res"
  a_CreateConfigMap :: "config_map \<Rightarrow> config_map res"
  a_UpdateConfigMap :: "config_map \<Rightarrow> config_map res"
  a_DeleteConfigMap :: "string \<Rightarrow> unit res"
  a_GetSecret :: "string \<Rightarrow> secret res"
  a_GetNetPol :: "string \<Rightarrow> netpol res"
  a_ListNetPols :: "smap \<Rightarrow> (netpol list) res"
  a_CreateNetPol :: "netpol \<Rightarrow> unit res"
  a_UpdateNetPol :: "netpol \<Rightarrow> unit res"
  a_DeleteNetPol :: "string \<Rightarrow> unit res"
  a_DeleteNetPols :: "smap \<Rightarrow> unit res"
  a_GetCurrent :: "string \<Rightarrow> simple_name_version res"
  a_IsEnabled :: "simple_name_version \<Rightarrow> bool res"
  a_EnableVersion :: "simple_name_version \<Rightarrow> unit res"
  a_GetDescriptor :: "simple_name_version \<Rightarrow> descriptor res"
  a_AddDescriptor :: "string \<Rightarrow> descriptor \<Rightarrow> unit res"
  a_DeleteDescriptors :: "string \<Rightarrow> unit res"
  a_GetRemoteDescriptor :: "string \<Rightarrow> version \<Rightarrow> descriptor res"
  a_ConfigGet :: "config_repo \<Rightarrow> string \<Rightarrow> dogu_config res"
  a_ConfigCreate :: "config_repo \<Rightarrow> dogu_config \<Rightarrow> dogu_config res"
  a_ConfigUpdate :: "config_repo \<Rightarrow> dogu_config \<Rightarrow> dogu_config res"
  a_ConfigSaveOrMerge :: "config_repo \<Rightarrow> dogu_config \<Rightarrow> dogu_config res"
  a_ConfigDelete :: "config_repo \<Rightarrow> string \<Rightarrow> unit res"
  a_SetOwnerReference :: "owned_repo \<Rightarrow> string \<Rightarrow> owner_reference \<Rightarrow> unit res"
  a_GlobalConfigGet :: "int res"
  a_Exec :: "pod \<Rightarrow> shell_command \<Rightarrow> string res"
  a_Http :: "http_request \<Rightarrow> http_response res"
  a_PullImage :: "string \<Rightarrow> bool \<Rightarrow> unit res"
  a_ImageConfigFile :: "string \<Rightarrow> bool \<Rightarrow> image_config res"
  a_ApplyYaml :: "string \<Rightarrow> string \<Rightarrow> unit res"
  a_GetAuthReg :: "string \<Rightarrow> auth_registration res"
  a_CreateAuthReg :: "auth_registration \<Rightarrow> auth_registration res"
  a_UpdateAuthReg :: "auth_registration \<Rightarrow> auth_registration res"
  a_DeleteAuthReg :: "string \<Rightarrow> unit res"
  a_GetRestart :: "string \<Rightarrow> dogu_restart res"
  a_ListRestarts :: "(dogu_restart list) res"
  a_UpdateRestartPhase :: "string \<Rightarrow> restart_phase \<Rightarrow> unit res"
  a_DeleteRestart :: "string \<Rightarrow> unit res"
  a_HostAliases :: "((string \<times> string list) list) res"
  a_UpdateDoguStatus :: "dogu \<Rightarrow> (dogu_status \<Rightarrow> dogu_status) \<Rightarrow> dogu res"
  a_UpdateDoguSpec :: "dogu \<Rightarrow> (dogu_spec \<Rightarrow> dogu_spec) \<Rightarrow> dogu res"
  a_Now :: int

type_synonym env = "log \<Rightarrow> cluster"

definition req :: "env \<Rightarrow> (cluster \<Rightarrow> 'a res) \<Rightarrow> call \<Rightarrow> 'a res op" where
  "req E f c = ask (\<lambda>h. f (E h)) (\<lambda>r. Event c (err_of r))"

lemma run_req [simp]: "run_state (req E f c) h = (f (E h), h @ [Event c (err_of (f (E h)))])"
  by (simp add: req_def)

lemma emits_req [emits_rules]: "(\<And>eo. P (Event c eo)) \<Longrightarrow> emits P (req E f c)"
  by (auto simp: req_def intro!: emits_rules)

lemma spec_req: "(\<And>r. Q r [Event c (err_of r)]) \<Longrightarrow> spec (req E f c) Q"
  by (auto simp: req_def intro: spec_ask)

lemma req_logs: "spec (req E f c) (\<lambda>r t. t = [Event c (err_of r)])"
  by (rule spec_req) simp

lemma attempt_req_log:
  assumes "\<And>e. emits (\<lambda>_. True) (f e)" "\<And>x. emits (\<lambda>_. True) (k x)"
  shows "\<exists>eo t. snd (run_state (attempt (req E a c) f k) h) = h @ Event c eo # t"
proof -
  have "spec (attempt (req E a c) f k) (\<lambda>_ t. \<exists>eo u. t = Event c eo # u)"
    by (rule spec_attempt [OF req_logs])
       (auto intro: spec_conseq [OF assms(1) [unfolded emits_def]] spec_conseq [OF assms(2) [unfolded emits_def]])
  then show ?thesis unfolding spec_def by blast
qed

text \<open>A call that returns only an error.\<close>

definition err_only :: "'a res op \<Rightarrow> err option op" where
  "err_only m = do { r \<leftarrow> m; State_Monad.return (err_of r) }"

lemma emits_err_only [emits_rules]: "emits P m \<Longrightarrow> emits P (err_only m)"
  by (auto simp: err_only_def intro!: emits_rules)

lemma run_err_only [simp]:
  "run_state (err_only m) h = (err_of (fst (run_state m h)), snd (run_state m h))"
  by (simp add: err_only_def split: prod.splits)

lemma err_only_logs: "spec (err_only (req E f c)) (\<lambda>eo t. t = [Event c eo])"
  unfolding err_only_def by (rule spec_bind [OF req_logs]) (auto intro: spec_return)

definition get_dogu :: "env \<Rightarrow> string \<Rightarrow> dogu res op" where [io_defs]:
  "get_dogu E x = req E (\<lambda>K. a_GetDogu K x) (CGetDogu x)"

definition list_dogus :: "env \<Rightarrow> (dogu list) res op" where [io_defs]:
  "list_dogus E = req E (\<lambda>K. a_ListDogus K) CListDogus"

definition update_dogu :: "env \<Rightarrow> dogu \<Rightarrow> dogu res op" where [io_defs]:
  "update_dogu E x = req E (\<lambda>K. a_UpdateDogu K x) (CUpdateDogu x)"

definition get_deployment :: "env \<Rightarrow> string \<Rightarrow> deployment res op" where [io_defs]:
  "get_deployment E x = req E (\<lambda>K. a_GetDeployment K x) (CGetDeployment x)"

definition list_deployments :: "env \<Rightarrow> string \<Rightarrow> (deployment list) res op" where [io_defs]:
  "list_deployments E x = req E (\<lambda>K. a_ListDeployments K x) (CListDeployments x)"

definition create_deployment :: "env \<Rightarrow> deployment \<Rightarrow> unit res op" where [io_defs]:
  "create_deployment E x = req E (\<lambda>K. a_CreateDeployment K x) (CCreateDeployment x)"

definition update_deployment :: "env \<Rightarrow> deployment \<Rightarrow> deployment res op" where [io_defs]:
  "update_deployment E x = req E (\<lambda>K. a_UpdateDeployment K x) (CUpdateDeployment x)"

definition get_scale :: "env \<Rightarrow> string \<Rightarrow> int res op" where [io_defs]:
  "get_scale E x = req E (\<lambda>K. a_GetScale K x) (CGetScale x)"

definition update_scale :: "env \<Rightarrow> string \<Rightarrow> int \<Rightarrow> int res op" where [io_defs]:
  "update_scale E x y = req E (\<lambda>K. a_UpdateScale K x y) (CUpdateScale x y)"

definition get_pod :: "env \<Rightarrow> string \<Rightarrow> pod res op" where [io_defs]:
  "get_pod E x = req E (\<lambda>K. a_GetPod K x) (CGetPod x)"

definition list_pods :: "env \<Rightarrow> smap \<Rightarrow> (pod list) res op" where [io_defs]:
  "list_pods E x = req E (\<lambda>K. a_ListPods K x) (CListPods x)"

definition get_pod_for_labels :: "env \<Rightarrow> smap \<Rightarrow> pod res op" where [io_defs]:
  "get_pod_for_labels E x = req E (\<lambda>K. a_GetPodForLabels K x) (CGetPodForLabels x)"

definition create_pod :: "env \<Rightarrow> pod \<Rightarrow> unit res op" where [io_defs]:
  "create_pod E x = req E (\<lambda>K. a_CreatePod K x) (CCreatePod x)"

definition delete_pods :: "env \<Rightarrow> smap \<Rightarrow> unit res op" where [io_defs]:
  "delete_pods E x = req E (\<lambda>K. a_DeletePods K x) (CDeletePods x)"

definition get_service :: "env \<Rightarrow> string \<Rightarrow> service res op" where [io_defs]:
  "get_service E x = req E (\<lambda>K. a_GetService K x) (CGetService x)"

definition list_services :: "env \<Rightarrow> string \<Rightarrow> string \<Rightarrow> (service list) res op" where [io_defs]:
  "list_services E x y = req E (\<lambda>K. a_ListServices K x y) (CListServices x y)"

definition create_service :: "env \<Rightarrow> service \<Rightarrow> service res op" where [io_defs]:
  "create_service E x = req E (\<lambda>K. a_CreateService K x) (CCreateService x)"

definition update_service :: "env \<Rightarrow> service \<Rightarrow> service res op" where [io_defs]:
  "update_service E x = req E (\<lambda>K. a_UpdateService K x) (CUpdateService x)"

definition get_pvc :: "env \<Rightarrow> string \<Rightarrow> pvc res op" where [io_defs]:
  "get_pvc E x = req E (\<lambda>K. a_GetPVC K x) (CGetPVC x)"

definition create_pvc :: "env \<Rightarrow> pvc \<Rightarrow> unit res op" where [io_defs]:
  "create_pvc E x = req E (\<lambda>K. a_CreatePVC K x) (CCreatePVC x)"

definition update_pvc :: "env \<Rightarrow> pvc \<Rightarrow> unit res op" where [io_defs]:
  "update_pvc E x = req E (\<lambda>K. a_UpdatePVC K x) (CUpdatePVC x)"

definition get_config_map :: "env \<Rightarrow> string \<Rightarrow> config_map res op" where [io_defs]:
  "get_config_map E x = req E (\<lambda>K. a_GetConfigMap K x) (CGetConfigMap x)"

definition create_config_map :: "env \<Rightarrow> config_map \<Rightarrow> config_map res op" where [io_defs]:
  "create_config_map E x = req E (\<lambda>K. a_CreateConfigMap K x) (CCreateConfigMap x)"

definition update_config_map :: "env \<Rightarrow> config_map \<Rightarrow> config_map res op" where [io_defs]:
  "update_config_map E x = req E (\<lambda>K. a_UpdateConfigMap K x) (CUpdateConfigMap x)"

definition delete_config_map :: "env \<Rightarrow> string \<Rightarrow> unit res op" where [io_defs]:
  "delete_config_map E x = req E (\<lambda>K. a_DeleteConfigMap K x) (CDeleteConfigMap x)"

definition get_secret :: "env \<Rightarrow> string \<Rightarrow> secret res op" where [io_defs]:
  "get_secret E x = req E (\<lambda>K. a_GetSecret K x) (CGetSecret x)"

definition get_netpol :: "env \<Rightarrow> string \<Rightarrow> netpol res op" where [io_defs]:
  "get_netpol E x = req E (\<lambda>K. a_GetNetPol K x) (CGetNetPol x)"

definition list_netpols :: "env \<Rightarrow> smap \<Rightarrow> (netpol list) res op" where [io_defs]:
  "list_netpols E x = req E (\<lambda>K. a_ListNetPols K x) (CListNetPols x)"

definition create_netpol :: "env \<Rightarrow> netpol \<Rightarrow> unit res op" where [io_defs]:
  "create_netpol E x = req E (\<lambda>K. a_CreateNetPol K x) (CCreateNetPol x)"

definition update_netpol :: "env \<Rightarrow> netpol \<Rightarrow> unit res op" where [io_defs]:
  "update_netpol E x = req E (\<lambda>K. a_UpdateNetPol K x) (CUpdateNetPol x)"

definition delete_netpol :: "env \<Rightarrow> string \<Rightarrow> unit res op" where [io_defs]:
  "delete_netpol E x = req E (\<lambda>K. a_DeleteNetPol K x) (CDeleteNetPol x)"

definition delete_netpols :: "env \<Rightarrow> smap \<Rightarrow> unit res op" where [io_defs]:
  "delete_netpols E x = req E (\<lambda>K. a_DeleteNetPols K x) (CDeleteNetPols x)"

definition registry_get_current :: "env \<Rightarrow> string \<Rightarrow> simple_name_version res op" where [io_defs]:
  "registry_get_current E x = req E (\<lambda>K. a_GetCurrent K x) (CGetCurrent x)"

definition registry_is_enabled :: "env \<Rightarrow> simple_name_version \<Rightarrow> bool res op" where [io_defs]:
  "registry_is_enabled E x = req E (\<lambda>K. a_IsEnabled K x) (CIsEnabled x)"

definition registry_enable :: "env \<Rightarrow> simple_name_version \<Rightarrow> unit res op" where [io_defs]:
  "registry_enable E x = req E (\<lambda>K. a_EnableVersion K x) (CEnableVersion x)"

definition repo_get :: "env \<Rightarrow> simple_name_version \<Rightarrow> descriptor res op" where [io_defs]:
  "repo_get E x = req E (\<lambda>K. a_GetDescriptor K x) (CGetDescriptor x)"

definition repo_add :: "env \<Rightarrow> string \<Rightarrow> descriptor \<Rightarrow> unit res op" where [io_defs]:
  "repo_add E x y = req E (\<lambda>K. a_AddDescriptor K x y) (CAddDescriptor x y)"

definition repo_delete_all :: "env \<Rightarrow> string \<Rightarrow> unit res op" where [io_defs]:
  "repo_delete_all E x = req E (\<lambda>K. a_DeleteDescriptors K x) (CDeleteDescriptors x)"

definition remote_get :: "env \<Rightarrow> string \<Rightarrow> version \<Rightarrow> descriptor res op" where [io_defs]:
  "remote_get E x y = req E (\<lambda>K. a_GetRemoteDescriptor K x y) (CGetRemoteDescriptor x y)"

definition config_get :: "env \<Rightarrow> config_repo \<Rightarrow> string \<Rightarrow> dogu_config res op" where [io_defs]:
  "config_get E x y = req E (\<lambda>K. a_ConfigGet K x y) (CConfigGet x y)"

definition config_create :: "env \<Rightarrow> config_repo \<Rightarrow> dogu_config \<Rightarrow> dogu_config res op" where [io_defs]:
  "config_create E x y = req E (\<lambda>K. a_ConfigCreate K x y) (CConfigCreate x y)"

definition config_update :: "env \<Rightarrow> config_repo \<Rightarrow> dogu_config \<Rightarrow> dogu_config res op" where [io_defs]:
  "config_update E x y = req E (\<lambda>K. a_ConfigUpdate K x y) (CConfigUpdate x y)"

definition config_save_or_merge :: "env \<Rightarrow> config_repo \<Rightarrow> dogu_config \<Rightarrow> dogu_config res op" where [io_defs]:
  "config_save_or_merge E x y = req E (\<lambda>K. a_ConfigSaveOrMerge K x y) (CConfigSaveOrMerge x y)"

definition config_delete :: "env \<Rightarrow> config_repo \<Rightarrow> string \<Rightarrow> unit res op" where [io_defs]:
  "config_delete E x y = req E (\<lambda>K. a_ConfigDelete K x y) (CConfigDelete x y)"

definition set_owner_reference :: "env \<Rightarrow> owned_repo \<Rightarrow> string \<Rightarrow> owner_reference \<Rightarrow> unit res op" where [io_defs]:
  "set_owner_reference E x y z = req E (\<lambda>K. a_SetOwnerReference K x y z) (CSetOwnerReference x y z)"

definition global_config_last_updated :: "env \<Rightarrow> int res op" where [io_defs]:
  "global_config_last_updated E = req E (\<lambda>K. a_GlobalConfigGet K) CGlobalConfigGet"

definition exec_in_pod :: "env \<Rightarrow> pod \<Rightarrow> shell_command \<Rightarrow> string res op" where [io_defs]:
  "exec_in_pod E x y = req E (\<lambda>K. a_Exec K x y) (CExec x y)"

definition http_do :: "env \<Rightarrow> http_request \<Rightarrow> http_response res op" where [io_defs]:
  "http_do E x = req E (\<lambda>K. a_Http K x) (CHttp x)"

definition pull_image :: "env \<Rightarrow> string \<Rightarrow> bool \<Rightarrow> unit res op" where [io_defs]:
  "pull_image E x y = req E (\<lambda>K. a_PullImage K x y) (CPullImage x y)"

definition image_config_file :: "env \<Rightarrow> string \<Rightarrow> bool \<Rightarrow> image_config res op" where [io_defs]:
  "image_config_file E x y = req E (\<lambda>K. a_ImageConfigFile K x y) (CImageConfigFile x y)"

definition apply_yaml :: "env \<Rightarrow> string \<Rightarrow> string \<Rightarrow> unit res op" where [io_defs]:
  "apply_yaml E x y = req E (\<lambda>K. a_ApplyYaml K x y) (CApplyYaml x y)"

definition get_auth_reg :: "env \<Rightarrow> string \<Rightarrow> auth_registration res op" where [io_defs]:
  "get_auth_reg E x = req E (\<lambda>K. a_GetAuthReg K x) (CGetAuthReg x)"

definition create_auth_reg :: "env \<Rightarrow> auth_registration \<Rightarrow> auth_registration res op" where [io_defs]:
  "create_auth_reg E x = req E (\<lambda>K. a_CreateAuthReg K x) (CCreateAuthReg x)"

definition update_auth_reg :: "env \<Rightarrow> auth_registration \<Rightarrow> auth_registration res op" where [io_defs]:
  "update_auth_reg E x = req E (\<lambda>K. a_UpdateAuthReg K x) (CUpdateAuthReg x)"

definition delete_auth_reg :: "env \<Rightarrow> string \<Rightarrow> unit res op" where [io_defs]:
  "delete_auth_reg E x = req E (\<lambda>K. a_DeleteAuthReg K x) (CDeleteAuthReg x)"

definition get_restart :: "env \<Rightarrow> string \<Rightarrow> dogu_restart res op" where [io_defs]:
  "get_restart E x = req E (\<lambda>K. a_GetRestart K x) (CGetRestart x)"

definition list_restarts :: "env \<Rightarrow> (dogu_restart list) res op" where [io_defs]:
  "list_restarts E = req E (\<lambda>K. a_ListRestarts K) CListRestarts"

definition update_restart_phase :: "env \<Rightarrow> string \<Rightarrow> restart_phase \<Rightarrow> unit res op" where [io_defs]:
  "update_restart_phase E x y = req E (\<lambda>K. a_UpdateRestartPhase K x y) (CUpdateRestartPhase x y)"

definition delete_restart :: "env \<Rightarrow> string \<Rightarrow> unit res op" where [io_defs]:
  "delete_restart E x = req E (\<lambda>K. a_DeleteRestart K x) (CDeleteRestart x)"

definition host_aliases :: "env \<Rightarrow> ((string \<times> string list) list) res op" where [io_defs]:
  "host_aliases E = req E (\<lambda>K. a_HostAliases K) CHostAliases"

text \<open>
  \<^verbatim>\<open>UpdateStatusWithRetry\<close> and \<^verbatim>\<open>UpdateSpecWithRetry\<close> of the dogu client take the function that modifies
  the status or spec; the log keeps what it makes of the resource at hand.
\<close>

definition update_dogu_status :: "env \<Rightarrow> dogu \<Rightarrow> (dogu_status \<Rightarrow> dogu_status) \<Rightarrow> dogu res op" where [io_defs]:
  "update_dogu_status E d f = req E (\<lambda>K. a_UpdateDoguStatus K d f) (CUpdateDoguStatus (d_Name d) (f (d_Status d)))"

definition update_dogu_spec :: "env \<Rightarrow> dogu \<Rightarrow> (dogu_spec \<Rightarrow> dogu_spec) \<Rightarrow> dogu res op" where [io_defs]:
  "update_dogu_spec E d f = req E (\<lambda>K. a_UpdateDoguSpec K d f) (CUpdateDoguSpec (d_Name d) (f (d_Spec d)))"

text \<open>Recording an event on a resource, sending a dogu to the reconcile channel: no answer.\<close>

definition record_event :: "string \<Rightarrow> string \<Rightarrow> unit op" where [io_defs]:
  "record_event typ reason = tell (Event (CRecord typ reason) None)"

definition enqueue_dogu :: "dogu \<Rightarrow> unit op" where [io_defs]:
  "enqueue_dogu d = tell (Event (CEnqueue (d_Name d)) None)"

definition time_now :: "env \<Rightarrow> int op" where
  "time_now E = State (\<lambda>h. (a_Now (E h), h))"

lemma run_time_now [simp]: "run_state (time_now E) h = (a_Now (E h), h)"
  by (simp add: time_now_def)

lemma emits_time_now [emits_rules]: "emits P (time_now E)"
  by (simp add: emits_def spec_def)

abbreviation EventTypeNormal :: string where "EventTypeNormal \<equiv> ''Normal''"
abbreviation EventTypeWarning :: string where "EventTypeWarning \<equiv> ''Warning''"

text \<open>All calls of an operation satisfy a predicate, outcomes aside.\<close>

abbreviation calls_only :: "(call \<Rightarrow> bool) \<Rightarrow> 'a op \<Rightarrow> bool" where
  "calls_only P m \<equiv> emits (\<lambda>ev. P (ev_call ev)) m"

section \<open>Libraries\<close>

record lib =
  lib_Getenv :: "string \<Rightarrow> string option"
  \<comment> \<open>methods of the descriptor type\<close>
  lib_GetSimpleName :: "descriptor \<Rightarrow> string"
  lib_GetNamespace :: "descriptor \<Rightarrow> string"
  lib_GetVersion :: "descriptor \<Rightarrow> version res"
  lib_GetDependenciesOfType :: "descriptor \<Rightarrow> string \<Rightarrow> dependency list"
  lib_GetOptionalDependenciesOfType :: "descriptor \<Rightarrow> string \<Rightarrow> dependency list"
  lib_DescriptorValidateSecurity :: "descriptor \<Rightarrow> err option"
  lib_EffectiveCapabilities :: "descriptor \<Rightarrow> string list"
  lib_CalcEffectiveCapabilities :: "string list \<Rightarrow> string list \<Rightarrow> string list \<Rightarrow> string list"
  lib_DecodeDescriptor :: "string \<Rightarrow> descriptor res"
  \<comment> \<open>methods of the Dogu resource type\<close>
  lib_GetSimpleNameVersion :: "dogu \<Rightarrow> simple_name_version res"
  lib_GetSimpleDoguName :: "dogu \<Rightarrow> string"
  lib_GetMinDataVolumeSize :: "dogu \<Rightarrow> quantity res"
  lib_GetDataVolumeName :: "dogu \<Rightarrow> string"
  lib_GetEphemeralDataVolumeName :: "dogu \<Rightarrow> string"
  lib_GetDoguNameLabel :: "dogu \<Rightarrow> smap"
  lib_GetPodLabels :: "dogu \<Rightarrow> smap"
  lib_GetPodLabelsWithStatusVersion :: "dogu \<Rightarrow> smap"
  lib_GetDevelopmentDoguMapName :: "dogu \<Rightarrow> string"
  lib_ResourceValidateSecurity :: "dogu \<Rightarrow> err option"
  lib_SetControllerReference :: "dogu \<Rightarrow> string option \<Rightarrow> (string option) res"
  lib_GVKForDogu :: "dogu \<Rightarrow> (string \<times> string) res"
  \<comment> \<open>versions, names, quantities, conditions\<close>
  lib_ParseVersion :: "string \<Rightarrow> version res"
  lib_IsOlderThan :: "version \<Rightarrow> version \<Rightarrow> bool"
  lib_IsNewerThan :: "version \<Rightarrow> version \<Rightarrow> bool"
  lib_ParseVersionComparator :: "string \<Rightarrow> (version \<Rightarrow> bool res) res"
  lib_QualifiedNameFromString :: "string \<Rightarrow> string res"
  lib_ParseQuantity :: "string \<Rightarrow> quantity res"
  lib_QuantityValue :: "quantity \<Rightarrow> int"
  lib_QuantityCmp :: "quantity \<Rightarrow> quantity \<Rightarrow> int"
  lib_SpecSizeEqual :: "pvc \<Rightarrow> quantity \<Rightarrow> bool"
  lib_SetStatusCondition :: "condition list \<Rightarrow> condition \<Rightarrow> condition list"
  lib_ConditionIsFalse :: "dogu \<Rightarrow> string \<Rightarrow> bool"
  lib_PhaseIsFailed :: "restart_phase \<Rightarrow> bool"
  \<comment> \<open>dogu configurations\<close>
  lib_ConfigSet :: "smap \<Rightarrow> string \<Rightarrow> string \<Rightarrow> smap res"
  lib_ConfigDeleteRecursive :: "smap \<Rightarrow> string \<Rightarrow> smap"
  lib_ConfigLookup :: "smap \<Rightarrow> string \<Rightarrow> string option"
  \<comment> \<open>JSON, URLs, time\<close>
  lib_EncodeCesServices :: "ces_service list \<Rightarrow> string res"
  lib_DecodeCesServices :: "string \<Rightarrow> (ces_service list) res"
  lib_EncodeExposedPorts :: "ces_exposed_port list \<Rightarrow> string res"
  lib_ParseURL :: "string \<Rightarrow> parsed_url res"
  lib_DecodeCredentials :: "string \<Rightarrow> smap res"
  lib_URLJoinPath :: "string \<Rightarrow> string \<Rightarrow> string res"
  lib_FormatTime :: "int \<Rightarrow> string"
  lib_ParseDuration :: "string \<Rightarrow> int res"
  lib_NewSPDYExecutor :: "exec_request \<Rightarrow> err option"
  lib_MatchImageReference :: "string \<Rightarrow> bool res"
  lib_RetryBound :: nat

text \<open>
  What \<^verbatim>\<open>meta.SetStatusCondition\<close> documents: afterwards the list has a condition of the given type with
  the given status, reason, message and generation, and conditions of other types are as before.
\<close>

definition find_condition :: "condition list \<Rightarrow> string \<Rightarrow> condition option" where
  "find_condition cs t = find (\<lambda>c. c_Type c = t) cs"

definition lawful_conditions :: "lib \<Rightarrow> bool" where
  "lawful_conditions L \<longleftrightarrow>
     (\<forall>cs c t. find_condition (lib_SetStatusCondition L cs c) t =
        (if t = c_Type c then Some c else find_condition cs t))"

text \<open>
  What \<^verbatim>\<open>UpdateStatusWithRetry\<close> documents: on success the returned resource carries the modified status,
  computed from some status the API server had. The call changes nothing but the status; that name, generation and spec are
  those of the argument moreover says that nobody edits the resource between the read and the update.
\<close>

definition status_update_lawful :: "env \<Rightarrow> bool" where
  "status_update_lawful E \<longleftrightarrow>
     (\<forall>h d f d'. a_UpdateDoguStatus (E h) d f = Inr d' \<longrightarrow>
        (\<exists>s. d_Status d' = f s) \<and> d_Spec d' = d_Spec d \<and> d_Name d' = d_Name d \<and>
        d_Generation d' = d_Generation d)"

lemma status_update_lawfulD:
  assumes "status_update_lawful E" "a_UpdateDoguStatus (E h) d f = Inr d'"
  shows "\<exists>s. d_Status d' = f s" "d_Spec d' = d_Spec d" "d_Name d' = d_Name d"
    "d_Generation d' = d_Generation d"
  using assms unfolding status_update_lawful_def by blast+

end
