(* ===== verification/Registry.thy ===== *)
theory Registry
  imports Cluster
begin

text \<open>
  Package \<^verbatim>\<open>cesregistry\<close>: reading dogu descriptors from the local and the remote registry, and
  registering a dogu version. The version registry maps a dogu to its current version, the
  descriptor repository a name and version to a \<^verbatim>\<open>dogu.json\<close>.
\<close>

section \<open>Definitions\<close>

definition checkDoguVersionEnabled :: "env \<Rightarrow> string \<Rightarrow> bool res op" where
  "checkDoguVersionEnabled E doguName =
     attempt (registry_get_current E doguName)
       (\<lambda>e. if IsNotFoundError e then ok False
            else throw_wrap ''failed to get current version of dogu'' e)
       (\<lambda>current. attempt (registry_is_enabled E current)
          (throw_wrap ''failed to check if dogu is enabled'')
          ok)"

definition getLocalDogu :: "env \<Rightarrow> string \<Rightarrow> descriptor res op" where
  "getLocalDogu E fromDoguName =
     attempt (registry_get_current E fromDoguName)
       (throw_wrap ''failed to get current version for dogu'')
       (\<lambda>current. attempt (repo_get E current) (throw_wrap ''failed to get current dogu'') ok)"

definition FetchInstalled :: "env \<Rightarrow> string \<Rightarrow> descriptor res op" where
  "FetchInstalled E doguName =
     attempt (getLocalDogu E doguName) (throw_wrap ''failed to get local dogu descriptor for'') ok"

definition Enabled :: "env \<Rightarrow> string \<Rightarrow> bool res op" where
  "Enabled E doguName = checkDoguVersionEnabled E doguName"

definition FetchForResource :: "lib \<Rightarrow> env \<Rightarrow> dogu \<Rightarrow> descriptor res op" where
  "FetchForResource L E doguResource =
     (case lib_GetSimpleNameVersion L doguResource of
        Inl e \<Rightarrow> throw e
      | Inr version \<Rightarrow> attempt (repo_get E version) throw ok)"

text \<open>The number of retries of a remote fetch, from the process environment.\<close>

definition defaultMaxTries :: int where "defaultMaxTries = 20"

definition doguDescriptorMaxRetries :: "lib \<Rightarrow> int" where
  "doguDescriptorMaxRetries L =
     (case lib_Getenv L ''DOGU_DESCRIPTOR_MAX_RETRIES'' of
        None \<Rightarrow> defaultMaxTries
      | Some s \<Rightarrow> (case Atoi s of Inl _ \<Rightarrow> defaultMaxTries | Inr n \<Rightarrow> n))"

definition getDevelopmentDoguMap :: "lib \<Rightarrow> env \<Rightarrow> dogu \<Rightarrow> (config_map option) res op" where
  "getDevelopmentDoguMap L E doguResource =
     attempt (get_config_map E (lib_GetDevelopmentDoguMapName L doguResource))
       (\<lambda>e. if IsNotFound e then ok None else throw_wrap ''failed to get development dogu map for dogu'' e)
       (\<lambda>cm. ok (Some cm))"

definition getFromDevelopmentDoguMap :: "lib \<Rightarrow> config_map \<Rightarrow> descriptor res" where
  "getFromDevelopmentDoguMap L cm =
     (case lib_DecodeDescriptor L (smap_get (cm_Data cm) ''dogu.json'') of
        Inl e \<Rightarrow> Inl (ErrWrap ''failed to unmarshal custom dogu descriptor'' e)
      | Inr d \<Rightarrow> Inr d)"

definition getDoguFromRemoteRegistry :: "lib \<Rightarrow> env \<Rightarrow> string \<Rightarrow> version \<Rightarrow> descriptor res op" where
  "getDoguFromRemoteRegistry L E qname v =
     attempt (retry_on (nat (doguDescriptorMaxRetries L) - 1) IsConnectionError (remote_get E qname v))
       (throw_wrap ''failed to get dogu from remote dogu registry'') ok"

definition FetchWithResource :: "lib \<Rightarrow> env \<Rightarrow> dogu \<Rightarrow> (descriptor \<times> config_map option) res op" where
  "FetchWithResource L E doguResource =
     attempt (getDevelopmentDoguMap L E doguResource)
       (throw_wrap ''failed to get development dogu map'')
       (\<lambda>devMap. case devMap of
          None \<Rightarrow>
            (case lib_ParseVersion L (s_Version (d_Spec doguResource)) of
               Inl e \<Rightarrow> throw_wrap ''failed to parse version'' e
             | Inr v \<Rightarrow>
                 (case lib_QualifiedNameFromString L (s_Name (d_Spec doguResource)) of
                    Inl e \<Rightarrow> throw_wrap ''failed to parse namespace and name'' e
                  | Inr q \<Rightarrow> attempt (getDoguFromRemoteRegistry L E q v)
                       (throw_wrap ''failed to get dogu from remote or cache'')
                       (\<lambda>d. ok (d, None))))
        | Some cm \<Rightarrow>
            (case getFromDevelopmentDoguMap L cm of Inl e \<Rightarrow> throw e | Inr d \<Rightarrow> ok (d, Some cm)))"

subsection \<open>The registrator\<close>

definition registerDoguInRegistry :: "lib \<Rightarrow> env \<Rightarrow> descriptor \<Rightarrow> err option op" where
  "registerDoguInRegistry L E dogu =
     attempt (repo_add E (lib_GetSimpleName L dogu) dogu)
       (\<lambda>e. ret (Some (ErrWrap ''failed to register dogu'' e))) (\<lambda>_. ret None)"

definition enableDoguInRegistry :: "env \<Rightarrow> simple_name_version \<Rightarrow> err option op" where
  "enableDoguInRegistry E v =
     attempt (registry_enable E v) (\<lambda>e. ret (Some (ErrWrap ''failed to enable dogu'' e))) (\<lambda>_. ret None)"

definition registerAndEnableDoguInRegistry :: "lib \<Rightarrow> env \<Rightarrow> descriptor \<Rightarrow> err option op" where
  "registerAndEnableDoguInRegistry L E dogu = do {
     err \<leftarrow> registerDoguInRegistry L E dogu;
     if (case err of Some e \<Rightarrow> \<not> IsAlreadyExistsError e | None \<Rightarrow> False) then ret err
     else (case lib_GetVersion L dogu of
         Inl e \<Rightarrow> ret (Some (ErrWrap ''failed to get dogu-version for dogu'' e))
       | Inr v \<Rightarrow> enableDoguInRegistry E \<lparr> snv_Name = lib_GetSimpleName L dogu, snv_Version = v \<rparr>)
   }"

definition RegisterNewDogu :: "lib \<Rightarrow> env \<Rightarrow> descriptor \<Rightarrow> err option op" where
  "RegisterNewDogu L E dogu =
     attempt (checkDoguVersionEnabled E (lib_GetSimpleName L dogu))
       (\<lambda>e. ret (Some (ErrWrap ''failed to check if dogu is enabled'' e)))
       (\<lambda>enabled. if enabled then ret None else registerAndEnableDoguInRegistry L E dogu)"

definition RegisterDoguVersion :: "lib \<Rightarrow> env \<Rightarrow> descriptor \<Rightarrow> err option op" where
  "RegisterDoguVersion L E dogu =
     attempt (checkDoguVersionEnabled E (lib_GetSimpleName L dogu))
       (\<lambda>e. ret (Some (ErrWrap ''failed to check if dogu is enabled'' e)))
       (\<lambda>enabled. if \<not> enabled then ret (Some (ErrMsg ''could not register dogu version: previous version not found''))
                  else registerAndEnableDoguInRegistry L E dogu)"

definition UnregisterDogu :: "env \<Rightarrow> string \<Rightarrow> err option op" where
  "UnregisterDogu E doguName =
     attempt (repo_delete_all E doguName)
       (\<lambda>e. ret (Some (ErrWrap ''failed to unregister dogu'' e))) (\<lambda>_. ret None)"

lemmas registry_defs = checkDoguVersionEnabled_def getLocalDogu_def FetchInstalled_def Enabled_def
  FetchForResource_def getDevelopmentDoguMap_def getDoguFromRemoteRegistry_def FetchWithResource_def
  registerDoguInRegistry_def enableDoguInRegistry_def registerAndEnableDoguInRegistry_def
  RegisterNewDogu_def RegisterDoguVersion_def UnregisterDogu_def

section \<open>Calls\<close>

text \<open>Reading operations change nothing.\<close>

fun registry_read :: "call \<Rightarrow> bool" where
  "registry_read (RegistryCall q) = (\<not> registry_call_mutates q)"
| "registry_read _ = False"

lemma FetchInstalled_calls:
  "(\<And>n. P (CGetCurrent n)) \<Longrightarrow> (\<And>v. P (CGetDescriptor v)) \<Longrightarrow> calls_only P (FetchInstalled E n)"
  unfolding FetchInstalled_def getLocalDogu_def io_defs by (intro emits_rules) auto

lemma FetchForResource_calls:
  "(\<And>v. P (CGetDescriptor v)) \<Longrightarrow> calls_only P (FetchForResource L E d)"
  unfolding FetchForResource_def io_defs by (intro emits_rules) auto

lemma Enabled_calls:
  "(\<And>n. P (CGetCurrent n)) \<Longrightarrow> (\<And>v. P (CIsEnabled v)) \<Longrightarrow> calls_only P (Enabled E n)"
  unfolding Enabled_def checkDoguVersionEnabled_def io_defs by (intro emits_rules) auto

end
