(* ===== verification/Config.thy ===== *)
theory Config
  imports Cluster
begin

text \<open>
  Package \<^verbatim>\<open>config\<close>: the operator configuration, read once at start-up from the process environment.
  The package variable \<^verbatim>\<open>Stage\<close> is returned next to the configuration.
\<close>

section \<open>Definitions\<close>

definition StageDevelopment :: string where "StageDevelopment = ''development''"
definition StageProduction :: string where "StageProduction = ''production''"
definition defaultRequeueTime :: int where "defaultRequeueTime = 5000000000"

record dogu_registry_data =
  dr_Endpoint :: string
  dr_Username :: string
  dr_Password :: string
  dr_URLSchema :: string

record operator_config =
  oc_Namespace :: string
  oc_DoguRegistry :: dogu_registry_data
  oc_Version :: version
  oc_NetworkPoliciesEnabled :: bool
  oc_AuthRegistrationEnabled :: bool
  oc_DisablePostfixDependencyCheck :: bool
  oc_RequeueTime :: int

record proxy_settings =
  px_Enabled :: bool
  px_Server :: string
  px_Port :: int
  px_Username :: string
  px_Password :: string

record remote_config =
  rm_Endpoint :: string
  rm_CacheDir :: string
  rm_URLSchema :: string
  rm_ProxySettings :: proxy_settings

definition getRequiredEnvVar :: "lib \<Rightarrow> string \<Rightarrow> string res" where
  "getRequiredEnvVar L name =
     (case lib_Getenv L name of None \<Rightarrow> Inl (ErrMsg (''environment variable must be set: '' @ name)) | Some v \<Rightarrow> Inr v)"

definition newEnvVarError :: "string \<Rightarrow> err \<Rightarrow> err" where
  "newEnvVarError envVar e = ErrWrap (''failed to get env var ['' @ envVar @ '']'') e"

definition readNamespace :: "lib \<Rightarrow> string res" where
  "readNamespace L =
     (case getRequiredEnvVar L ''NAMESPACE'' of Inl e \<Rightarrow> Inl (newEnvVarError ''NAMESPACE'' e) | Inr n \<Rightarrow> Inr n)"

text \<open>\<open>lib_ParseDuration\<close> stands for \<^verbatim>\<open>strconv.ParseFloat\<close> followed by the conversion to a duration.\<close>

definition readDoguReconcilerRequeueTime :: "lib \<Rightarrow> int res" where
  "readDoguReconcilerRequeueTime L =
     (case getRequiredEnvVar L ''REQUEUE_TIME_FOR_DOGU_RESOURCE_IN_NANOSECONDS'' of
        Inl e \<Rightarrow> Inl (newEnvVarError ''NAMESPACE'' e)
      | Inr s \<Rightarrow> lib_ParseDuration L s)"

definition readDoguRegistryData :: "lib \<Rightarrow> dogu_registry_data res" where
  "readDoguRegistryData L =
     (case getRequiredEnvVar L ''DOGU_REGISTRY_ENDPOINT'' of
        Inl e \<Rightarrow> Inl (newEnvVarError ''DOGU_REGISTRY_ENDPOINT'' e)
      | Inr endpoint \<Rightarrow>
     (case getRequiredEnvVar L ''DOGU_REGISTRY_USERNAME'' of
        Inl e \<Rightarrow> Inl (newEnvVarError ''DOGU_REGISTRY_USERNAME'' e)
      | Inr username \<Rightarrow>
     (case getRequiredEnvVar L ''DOGU_REGISTRY_PASSWORD'' of
        Inl e \<Rightarrow> Inl (newEnvVarError ''DOGU_REGISTRY_PASSWORD'' e)
      | Inr password \<Rightarrow>
          Inr \<lparr> dr_Endpoint = TrimSuffix endpoint ''/'', dr_Username = username, dr_Password = password,
                dr_URLSchema = (case getRequiredEnvVar L ''DOGU_REGISTRY_URLSCHEMA'' of
                                  Inl _ \<Rightarrow> ''default'' | Inr u \<Rightarrow> u) \<rparr>)))"

definition getNetworkPoliciesEnabled :: "lib \<Rightarrow> bool" where
  "getNetworkPoliciesEnabled L =
     (case lib_Getenv L ''NETWORK_POLICIES_ENABLED'' of
        None \<Rightarrow> False
      | Some s \<Rightarrow> (case ParseBool s of None \<Rightarrow> True | Some b \<Rightarrow> b))"

definition getAuthRegistrationEnabled :: "lib \<Rightarrow> bool" where
  "getAuthRegistrationEnabled L =
     (case lib_Getenv L ''AUTH_REGISTRATION_ENABLED'' of
        None \<Rightarrow> False
      | Some s \<Rightarrow> (case ParseBool s of None \<Rightarrow> False | Some b \<Rightarrow> b))"

definition getDisablePostfixDependencyCheck :: "lib \<Rightarrow> bool" where
  "getDisablePostfixDependencyCheck L =
     (case lib_Getenv L ''DISABLE_POSTFIX_DEPENDENCY_CHECK'' of
        None \<Rightarrow> False
      | Some s \<Rightarrow> (case ParseBool s of None \<Rightarrow> False | Some b \<Rightarrow> b))"

definition GetStage :: "lib \<Rightarrow> string res" where
  "GetStage L = getRequiredEnvVar L ''STAGE''"

text \<open>
  \<^verbatim>\<open>NewOperatorConfig\<close>: the first component is the value the package variable \<^verbatim>\<open>Stage\<close> has afterwards
  (the empty string of \<^verbatim>\<open>getRequiredEnvVar\<close>'s error case included).
\<close>

definition NewOperatorConfig :: "lib \<Rightarrow> string \<Rightarrow> string \<times> operator_config res" where
  "NewOperatorConfig L version =
     ((case getRequiredEnvVar L ''STAGE'' of Inl _ \<Rightarrow> [] | Inr s \<Rightarrow> s),
      (case lib_ParseVersion L version of
         Inl e \<Rightarrow> Inl (ErrWrap ''failed to parse version'' e)
       | Inr parsedVersion \<Rightarrow>
      (case readNamespace L of
         Inl e \<Rightarrow> Inl (ErrWrap ''failed to read namespace'' e)
       | Inr namespace \<Rightarrow>
      (case readDoguRegistryData L of
         Inl e \<Rightarrow> Inl (ErrWrap ''failed to read dogu registry data'' e)
       | Inr registryData \<Rightarrow>
      (case readDoguReconcilerRequeueTime L of
         Inl e \<Rightarrow> Inl (ErrWrap ''failed to read dogu reconciler requeue time'' e)
       | Inr requeueTime \<Rightarrow>
           Inr \<lparr> oc_Namespace = namespace, oc_DoguRegistry = registryData, oc_Version = parsedVersion,
                 oc_NetworkPoliciesEnabled = getNetworkPoliciesEnabled L,
                 oc_AuthRegistrationEnabled = getAuthRegistrationEnabled L,
                 oc_DisablePostfixDependencyCheck = getDisablePostfixDependencyCheck L,
                 oc_RequeueTime = requeueTime \<rparr>)))))"

definition no_proxy :: proxy_settings where
  "no_proxy = \<lparr> px_Enabled = False, px_Server = [], px_Port = 0, px_Username = [], px_Password = [] \<rparr>"

definition configureProxySettings :: "lib \<Rightarrow> string \<Rightarrow> proxy_settings res" where
  "configureProxySettings L proxyURL =
     (case lib_ParseURL L proxyURL of
        Inl e \<Rightarrow> Inl (ErrWrap ''invalid proxy url'' e)
      | Inr u \<Rightarrow>
          (case Atoi (url_Port u) of
             Inl e \<Rightarrow> Inl (ErrWrap ''invalid port'' e)
           | Inr port \<Rightarrow>
               Inr \<lparr> px_Enabled = True, px_Server = url_Hostname u, px_Port = port,
                     px_Username = (case url_User u of None \<Rightarrow> [] | Some (n, _) \<Rightarrow> n),
                     px_Password = (case url_User u of Some (_, Some p) \<Rightarrow> p | _ \<Rightarrow> []) \<rparr>))"

definition GetRemoteConfiguration :: "lib \<Rightarrow> operator_config \<Rightarrow> remote_config res" where
  "GetRemoteConfiguration L o' =
     (let urlSchema = (if dr_URLSchema (oc_DoguRegistry o') \<noteq> ''index'' then ''default''
                       else dr_URLSchema (oc_DoguRegistry o'));
          endpoint = (if urlSchema = ''default''
                      then TrimSuffix (TrimSuffix (dr_Endpoint (oc_DoguRegistry o')) ''dogus/'') ''dogus''
                      else dr_Endpoint (oc_DoguRegistry o'));
          proxy = (case lib_Getenv L ''PROXY_URL'' of
                     None \<Rightarrow> Inr no_proxy
                   | Some u \<Rightarrow> if length u > 0 then configureProxySettings L u else Inr no_proxy)
      in case proxy of
           Inl e \<Rightarrow> Inl e
         | Inr p \<Rightarrow> Inr \<lparr> rm_Endpoint = endpoint, rm_CacheDir = ''/tmp/dogu-registry-cache'',
                        rm_URLSchema = urlSchema, rm_ProxySettings = p \<rparr>)"

definition GetRemoteCredentials :: "operator_config \<Rightarrow> string \<times> string" where
  "GetRemoteCredentials o' = (dr_Username (oc_DoguRegistry o'), dr_Password (oc_DoguRegistry o'))"

section \<open>Properties\<close>

text \<open>
  The mandatory variables are exactly those without which the operator does not start.
\<close>

definition required_vars :: "string list" where
  "required_vars = [''NAMESPACE'', ''DOGU_REGISTRY_ENDPOINT'', ''DOGU_REGISTRY_USERNAME'',
     ''DOGU_REGISTRY_PASSWORD'', ''REQUEUE_TIME_FOR_DOGU_RESOURCE_IN_NANOSECONDS'']"

lemma getRequiredEnvVar_Inr: "(\<exists>v. getRequiredEnvVar L x = Inr v) \<longleftrightarrow> lib_Getenv L x \<noteq> None"
  by (auto simp: getRequiredEnvVar_def split: option.splits)

lemma readDoguRegistryData_ok:
  "(\<exists>r. readDoguRegistryData L = Inr r) \<longleftrightarrow>
     list_all (\<lambda>x. lib_Getenv L x \<noteq> None)
       [''DOGU_REGISTRY_ENDPOINT'', ''DOGU_REGISTRY_USERNAME'', ''DOGU_REGISTRY_PASSWORD'']"
  by (auto simp: readDoguRegistryData_def getRequiredEnvVar_def split: option.splits sum.splits)

lemma readNamespace_ok: "(\<exists>r. readNamespace L = Inr r) \<longleftrightarrow> lib_Getenv L ''NAMESPACE'' \<noteq> None"
  by (auto simp: readNamespace_def getRequiredEnvVar_def split: option.splits sum.splits)

lemma readDoguReconcilerRequeueTime_ok:
  "(\<exists>r. readDoguReconcilerRequeueTime L = Inr r) \<longleftrightarrow>
     (\<exists>s r. lib_Getenv L ''REQUEUE_TIME_FOR_DOGU_RESOURCE_IN_NANOSECONDS'' = Some s \<and> lib_ParseDuration L s = Inr r)"
  by (auto simp: readDoguReconcilerRequeueTime_def getRequiredEnvVar_def split: option.splits sum.splits)

lemma NewOperatorConfig_ok:
  "(\<exists>c. snd (NewOperatorConfig L v) = Inr c) \<longleftrightarrow>
     (\<exists>pv. lib_ParseVersion L v = Inr pv) \<and> (\<exists>n. readNamespace L = Inr n) \<and>
     (\<exists>r. readDoguRegistryData L = Inr r) \<and> (\<exists>t. readDoguReconcilerRequeueTime L = Inr t)"
  by (auto simp: NewOperatorConfig_def split: sum.splits)

end
