(* ===== verification/Dependency.thy ===== *)
theory Dependency
  imports Registry Config
begin

text \<open>
  Package \<^verbatim>\<open>dependency\<close>: before a dogu is installed or upgraded, its dogu dependencies must be installed
  in an allowed version and its dependency on the operator itself must be met.
\<close>

section \<open>Definitions\<close>

text \<open>
  Dependencies that are never checked: dogus that no longer exist on Kubernetes, and dogus that became
  components, depending on the operator configuration.
\<close>

definition isSkippedDependency :: "operator_config \<Rightarrow> string \<Rightarrow> bool" where
  "isSkippedDependency C name \<longleftrightarrow>
     name = ''nginx'' \<or> name = ''registrator'' \<or>
     oc_AuthRegistrationEnabled C \<and> name = ''cas'' \<or>
     oc_DisablePostfixDependencyCheck C \<and> name = ''postfix''"

text \<open>
  The version part of \<^verbatim>\<open>checkDoguDependency\<close>: the installed version must satisfy the comparator of the
  dependency. A repository that answers without an error returns a descriptor, so the nil check of the
  source has no case here.
\<close>

definition checkDependencyVersion :: "lib \<Rightarrow> dependency \<Rightarrow> descriptor \<Rightarrow> err option" where
  "checkDependencyVersion L dep localDep =
     (if dep_Version dep = [] then None
      else case lib_ParseVersion L (n_Version localDep) of
          Inl e \<Rightarrow> Some (ErrWrap ''failed to parse version of dependency'' e)
        | Inr localVersion \<Rightarrow>
            (case lib_ParseVersionComparator L (dep_Version dep) of
               Inl e \<Rightarrow> Some (ErrWrap ''failed to parse ParseVersionComparator of version'' e)
             | Inr allows \<Rightarrow>
                 (case allows localVersion of
                    Inl e \<Rightarrow> Some (ErrWrap ''an error occurred when comparing the versions'' e)
                  | Inr b \<Rightarrow> if \<not> b then Some (ErrMsg ''parsed Version does not fulfill version requirement'')
                            else None)))"

text \<open>\<^verbatim>\<open>dependencyValidationError\<close> has no \<^verbatim>\<open>Unwrap\<close> method: it hides its cause.\<close>

definition dependencyValidationError :: "err \<Rightarrow> err" where [simp]:
  "dependencyValidationError e = ErrOpaque ''failed to resolve dependency'' e"

definition checkDoguDependency :: "lib \<Rightarrow> env \<Rightarrow> operator_config \<Rightarrow> dependency \<Rightarrow> bool \<Rightarrow> err option op" where
  "checkDoguDependency L E C dep optional =
     (if isSkippedDependency C (dep_Name dep) then ret None
      else attempt (FetchInstalled E (dep_Name dep))
        (\<lambda>e. if optional \<and> IsNotFoundError e then ret None
             else ret (Some (ErrWrap ''failed to resolve dependency'' e)))
        (\<lambda>localDep. ret (checkDependencyVersion L dep localDep)))"

fun validateDoguDependencies_loop :: "lib \<Rightarrow> env \<Rightarrow> operator_config \<Rightarrow> bool \<Rightarrow> dependency list \<Rightarrow> (err option list) op" where
  "validateDoguDependencies_loop L E C optional [] = ret []"
| "validateDoguDependencies_loop L E C optional (dep # deps) = do {
     err \<leftarrow> checkDoguDependency L E C dep optional;
     rest \<leftarrow> validateDoguDependencies_loop L E C optional deps;
     ret (map_option dependencyValidationError err # rest)
   }"

definition validateDoguDependencies :: "lib \<Rightarrow> env \<Rightarrow> operator_config \<Rightarrow> dependency list \<Rightarrow> bool \<Rightarrow> err option op" where
  "validateDoguDependencies L E C deps optional = do {
     errs \<leftarrow> validateDoguDependencies_loop L E C optional deps;
     ret (errors_Join errs)
   }"

definition dogu_ValidateAllDependencies :: "lib \<Rightarrow> env \<Rightarrow> operator_config \<Rightarrow> descriptor \<Rightarrow> err option op" where
  "dogu_ValidateAllDependencies L E C dogu = do {
     e1 \<leftarrow> validateDoguDependencies L E C (lib_GetDependenciesOfType L dogu ''dogu'') False;
     e2 \<leftarrow> validateDoguDependencies L E C (lib_GetOptionalDependenciesOfType L dogu ''dogu'') True;
     ret (errors_Join [e1, e2])
   }"

subsection \<open>The dependency on the operator\<close>

definition checkVersion :: "lib \<Rightarrow> operator_config \<Rightarrow> dependency \<Rightarrow> bool res" where
  "checkVersion L C dep =
     (case lib_ParseVersionComparator L (dep_Version dep) of
        Inl e \<Rightarrow> Inl (ErrWrap ''failed to parse dependency version'' e)
      | Inr allows \<Rightarrow>
          (case allows (oc_Version C) of
             Inl e \<Rightarrow> Inl (ErrWrap ''failed to compare dependency version with operator version'' e)
           | Inr b \<Rightarrow> Inr b))"

fun validateMandatory_loop :: "lib \<Rightarrow> operator_config \<Rightarrow> dependency list \<Rightarrow> err option" where
  "validateMandatory_loop L C [] = None"
| "validateMandatory_loop L C (dep # deps) =
     (if dep_Name dep = ''k8s-dogu-operator'' then
        (case checkVersion L C dep of
           Inl e \<Rightarrow> Some (ErrWrap ''failed to check version'' e)
         | Inr allows \<Rightarrow>
             if \<not> allows then Some (dependencyValidationError
                 (ErrMsg ''parsed version does not fulfill version requirement''))
             else validateMandatory_loop L C deps)
      else validateMandatory_loop L C deps)"

fun validateOptional_loop :: "lib \<Rightarrow> operator_config \<Rightarrow> dependency list \<Rightarrow> err option" where
  "validateOptional_loop L C [] = None"
| "validateOptional_loop L C (dep # deps) =
     (if dep_Name dep = ''k8s-dogu-operator'' then
        (case checkVersion L C dep of
           Inl e \<Rightarrow> Some (ErrWrap ''failed to check version'' e)
         | Inr _ \<Rightarrow> validateOptional_loop L C deps)
      else validateOptional_loop L C deps)"

definition operator_ValidateAllDependencies :: "lib \<Rightarrow> operator_config \<Rightarrow> descriptor \<Rightarrow> err option" where
  "operator_ValidateAllDependencies L C dogu =
     errors_Join [validateMandatory_loop L C (lib_GetDependenciesOfType L dogu ''client''),
                  validateOptional_loop L C (lib_GetOptionalDependenciesOfType L dogu ''client'')]"

definition ValidateDependencies :: "lib \<Rightarrow> env \<Rightarrow> operator_config \<Rightarrow> descriptor \<Rightarrow> err option op" where
  "ValidateDependencies L E C dogu = do {
     e1 \<leftarrow> ret (operator_ValidateAllDependencies L C dogu);
     e2 \<leftarrow> dogu_ValidateAllDependencies L E C dogu;
     ret (errors_Join [e1, e2])
   }"

section \<open>Calls\<close>

lemma validateDoguDependencies_loop_calls:
  "(\<And>n. P (CGetCurrent n)) \<Longrightarrow> (\<And>v. P (CGetDescriptor v)) \<Longrightarrow>
    calls_only P (validateDoguDependencies_loop L E C optional deps)"
  by (induction deps)
    (auto simp: checkDoguDependency_def intro!: emits_rules FetchInstalled_calls)

lemma dogu_ValidateAllDependencies_calls:
  "(\<And>n. P (CGetCurrent n)) \<Longrightarrow> (\<And>v. P (CGetDescriptor v)) \<Longrightarrow> calls_only P (dogu_ValidateAllDependencies L E C dogu)"
  unfolding dogu_ValidateAllDependencies_def validateDoguDependencies_def
  by (intro emits_rules validateDoguDependencies_loop_calls) auto

section \<open>What a successful validation means\<close>

text \<open>
  The descriptor that is installed for a dogu, in a cluster whose answers do not change during the
  check.
\<close>

definition installed :: "cluster \<Rightarrow> string \<Rightarrow> descriptor res" where
  "installed K n =
     (case a_GetCurrent K n of
        Inl e \<Rightarrow> Inl (ErrWrap ''failed to get local dogu descriptor for''
                      (ErrWrap ''failed to get current version for dogu'' e))
      | Inr v \<Rightarrow>
          (case a_GetDescriptor K v of
             Inl e \<Rightarrow> Inl (ErrWrap ''failed to get local dogu descriptor for''
                           (ErrWrap ''failed to get current dogu'' e))
           | Inr d \<Rightarrow> Inr d))"

lemma FetchInstalled_installed: "fst (run_state (FetchInstalled (\<lambda>_. K) n) h) = installed K n"
  by (simp add: FetchInstalled_def getLocalDogu_def installed_def attempt_def io_defs split: sum.splits)

lemma FetchInstalled_fst: "run_state (FetchInstalled (\<lambda>_. K) n) h = (r, h') \<Longrightarrow> r = installed K n"
  using FetchInstalled_installed [of K n h] by simp

definition dependency_met :: "lib \<Rightarrow> cluster \<Rightarrow> operator_config \<Rightarrow> bool \<Rightarrow> dependency \<Rightarrow> bool" where
  "dependency_met L K C optional dep \<longleftrightarrow>
     isSkippedDependency C (dep_Name dep) \<or>
     (case installed K (dep_Name dep) of
        Inl e \<Rightarrow> optional \<and> IsNotFoundError e
      | Inr d \<Rightarrow> dep_Version dep = [] \<or>
          (\<exists>v allows. lib_ParseVersion L (n_Version d) = Inr v \<and>
             lib_ParseVersionComparator L (dep_Version dep) = Inr allows \<and> allows v = Inr True))"

lemma checkDependencyVersion_None:
  "checkDependencyVersion L dep d = None \<longleftrightarrow> dep_Version dep = [] \<or>
     (\<exists>v allows. lib_ParseVersion L (n_Version d) = Inr v \<and>
        lib_ParseVersionComparator L (dep_Version dep) = Inr allows \<and> allows v = Inr True)"
  by (auto simp: checkDependencyVersion_def split: sum.splits if_splits)

lemma checkDoguDependency_met:
  "fst (run_state (checkDoguDependency L (\<lambda>_. K) C dep optional) h) = None \<longleftrightarrow>
     dependency_met L K C optional dep"
proof (cases "isSkippedDependency C (dep_Name dep)")
  case False
  obtain r h' where r: "run_state (FetchInstalled (\<lambda>_. K) (dep_Name dep)) h = (r, h')" by fastforce
  then have "r = installed K (dep_Name dep)" by (rule FetchInstalled_fst)
  with False r show ?thesis
    by (cases "installed K (dep_Name dep)") (auto simp: checkDoguDependency_def dependency_met_def attempt_def checkDependencyVersion_None)
qed (simp add: checkDoguDependency_def dependency_met_def)

lemma validateDoguDependencies_loop_met:
  "(\<forall>eo \<in> set (fst (run_state (validateDoguDependencies_loop L (\<lambda>_. K) C optional deps) h)). eo = None) \<longleftrightarrow>
     list_all (dependency_met L K C optional) deps"
proof (induction deps arbitrary: h)
  case (Cons dep deps)
  obtain r h' where r: "run_state (checkDoguDependency L (\<lambda>_. K) C dep optional) h = (r, h')" by fastforce
  with checkDoguDependency_met [of L K C dep optional h]
  have "r = None \<longleftrightarrow> dependency_met L K C optional dep" by simp
  with r Cons.IH [of h'] show ?case by (auto split: prod.splits)
qed simp

lemma dogu_ValidateAllDependencies_met:
  "fst (run_state (dogu_ValidateAllDependencies L (\<lambda>_. K) C dogu) h) = None \<longleftrightarrow>
     list_all (dependency_met L K C False) (lib_GetDependenciesOfType L dogu ''dogu'') \<and>
     list_all (dependency_met L K C True) (lib_GetOptionalDependenciesOfType L dogu ''dogu'')"
proof -
  obtain r h' where r: "run_state (validateDoguDependencies_loop L (\<lambda>_. K) C False
      (lib_GetDependenciesOfType L dogu ''dogu'')) h = (r, h')" by fastforce
  obtain r2 h2 where r2: "run_state (validateDoguDependencies_loop L (\<lambda>_. K) C True
      (lib_GetOptionalDependenciesOfType L dogu ''dogu'')) h' = (r2, h2)" by fastforce
  show ?thesis
    using r r2
      validateDoguDependencies_loop_met [of L K C False "lib_GetDependenciesOfType L dogu ''dogu''" h]
      validateDoguDependencies_loop_met [of L K C True "lib_GetOptionalDependenciesOfType L dogu ''dogu''" h']
    by (simp add: dogu_ValidateAllDependencies_def validateDoguDependencies_def)
qed

definition operator_allows :: "lib \<Rightarrow> operator_config \<Rightarrow> dependency \<Rightarrow> bool" where
  "operator_allows L C dep \<longleftrightarrow> dep_Name dep = ''k8s-dogu-operator'' \<longrightarrow> checkVersion L C dep = Inr True"

definition operator_comparable :: "lib \<Rightarrow> operator_config \<Rightarrow> dependency \<Rightarrow> bool" where
  "operator_comparable L C dep \<longleftrightarrow> dep_Name dep = ''k8s-dogu-operator'' \<longrightarrow> (\<exists>b. checkVersion L C dep = Inr b)"

lemma validateMandatory_loop_None: "validateMandatory_loop L C deps = None \<longleftrightarrow> list_all (operator_allows L C) deps"
  by (induction deps) (auto simp: operator_allows_def split: sum.splits)

lemma validateOptional_loop_None: "validateOptional_loop L C deps = None \<longleftrightarrow> list_all (operator_comparable L C) deps"
  by (induction deps) (auto simp: operator_comparable_def split: sum.splits)

section \<open>Validators\<close>

text \<open>
  What the steps rely on: a validator only reads the local registry, and in a stable cluster it reports no error exactly
  if the descriptor is acceptable.
\<close>

locale dependency_validator =
  fixes validate :: "env \<Rightarrow> descriptor \<Rightarrow> err option op"
    and accepts :: "cluster \<Rightarrow> descriptor \<Rightarrow> bool"
  assumes reads_registry: "(\<And>n. P (CGetCurrent n)) \<Longrightarrow> (\<And>v. P (CGetDescriptor v)) \<Longrightarrow> calls_only P (validate E dogu)"
    and decides: "fst (run_state (validate (\<lambda>_. K) dogu) h) = None \<longleftrightarrow> accepts K dogu"
begin

lemma changes_nothing: "calls_only (\<lambda>c. \<not> mutates c) (validate E dogu)"
  by (rule reads_registry) auto

lemma passed: "run_state (validate (\<lambda>_. K) dogu) h = (r, h') \<Longrightarrow> r = None \<longleftrightarrow> accepts K dogu"
  using decides [of K dogu h] by simp

end

text \<open>Two validators one after the other, with joined errors, are a validator for both conditions.\<close>

locale composed_validators =
  first: dependency_validator validate1 accepts1 + second: dependency_validator validate2 accepts2
  for validate1 accepts1 validate2 accepts2
begin

lemma both_reads_registry:
  assumes "\<And>n. P (CGetCurrent n)" "\<And>v. P (CGetDescriptor v)"
  shows "calls_only P (do { e1 \<leftarrow> validate1 E dogu; e2 \<leftarrow> validate2 E dogu; ret (errors_Join [e1, e2]) })"
  using first.reads_registry [of P] second.reads_registry [of P] assms by (auto intro!: emits_rules)

lemma both_decide:
  "fst (run_state (do { e1 \<leftarrow> validate1 (\<lambda>_. K) dogu; e2 \<leftarrow> validate2 (\<lambda>_. K) dogu; ret (errors_Join [e1, e2]) }) h) = None
    \<longleftrightarrow> accepts1 K dogu \<and> accepts2 K dogu"
proof -
  obtain r1 h1 where r1: "run_state (validate1 (\<lambda>_. K) dogu) h = (r1, h1)" by fastforce
  obtain r2 h2 where r2: "run_state (validate2 (\<lambda>_. K) dogu) h1 = (r2, h2)" by fastforce
  from first.passed [OF r1] second.passed [OF r2] r1 r2 show ?thesis by simp
qed

end

sublocale composed_validators \<subseteq> both: dependency_validator
  "\<lambda>E dogu. do { e1 \<leftarrow> validate1 E dogu; e2 \<leftarrow> validate2 E dogu; ret (errors_Join [e1, e2]) }"
  "\<lambda>K dogu. accepts1 K dogu \<and> accepts2 K dogu"
  by unfold_locales (rule both_reads_registry, assumption, assumption, rule both_decide)

text \<open>The operator's own validator, the one for dogu dependencies, and their composition.\<close>

interpretation operator_validator: dependency_validator
  "\<lambda>E dogu. ret (operator_ValidateAllDependencies L C dogu)"
  "\<lambda>K dogu. list_all (operator_allows L C) (lib_GetDependenciesOfType L dogu ''client'') \<and>
     list_all (operator_comparable L C) (lib_GetOptionalDependenciesOfType L dogu ''client'')" for L C
  by unfold_locales
     (auto simp: operator_ValidateAllDependencies_def validateMandatory_loop_None validateOptional_loop_None intro!: emits_rules)

interpretation dogu_validator: dependency_validator
  "\<lambda>E. dogu_ValidateAllDependencies L E C"
  "\<lambda>K dogu. list_all (dependency_met L K C False) (lib_GetDependenciesOfType L dogu ''dogu'') \<and>
     list_all (dependency_met L K C True) (lib_GetOptionalDependenciesOfType L dogu ''dogu'')" for L C
  by unfold_locales (rule dogu_ValidateAllDependencies_calls, assumption, assumption, rule dogu_ValidateAllDependencies_met)

interpretation validators: composed_validators
  "\<lambda>E dogu. ret (operator_ValidateAllDependencies L C dogu)"
  "\<lambda>K dogu. list_all (operator_allows L C) (lib_GetDependenciesOfType L dogu ''client'') \<and>
     list_all (operator_comparable L C) (lib_GetOptionalDependenciesOfType L dogu ''client'')"
  "\<lambda>E. dogu_ValidateAllDependencies L E C"
  "\<lambda>K dogu. list_all (dependency_met L K C False) (lib_GetDependenciesOfType L dogu ''dogu'') \<and>
     list_all (dependency_met L K C True) (lib_GetOptionalDependenciesOfType L dogu ''dogu'')" for L C ..

lemmas ValidateDependencies_calls = validators.both.reads_registry [folded ValidateDependencies_def]
lemmas ValidateDependencies_decides = validators.both.decides [folded ValidateDependencies_def]

end
