(* ===== verification/Health.thy ===== *)
theory Health
  imports Dependency
begin

text \<open>
  Package \<^verbatim>\<open>health\<close>: availability of a deployment, the health of a dogu's dependencies, the health config
  map, status conditions, and the handlers run when the operator starts and stops.
\<close>

section \<open>Availability of a deployment\<close>

definition IsAvailable :: "deployment \<Rightarrow> bool" where
  "IsAvailable d =
     (if dep_Replicas d = None \<and> dep_UpdatedReplicas d < 1 then False
      else if (case dep_Replicas d of Some r \<Rightarrow> dep_UpdatedReplicas d < r | None \<Rightarrow> False) then False
      else if dep_Replicas d = Some 0 then False
      else if dep_StatusReplicas d > dep_UpdatedReplicas d then False
      else if dep_AvailableReplicas d < dep_UpdatedReplicas d then False
      else True)"

section \<open>Health of dependencies\<close>

text \<open>\<^verbatim>\<open>DoguHealthError\<close> can be unwrapped.\<close>

definition NewDoguHealthError :: "err \<Rightarrow> err" where [simp]:
  "NewDoguHealthError e = ErrWrap ''dogu failed a health check'' e"

definition CheckByName :: "env \<Rightarrow> string \<Rightarrow> err option op" where
  "CheckByName E doguName =
     attempt (get_dogu E doguName)
       (\<lambda>e. ret (Some (ErrWrap ''failed to get dogu resource'' e)))
       (\<lambda>d. if t_Health (d_Status d) \<noteq> AvailableHealthStatus
            then ret (Some (NewDoguHealthError (ErrMsg ''dogu appears unhealthy'')))
            else ret None)"

text \<open>
  \<^verbatim>\<open>CheckDependenciesRecursive\<close> calls itself on the descriptors of the dependencies, without a record of
  the dogus it has seen. The model has fuel, one unit per level of recursion; \<open>None\<close> means that the
  fuel did not suffice. \<open>check_loop\<close> is the loop of \<^verbatim>\<open>checkMandatoryRecursive\<close> (\<open>optional\<close> false) and of
  \<^verbatim>\<open>checkOptionalRecursive\<close> (true); it returns the errors in the order the source appends them.
\<close>

function (sequential) CheckDependenciesRecursive ::
    "lib \<Rightarrow> env \<Rightarrow> operator_config \<Rightarrow> nat \<Rightarrow> descriptor \<Rightarrow> (err option) option op"
and check_loop ::
    "lib \<Rightarrow> env \<Rightarrow> operator_config \<Rightarrow> nat \<Rightarrow> bool \<Rightarrow> dependency list \<Rightarrow> (err option list) option op"
where
  "CheckDependenciesRecursive L E C 0 root = ret None"
| "CheckDependenciesRecursive L E C (Suc n) root = do {
     r1 \<leftarrow> check_loop L E C n False (lib_GetDependenciesOfType L root ''dogu'');
     case r1 of None \<Rightarrow> ret None
     | Some es1 \<Rightarrow> do {
         r2 \<leftarrow> check_loop L E C n True (lib_GetOptionalDependenciesOfType L root ''dogu'');
         case r2 of None \<Rightarrow> ret None
         | Some es2 \<Rightarrow> ret (Some (errors_Join [errors_Join es1, errors_Join es2]))
       }
   }"
| "check_loop L E C n optional [] = ret (Some [])"
| "check_loop L E C n optional (dep # deps) =
     (if isSkippedDependency C (dep_Name dep) then check_loop L E C n optional deps
      else do {
        r \<leftarrow> FetchInstalled E (dep_Name dep);
        case r of
          Inl e \<Rightarrow> do {
            rest \<leftarrow> check_loop L E C n optional deps;
            ret (map_option (\<lambda>es. (if optional \<and> IsNotFoundError e then es
                  else Some (ErrWrap ''error fetching local dogu descriptor for dependency'' e) # es)) rest)
          }
        | Inr dependencyDogu \<Rightarrow> do {
            e1 \<leftarrow> CheckByName E (dep_Name dep);
            r2 \<leftarrow> CheckDependenciesRecursive L E C n dependencyDogu;
            case r2 of None \<Rightarrow> ret None
            | Some e2 \<Rightarrow> do {
                rest \<leftarrow> check_loop L E C n optional deps;
                ret (map_option (\<lambda>es. e1 # e2 # es) rest)
              }
          }
      })"
  by pat_completeness auto
termination
  by (relation "measures [case_sum (\<lambda>(L, E, C, n, root). 2 * n) (\<lambda>(L, E, C, n, opt, deps). 2 * n + 1),
        case_sum (\<lambda>_. 0) (\<lambda>(L, E, C, n, opt, deps). length deps)]") auto

section \<open>The health config map\<close>

definition healthConfigMapName :: string where "healthConfigMapName = ''k8s-dogu-operator-dogu-health''"

definition initHealthConfigMap :: "config_map \<Rightarrow> deployment \<Rightarrow> config_map" where
  "initHealthConfigMap cm d = cm\<lparr> cm_Data := AList.update (dep_ObjName d) [] (cm_Data cm) \<rparr>"

fun hasHealthCheckofTypeState_loop :: "health_check list \<Rightarrow> bool \<times> string" where
  "hasHealthCheckofTypeState_loop [] = (False, ''ready'')"
| "hasHealthCheckofTypeState_loop (hc # hcs) =
     (if hc_Type hc = ''state'' then (True, if hc_State hc \<noteq> [] then hc_State hc else ''ready'')
      else hasHealthCheckofTypeState_loop hcs)"

definition hasHealthCheckofTypeState :: "descriptor \<Rightarrow> bool \<times> string" where
  "hasHealthCheckofTypeState doguJson = hasHealthCheckofTypeState_loop (n_HealthChecks doguJson)"

text \<open>
  The loop dereferences the pointer \<^verbatim>\<open>status.Started\<close> without a check: a container status without it
  is a panic.
\<close>

fun anyStarted :: "container_status list \<Rightarrow> bool res" where
  "anyStarted [] = Inr False"
| "anyStarted (st # sts) =
     (case cst_Started st of
        None \<Rightarrow> Inl (ErrPanic ''nil pointer dereference'')
      | Some b \<Rightarrow> if b then Inr True else anyStarted sts)"

definition setHealthConfigMapStateWhenStarted :: "config_map \<Rightarrow> pod \<Rightarrow> deployment \<Rightarrow> string \<Rightarrow> config_map res" where
  "setHealthConfigMapStateWhenStarted cm p d state =
     (case anyStarted (pod_ContainerStatuses p) of
        Inl e \<Rightarrow> Inl e
      | Inr b \<Rightarrow> Inr (if b then cm\<lparr> cm_Data := AList.update (dep_ObjName d) state (cm_Data cm) \<rparr> else cm))"

definition updateHealthConfigMapForPod :: "env \<Rightarrow> deployment \<Rightarrow> bool \<times> string \<Rightarrow> pod \<Rightarrow> config_map res op" where
  "updateHealthConfigMapForPod E d st p =
     attempt (get_config_map E healthConfigMapName)
       (throw_wrap ''failed to update health state in health configMap'')
       (\<lambda>cm. let cm' = initHealthConfigMap cm d in
          (case (if fst st then setHealthConfigMapStateWhenStarted cm' p d (snd st) else Inr cm') of
             Inl e \<Rightarrow> throw e
           | Inr cm'' \<Rightarrow> attempt (update_config_map E cm'') throw (\<lambda>_. ok cm'')))"

definition UpdateHealthConfigMap :: "lib \<Rightarrow> env \<Rightarrow> deployment \<Rightarrow> descriptor \<Rightarrow> err option op" where
  "UpdateHealthConfigMap L E d doguJson =
     attempt (list_pods E (dep_Selector d))
       (\<lambda>e. ret (Some (ErrWrap ''failed to get all pods for the deployment'' e)))
       (\<lambda>pods. do {
          r \<leftarrow> for_each (\<lambda>p. do {
                 r \<leftarrow> retry_on (lib_RetryBound L) IsConflict
                        (updateHealthConfigMapForPod E d (hasHealthCheckofTypeState doguJson) p);
                 case r of
                   Inl e \<Rightarrow> ret (Some (Some (ErrWrap ''failed to update health state in health configMap'' e)))
                 | Inr cm \<Rightarrow> ret (if smap_get (cm_Data cm) (dep_ObjName d) \<noteq> [] then Some None else None)
               }) pods;
          ret (case r of None \<Rightarrow> None | Some eo \<Rightarrow> eo)
        })"

definition getOrCreateHealthConfigMap :: "env \<Rightarrow> config_map res op" where
  "getOrCreateHealthConfigMap E =
     attempt (get_config_map E healthConfigMapName)
       (\<lambda>e. if IsNotFound e
            then attempt (create_config_map E \<lparr> cm_Name = healthConfigMapName, cm_Data = [] \<rparr>) throw ok
            else throw e)
       ok"

definition DeleteDoguOutOfHealthConfigMap :: "env \<Rightarrow> dogu \<Rightarrow> err option op" where
  "DeleteDoguOutOfHealthConfigMap E d =
     attempt (getOrCreateHealthConfigMap E) (\<lambda>e. ret (Some e))
       (\<lambda>cm. err_only (update_config_map E (cm\<lparr> cm_Data := AList.delete (d_Name d) (cm_Data cm) \<rparr>)))"

section \<open>Conditions\<close>

definition set_condition :: "lib \<Rightarrow> condition \<Rightarrow> dogu_status \<Rightarrow> dogu_status" where
  "set_condition L c s = s\<lparr> t_Conditions := lib_SetStatusCondition L (t_Conditions s) c \<rparr>"

definition mk_condition :: "string \<Rightarrow> cond_status \<Rightarrow> string \<Rightarrow> string \<Rightarrow> int \<Rightarrow> condition" where
  "mk_condition t st reason msg gen =
     \<lparr> c_Type = t, c_Status = st, c_Reason = reason, c_Message = msg, c_ObservedGeneration = gen \<rparr>"

definition UpdateCondition :: "lib \<Rightarrow> env \<Rightarrow> dogu \<Rightarrow> condition \<Rightarrow> dogu res op" where
  "UpdateCondition L E d c =
     attempt (update_dogu_status E d (set_condition L (c\<lparr> c_ObservedGeneration := d_Generation d \<rparr>)))
       (throw_wrap ''failed to update status of dogu'') ok"

definition UpdateConditions :: "lib \<Rightarrow> env \<Rightarrow> dogu \<Rightarrow> condition list \<Rightarrow> dogu res op" where
  "UpdateConditions L E d cs =
     attempt (update_dogu_status E d
                (fold (\<lambda>c. set_condition L (c\<lparr> c_ObservedGeneration := d_Generation d \<rparr>)) cs))
       (throw_wrap ''failed to update status of dogu'') ok"

section \<open>Start and stop of the operator\<close>

definition shutdown_status :: "lib \<Rightarrow> int \<Rightarrow> dogu_status \<Rightarrow> dogu_status" where
  "shutdown_status L gen s =
     fold (\<lambda>t. set_condition L (mk_condition t ConditionUnknown ''StoppingOperator'' ''The operator is shutting down'' gen))
       [ConditionReady, ConditionHealthy, ConditionSupportMode, ConditionMeetsMinVolumeSize]
       (s\<lparr> t_Health := UnknownHealthStatus \<rparr>)"

fun shutdown_loop :: "lib \<Rightarrow> env \<Rightarrow> dogu list \<Rightarrow> (err option list) op" where
  "shutdown_loop L E [] = ret []"
| "shutdown_loop L E (d # ds) = do {
     r \<leftarrow> update_dogu_status E d (shutdown_status L (d_Generation d));
     rest \<leftarrow> shutdown_loop L E ds;
     ret (wrap_err ''failed to set health status and conditions to unknown'' (err_of r) # rest)
   }"

definition shutdown_Handle :: "lib \<Rightarrow> env \<Rightarrow> err option op" where
  "shutdown_Handle L E =
     attempt (list_dogus E) (\<lambda>e. ret (Some e))
       (\<lambda>dogus. do { errs \<leftarrow> shutdown_loop L E dogus; ret (errors_Join errs) })"

text \<open>Every dogu is sent to the reconcile channel.\<close>

fun enqueue_all :: "dogu list \<Rightarrow> unit op" where
  "enqueue_all [] = ret ()"
| "enqueue_all (d # ds) = do { _ \<leftarrow> enqueue_dogu d; enqueue_all ds }"

definition startup_Start :: "env \<Rightarrow> err option op" where
  "startup_Start E =
     attempt (list_dogus E) (\<lambda>e. ret (Some e)) (\<lambda>dogus. do { _ \<leftarrow> enqueue_all dogus; ret None })"

section \<open>Availability\<close>

text \<open>
  A deployment is available if it wants at least one replica, all wanted replicas have the current template, no old
  replica is left and all current replicas are available.
\<close>

lemma IsAvailable_iff:
  "IsAvailable d \<longleftrightarrow>
     (case dep_Replicas d of None \<Rightarrow> 1 | Some r \<Rightarrow> r) \<noteq> 0 \<and>
     (case dep_Replicas d of None \<Rightarrow> 1 | Some r \<Rightarrow> r) \<le> dep_UpdatedReplicas d \<and>
     dep_StatusReplicas d \<le> dep_UpdatedReplicas d \<and> dep_UpdatedReplicas d \<le> dep_AvailableReplicas d"
  by (auto simp: IsAvailable_def split: option.splits)

section \<open>The recursion over dependencies\<close>

text \<open>The dependencies the recursion follows, in a cluster whose answers do not change.\<close>

definition followed_dependencies :: "lib \<Rightarrow> descriptor \<Rightarrow> dependency list" where
  "followed_dependencies L n = lib_GetDependenciesOfType L n ''dogu'' @ lib_GetOptionalDependenciesOfType L n ''dogu''"

definition follows :: "lib \<Rightarrow> cluster \<Rightarrow> operator_config \<Rightarrow> descriptor \<Rightarrow> descriptor \<Rightarrow> bool" where
  "follows L K C n m \<longleftrightarrow> (\<exists>dep \<in> set (followed_dependencies L n).
     \<not> isSkippedDependency C (dep_Name dep) \<and> installed K (dep_Name dep) = Inr m)"

text \<open>
  In such a cluster the log does not matter, and the recursion computes a function of the cluster.
\<close>

definition health_error :: "cluster \<Rightarrow> string \<Rightarrow> err option" where
  "health_error K n =
     (case a_GetDogu K n of
        Inl e \<Rightarrow> Some (ErrWrap ''failed to get dogu resource'' e)
      | Inr d \<Rightarrow> if t_Health (d_Status d) \<noteq> AvailableHealthStatus
                 then Some (NewDoguHealthError (ErrMsg ''dogu appears unhealthy'')) else None)"

function (sequential) dependency_errors :: "lib \<Rightarrow> cluster \<Rightarrow> operator_config \<Rightarrow> nat \<Rightarrow> descriptor \<Rightarrow> (err option) option"
and loop_errors :: "lib \<Rightarrow> cluster \<Rightarrow> operator_config \<Rightarrow> nat \<Rightarrow> bool \<Rightarrow> dependency list \<Rightarrow> (err option list) option"
where
  "dependency_errors L K C 0 n = None"
| "dependency_errors L K C (Suc k) n =
     (case loop_errors L K C k False (lib_GetDependenciesOfType L n ''dogu'') of
        None \<Rightarrow> None
      | Some es1 \<Rightarrow> map_option (\<lambda>es2. errors_Join [errors_Join es1, errors_Join es2])
          (loop_errors L K C k True (lib_GetOptionalDependenciesOfType L n ''dogu'')))"
| "loop_errors L K C k optional [] = Some []"
| "loop_errors L K C k optional (dep # deps) =
     (if isSkippedDependency C (dep_Name dep) then loop_errors L K C k optional deps
      else case installed K (dep_Name dep) of
          Inl e \<Rightarrow> map_option (\<lambda>es. if optional \<and> IsNotFoundError e then es
              else Some (ErrWrap ''error fetching local dogu descriptor for dependency'' e) # es) (loop_errors L K C k optional deps)
        | Inr m \<Rightarrow>
            (case dependency_errors L K C k m of
               None \<Rightarrow> None
             | Some e \<Rightarrow> map_option (\<lambda>es. health_error K (dep_Name dep) # e # es) (loop_errors L K C k optional deps)))"
  by pat_completeness auto
termination
  by (relation "measures [case_sum (\<lambda>(L, K, C, n, root). 2 * n) (\<lambda>(L, K, C, n, opt, deps). 2 * n + 1),
        case_sum (\<lambda>_. 0) (\<lambda>(L, K, C, n, opt, deps). length deps)]") auto

lemma run_CheckByName: "fst (run_state (CheckByName (\<lambda>_. K) n) h) = health_error K n"
  by (auto simp: CheckByName_def health_error_def run_attempt io_defs split: sum.splits)

lemma FetchInstalled_run: "\<exists>h'. run_state (FetchInstalled (\<lambda>_. K) n) h = (installed K n, h')"
  using FetchInstalled_installed [of K n h] by (metis prod.collapse)

lemma CheckByName_run: "\<exists>h'. run_state (CheckByName (\<lambda>_. K) n) h = (health_error K n, h')"
  using run_CheckByName [of K n h] by (metis prod.collapse)

lemma CheckDependenciesRecursive_errors:
  "fst (run_state (CheckDependenciesRecursive L (\<lambda>_. K) C k n) h) = dependency_errors L K C k n"
  "fst (run_state (check_loop L (\<lambda>_. K) C k opt deps) h) = loop_errors L K C k opt deps"
proof (induction L K C k n and L K C k opt deps arbitrary: h and h rule: dependency_errors_loop_errors.induct)
  case (2 L K C k n)
  obtain x h1 where x: "run_state (check_loop L (\<lambda>_. K) C k False (lib_GetDependenciesOfType L n ''dogu'')) h = (x, h1)"
    by fastforce
  obtain y h2 where y: "run_state (check_loop L (\<lambda>_. K) C k True (lib_GetOptionalDependenciesOfType L n ''dogu'')) h1 = (y, h2)"
    by fastforce
  from 2(1) [of h] 2(2) [of _ h1] x y show ?case by (auto split: option.splits)
next
  case (4 L K C k opt dep deps)
  show ?case
  proof (cases "isSkippedDependency C (dep_Name dep)")
    case False
    obtain h1 where x: "run_state (FetchInstalled (\<lambda>_. K) (dep_Name dep)) h = (installed K (dep_Name dep), h1)"
      using FetchInstalled_run by blast
    obtain h2 where e1: "run_state (CheckByName (\<lambda>_. K) (dep_Name dep)) h1 = (health_error K (dep_Name dep), h2)"
      using CheckByName_run by blast
    show ?thesis
    proof (cases "installed K (dep_Name dep)")
      case (Inl e)
      with x False 4(2) [of e h1] show ?thesis by (auto split: prod.splits)
    next
      case (Inr m)
      obtain y h3 where y: "run_state (CheckDependenciesRecursive L (\<lambda>_. K) C k m) h2 = (y, h3)" by fastforce
      with 4(3) [of m h2] False Inr have y': "dependency_errors L K C k m = y" by simp
      obtain z h4 where z: "run_state (check_loop L (\<lambda>_. K) C k opt deps) h3 = (z, h4)" by fastforce
      with 4(4) [of m _ h3] False Inr y' have "y \<noteq> None \<Longrightarrow> loop_errors L K C k opt deps = z" by auto
      with x e1 y y' z False Inr show ?thesis by (cases y) auto
    qed
  qed (use 4(1) in auto)
qed auto

text \<open>It returns if the dependencies are well-founded, given fuel for their depth.\<close>

lemma loop_errors_returns:
  "(\<And>dep m. dep \<in> set deps \<Longrightarrow> \<not> isSkippedDependency C (dep_Name dep) \<Longrightarrow> installed K (dep_Name dep) = Inr m \<Longrightarrow>
      \<exists>e. dependency_errors L K C k m = Some e) \<Longrightarrow> \<exists>es. loop_errors L K C k opt deps = Some es"
  by (induction deps) (fastforce split: sum.splits option.splits)+

lemma dependency_errors_returns:
  assumes "\<And>n m. follows L K C n m \<Longrightarrow> rank m < rank n"
  shows "rank n < k \<Longrightarrow> \<exists>e. dependency_errors L K C k n = Some e"
proof (induction k arbitrary: n)
  case (Suc k)
  have *: "\<exists>e. dependency_errors L K C k m = Some e" if "follows L K C n m" for m
    using Suc.IH [of m] Suc.prems assms [OF that] by (meson less_Suc_eq_le less_le_trans)
  have "\<exists>es. loop_errors L K C k opt deps = Some es" if "set deps \<subseteq> set (followed_dependencies L n)" for opt deps
    using that by (intro loop_errors_returns *) (auto simp: follows_def)
  from this [of "lib_GetDependenciesOfType L n ''dogu''" False] this [of "lib_GetOptionalDependenciesOfType L n ''dogu''" True]
  show ?case by (auto simp: followed_dependencies_def)
qed simp

text \<open>It does not return if dependencies form a cycle.\<close>

lemma loop_errors_diverges:
  assumes "dep \<in> set deps" "\<not> isSkippedDependency C (dep_Name dep)" "installed K (dep_Name dep) = Inr m"
    and "dependency_errors L K C k m = None"
  shows "loop_errors L K C k opt deps = None"
  using assms(1)
proof (induction deps)
  case (Cons dep' deps)
  with assms(2-4) show ?case by (cases "dep' = dep") (auto split: sum.splits option.splits)
qed simp

lemma dependency_errors_diverges:
  assumes "\<And>n. n \<in> S \<Longrightarrow> \<exists>m \<in> S. follows L K C n m"
  shows "n \<in> S \<Longrightarrow> dependency_errors L K C k n = None"
proof (induction k arbitrary: n)
  case (Suc k)
  from assms [OF Suc.prems] obtain m dep where m: "m \<in> S" "dep \<in> set (followed_dependencies L n)"
    "\<not> isSkippedDependency C (dep_Name dep)" "installed K (dep_Name dep) = Inr m" by (auto simp: follows_def)
  then have "loop_errors L K C k opt deps = None" if "dep \<in> set deps" for opt deps
    using Suc.IH that by (intro loop_errors_diverges) auto
  with m(2) show ?case by (auto simp: followed_dependencies_def split: option.splits)
qed simp

text \<open>Without an error, every direct dependency is installed and healthy.\<close>

definition dependency_healthy :: "cluster \<Rightarrow> operator_config \<Rightarrow> bool \<Rightarrow> dependency \<Rightarrow> bool" where
  "dependency_healthy K C optional dep \<longleftrightarrow>
     isSkippedDependency C (dep_Name dep) \<or>
     (case installed K (dep_Name dep) of
        Inl e \<Rightarrow> optional \<and> IsNotFoundError e
      | Inr _ \<Rightarrow> (\<exists>d. a_GetDogu K (dep_Name dep) = Inr d \<and> t_Health (d_Status d) = AvailableHealthStatus))"

lemma health_error_None:
  "health_error K n = None \<longleftrightarrow> (\<exists>d. a_GetDogu K n = Inr d \<and> t_Health (d_Status d) = AvailableHealthStatus)"
  by (auto simp: health_error_def split: sum.splits)

lemma loop_errors_healthy:
  "loop_errors L K C k opt deps = Some es \<Longrightarrow> \<forall>e \<in> set es. e = None \<Longrightarrow> list_all (dependency_healthy K C opt) deps"
  by (induction deps arbitrary: es)
     (auto simp: dependency_healthy_def health_error_None split: sum.splits option.splits if_splits)

lemma dependency_errors_healthy:
  assumes "dependency_errors L K C k n = Some None"
  shows "list_all (dependency_healthy K C False) (lib_GetDependenciesOfType L n ''dogu'')"
    "list_all (dependency_healthy K C True) (lib_GetOptionalDependenciesOfType L n ''dogu'')"
proof -
  obtain k' where k: "k = Suc k'" using assms by (cases k) auto
  obtain es1 es2 where "loop_errors L K C k' False (lib_GetDependenciesOfType L n ''dogu'') = Some es1"
    "loop_errors L K C k' True (lib_GetOptionalDependenciesOfType L n ''dogu'') = Some es2"
    "\<forall>e \<in> set es1. e = None" "\<forall>e \<in> set es2. e = None"
    using assms unfolding k by (auto split: option.splits)
  then show "list_all (dependency_healthy K C False) (lib_GetDependenciesOfType L n ''dogu'')"
    "list_all (dependency_healthy K C True) (lib_GetOptionalDependenciesOfType L n ''dogu'')"
    by (auto intro: loop_errors_healthy)
qed

end
