(* ===== verification/Volumes.thy ===== *)
theory Volumes
  imports Health
begin

text \<open>
  Volumes and volume mounts of a dogu pod (\<^verbatim>\<open>resource/volumeGenerator.go\<close>), the data volume claim, the
  validator of additional mounts (package \<^verbatim>\<open>additionalMount\<close>) and the validator of the security fields
  (package \<^verbatim>\<open>security\<close>).
\<close>

section \<open>Names\<close>

definition importPublicKeyVolumeName :: string where
  "importPublicKeyVolumeName = ''ces-importer-public-key-volume''"

definition importerPublicKeyConfigMapName :: string where
  "importerPublicKeyConfigMapName = ''ces-importer-public-key''"

definition globalConfig :: string where "globalConfig = ''global-config''"
definition normalConfig :: string where "normalConfig = ''normal-config''"
definition sensitiveConfig :: string where "sensitiveConfig = ''sensitive-config''"
definition doguHealth :: string where "doguHealth = ''dogu-health''"
definition doguHealthConfigMap :: string where "doguHealthConfigMap = ''k8s-dogu-operator-dogu-health''"
definition timeZoneMountName :: string where "timeZoneMountName = ''timezone-volume''"
definition operatorManagerConfigMap :: string where "operatorManagerConfigMap = ''k8s-dogu-operator-manager-config''"
definition doguOperatorClient :: string where "doguOperatorClient = ''k8s-dogu-operator''"
definition configMapParamType :: string where "configMapParamType = ''configmap''"
definition doguDependencyType :: string where "doguDependencyType = ''dogu''"

definition doguJsonVolumeName :: "string \<Rightarrow> string" where
  "doguJsonVolumeName n = n @ ''-dogu-json''"

definition GetAppLabel :: smap where "GetAppLabel = [(''app'', ''ces'')]"

section \<open>Volumes\<close>

text \<open>\<^verbatim>\<open>GetClient\<close> of a descriptor volume: the first client with the given name.\<close>

definition GetClient :: "dvolume \<Rightarrow> string \<Rightarrow> volume_client option" where
  "GetClient v n = find (\<lambda>c. vc_Name c = n) (v_Clients v)"

abbreviation config_map_volume :: "string \<Rightarrow> string \<Rightarrow> volume" where
  "config_map_volume n cm \<equiv> \<lparr> vol_Name = n, vol_Source = VSConfigMap cm None [] \<rparr>"

definition getVolumeForDataMount :: "data_mount \<Rightarrow> volume res" where
  "getVolumeForDataMount m =
     (if dm_SourceType m = DataSourceConfigMap then Inr (config_map_volume (dm_Name m) (dm_Name m))
      else if dm_SourceType m = DataSourceSecret then Inr \<lparr> vol_Name = dm_Name m, vol_Source = VSSecret (dm_Name m) \<rparr>
      else Inl (ErrMsg ''volume source not supported''))"

text \<open>
  One volume per source name: \<open>seen\<close> are the keys of the map \<^verbatim>\<open>dataMountsByName\<close>. On an error the zero
  volume is appended and the loop goes on.
\<close>

fun createAdditionalDataVolumes_loop :: "string list \<Rightarrow> data_mount list \<Rightarrow> volume list \<times> err list" where
  "createAdditionalDataVolumes_loop seen [] = ([], [])"
| "createAdditionalDataVolumes_loop seen (m # ms) =
     (if dm_Name m \<in> set seen then createAdditionalDataVolumes_loop seen ms
      else let (vs, es) = createAdditionalDataVolumes_loop (dm_Name m # seen) ms in
        (case getVolumeForDataMount m of
           Inl e \<Rightarrow> (\<lparr> vol_Name = [], vol_Source = VSNone \<rparr> # vs, e # es)
         | Inr v \<Rightarrow> (v # vs, es)))"

definition createAdditionalDataVolumes :: "dogu \<Rightarrow> (volume list) res" where
  "createAdditionalDataVolumes d =
     (let (vs, es) = createAdditionalDataVolumes_loop [] (s_AdditionalMounts (d_Spec d)) in
        case errors_Join (map Some es) of Some e \<Rightarrow> Inl e | None \<Rightarrow> Inr vs)"

definition getDoguJsonVolumeForDogu :: "string \<Rightarrow> volume" where
  "getDoguJsonVolumeForDogu n =
     \<lparr> vol_Name = doguJsonVolumeName n, vol_Source = VSConfigMap (''dogu-spec-'' @ n) (Some True) [] \<rparr>"

definition dogu_dependencies :: "dependency list \<Rightarrow> string list" where
  "dogu_dependencies deps = map dep_Name (filter (\<lambda>x. dep_Type x = doguDependencyType) deps)"

definition createDoguJsonVolumesFromDependencies :: "descriptor \<Rightarrow> volume list" where
  "createDoguJsonVolumesFromDependencies n =
     map getDoguJsonVolumeForDogu (dogu_dependencies (n_Dependencies n)) @
     map getDoguJsonVolumeForDogu (dogu_dependencies (n_OptionalDependencies n))"

definition createStaticVolumes :: "lib \<Rightarrow> dogu \<Rightarrow> volume list" where
  "createStaticVolumes L d =
     [ config_map_volume doguHealth doguHealthConfigMap,
       \<lparr> vol_Name = lib_GetEphemeralDataVolumeName L d, vol_Source = VSEmptyDir \<rparr>,
       config_map_volume globalConfig globalConfig,
       config_map_volume normalConfig (d_Name d @ ''-config''),
       \<lparr> vol_Name = sensitiveConfig, vol_Source = VSSecret (d_Name d @ ''-config'') \<rparr>,
       \<lparr> vol_Name = timeZoneMountName, vol_Source = VSConfigMap operatorManagerConfigMap None [(''timezone'', ''timezone'')] \<rparr> ]"

text \<open>
  \<^verbatim>\<open>convertGenericJsonObject\<close> writes a generic value as JSON and reads it back into a struct: \<open>null\<close> leaves the zero value, an
  object sets the fields, anything else is an error. The decoder matches keys regardless of case; of several that match, the
  last one counts. A string field takes a string or \<open>null\<close>, which leaves it as it is, and fails on other values.
\<close>

definition json_field :: "string \<Rightarrow> (string \<times> json) list \<Rightarrow> json list" where
  "json_field name fs = map snd (filter (\<lambda>f. ToUpper (fst f) = ToUpper name) fs)"

fun string_field :: "json list \<Rightarrow> string \<Rightarrow> string res" where
  "string_field [] s = Inr s"
| "string_field (JNull # vs) s = string_field vs s"
| "string_field (JString t # vs) s = string_field vs t"
| "string_field (_ # vs) s = Inl (ErrMsg ''json: cannot unmarshal into Go struct field of type string'')"

definition generic_field :: "json list \<Rightarrow> json" where
  "generic_field vs = (if vs = [] then JNull else last vs)"

definition convertGenericJsonObject :: "json \<Rightarrow> ((string \<times> json) list \<Rightarrow> 'a res) \<Rightarrow> 'a res" where
  "convertGenericJsonObject genericObject decode =
     (case genericObject of
        JNull \<Rightarrow> decode []
      | JObject fs \<Rightarrow> decode fs
      | _ \<Rightarrow> Inl (ErrMsg ''json: cannot unmarshal into Go value''))"

record volume_params =
  vp_Type :: string
  vp_Content :: json

definition volumeParams_fields :: "(string \<times> json) list \<Rightarrow> volume_params res" where
  "volumeParams_fields fs =
     map_sum id (\<lambda>t. \<lparr> vp_Type = t, vp_Content = generic_field (json_field ''content'' fs) \<rparr>) (string_field (json_field ''type'' fs) [])"

definition volumeConfigMapContent_fields :: "(string \<times> json) list \<Rightarrow> string res" where
  "volumeConfigMapContent_fields fs = string_field (json_field ''name'' fs) []"

definition createVolumeByClient :: "dvolume \<Rightarrow> volume_client \<Rightarrow> volume res" where
  "createVolumeByClient v c =
     (case convertGenericJsonObject (vc_Params c) volumeParams_fields of
        Inl e \<Rightarrow> Inl (ErrWrap ''failed to read client params of volume'' e)
      | Inr params \<Rightarrow>
          if vp_Type params = configMapParamType then
            (case convertGenericJsonObject (vp_Content params) volumeConfigMapContent_fields of
               Inl e \<Rightarrow> Inl (ErrWrap ''failed to read client type content of volume'' e)
             | Inr n \<Rightarrow> Inr (config_map_volume (v_Name v) n))
          else Inl (ErrMsg ''unsupported client param type in volume''))"

lemma createVolumeByClient_config_map:
  "createVolumeByClient v \<lparr> vc_Name = c,
      vc_Params = JObject [(''Content'', JObject [(''Name'', JString n)]), (''Type'', JString configMapParamType)] \<rparr> =
    Inr (config_map_volume (v_Name v) n)"
proof -
  have "ToUpper ''Content'' = ''CONTENT''" "ToUpper ''content'' = ''CONTENT''" "ToUpper ''Name'' = ''NAME''" "ToUpper ''name'' = ''NAME''"
    "ToUpper ''Type'' = ''TYPE''" "ToUpper ''type'' = ''TYPE''" by code_simp+
  then show ?thesis
    by (simp add: createVolumeByClient_def convertGenericJsonObject_def volumeParams_fields_def volumeConfigMapContent_fields_def
        json_field_def generic_field_def)
qed

text \<open>
  The loop joins the errors and keeps the volumes made so far; at most one volume refers to the
  persistent volume claim (\<open>created\<close> is \<^verbatim>\<open>pvcVolumeCreated\<close>).
\<close>

fun createDoguVolumes_loop :: "lib \<Rightarrow> dogu \<Rightarrow> bool \<Rightarrow> dvolume list \<Rightarrow> volume list \<times> err list" where
  "createDoguVolumes_loop L d created [] = ([], [])"
| "createDoguVolumes_loop L d created (v # vs) =
     (case GetClient v doguOperatorClient of
        Some c \<Rightarrow>
          (let (ws, es) = createDoguVolumes_loop L d created vs in
           case createVolumeByClient v c of Inl e \<Rightarrow> (ws, e # es) | Inr w \<Rightarrow> (w # ws, es))
      | None \<Rightarrow>
          if v_NeedsBackup v \<and> \<not> created then
            (let (ws, es) = createDoguVolumes_loop L d True vs in
              (\<lparr> vol_Name = lib_GetDataVolumeName L d, vol_Source = VSPersistentVolumeClaim (d_Name d) \<rparr> # ws, es))
          else createDoguVolumes_loop L d created vs)"

definition createDoguVolumes :: "lib \<Rightarrow> dvolume list \<Rightarrow> dogu \<Rightarrow> (volume list) res" where
  "createDoguVolumes L vs d =
     (let (ws, es) = createDoguVolumes_loop L d False vs in
        case errors_Join (map Some es) of Some e \<Rightarrow> Inl e | None \<Rightarrow> Inr ws)"

definition createImporterPublicKeyVolume :: volume where
  "createImporterPublicKeyVolume =
     \<lparr> vol_Name = importPublicKeyVolumeName, vol_Source = VSConfigMap importerPublicKeyConfigMapName (Some True) [] \<rparr>"

definition CreateVolumes :: "lib \<Rightarrow> dogu \<Rightarrow> descriptor \<Rightarrow> bool \<Rightarrow> (volume list) res" where
  "CreateVolumes L d n exportModeActive =
     (let volumes = createStaticVolumes L d @ createDoguJsonVolumesFromDependencies n @
            [getDoguJsonVolumeForDogu (lib_GetSimpleName L n)] @
            (if exportModeActive then [createImporterPublicKeyVolume] else []) in
      case createDoguVolumes L (n_Volumes n) d of
        Inl e \<Rightarrow> Inl e
      | Inr vs \<Rightarrow>
          (case createAdditionalDataVolumes d of
             Inl e \<Rightarrow> Inl e
           | Inr ws \<Rightarrow> Inr (volumes @ vs @ ws)))"

section \<open>Volume mounts\<close>

definition createStaticDoguConfigVolumeMounts :: "string \<Rightarrow> volume_mount list" where
  "createStaticDoguConfigVolumeMounts prefix =
     [ \<lparr> vm_Name = normalConfig, vm_ReadOnly = True, vm_MountPath = prefix @ ''/etc/ces/config/normal'', vm_SubPath = [] \<rparr>,
       \<lparr> vm_Name = sensitiveConfig, vm_ReadOnly = True, vm_MountPath = prefix @ ''/etc/ces/config/sensitive'', vm_SubPath = [] \<rparr> ]"

definition createStaticVolumeMounts :: "lib \<Rightarrow> dogu \<Rightarrow> volume_mount list" where
  "createStaticVolumeMounts L d =
     [ \<lparr> vm_Name = doguHealth, vm_ReadOnly = True, vm_MountPath = ''/etc/ces/health'', vm_SubPath = [] \<rparr>,
       \<lparr> vm_Name = lib_GetEphemeralDataVolumeName L d, vm_ReadOnly = False, vm_MountPath = ''/var/ces/state'', vm_SubPath = ''state'' \<rparr>,
       \<lparr> vm_Name = globalConfig, vm_ReadOnly = True, vm_MountPath = ''/etc/ces/config/global'', vm_SubPath = [] \<rparr>,
       \<lparr> vm_Name = timeZoneMountName, vm_ReadOnly = True, vm_MountPath = ''/etc/timezone'', vm_SubPath = ''timezone'' \<rparr> ] @
     createStaticDoguConfigVolumeMounts []"

definition getDoguJsonVolumeMountForDogu :: "string \<Rightarrow> volume_mount" where
  "getDoguJsonVolumeMountForDogu n =
     \<lparr> vm_Name = doguJsonVolumeName n, vm_ReadOnly = True, vm_MountPath = ''/etc/ces/dogu_json/'' @ n, vm_SubPath = [] \<rparr>"

definition createDoguJsonVolumeMountsFromDependencies :: "descriptor \<Rightarrow> volume_mount list" where
  "createDoguJsonVolumeMountsFromDependencies n =
     map getDoguJsonVolumeMountForDogu (dogu_dependencies (n_Dependencies n)) @
     map getDoguJsonVolumeMountForDogu (dogu_dependencies (n_OptionalDependencies n))"

definition createDoguVolumeMount :: "lib \<Rightarrow> dvolume \<Rightarrow> dogu \<Rightarrow> string \<Rightarrow> volume_mount" where
  "createDoguVolumeMount L v d prefix =
     (let mountPath = prefix @ v_Path v in
      if GetClient v doguOperatorClient \<noteq> None then
        \<lparr> vm_Name = v_Name v, vm_ReadOnly = False, vm_MountPath = mountPath, vm_SubPath = [] \<rparr>
      else if \<not> v_NeedsBackup v then
        \<lparr> vm_Name = lib_GetEphemeralDataVolumeName L d, vm_ReadOnly = False, vm_MountPath = mountPath, vm_SubPath = v_Name v \<rparr>
      else
        \<lparr> vm_Name = lib_GetDataVolumeName L d, vm_ReadOnly = False, vm_MountPath = mountPath, vm_SubPath = v_Name v \<rparr>)"

definition createDoguVolumeMountsWithMountPathPrefix :: "lib \<Rightarrow> dogu \<Rightarrow> descriptor \<Rightarrow> string \<Rightarrow> volume_mount list" where
  "createDoguVolumeMountsWithMountPathPrefix L d n prefix =
     map (\<lambda>v. createDoguVolumeMount L v d prefix) (n_Volumes n)"

definition createDoguVolumeMounts :: "lib \<Rightarrow> dogu \<Rightarrow> descriptor \<Rightarrow> volume_mount list" where
  "createDoguVolumeMounts L d n = createDoguVolumeMountsWithMountPathPrefix L d n []"

definition createVolumeMounts :: "lib \<Rightarrow> dogu \<Rightarrow> descriptor \<Rightarrow> volume_mount list" where
  "createVolumeMounts L d n =
     createStaticVolumeMounts L d @ createDoguJsonVolumeMountsFromDependencies n @
     [getDoguJsonVolumeMountForDogu (lib_GetSimpleName L n)] @ createDoguVolumeMounts L d n"

definition doguHasVolumesWithBackup :: "descriptor \<Rightarrow> bool" where
  "doguHasVolumesWithBackup n = list_ex v_NeedsBackup (n_Volumes n)"

definition createExporterSidecarVolumeMounts :: "lib \<Rightarrow> dogu \<Rightarrow> descriptor \<Rightarrow> volume_mount list" where
  "createExporterSidecarVolumeMounts L d n =
     \<lparr> vm_Name = importPublicKeyVolumeName, vm_ReadOnly = True, vm_MountPath = ''/root/.ssh/authorized_keys'', vm_SubPath = ''publicKey'' \<rparr> #
     (if doguHasVolumesWithBackup n
      then [\<lparr> vm_Name = lib_GetDataVolumeName L d, vm_ReadOnly = False, vm_MountPath = ''/data'', vm_SubPath = [] \<rparr>]
      else [])"

section \<open>The data volume claim\<close>

definition wrapControllerReferenceError :: "err \<Rightarrow> err" where
  "wrapControllerReferenceError e = ErrWrap ''failed to set controller reference'' e"

definition createPVC :: "lib \<Rightarrow> string \<Rightarrow> dogu \<Rightarrow> pvc res" where
  "createPVC L pvcName d =
     (case lib_GetMinDataVolumeSize L d of
        Inl e \<Rightarrow> Inl (ErrWrap ''failed to parse data volume size'' e)
      | Inr minSize \<Rightarrow>
          let size = (case t_DataVolumeSize (d_Status d) of
                        Some cur \<Rightarrow> if lib_QuantityCmp L cur minSize > 0 then cur else minSize
                      | None \<Rightarrow> minSize) in
          (case lib_SetControllerReference L d None of
             Inl e \<Rightarrow> Inl (wrapControllerReferenceError e)
           | Inr owner \<Rightarrow> Inr \<lparr> pvc_Name = pvcName, pvc_Namespace = d_Namespace d,
                pvc_Labels = smap_add GetAppLabel (lib_GetDoguNameLabel L d), pvc_Owner = owner,
                pvc_DeletionTimestamp = None, pvc_StorageClassName = s_StorageClassName (d_Spec d),
                pvc_AccessModes = [''ReadWriteOnce''], pvc_RequestStorage = size,
                pvc_CapacityStorage = Quantity ''0'' \<rparr>))"

definition CreateDoguPVC :: "lib \<Rightarrow> dogu \<Rightarrow> pvc res" where
  "CreateDoguPVC L d = createPVC L (d_Name d) d"

text \<open>
  \<^verbatim>\<open>SetCurrentDataVolumeSize\<close> sets the condition on the resource it was given and stores the size through
  \<^verbatim>\<open>UpdateStatusWithRetry\<close>; the resource is replaced by what that call returns.
\<close>

definition size_condition :: "lib \<Rightarrow> dogu \<Rightarrow> quantity \<Rightarrow> pvc option \<Rightarrow> condition" where
  "size_condition L d minDataSize claim =
     (case claim of
        Some p \<Rightarrow>
          if lib_QuantityCmp L minDataSize (pvc_CapacityStorage p) > 0
          then mk_condition ConditionMeetsMinVolumeSize ConditionFalse ''VolumeSizeNotMeetsMinDataSize''
                 ''Current VolumeSize is less then the configured minimum VolumeSize'' (d_Generation d)
          else mk_condition ConditionMeetsMinVolumeSize ConditionTrue ''ActualVolumeSizeMeetsMinDataSize''
                 ''Current VolumeSize meets the configured minimum VolumeSize'' (d_Generation d)
      | None \<Rightarrow> mk_condition ConditionMeetsMinVolumeSize ConditionTrue ''ActualVolumeSizeMeetsMinDataSize''
                 ''Current VolumeSize meets the configured minimum VolumeSize'' (d_Generation d))"

definition grow_claim :: "lib \<Rightarrow> env \<Rightarrow> pvc option \<Rightarrow> err option op" where
  "grow_claim L E claim =
     (case claim of
        None \<Rightarrow> ret None
      | Some p \<Rightarrow>
          if lib_QuantityCmp L (pvc_RequestStorage p) (pvc_CapacityStorage p) < 0
          then err_only (update_pvc E (p\<lparr> pvc_RequestStorage := pvc_CapacityStorage p \<rparr>))
          else ret None)"

definition SetCurrentDataVolumeSize :: "lib \<Rightarrow> env \<Rightarrow> dogu \<Rightarrow> pvc option \<Rightarrow> (err option \<times> dogu) op" where
  "SetCurrentDataVolumeSize L E d claim =
     (case lib_GetMinDataVolumeSize L d of
        Inl e \<Rightarrow> ret (Some e, d)
      | Inr minDataSize \<Rightarrow>
          let currentSize = (case claim of Some p \<Rightarrow> pvc_CapacityStorage p | None \<Rightarrow> minDataSize);
              d' = d\<lparr> d_Status := set_condition L (size_condition L d minDataSize claim) (d_Status d) \<rparr> in
          check_err (grow_claim L E claim) (\<lambda>e. ret (Some e, d))
            (attempt (update_dogu_status E d' (\<lambda>s. s\<lparr> t_DataVolumeSize := Some currentSize \<rparr>))
               (\<lambda>e. ret (Some e, d')) (\<lambda>d''. ret (None, d''))))"

section \<open>Validators\<close>

definition getDoguVolumeWithName :: "descriptor \<Rightarrow> string \<Rightarrow> dvolume option" where
  "getDoguVolumeWithName n v = find (\<lambda>w. v_Name w = v) (n_Volumes n)"

definition doNotRetryOnNotFoundOrNil :: "err \<Rightarrow> bool" where
  "doNotRetryOnNotFoundOrNil e = (\<not> IsNotFound e)"

definition configMapResourceGetter :: "env \<Rightarrow> string \<Rightarrow> unit res op" where
  "configMapResourceGetter E n = attempt (get_config_map E n) throw (\<lambda>_. ok ())"

definition secretResourceGetter :: "env \<Rightarrow> string \<Rightarrow> unit res op" where
  "secretResourceGetter E n = attempt (get_secret E n) throw (\<lambda>_. ok ())"

definition checkIfResourceExists :: "lib \<Rightarrow> (string \<Rightarrow> unit res op) \<Rightarrow> string \<Rightarrow> unit res op" where
  "checkIfResourceExists L getter n = retry_on (lib_RetryBound L) doNotRetryOnNotFoundOrNil (getter n)"

definition validateSource :: "lib \<Rightarrow> env \<Rightarrow> data_mount \<Rightarrow> unit res op" where
  "validateSource L E m =
     (if dm_SourceType m = DataSourceConfigMap then checkIfResourceExists L (configMapResourceGetter E) (dm_Name m)
      else if dm_SourceType m = DataSourceSecret then checkIfResourceExists L (secretResourceGetter E) (dm_Name m)
      else throw (ErrMsg ''unknown additional mount type for dogu''))"

definition validateMountVolume :: "descriptor \<Rightarrow> data_mount \<Rightarrow> err list" where
  "validateMountVolume n m =
     (case getDoguVolumeWithName n (dm_Volume m) of
        None \<Rightarrow> [ErrMsg ''volume does not exists in dogu descriptor'']
      | Some v \<Rightarrow> if v_Clients v \<noteq> [] then [ErrMsg ''volume with volumeclients is currently not supported for addtitionalMounts''] else [])"

text \<open>\<^verbatim>\<open>requeueableValidationError\<close> has the text of the error it wraps.\<close>

definition requeueableValidationError :: "err \<Rightarrow> err" where [simp]:
  "requeueableValidationError e = ErrWrap [] e"

fun validateMounts_loop :: "lib \<Rightarrow> env \<Rightarrow> descriptor \<Rightarrow> data_mount list \<Rightarrow> data_mount list \<Rightarrow> (err list) op" where
  "validateMounts_loop L E n seen [] = ret []"
| "validateMounts_loop L E n seen (m # ms) =
     (if m \<in> set seen then do {
        es \<leftarrow> validateMounts_loop L E n seen ms;
        ret (ErrMsg ''duplicate entry'' # es)
      } else do {
        r \<leftarrow> validateSource L E m;
        es \<leftarrow> validateMounts_loop L E n (m # seen) ms;
        ret (validateMountVolume n m @ (case r of Inl e \<Rightarrow> [requeueableValidationError e] | Inr _ \<Rightarrow> []) @ es)
      })"

definition ValidateAdditionalMounts :: "lib \<Rightarrow> env \<Rightarrow> descriptor \<Rightarrow> dogu \<Rightarrow> err option op" where
  "ValidateAdditionalMounts L E n d = do {
     es \<leftarrow> validateMounts_loop L E n [] (s_AdditionalMounts (d_Spec d));
     ret (errors_Join (map Some
       ((if s_AdditionalMounts (d_Spec d) \<noteq> [] \<and> getDoguVolumeWithName n ''localConfig'' = None
         then [ErrMsg ''dogu has no local config volume needed by addtional data mounts''] else []) @ es)))
   }"

definition ValidateSecurity :: "lib \<Rightarrow> descriptor \<Rightarrow> dogu \<Rightarrow> err option" where
  "ValidateSecurity L n d =
     (let descriptorErr = wrap_err ''invalid security field in dogu descriptor'' (lib_DescriptorValidateSecurity L n);
          resourceErr = wrap_err ''invalid security field in dogu resource'' (lib_ResourceValidateSecurity L d) in
      if descriptorErr \<noteq> None \<or> resourceErr \<noteq> None then errors_Join [descriptorErr, resourceErr] else None)"

section \<open>Every mount has its volume\<close>

definition mounts_covered :: "volume list \<Rightarrow> volume_mount list \<Rightarrow> bool" where
  "mounts_covered vs ms = list_all (\<lambda>m. vm_Name m \<in> set (map vol_Name vs)) ms"

lemma mounts_covered_append [simp]: "mounts_covered vs (ms @ ns) \<longleftrightarrow> mounts_covered vs ms \<and> mounts_covered vs ns"
  by (simp add: mounts_covered_def)

lemma mounts_covered_Cons:
  "mounts_covered vs (m # ms) \<longleftrightarrow> mounts_covered vs [m] \<and> mounts_covered vs ms"
  by (simp add: mounts_covered_def)

lemma mounts_covered_mono: "mounts_covered vs ms \<Longrightarrow> set vs \<subseteq> set ws \<Longrightarrow> mounts_covered ws ms"
  by (auto simp: mounts_covered_def list_all_iff)

lemma createVolumeByClient_name: "createVolumeByClient v c = Inr w \<Longrightarrow> vol_Name w = v_Name v"
  by (auto simp: createVolumeByClient_def split: sum.splits if_splits)

lemma createDoguVolumes_loop_covers:
  assumes "createDoguVolumes_loop L d created vs = (ws, [])" "v \<in> set vs"
  shows "(GetClient v doguOperatorClient \<noteq> None \<longrightarrow> v_Name v \<in> set (map vol_Name ws)) \<and>
    (GetClient v doguOperatorClient = None \<and> v_NeedsBackup v \<and> \<not> created \<longrightarrow>
       lib_GetDataVolumeName L d \<in> set (map vol_Name ws))"
  using assms
proof (induction L d created vs arbitrary: ws rule: createDoguVolumes_loop.induct)
  case (2 L d created v' vs)
  then show ?case
    by (auto split: option.splits prod.splits sum.splits if_splits simp: createVolumeByClient_name)
qed simp

lemma createDoguVolumes_covers:
  assumes "createDoguVolumes L (n_Volumes n) d = Inr ws"
  shows "list_all (\<lambda>v. vm_Name (createDoguVolumeMount L v d p) \<in>
           insert (lib_GetEphemeralDataVolumeName L d) (set (map vol_Name ws))) (n_Volumes n)"
proof -
  obtain ws' es where r: "createDoguVolumes_loop L d False (n_Volumes n) = (ws', es)" by fastforce
  with assms have "ws' = ws" "es = []"
    by (auto simp: createDoguVolumes_def errors_Join_def List.map_filter_def split: option.splits if_splits)
  with r createDoguVolumes_loop_covers [of L d False "n_Volumes n" ws] show ?thesis
    by (auto simp: list_all_iff createDoguVolumeMount_def Let_def)
qed

lemma createAdditionalDataVolumes_loop_covers:
  "createAdditionalDataVolumes_loop seen ms = (ws, []) \<Longrightarrow> m \<in> set ms \<Longrightarrow>
     dm_Name m \<in> set seen \<union> set (map vol_Name ws)"
proof (induction seen ms arbitrary: ws rule: createAdditionalDataVolumes_loop.induct)
  case (2 seen m' ms)
  then show ?case
    by (auto simp: getVolumeForDataMount_def split: prod.splits sum.splits if_splits)
qed simp

lemma createAdditionalDataVolumes_covers:
  assumes "createAdditionalDataVolumes d = Inr ws" "m \<in> set (s_AdditionalMounts (d_Spec d))"
  shows "dm_Name m \<in> set (map vol_Name ws)"
proof -
  obtain ws' es where r: "createAdditionalDataVolumes_loop [] (s_AdditionalMounts (d_Spec d)) = (ws', es)"
    by fastforce
  with assms(1) have "ws' = ws" "es = []"
    by (auto simp: createAdditionalDataVolumes_def errors_Join_def List.map_filter_def split: option.splits if_splits)
  with r assms(2) createAdditionalDataVolumes_loop_covers [of "[]"] show ?thesis by fastforce
qed

lemma CreateVolumesE:
  assumes "CreateVolumes L d n x = Inr vs"
  obtains ws as where "createDoguVolumes L (n_Volumes n) d = Inr ws" "createAdditionalDataVolumes d = Inr as"
    "vs = createStaticVolumes L d @ createDoguJsonVolumesFromDependencies n @
       [getDoguJsonVolumeForDogu (lib_GetSimpleName L n)] @ (if x then [createImporterPublicKeyVolume] else []) @ ws @ as"
  using assms by (auto simp: CreateVolumes_def Let_def split: sum.splits)

lemma static_mounts_covered:
  "CreateVolumes L d n x = Inr vs \<Longrightarrow> mounts_covered vs (createStaticDoguConfigVolumeMounts p)"
  "CreateVolumes L d n x = Inr vs \<Longrightarrow> mounts_covered vs (createStaticVolumeMounts L d)"
  by (erule CreateVolumesE; simp add: mounts_covered_def createStaticVolumeMounts_def
        createStaticDoguConfigVolumeMounts_def createStaticVolumes_def)+

lemma json_mounts_covered:
  assumes "CreateVolumes L d n x = Inr vs"
  shows "mounts_covered vs (createDoguJsonVolumeMountsFromDependencies n @
           [getDoguJsonVolumeMountForDogu (lib_GetSimpleName L n)])"
  using assms
  by (elim CreateVolumesE)
     (auto simp: mounts_covered_def list_all_iff createDoguJsonVolumeMountsFromDependencies_def
        createDoguJsonVolumesFromDependencies_def getDoguJsonVolumeMountForDogu_def
        getDoguJsonVolumeForDogu_def image_iff)

lemma dogu_mounts_covered:
  assumes "CreateVolumes L d n x = Inr vs"
  shows "mounts_covered vs (createDoguVolumeMountsWithMountPathPrefix L d n p)"
proof -
  obtain ws as where ws: "createDoguVolumes L (n_Volumes n) d = Inr ws"
    and vs: "set ws \<subseteq> set vs" "set (createStaticVolumes L d) \<subseteq> set vs"
    using assms by (elim CreateVolumesE) auto
  have "lib_GetEphemeralDataVolumeName L d \<in> set (map vol_Name (createStaticVolumes L d))"
    by (simp add: createStaticVolumes_def)
  with vs have e: "lib_GetEphemeralDataVolumeName L d \<in> set (map vol_Name vs)" by auto
  have "y \<in> set (map vol_Name vs)"
    if "y \<in> insert (lib_GetEphemeralDataVolumeName L d) (set (map vol_Name ws))" for y
    using that e vs(1) by auto
  with createDoguVolumes_covers [OF ws, of p] show ?thesis
    unfolding mounts_covered_def createDoguVolumeMountsWithMountPathPrefix_def list.pred_map comp_def
    by (rule list.pred_mono_strong)
qed

lemma additional_mounts_covered:
  assumes "CreateVolumes L d n x = Inr vs" "m \<in> set (s_AdditionalMounts (d_Spec d))"
  shows "dm_Name m \<in> set (map vol_Name vs)"
  using assms createAdditionalDataVolumes_covers by (elim CreateVolumesE) fastforce

lemma volume_mounts_covered:
  assumes "CreateVolumes L d n x = Inr vs"
  shows "mounts_covered vs (createVolumeMounts L d n)"
  using static_mounts_covered [OF assms] json_mounts_covered [OF assms] dogu_mounts_covered [OF assms]
  by (simp add: createVolumeMounts_def createDoguVolumeMounts_def mounts_covered_Cons [of _ _ "_ # _"]
      mounts_covered_Cons [of vs _ "createDoguVolumeMountsWithMountPathPrefix L d n []"])

text \<open>At most one volume refers to the claim of the dogu.\<close>

definition is_claim_volume :: "volume \<Rightarrow> bool" where
  "is_claim_volume v = (case vol_Source v of VSPersistentVolumeClaim _ \<Rightarrow> True | _ \<Rightarrow> False)"

lemma createVolumeByClient_no_claim: "createVolumeByClient v c = Inr w \<Longrightarrow> \<not> is_claim_volume w"
  by (auto simp: createVolumeByClient_def is_claim_volume_def split: sum.splits if_splits)

lemma createDoguVolumes_loop_claims:
  "createDoguVolumes_loop L d created vs = (ws, es) \<Longrightarrow>
     length (filter is_claim_volume ws) \<le> (if created then 0 else 1)"
proof (induction L d created vs arbitrary: ws es rule: createDoguVolumes_loop.induct)
  case (2 L d created v vs)
  then show ?case
    by (auto split: option.splits prod.splits sum.splits if_splits simp: createVolumeByClient_no_claim)
qed simp

lemma getVolumeForDataMount_no_claim: "getVolumeForDataMount m = Inr w \<Longrightarrow> \<not> is_claim_volume w"
  by (auto simp: getVolumeForDataMount_def is_claim_volume_def split: if_splits)

lemma createAdditionalDataVolumes_loop_no_claim:
  "createAdditionalDataVolumes_loop seen ms = (ws, es) \<Longrightarrow> filter is_claim_volume ws = []"
proof (induction seen ms arbitrary: ws es rule: createAdditionalDataVolumes_loop.induct)
  case (2 seen m ms)
  then show ?case
    by (auto split: prod.splits sum.splits if_splits simp: getVolumeForDataMount_no_claim)
       (auto simp: is_claim_volume_def)
qed simp

lemma CreateVolumes_one_claim:
  assumes "CreateVolumes L d n x = Inr vs"
  shows "length (filter is_claim_volume vs) \<le> 1"
proof -
  obtain ws as where ws: "createDoguVolumes L (n_Volumes n) d = Inr ws" and as: "createAdditionalDataVolumes d = Inr as"
    and vs: "vs = createStaticVolumes L d @ createDoguJsonVolumesFromDependencies n @
       [getDoguJsonVolumeForDogu (lib_GetSimpleName L n)] @ (if x then [createImporterPublicKeyVolume] else []) @ ws @ as"
    using assms by (elim CreateVolumesE) blast
  have "length (filter is_claim_volume ws) \<le> 1"
    using ws createDoguVolumes_loop_claims [of L d False "n_Volumes n"]
    by (auto simp: createDoguVolumes_def split: prod.splits option.splits)
  moreover have "filter is_claim_volume as = []"
    using as createAdditionalDataVolumes_loop_no_claim
    by (auto simp: createAdditionalDataVolumes_def split: prod.splits option.splits)
  moreover have "filter is_claim_volume (createStaticVolumes L d) = []"
    "filter is_claim_volume (createDoguJsonVolumesFromDependencies n) = []"
    "\<not> is_claim_volume (getDoguJsonVolumeForDogu m)" "\<not> is_claim_volume createImporterPublicKeyVolume" for m
    by (auto simp: createStaticVolumes_def createDoguJsonVolumesFromDependencies_def is_claim_volume_def
        getDoguJsonVolumeForDogu_def createImporterPublicKeyVolume_def filter_empty_conv)
  ultimately show ?thesis by (simp add: vs)
qed

end
