(* ===== verification/Annotation.thy ===== *)
theory Annotation
  imports Cluster
begin

text \<open>
  Package \<^verbatim>\<open>annotation\<close>: the annotations a dogu's Kubernetes service carries for the gateway. They are
  computed from the environment variables, labels and exposed ports of the dogu's container image.
\<close>

section \<open>Definitions\<close>

definition CesServicesAnnotation :: string where
  "CesServicesAnnotation = ''k8s-dogu-operator.cloudogu.com/ces-services''"

definition CesExposedPortAnnotation :: string where
  "CesExposedPortAnnotation = ''k8s-dogu-operator.cloudogu.com/ces-exposed-ports''"

definition serviceVarsPrefix :: string where "serviceVarsPrefix = ''SERVICE_''"

text \<open>
  \<^verbatim>\<open>SplitImagePortConfig\<close>: a port such as \<^verbatim>\<open>80/tcp\<close>; the port number is converted to 32 bits.
\<close>

definition SplitImagePortConfig :: "string \<Rightarrow> (int \<times> string) res" where
  "SplitImagePortConfig exposedPort =
     (let parts = Split CHR ''/'' exposedPort in
      case Atoi (hd parts) of
        Inl e \<Rightarrow> Inl (ErrWrap ''error parsing int'' e)
      | Inr port \<Rightarrow>
          (case parts of
             [_, protocol] \<Rightarrow> Inr (int32 port, ToUpper protocol)
           | _ \<Rightarrow> Inr (int32 port, ''TCP'')))"

definition splitEnvVariable :: "string \<Rightarrow> (string \<times> string) res" where
  "splitEnvVariable variable =
     (case SplitN2 CHR ''='' variable of
        [name, value] \<Rightarrow> Inr (name, value)
      | _ \<Rightarrow> Inl (ErrMsg ''environment variable needs to be in form NAME=VALUE''))"

fun getServiceVariablesFromEnvVariables_loop :: "string list \<Rightarrow> smap \<Rightarrow> smap res" where
  "getServiceVariablesFromEnvVariables_loop [] acc = Inr acc"
| "getServiceVariablesFromEnvVariables_loop (v # vs) acc =
     (if HasPrefix v serviceVarsPrefix then
        (case splitEnvVariable v of
           Inl e \<Rightarrow> Inl (ErrWrap ''failed to split environment variable'' e)
         | Inr (name, value) \<Rightarrow>
             getServiceVariablesFromEnvVariables_loop vs (AList.update (TrimPrefix name serviceVarsPrefix) value acc))
      else getServiceVariablesFromEnvVariables_loop vs acc)"

definition getServiceVariablesFromEnvVariables :: "string list \<Rightarrow> smap res" where
  "getServiceVariablesFromEnvVariables vs = getServiceVariablesFromEnvVariables_loop vs []"

definition getServiceVariablesFromLabels :: "smap \<Rightarrow> smap" where
  "getServiceVariablesFromLabels labels =
     fold (\<lambda>(label, value) acc.
        if HasPrefix label serviceVarsPrefix then AList.update (TrimPrefix label serviceVarsPrefix) value acc
        else acc) labels []"

definition getServiceVariables :: "image_config \<Rightarrow> smap res" where
  "getServiceVariables config =
     (case getServiceVariablesFromEnvVariables (ic_Env config) of
        Inl e \<Rightarrow> Inl (ErrWrap ''failed to get service variables from environment variables'' e)
      | Inr vars \<Rightarrow> Inr (smap_add vars (getServiceVariablesFromLabels (ic_Labels config))))"

definition hasTag :: "smap \<Rightarrow> string \<Rightarrow> string \<Rightarrow> bool" where
  "hasTag vars tagListName tag =
     (case map_of vars tagListName of
        None \<Rightarrow> False
      | Some tagList \<Rightarrow> list_ex (\<lambda>t. ToLower t = tag) (Split CHR '','' tagList))"

definition isServiceWebApp :: "int \<Rightarrow> string \<Rightarrow> smap \<Rightarrow> bool" where
  "isServiceWebApp port protocol vars =
     (if protocol \<noteq> ''TCP'' then False
      else if hasTag vars ''TAGS'' ''webapp'' then True
      else hasTag vars (Itoa port @ ''_TAGS'') ''webapp'')"

definition getValueFromServiceVariables :: "smap \<Rightarrow> int \<Rightarrow> string \<Rightarrow> string" where
  "getValueFromServiceVariables vars port variableName =
     (case map_of vars (Itoa port @ ''_'' @ variableName) of
        Some v \<Rightarrow> v
      | None \<Rightarrow> (case map_of vars variableName of Some v \<Rightarrow> v | None \<Rightarrow> []))"

definition getServiceName :: "smap \<Rightarrow> int \<Rightarrow> service \<Rightarrow> string" where
  "getServiceName vars port svc =
     (let name = getValueFromServiceVariables vars port ''NAME'' in
      if name = [] then svc_Name svc else name)"

definition getServiceLocation :: "smap \<Rightarrow> int \<Rightarrow> string \<Rightarrow> string" where
  "getServiceLocation vars port serviceName =
     (let location = getValueFromServiceVariables vars port ''LOCATION'' in
      if location = [] then CHR ''/'' # serviceName
      else if \<not> HasPrefix location ''/'' then CHR ''/'' # location else location)"

definition getServicePass :: "smap \<Rightarrow> int \<Rightarrow> string \<Rightarrow> string" where
  "getServicePass vars port serviceName =
     (let pass = getValueFromServiceVariables vars port ''PASS'' in
      if pass = [] then CHR ''/'' # serviceName
      else if \<not> HasPrefix pass ''/'' then CHR ''/'' # pass else pass)"

definition getServiceRewrite :: "smap \<Rightarrow> int \<Rightarrow> string" where
  "getServiceRewrite vars port = getValueFromServiceVariables vars port ''REWRITE''"

text \<open>The loop over the image's exposed ports, a Go map visited in the order of the list.\<close>

fun createWebAppCesServices :: "service \<Rightarrow> smap \<Rightarrow> string list \<Rightarrow> (ces_service list) res" where
  "createWebAppCesServices svc vars [] = Inr []"
| "createWebAppCesServices svc vars (exposedPort # rest) =
     (case SplitImagePortConfig exposedPort of
        Inl e \<Rightarrow> Inl (ErrWrap ''error splitting port config'' e)
      | Inr (port, protocol) \<Rightarrow>
          (if \<not> isServiceWebApp port protocol vars then createWebAppCesServices svc vars rest
           else let name = getServiceName vars port svc in
             (case createWebAppCesServices svc vars rest of
                Inl e \<Rightarrow> Inl e
              | Inr others \<Rightarrow>
                  Inr (\<lparr> cs_Name = name, cs_Port = port,
                         cs_Location = getServiceLocation vars port name,
                         cs_Pass = getServicePass vars port name,
                         cs_Rewrite = getServiceRewrite vars port \<rparr> # others))))"

definition getDefaultPortFromService :: "service \<Rightarrow> int" where
  "getDefaultPortFromService svc = (case svc_Ports svc of [] \<Rightarrow> 0 | p # _ \<Rightarrow> svp_Port p)"

definition complete_additional :: "int \<Rightarrow> ces_service \<Rightarrow> ces_service" where
  "complete_additional defaultPort s =
     s\<lparr> cs_Location := (if \<not> HasPrefix (cs_Location s) ''/'' then CHR ''/'' # cs_Location s else cs_Location s),
        cs_Pass := (if \<not> HasPrefix (cs_Pass s) ''/'' then CHR ''/'' # cs_Pass s else cs_Pass s),
        cs_Port := (if cs_Port s = 0 then defaultPort else cs_Port s) \<rparr>"

definition createAdditionalCesServices :: "lib \<Rightarrow> smap \<Rightarrow> int \<Rightarrow> (ces_service list) res" where
  "createAdditionalCesServices L vars defaultPort =
     (case map_of vars ''ADDITIONAL_SERVICES'' of
        None \<Rightarrow> Inr []
      | Some txt \<Rightarrow>
          (case lib_DecodeCesServices L txt of
             Inl e \<Rightarrow> Inl (ErrWrap ''failed to unmarshal additional services'' e)
           | Inr ss \<Rightarrow> Inr (map (complete_additional defaultPort) ss)))"

definition createCesServices :: "lib \<Rightarrow> service \<Rightarrow> image_config \<Rightarrow> smap \<Rightarrow> (ces_service list) res" where
  "createCesServices L svc config vars =
     (case createWebAppCesServices svc vars (ic_ExposedPorts config) of
        Inl e \<Rightarrow> Inl (ErrWrap ''failed to create web app ces services'' e)
      | Inr web \<Rightarrow>
          (case createAdditionalCesServices L vars (getDefaultPortFromService svc) of
             Inl e \<Rightarrow> Inl (ErrWrap ''failed to create additional ces services'' e)
           | Inr add \<Rightarrow> Inr (web @ add)))"

definition appendServiceAnnotations :: "lib \<Rightarrow> service \<Rightarrow> ces_service list \<Rightarrow> service res" where
  "appendServiceAnnotations L svc ss =
     (if length ss < 1 then Inr svc
      else case lib_EncodeCesServices L ss of
          Inl e \<Rightarrow> Inl (ErrWrap ''failed to marshal ces services'' e)
        | Inr txt \<Rightarrow> Inr (svc\<lparr> svc_Annotations := AList.update CesServicesAnnotation txt (svc_Annotations svc) \<rparr>))"

definition ces_AnnotateService :: "lib \<Rightarrow> service \<Rightarrow> image_config \<Rightarrow> service res" where
  "ces_AnnotateService L svc config =
     (case getServiceVariables config of
        Inl e \<Rightarrow> Inl (ErrWrap ''failed to get service tags'' e)
      | Inr vars \<Rightarrow>
          (case createCesServices L svc config vars of
             Inl e \<Rightarrow> Inl (ErrWrap ''failed to create ces services'' e)
           | Inr ss \<Rightarrow>
               (case appendServiceAnnotations L svc ss of
                  Inl e \<Rightarrow> Inl (ErrWrap ''failed to append annotation'' e)
                | Inr svc' \<Rightarrow> Inr svc')))"

definition parseExposedPorts :: "exposed_port list \<Rightarrow> ces_exposed_port list" where
  "parseExposedPorts eps =
     map (\<lambda>p. \<lparr> cp_Protocol = ep_Type p, cp_Port = ep_Container p, cp_TargetPort = ep_Host p \<rparr>) eps"

definition removeAnnotation :: "service \<Rightarrow> service" where
  "removeAnnotation svc = svc\<lparr> svc_Annotations := AList.delete CesExposedPortAnnotation (svc_Annotations svc) \<rparr>"

definition appendAnnotations :: "lib \<Rightarrow> service \<Rightarrow> ces_exposed_port list \<Rightarrow> service res" where
  "appendAnnotations L svc ports =
     (let svc = (if length ports < 1 \<and> smap_get (svc_Annotations svc) CesExposedPortAnnotation \<noteq> []
                 then removeAnnotation svc else svc)
      in if length ports < 1 then Inr svc
         else case lib_EncodeExposedPorts L ports of
             Inl e \<Rightarrow> Inl (ErrWrap ''failed to marshal exposed ports'' e)
           | Inr txt \<Rightarrow> Inr (svc\<lparr> svc_Annotations := AList.update CesExposedPortAnnotation txt (svc_Annotations svc) \<rparr>))"

definition port_AnnotateService :: "lib \<Rightarrow> service \<Rightarrow> descriptor \<Rightarrow> service res" where
  "port_AnnotateService L svc dogu =
     (case appendAnnotations L svc (parseExposedPorts (n_ExposedPorts dogu)) of
        Inl e \<Rightarrow> Inl (ErrWrap ''failed to append annotation'' e)
      | Inr svc' \<Rightarrow> Inr svc')"

section \<open>Properties\<close>

text \<open>Well-formed ces service: the gateway needs absolute locations and pass paths.\<close>

definition rooted :: "ces_service \<Rightarrow> bool" where
  "rooted s \<longleftrightarrow> HasPrefix (cs_Location s) ''/'' \<and> HasPrefix (cs_Pass s) ''/''"

lemma getServiceLocation_rooted: "HasPrefix (getServiceLocation vars port n) ''/''"
  by (simp add: getServiceLocation_def Let_def)

lemma getServicePass_rooted: "HasPrefix (getServicePass vars port n) ''/''"
  by (simp add: getServicePass_def Let_def)

lemma createWebAppCesServices_rooted:
  "createWebAppCesServices svc vars ports = Inr ss \<Longrightarrow> list_all rooted ss"
proof (induction ports arbitrary: ss)
  case (Cons p ports)
  then show ?case
    by (auto simp: rooted_def getServiceLocation_rooted getServicePass_rooted Let_def
        split: sum.splits prod.splits if_splits)
qed simp

lemma createAdditionalCesServices_rooted:
  "createAdditionalCesServices L vars p = Inr ss \<Longrightarrow> list_all rooted ss"
  by (auto simp: createAdditionalCesServices_def rooted_def complete_additional_def list_all_iff
      split: option.splits sum.splits)

lemma SplitImagePortConfig_range:
  "SplitImagePortConfig s = Inr (p, proto) \<Longrightarrow> - (2 ^ 31) \<le> p \<and> p < 2 ^ 31"
  using int32_range
  by (auto simp: SplitImagePortConfig_def Let_def split: sum.splits list.splits)

lemma slash_not_digit: "CHR ''/'' \<notin> set (digits_of n)"
proof (induction n rule: digits_of.induct)
  case (1 n)
  have char: "CHR ''/'' \<noteq> char_of (48 + d)" if "d < 10" for d :: nat
  proof
    assume "CHR ''/'' = char_of (48 + d)"
    then have "digit_val (CHR ''/'') = Some (int d)" using that by simp
    then show False by (simp add: digit_val_def)
  qed
  show ?case
  proof (cases "n < 10")
    case True
    then show ?thesis using char [of n] by (simp add: digits_of.simps [of n])
  next
    case False
    then show ?thesis using 1 char [of "n mod 10"] by (simp add: digits_of.simps [of n])
  qed
qed

lemma SplitImagePortConfig_print:
  assumes "n < 2 ^ 31" "CHR ''/'' \<notin> set proto"
  shows "SplitImagePortConfig (digits_of n @ ''/'' @ proto) = Inr (int n, ToUpper proto)"
    and "SplitImagePortConfig (digits_of n) = Inr (int n, ''TCP'')"
proof -
  have a: "Atoi (digits_of n) = Inr (int n)" using assms by (intro Atoi_Itoa_nonneg) simp
  have i: "int32 (int n) = int n"
    using assms int32_id [of "int n"] by simp
  show "SplitImagePortConfig (digits_of n @ ''/'' @ proto) = Inr (int n, ToUpper proto)"
    using assms a i by (simp add: SplitImagePortConfig_def Split_append Split_no_sep slash_not_digit)
  show "SplitImagePortConfig (digits_of n) = Inr (int n, ''TCP'')"
    using a i by (simp add: SplitImagePortConfig_def Split_no_sep slash_not_digit)
qed

lemma createWebApp_tcp:
  assumes "createWebAppCesServices svc vars ports = Inr ss" "s \<in> set ss"
  shows "\<exists>p \<in> set ports. SplitImagePortConfig p = Inr (cs_Port s, ''TCP'') \<and>
           isServiceWebApp (cs_Port s) ''TCP'' vars"
  using assms
proof (induction ports arbitrary: ss)
  case (Cons p ports)
  show ?case
  proof (cases "SplitImagePortConfig p")
    case (Inr pp)
    obtain port proto where pp: "pp = (port, proto)" by (cases pp)
    show ?thesis
    proof (cases "isServiceWebApp port proto vars")
      case True
      then have "proto = ''TCP''" by (auto simp: isServiceWebApp_def split: if_splits)
      with Cons True Inr pp show ?thesis
        by (auto simp: Let_def split: sum.splits)
    next
      case False
      with Cons Inr pp show ?thesis by auto
    qed
  qed (use Cons in auto)
qed simp

end
