(* ===== verification/PodSpec.thy ===== *)
theory PodSpec
  imports Volumes Annotation "HOL-Library.List_Lexorder" "HOL-Library.Char_ord"
begin

text \<open>
  The resource generator: security contexts (\<^verbatim>\<open>securityContext.go\<close>), resource requirements
  (\<^verbatim>\<open>requirementsGenerator.go\<close>), the pod template and its builder (\<^verbatim>\<open>podSpecBuilder.go\<close>), deployment and
  service (\<^verbatim>\<open>resource_generator.go\<close>).
\<close>

section \<open>Security contexts\<close>

definition getUIDAndGIDFromDogu :: "descriptor \<Rightarrow> int option \<times> int option" where
  "getUIDAndGIDFromDogu n =
     (case n_Volumes n of
        [] \<Rightarrow> (None, None)
      | v # _ \<Rightarrow>
          (case Atoi (v_Owner v) of
             Inl _ \<Rightarrow> (None, None)
           | Inr owner \<Rightarrow> (case Atoi (v_Group v) of Inl _ \<Rightarrow> (None, None) | Inr grp \<Rightarrow> (Some owner, Some grp))))"

definition fsGroupAndChangePolicy :: "descriptor \<Rightarrow> int option \<times> string option" where
  "fsGroupAndChangePolicy n =
     (case snd (getUIDAndGIDFromDogu n) of None \<Rightarrow> (None, None) | Some g \<Rightarrow> (Some g, Some ''OnRootMismatch''))"

definition seccompProfile :: "sec_profile option \<Rightarrow> sec_profile option" where
  "seccompProfile = map_option (\<lambda>p. \<lparr> sp_Type = sp_Type p, sp_LocalhostProfile = sp_LocalhostProfile p \<rparr>)"

definition appArmorProfile :: "sec_profile option \<Rightarrow> sec_profile option" where
  "appArmorProfile = map_option (\<lambda>p. \<lparr> sp_Type = sp_Type p, sp_LocalhostProfile = sp_LocalhostProfile p \<rparr>)"

definition seLinuxOptions :: "selinux_options option \<Rightarrow> selinux_options option" where
  "seLinuxOptions = map_option (\<lambda>p. \<lparr> se_User = se_User p, se_Role = se_Role p, se_Type = se_Type p, se_Level = se_Level p \<rparr>)"

definition isRunAsNonRoot :: "descriptor \<Rightarrow> dogu \<Rightarrow> bool" where
  "isRunAsNonRoot n d = (case sec_RunAsNonRoot (s_Security (d_Spec d)) of Some b \<Rightarrow> b | None \<Rightarrow> n_RunAsNonRoot n)"

definition isReadOnlyRootFS :: "descriptor \<Rightarrow> dogu \<Rightarrow> bool" where
  "isReadOnlyRootFS n d = (case sec_ReadOnlyRootFS (s_Security (d_Spec d)) of Some b \<Rightarrow> b | None \<Rightarrow> n_ReadOnlyRootFS n)"

definition effectiveCapabilities :: "lib \<Rightarrow> descriptor \<Rightarrow> dogu \<Rightarrow> string list" where
  "effectiveCapabilities L n d =
     sort (lib_CalcEffectiveCapabilities L (lib_EffectiveCapabilities L n)
             (sec_CapDrop (s_Security (d_Spec d))) (sec_CapAdd (s_Security (d_Spec d))))"

definition security_Generate :: "lib \<Rightarrow> descriptor \<Rightarrow> dogu \<Rightarrow> pod_security_context \<times> security_context" where
  "security_Generate L n d =
     (let runAsNonRoot = isRunAsNonRoot n d;
          se = seLinuxOptions (sec_SELinux (s_Security (d_Spec d)));
          aa = appArmorProfile (sec_AppArmor (s_Security (d_Spec d)));
          sc = seccompProfile (sec_Seccomp (s_Security (d_Spec d)));
          readOnlyRootFS = isReadOnlyRootFS n d;
          privileged = False;
          (fsGroup, policy) = fsGroupAndChangePolicy n in
      (\<lparr> psc_RunAsNonRoot = Some runAsNonRoot, psc_SELinux = se, psc_AppArmor = aa, psc_Seccomp = sc,
         psc_FSGroup = fsGroup, psc_FSGroupChangePolicy = policy \<rparr>,
       \<lparr> sc_RunAsUser = None, sc_RunAsGroup = None,
         sc_Capabilities = \<lparr> cap_Drop = [''ALL''], cap_Add = effectiveCapabilities L n d \<rparr>,
         sc_RunAsNonRoot = Some runAsNonRoot, sc_ReadOnlyRootFS = Some readOnlyRootFS, sc_SELinux = se,
         sc_Seccomp = sc, sc_AppArmor = aa, sc_Privileged = Some privileged \<rparr>))"

section \<open>Resource requirements\<close>

datatype resource_type = memoryType | cpuCoreType | storageType

fun resource_type_text :: "resource_type \<Rightarrow> string" where
  "resource_type_text memoryType = ''memory''"
| "resource_type_text cpuCoreType = ''cpu_core''"
| "resource_type_text storageType = ''storage''"

fun resourceTypeMapping :: "resource_type \<Rightarrow> string" where
  "resourceTypeMapping memoryType = ''memory''"
| "resourceTypeMapping cpuCoreType = ''cpu''"
| "resourceTypeMapping storageType = ''ephemeral-storage''"

definition readFromConfigOrDefault :: "lib \<Rightarrow> string \<Rightarrow> dogu_config \<Rightarrow> descriptor \<Rightarrow> string" where
  "readFromConfigOrDefault L key cfg n =
     (case lib_ConfigLookup L (cfg_Entries cfg) key of
        Some v \<Rightarrow> v
      | None \<Rightarrow> (case find (\<lambda>f. cf_Name f = key) (n_Configuration n) of Some f \<Rightarrow> cf_Default f | None \<Rightarrow> []))"

text \<open>\<^verbatim>\<open>b\<close> is dropped, \<^verbatim>\<open>k\<close>, \<^verbatim>\<open>m\<close>, \<^verbatim>\<open>g\<close> become binary units; only the first occurrence of each is replaced.\<close>

definition cesUnit_text :: "string \<Rightarrow> string" where
  "cesUnit_text u =
     Replace1 CHR ''g'' ''Gi'' (Replace1 CHR ''m'' ''Mi'' (Replace1 CHR ''k'' ''Ki'' (Replace1 CHR ''b'' [] u)))"

definition convertCesUnitToQuantity :: "lib \<Rightarrow> string \<Rightarrow> resource_type \<Rightarrow> quantity res" where
  "convertCesUnitToQuantity L cesUnit t =
     (if t = cpuCoreType then
        (case lib_ParseQuantity L cesUnit of
           Inl e \<Rightarrow> Inl (ErrWrap ''failed to convert cpu cores to quantity'' e)
         | Inr q \<Rightarrow> Inr q)
      else
        (case lib_ParseQuantity L (cesUnit_text cesUnit) of
           Inl e \<Rightarrow> Inl (ErrWrap ''failed to convert ces unit to quantity'' e)
         | Inr q \<Rightarrow> Inr q))"

definition read_quantity :: "lib \<Rightarrow> string \<Rightarrow> resource_type \<Rightarrow> (string \<times> quantity) list \<Rightarrow>
    (string \<times> quantity) list \<times> err option" where
  "read_quantity L txt t qs =
     (if txt = [] then (qs, None)
      else case convertCesUnitToQuantity L txt t of
          Inl e \<Rightarrow> (qs, Some e)
        | Inr q \<Rightarrow> (AList.update (resourceTypeMapping t) q qs, None))"

definition appendRequirementsForResourceType ::
    "lib \<Rightarrow> resource_type \<Rightarrow> requirements \<Rightarrow> dogu_config \<Rightarrow> descriptor \<Rightarrow> requirements \<times> err option" where
  "appendRequirementsForResourceType L t rq cfg n =
     (let limit = readFromConfigOrDefault L (''container_config/'' @ resource_type_text t @ ''_limit'') cfg n;
          (limits, e1) = read_quantity L limit t (rq_Limits rq);
          request = readFromConfigOrDefault L (''container_config/'' @ resource_type_text t @ ''_request'') cfg n;
          (requests, e2) = read_quantity L request t (rq_Requests rq) in
      (\<lparr> rq_Limits = limits, rq_Requests = requests \<rparr>,
       wrap_err ''errors occured while appending requirements for resource type'' (errors_Join [e1, e2])))"

text \<open>The map \<^verbatim>\<open>resourceTypeMapping\<close> is visited in some order; it only decides the order of joined errors.\<close>

fun requirements_loop :: "lib \<Rightarrow> dogu_config \<Rightarrow> descriptor \<Rightarrow> resource_type list \<Rightarrow> requirements \<Rightarrow> requirements \<times> err option list" where
  "requirements_loop L cfg n [] rq = (rq, [])"
| "requirements_loop L cfg n (t # ts) rq =
     (let (rq', e) = appendRequirementsForResourceType L t rq cfg n;
          (rq'', es) = requirements_loop L cfg n ts rq' in (rq'', e # es))"

definition requirements_Generate :: "lib \<Rightarrow> env \<Rightarrow> descriptor \<Rightarrow> requirements res op" where
  "requirements_Generate L E n =
     attempt (config_get E NormalConfig (lib_GetSimpleName L n))
       (throw_wrap ''unable to get config for dogu'')
       (\<lambda>cfg. let (rq, es) = requirements_loop L cfg n [memoryType, cpuCoreType, storageType] \<lparr> rq_Limits = [], rq_Requests = [] \<rparr> in
          case errors_Join es of
            Some e \<Rightarrow> throw_wrap ''errors occured during requirements generation'' e
          | None \<Rightarrow> ok rq)"

section \<open>Probes\<close>

definition getStartupProbeTimeout :: "lib \<Rightarrow> int" where
  "getStartupProbeTimeout L =
     (case lib_Getenv L ''DOGU_STARTUP_PROBE_TIMEOUT'' of
        None \<Rightarrow> int32 1
      | Some s \<Rightarrow> (case Atoi s of Inl _ \<Rightarrow> int32 1 | Inr n \<Rightarrow> int32 n))"

definition state_probe_command :: "string \<Rightarrow> string list" where
  "state_probe_command state =
     [''/bin/sh'', ''-c'', ''[ $(doguctl state) = '' @ [CHR 0x22] @ state @ [CHR 0x22] @ '' ]'']"

definition CreateStartupProbe :: "lib \<Rightarrow> descriptor \<Rightarrow> probe option" where
  "CreateStartupProbe L n =
     (case find (\<lambda>h. hc_Type h = ''state'') (n_HealthChecks n) of
        None \<Rightarrow> None
      | Some h \<Rightarrow> Some \<lparr> pr_Handler = ExecProbe (state_probe_command (if hc_State h \<noteq> [] then hc_State h else ''ready'')),
            pr_TimeoutSeconds = getStartupProbeTimeout L, pr_PeriodSeconds = 10, pr_SuccessThreshold = 1,
            pr_FailureThreshold = 6 * 30 \<rparr>)"

section \<open>Containers\<close>

definition hasLocalConfigVolume :: "descriptor \<Rightarrow> bool" where
  "hasLocalConfigVolume n = list_ex (\<lambda>v. v_Name v = ''localConfig'') (n_Volumes n)"

definition findVolumeByName :: "descriptor \<Rightarrow> string \<Rightarrow> dvolume res" where
  "findVolumeByName n name =
     (case find (\<lambda>v. v_Name v = name) (n_Volumes n) of
        Some v \<Rightarrow> Inr v | None \<Rightarrow> Inl (ErrMsg ''could not find volume name in dogu''))"

definition additionalMountsDoguMountDir :: string where "additionalMountsDoguMountDir = ''/dogumount''"
definition additionalMountsDataMountDir :: string where "additionalMountsDataMountDir = ''/datamount''"

fun prepareMounts_loop :: "descriptor \<Rightarrow> string list \<Rightarrow> data_mount list \<Rightarrow> (volume_mount list \<times> string list) res" where
  "prepareMounts_loop n seen [] = Inr ([], [])"
| "prepareMounts_loop n seen (m # ms) =
     (case findVolumeByName n (dm_Volume m) of
        Inl e \<Rightarrow> Inl e
      | Inr v \<Rightarrow>
          let sourcePath = path_Join [additionalMountsDataMountDir, dm_Name m];
              targetPath = path_Join [additionalMountsDoguMountDir, v_Path v, dm_Subfolder m] in
          (case prepareMounts_loop n (dm_Name m # seen) ms of
             Inl e \<Rightarrow> Inl e
           | Inr (mounts, args) \<Rightarrow>
               Inr ((if dm_Name m \<in> set seen then []
                     else [\<lparr> vm_Name = dm_Name m, vm_ReadOnly = False, vm_MountPath = sourcePath, vm_SubPath = [] \<rparr>]) @ mounts,
                    [''-source='' @ sourcePath, ''-target='' @ targetPath] @ args)))"

definition prepareAdditionalMountsAndArgs :: "lib \<Rightarrow> descriptor \<Rightarrow> dogu \<Rightarrow> (volume_mount list \<times> string list) res" where
  "prepareAdditionalMountsAndArgs L n d =
     (case prepareMounts_loop n [] (s_AdditionalMounts (d_Spec d)) of
        Inl e \<Rightarrow> Inl e
      | Inr (mounts, args) \<Rightarrow>
          Inr (mounts @ createDoguVolumeMountsWithMountPathPrefix L d n additionalMountsDoguMountDir @
                 createStaticDoguConfigVolumeMounts additionalMountsDoguMountDir,
               ''copy'' # args))"

definition unconfined :: "sec_profile option" where
  "unconfined = Some \<lparr> sp_Type = ''Unconfined'', sp_LocalhostProfile = None \<rparr>"

definition empty_selinux :: "selinux_options option" where
  "empty_selinux = Some \<lparr> se_User = [], se_Role = [], se_Type = [], se_Level = [] \<rparr>"

definition empty_container :: container where
  "empty_container = \<lparr> k_Name = [], k_Image = [], k_Command = [], k_Args = [], k_Env = [], k_VolumeMounts = [],
     k_LivenessProbe = None, k_ReadinessProbe = None, k_StartupProbe = None, k_ImagePullPolicy = [],
     k_Resources = \<lparr> rq_Limits = [], rq_Requests = [] \<rparr>, k_SecurityContext = None,
     k_TerminationMessagePath = [], k_TerminationMessagePolicy = [] \<rparr>"

definition BuildAdditionalMountInitContainer :: "lib \<Rightarrow> descriptor \<Rightarrow> dogu \<Rightarrow> string \<Rightarrow> requirements \<Rightarrow> container res" where
  "BuildAdditionalMountInitContainer L n d img rq =
     (case prepareAdditionalMountsAndArgs L n d of
        Inl e \<Rightarrow> Inl (ErrWrap ''failed to prepare additional mounts configuration'' e)
      | Inr (mounts, args) \<Rightarrow>
          let (uid, gid) = getUIDAndGIDFromDogu n in
          Inr (empty_container\<lparr> k_Name := ''dogu-additional-mounts-init'', k_Image := img, k_Args := args,
            k_VolumeMounts := mounts, k_ImagePullPolicy := ''IfNotPresent'', k_Resources := rq,
            k_TerminationMessagePath := ''/dev/termination-log'', k_TerminationMessagePolicy := ''File'',
            k_SecurityContext := Some \<lparr> sc_RunAsUser = uid, sc_RunAsGroup = gid,
              sc_Capabilities = \<lparr> cap_Drop = [''ALL''], cap_Add = [] \<rparr>, sc_RunAsNonRoot = Some False,
              sc_ReadOnlyRootFS = Some False, sc_SELinux = empty_selinux, sc_Seccomp = unconfined,
              sc_AppArmor = unconfined, sc_Privileged = None \<rparr> \<rparr>))"

definition filterVolumesWithClient :: "dvolume list \<Rightarrow> string \<Rightarrow> dvolume list" where
  "filterVolumesWithClient vs client = filter (\<lambda>v. GetClient v client = None) vs"

fun chown_commands :: "dvolume list \<Rightarrow> (string list) res" where
  "chown_commands [] = Inr []"
| "chown_commands (v # vs) =
     (case Atoi (v_Owner v) of
        Inl e \<Rightarrow> Inl (ErrWrap ''failed to parse owner id from volume'' e)
      | Inr uid \<Rightarrow>
          (case Atoi (v_Group v) of
             Inl e \<Rightarrow> Inl (ErrWrap ''failed to parse group id from volume'' e)
           | Inr gid \<Rightarrow>
               if uid \<le> 0 \<or> gid \<le> 0 then Inl (ErrMsg ''owner or group are not greater than 0'')
               else (case chown_commands vs of
                       Inl e \<Rightarrow> Inl e
                     | Inr cs \<Rightarrow> Inr ((''mkdir -p '' @ [CHR 0x22] @ v_Path v @ [CHR 0x22]) #
                         (''chown -R '' @ v_Owner v @ '':'' @ v_Group v @ '' '' @ [CHR 0x22] @ v_Path v @ [CHR 0x22]) # cs))))"

definition getChownInitContainer :: "lib \<Rightarrow> descriptor \<Rightarrow> dogu \<Rightarrow> string \<Rightarrow> requirements \<Rightarrow> (container option) res" where
  "getChownInitContainer L n d img rq =
     (if img = [] then Inr None
      else let vs = filterVolumesWithClient (n_Volumes n) doguOperatorClient in
        if vs = [] then Inr None
        else case chown_commands vs of
            Inl e \<Rightarrow> Inl e
          | Inr cs \<Rightarrow> Inr (Some (empty_container\<lparr> k_Name := ''dogu-volume-chown-init'', k_Image := img,
              k_SecurityContext := Some \<lparr> sc_RunAsUser = None, sc_RunAsGroup = None,
                sc_Capabilities = \<lparr> cap_Drop = [''ALL''], cap_Add = [''CHOWN'', ''DAC_OVERRIDE''] \<rparr>,
                sc_RunAsNonRoot = Some False, sc_ReadOnlyRootFS = Some False, sc_SELinux = empty_selinux,
                sc_Seccomp = unconfined, sc_AppArmor = unconfined, sc_Privileged = None \<rparr>,
              k_Command := [''sh'', ''-c'', Join cs '' && ''],
              k_VolumeMounts := createDoguVolumeMounts L d n, k_Resources := rq \<rparr>)))"

definition CreateExporterContainerName :: "string \<Rightarrow> string" where
  "CreateExporterContainerName n = n @ ''-exporter''"

definition getExporterContainer :: "lib \<Rightarrow> descriptor \<Rightarrow> dogu \<Rightarrow> string \<Rightarrow> container" where
  "getExporterContainer L n d img =
     empty_container\<lparr> k_Name := CreateExporterContainerName (d_Name d), k_Image := img,
       k_VolumeMounts := createExporterSidecarVolumeMounts L d n,
       k_Env := [\<lparr> ev_Name = ''DOGU_NAME'', ev_Value = EnvLiteral (lib_GetSimpleName L n) \<rparr>],
       k_SecurityContext := Some \<lparr> sc_RunAsUser = None, sc_RunAsGroup = None,
         sc_Capabilities = \<lparr> cap_Drop = [''ALL''],
            cap_Add = [''DAC_OVERRIDE'', ''SYS_CHROOT'', ''NET_BIND_SERVICE'', ''SETGID'', ''SETUID''] \<rparr>,
         sc_RunAsNonRoot = None, sc_ReadOnlyRootFS = None, sc_SELinux = empty_selinux,
         sc_Seccomp = unconfined, sc_AppArmor = unconfined, sc_Privileged = None \<rparr> \<rparr>"

section \<open>The pod template and its builder\<close>

text \<open>
  The fields of the generator the code reads: the map of additional images and the global
  \<^verbatim>\<open>config.Stage\<close>.
\<close>

record generator =
  g_AdditionalImages :: smap
  g_Stage :: string

record pod_spec_builder =
  b_Resource :: dogu
  b_Dogu :: descriptor
  b_Labels :: smap
  b_Annotations :: smap
  b_HostAliases :: "(string \<times> string list) list"
  b_Volumes :: "volume list"
  b_EnableServiceLinks :: bool
  b_ServiceAccountName :: string
  b_AutomountToken :: bool
  b_InitContainers :: "container list"
  b_SidecarContainers :: "container list"
  b_Command :: "string list"
  b_Args :: "string list"
  b_LivenessProbe :: "probe option"
  b_StartupProbe :: "probe option"
  b_PullPolicy :: string
  b_VolumeMounts :: "volume_mount list"
  b_Env :: "env_var list"
  b_Requirements :: requirements
  b_PodSecurity :: "pod_security_context option"
  b_ContainerSecurity :: "security_context option"

definition newPodSpecBuilder :: "dogu \<Rightarrow> descriptor \<Rightarrow> pod_spec_builder" where
  "newPodSpecBuilder d n = \<lparr> b_Resource = d, b_Dogu = n, b_Labels = [], b_Annotations = [], b_HostAliases = [],
     b_Volumes = [], b_EnableServiceLinks = False, b_ServiceAccountName = [], b_AutomountToken = False,
     b_InitContainers = [], b_SidecarContainers = [], b_Command = [], b_Args = [], b_LivenessProbe = None,
     b_StartupProbe = None, b_PullPolicy = [], b_VolumeMounts = [], b_Env = [],
     b_Requirements = \<lparr> rq_Limits = [], rq_Requests = [] \<rparr>, b_PodSecurity = None, b_ContainerSecurity = None \<rparr>"

definition with_labels :: "smap \<Rightarrow> pod_spec_builder \<Rightarrow> pod_spec_builder" where
  "with_labels m p = p\<lparr> b_Labels := m \<rparr>"

definition with_annotations :: "smap \<Rightarrow> pod_spec_builder \<Rightarrow> pod_spec_builder" where
  "with_annotations m p = p\<lparr> b_Annotations := m \<rparr>"

definition with_hostAliases :: "(string \<times> string list) list \<Rightarrow> pod_spec_builder \<Rightarrow> pod_spec_builder" where
  "with_hostAliases aliases p = p\<lparr> b_HostAliases := aliases \<rparr>"

definition with_volumes :: "volume list \<Rightarrow> pod_spec_builder \<Rightarrow> pod_spec_builder" where
  "with_volumes vs p = p\<lparr> b_Volumes := vs \<rparr>"

definition with_enableServiceLinks :: "bool \<Rightarrow> pod_spec_builder \<Rightarrow> pod_spec_builder" where
  "with_enableServiceLinks b p = p\<lparr> b_EnableServiceLinks := b \<rparr>"

definition initContainers :: "container option list \<Rightarrow> pod_spec_builder \<Rightarrow> pod_spec_builder" where
  "initContainers cs p = p\<lparr> b_InitContainers := b_InitContainers p @ List.map_filter id cs \<rparr>"

definition sidecarContainers :: "container option list \<Rightarrow> pod_spec_builder \<Rightarrow> pod_spec_builder" where
  "sidecarContainers cs p = p\<lparr> b_SidecarContainers := b_SidecarContainers p @ List.map_filter id cs \<rparr>"

definition containerEmptyCommandAndArgs :: "pod_spec_builder \<Rightarrow> pod_spec_builder" where
  "containerEmptyCommandAndArgs p = p\<lparr> b_Command := [], b_Args := [] \<rparr>"

definition containerLivenessProbe :: "pod_spec_builder \<Rightarrow> pod_spec_builder" where
  "containerLivenessProbe p =
     (case find (\<lambda>h. hc_Type h = ''tcp'') (n_HealthChecks (b_Dogu p)) of
        None \<Rightarrow> p
      | Some h \<Rightarrow> p\<lparr> b_LivenessProbe := Some \<lparr> pr_Handler = TCPProbe (int32 (hc_Port h)), pr_TimeoutSeconds = 1,
            pr_PeriodSeconds = 10, pr_SuccessThreshold = 1, pr_FailureThreshold = 6 * 30 \<rparr> \<rparr>)"

definition containerStartupProbe :: "lib \<Rightarrow> pod_spec_builder \<Rightarrow> pod_spec_builder" where
  "containerStartupProbe L p = p\<lparr> b_StartupProbe := CreateStartupProbe L (b_Dogu p) \<rparr>"

definition containerPullPolicy :: "string \<Rightarrow> pod_spec_builder \<Rightarrow> pod_spec_builder" where
  "containerPullPolicy stage p =
     p\<lparr> b_PullPolicy := (if stage = StageDevelopment then ''Always'' else ''IfNotPresent'') \<rparr>"

definition containerVolumeMounts :: "volume_mount list \<Rightarrow> pod_spec_builder \<Rightarrow> pod_spec_builder" where
  "containerVolumeMounts ms p = p\<lparr> b_VolumeMounts := ms \<rparr>"

definition containerEnvVars :: "env_var list \<Rightarrow> pod_spec_builder \<Rightarrow> pod_spec_builder" where
  "containerEnvVars es p = p\<lparr> b_Env := es \<rparr>"

definition containerResourceRequirements :: "requirements \<Rightarrow> pod_spec_builder \<Rightarrow> pod_spec_builder" where
  "containerResourceRequirements rq p = p\<lparr> b_Requirements := rq \<rparr>"

definition serviceAccount :: "lib \<Rightarrow> pod_spec_builder \<Rightarrow> pod_spec_builder" where
  "serviceAccount L p =
     (if list_ex (\<lambda>a. sa_Kind a = ''k8s'' \<and> sa_Type a = doguOperatorClient) (n_ServiceAccounts (b_Dogu p))
      then p\<lparr> b_ServiceAccountName := lib_GetSimpleName L (b_Dogu p), b_AutomountToken := True \<rparr> else p)"

definition securityContext :: "pod_security_context \<times> security_context \<Rightarrow> pod_spec_builder \<Rightarrow> pod_spec_builder" where
  "securityContext sc p = p\<lparr> b_PodSecurity := Some (fst sc), b_ContainerSecurity := Some (snd sc) \<rparr>"

definition buildDoguContainer :: "pod_spec_builder \<Rightarrow> container" where
  "buildDoguContainer p = empty_container\<lparr> k_Name := d_Name (b_Resource p),
     k_Image := n_Image (b_Dogu p) @ '':'' @ n_Version (b_Dogu p), k_Command := b_Command p, k_Args := b_Args p,
     k_LivenessProbe := b_LivenessProbe p, k_StartupProbe := b_StartupProbe p, k_ImagePullPolicy := b_PullPolicy p,
     k_VolumeMounts := b_VolumeMounts p, k_Env := b_Env p, k_Resources := b_Requirements p,
     k_SecurityContext := b_ContainerSecurity p \<rparr>"

definition buildContainers :: "pod_spec_builder \<Rightarrow> container list" where
  "buildContainers p = buildDoguContainer p # b_SidecarContainers p"

definition build :: "pod_spec_builder \<Rightarrow> pod_template" where
  "build p = \<lparr> p_Labels = b_Labels p, p_Annotations = b_Annotations p, p_Hostname = d_Name (b_Resource p),
     p_HostAliases = b_HostAliases p, p_ImagePullSecrets = [''ces-container-registries''],
     p_Volumes = b_Volumes p, p_EnableServiceLinks = b_EnableServiceLinks p,
     p_ServiceAccountName = b_ServiceAccountName p, p_AutomountServiceAccountToken = b_AutomountToken p,
     p_InitContainers = b_InitContainers p, p_SecurityContext = b_PodSecurity p, p_Containers = buildContainers p \<rparr>"

definition dogu_env_vars :: "dogu \<Rightarrow> env_var list" where
  "dogu_env_vars d =
     [ \<lparr> ev_Name = ''POD_NAMESPACE'', ev_Value = EnvLiteral (d_Namespace d) \<rparr>,
       \<lparr> ev_Name = ''POD_NAME'', ev_Value = EnvFieldRef ''metadata.name'' \<rparr>,
       \<lparr> ev_Name = ''ECOSYSTEM_MULTINODE'', ev_Value = EnvLiteral ''true'' \<rparr>,
       \<lparr> ev_Name = ''TZ'', ev_Value = EnvConfigMapKey operatorManagerConfigMap ''timezone'' \<rparr> ]"

definition generateInitContainers :: "lib \<Rightarrow> generator \<Rightarrow> dogu \<Rightarrow> descriptor \<Rightarrow> requirements \<Rightarrow> (container option list) res" where
  "generateInitContainers L G d n rq =
     (case getChownInitContainer L n d (smap_get (g_AdditionalImages G) ''chownInitImage'') rq of
        Inl e \<Rightarrow> Inl e
      | Inr chown \<Rightarrow>
          if hasLocalConfigVolume n then
            (case BuildAdditionalMountInitContainer L n d
                    (smap_get (g_AdditionalImages G) ''additionalMountsInitContainerImage'') rq of
               Inl e \<Rightarrow> Inl e
             | Inr c \<Rightarrow> Inr [chown, Some c])
          else Inr [chown])"

definition generateSidecarContainers :: "lib \<Rightarrow> generator \<Rightarrow> dogu \<Rightarrow> descriptor \<Rightarrow> container option list" where
  "generateSidecarContainers L G d n =
     (if s_ExportMode (d_Spec d)
      then [Some (getExporterContainer L n d (smap_get (g_AdditionalImages G) ''exporterImage''))] else [])"

definition assemblePodTemplate :: "lib \<Rightarrow> generator \<Rightarrow> dogu \<Rightarrow> descriptor \<Rightarrow> volume list \<Rightarrow> requirements \<Rightarrow>
    container option list \<Rightarrow> (string \<times> string list) list \<Rightarrow> pod_template" where
  "assemblePodTemplate L G d n vols rq inits aliases =
     (let p = newPodSpecBuilder d n;
          p = with_labels (smap_add GetAppLabel (lib_GetPodLabels L d)) p;
          p = with_annotations [(''kubectl.kubernetes.io/default-container'', d_Name d)] p;
          p = with_hostAliases aliases p;
          p = with_volumes vols p;
          p = with_enableServiceLinks False p;
          p = initContainers inits p;
          p = sidecarContainers (generateSidecarContainers L G d n) p;
          p = containerEmptyCommandAndArgs p;
          p = containerLivenessProbe p;
          p = containerStartupProbe L p;
          p = containerPullPolicy (g_Stage G) p;
          p = containerVolumeMounts (createVolumeMounts L d n) p;
          p = containerEnvVars (dogu_env_vars d) p;
          p = containerResourceRequirements rq p;
          p = serviceAccount L p;
          p = securityContext (security_Generate L n d) p in
      build p)"

definition GetPodTemplate :: "lib \<Rightarrow> env \<Rightarrow> generator \<Rightarrow> dogu \<Rightarrow> descriptor \<Rightarrow> pod_template res op" where
  "GetPodTemplate L E G d n =
     (case CreateVolumes L d n (s_ExportMode (d_Spec d)) of
        Inl e \<Rightarrow> throw e
      | Inr vols \<Rightarrow>
          attempt (requirements_Generate L E n) throw
            (\<lambda>rq. case generateInitContainers L G d n rq of
                Inl e \<Rightarrow> throw e
              | Inr inits \<Rightarrow>
                  attempt (host_aliases E) throw
                    (\<lambda>aliases. ok (assemblePodTemplate L G d n vols rq inits aliases))))"

section \<open>Deployment and service\<close>

definition empty_template :: pod_template where
  "empty_template = \<lparr> p_Labels = [], p_Annotations = [], p_Hostname = [], p_HostAliases = [],
     p_ImagePullSecrets = [], p_Volumes = [], p_EnableServiceLinks = False, p_ServiceAccountName = [],
     p_AutomountServiceAccountToken = False, p_InitContainers = [], p_SecurityContext = None, p_Containers = [] \<rparr>"

definition empty_deployment :: deployment where
  "empty_deployment = \<lparr> dep_ObjName = [], dep_ObjNamespace = [], dep_Labels = [], dep_Owner = None,
     dep_Selector = [], dep_Strategy = [], dep_Replicas = None, dep_Template = empty_template,
     dep_ProgressDeadlineSeconds = None, dep_RevisionHistoryLimit = None, dep_StatusReplicas = 0,
     dep_UpdatedReplicas = 0, dep_AvailableReplicas = 0 \<rparr>"

definition ReplicaCountStarted :: int where "ReplicaCountStarted = 1"
definition ReplicaCountStopped :: int where "ReplicaCountStopped = 0"

definition updateDeploymentSpec :: "lib \<Rightarrow> deployment \<Rightarrow> dogu \<Rightarrow> pod_template \<Rightarrow> deployment" where
  "updateDeploymentSpec L dep d tmpl = dep\<lparr> dep_Selector := lib_GetDoguNameLabel L d, dep_Strategy := ''Recreate'',
     dep_Replicas := Some (if s_Stopped (d_Spec d) then ReplicaCountStopped else ReplicaCountStarted),
     dep_Template := tmpl, dep_ProgressDeadlineSeconds := Some 600, dep_RevisionHistoryLimit := Some 10 \<rparr>"

definition updateDoguDeployment :: "lib \<Rightarrow> env \<Rightarrow> generator \<Rightarrow> deployment \<Rightarrow> dogu \<Rightarrow> descriptor \<Rightarrow> deployment res op" where
  "updateDoguDeployment L E G dep d n =
     attempt (GetPodTemplate L E G d n) throw
       (\<lambda>tmpl. let dep = dep\<lparr> dep_ObjName := d_Name d, dep_ObjNamespace := d_Namespace d,
                   dep_Labels := smap_add GetAppLabel (lib_GetDoguNameLabel L d) \<rparr>;
                 dep = updateDeploymentSpec L dep d tmpl in
          case lib_SetControllerReference L d (dep_Owner dep) of
            Inl e \<Rightarrow> throw (wrapControllerReferenceError e)
          | Inr owner \<Rightarrow> ok (dep\<lparr> dep_Owner := owner \<rparr>))"

definition UpdateDoguDeployment :: "lib \<Rightarrow> env \<Rightarrow> generator \<Rightarrow> deployment \<Rightarrow> dogu \<Rightarrow> descriptor \<Rightarrow> deployment res op" where
  "UpdateDoguDeployment L E G dep d n = updateDoguDeployment L E G dep d n"

definition CreateDoguDeployment :: "lib \<Rightarrow> env \<Rightarrow> generator \<Rightarrow> dogu \<Rightarrow> descriptor \<Rightarrow> deployment res op" where
  "CreateDoguDeployment L E G d n = updateDoguDeployment L E G empty_deployment d n"

fun service_ports :: "string list \<Rightarrow> (service_port list) res" where
  "service_ports [] = Inr []"
| "service_ports (x # xs) =
     (case SplitImagePortConfig x of
        Inl e \<Rightarrow> Inl (ErrWrap ''error splitting port config'' e)
      | Inr (port, proto) \<Rightarrow>
          (case service_ports xs of
             Inl e \<Rightarrow> Inl e
           | Inr ps \<Rightarrow> Inr (\<lparr> svp_Name = Itoa port, svp_Protocol = proto, svp_Port = port \<rparr> # ps)))"

definition CreateDoguService :: "lib \<Rightarrow> dogu \<Rightarrow> descriptor \<Rightarrow> image_config \<Rightarrow> service res" where
  "CreateDoguService L d n img =
     (let svc = \<lparr> svc_Name = d_Name d, svc_Namespace = d_Namespace d,
            svc_Labels = smap_add GetAppLabel (lib_GetDoguNameLabel L d), svc_Annotations = [], svc_Owner = None,
            svc_Type = ''ClusterIP'', svc_ClusterIP = [], svc_Selector = lib_GetDoguNameLabel L d, svc_Ports = [] \<rparr> in
      case service_ports (ic_ExposedPorts img) of
        Inl e \<Rightarrow> Inl e
      | Inr ps \<Rightarrow>
          (case ces_AnnotateService L (svc\<lparr> svc_Ports := ps \<rparr>) img of
             Inl e \<Rightarrow> Inl (ErrWrap ''failed to annotate service'' e)
           | Inr svc \<Rightarrow>
               (case port_AnnotateService L svc n of
                  Inl e \<Rightarrow> Inl (ErrWrap ''failed to annotate service with exposed ports'' e)
                | Inr svc \<Rightarrow>
                    (case lib_SetControllerReference L d None of
                       Inl e \<Rightarrow> Inl (wrapControllerReferenceError e)
                     | Inr owner \<Rightarrow> Inr (svc\<lparr> svc_Owner := owner \<rparr>)))))"

section \<open>Properties of the template\<close>

lemma GetPodTemplate_result:
  assumes "run_state (GetPodTemplate L E G d n) h = (Inr t, h')"
  obtains vols rq inits aliases where
    "CreateVolumes L d n (s_ExportMode (d_Spec d)) = Inr vols"
    "generateInitContainers L G d n rq = Inr inits"
    "t = assemblePodTemplate L G d n vols rq inits aliases"
  using assms
  by (auto simp: GetPodTemplate_def run_attempt split: sum.splits prod.splits)

lemmas builder_defs = Let_def assemblePodTemplate_def newPodSpecBuilder_def initContainers_def sidecarContainers_def
  containerEmptyCommandAndArgs_def containerLivenessProbe_def containerStartupProbe_def
  containerPullPolicy_def serviceAccount_def securityContext_def build_def buildContainers_def
  buildDoguContainer_def with_labels_def with_annotations_def with_hostAliases_def with_volumes_def
  with_enableServiceLinks_def containerVolumeMounts_def containerEnvVars_def containerResourceRequirements_def

lemma assemblePodTemplate_fields:
  "p_Volumes (assemblePodTemplate L G d n vols rq inits aliases) = vols"
  "p_InitContainers (assemblePodTemplate L G d n vols rq inits aliases) = List.map_filter id inits"
  "\<exists>c. p_Containers (assemblePodTemplate L G d n vols rq inits aliases) =
     c # List.map_filter id (generateSidecarContainers L G d n) \<and>
     k_VolumeMounts c = createVolumeMounts L d n \<and>
     k_SecurityContext c = Some (snd (security_Generate L n d)) \<and>
     k_Image c = n_Image n @ '':'' @ n_Version n \<and> k_Name c = d_Name d"
  by (simp_all add: builder_defs empty_container_def split: option.splits)

lemma prepareMounts_loop_names:
  "prepareMounts_loop n seen ms = Inr (mounts, args) \<Longrightarrow>
     set (map vm_Name mounts) \<subseteq> dm_Name ` set ms"
proof (induction n seen ms arbitrary: mounts args rule: prepareMounts_loop.induct)
  case (2 n seen m ms)
  from "2.prems" obtain v mounts' args' where v: "findVolumeByName n (dm_Volume m) = Inr v"
    and r: "prepareMounts_loop n (dm_Name m # seen) ms = Inr (mounts', args')"
    and "set (map vm_Name mounts) \<subseteq> insert (dm_Name m) (set (map vm_Name mounts'))"
    by (auto simp: Let_def split: sum.splits prod.splits if_splits)
  with "2.IH" [OF v refl refl r] show ?case by (simp only: list.set_map list.set) blast
qed simp

lemma init_container_mounts:
  assumes "generateInitContainers L G d n rq = Inr inits" "Some c \<in> set inits"
    "CreateVolumes L d n x = Inr vols"
  shows "mounts_covered vols (k_VolumeMounts c)"
proof -
  have chown: "mounts_covered vols (k_VolumeMounts c)"
    if "getChownInitContainer L n d img rq = Inr (Some c)" for img
    using that dogu_mounts_covered [OF assms(3)]
    by (auto simp: getChownInitContainer_def Let_def createDoguVolumeMounts_def split: if_splits sum.splits)
  have "mounts_covered vols (k_VolumeMounts c)"
    if "BuildAdditionalMountInitContainer L n d img rq = Inr c" for img
  proof -
    from that obtain mounts args where
      m: "prepareMounts_loop n [] (s_AdditionalMounts (d_Spec d)) = Inr (mounts, args)"
      and c: "k_VolumeMounts c = mounts @ createDoguVolumeMountsWithMountPathPrefix L d n additionalMountsDoguMountDir @
                 createStaticDoguConfigVolumeMounts additionalMountsDoguMountDir"
      by (auto simp: BuildAdditionalMountInitContainer_def prepareAdditionalMountsAndArgs_def
          split: sum.splits prod.splits)
    have "vm_Name w \<in> set (map vol_Name vols)" if "w \<in> set mounts" for w
    proof -
      from that have "vm_Name w \<in> set (map vm_Name mounts)" by simp
      with prepareMounts_loop_names [OF m] obtain dm where
        "dm \<in> set (s_AdditionalMounts (d_Spec d))" "vm_Name w = dm_Name dm" by blast
      with additional_mounts_covered [OF assms(3)] show ?thesis by simp
    qed
    then have "mounts_covered vols mounts" by (simp add: mounts_covered_def list_all_iff)
    with c dogu_mounts_covered [OF assms(3)] static_mounts_covered(1) [OF assms(3)] show ?thesis by simp
  qed
  with chown assms(1,2) show ?thesis
    by (auto simp: generateInitContainers_def split: sum.splits if_splits)
qed

lemma set_map_filter_id: "x \<in> set (List.map_filter id xs) \<longleftrightarrow> Some x \<in> set xs"
  by (auto simp: List.map_filter_def image_iff)

lemma template_mounts:
  assumes "run_state (GetPodTemplate L E G d n) h = (Inr t, h')"
  shows "list_all (\<lambda>c. mounts_covered (p_Volumes t) (k_VolumeMounts c)) (p_InitContainers t @ take 1 (p_Containers t))"
proof -
  obtain vols rq inits aliases where v: "CreateVolumes L d n (s_ExportMode (d_Spec d)) = Inr vols"
    and i: "generateInitContainers L G d n rq = Inr inits"
    and t: "t = assemblePodTemplate L G d n vols rq inits aliases"
    by (rule GetPodTemplate_result [OF assms])
  have "list_all (\<lambda>c. mounts_covered vols (k_VolumeMounts c)) (List.map_filter id inits)"
    using init_container_mounts [OF i _ v] by (simp add: list_all_iff set_map_filter_id)
  moreover obtain c where "p_Containers t = c # List.map_filter id (generateSidecarContainers L G d n)"
    "k_VolumeMounts c = createVolumeMounts L d n"
    using assemblePodTemplate_fields(3) t by blast
  ultimately show ?thesis using volume_mounts_covered [OF v] t by (simp add: assemblePodTemplate_fields)
qed

lemma exporter_mounts:
  assumes "CreateVolumes L d n True = Inr vols"
    and "\<forall>v \<in> set (n_Volumes n). v_NeedsBackup v \<longrightarrow> GetClient v doguOperatorClient = None"
  shows "mounts_covered vols (createExporterSidecarVolumeMounts L d n)"
proof -
  obtain ws as where ws: "createDoguVolumes L (n_Volumes n) d = Inr ws"
    and vs: "set ws \<subseteq> set vols" "createImporterPublicKeyVolume \<in> set vols"
    using assms(1) by (elim CreateVolumesE) auto
  have "importPublicKeyVolumeName \<in> set (map vol_Name vols)"
    using vs(2) by (force simp: createImporterPublicKeyVolume_def)
  moreover have "lib_GetDataVolumeName L d \<in> set (map vol_Name vols)" if "doguHasVolumesWithBackup n"
  proof -
    obtain ws' es where r: "createDoguVolumes_loop L d False (n_Volumes n) = (ws', es)" by fastforce
    with ws have "ws' = ws" "es = []"
      by (auto simp: createDoguVolumes_def errors_Join_def List.map_filter_def split: option.splits if_splits)
    with r that assms(2) createDoguVolumes_loop_covers [of L d False "n_Volumes n" ws] vs(1) show ?thesis
      by (fastforce simp: doguHasVolumesWithBackup_def list_ex_iff)
  qed
  ultimately show ?thesis
    by (simp add: mounts_covered_def createExporterSidecarVolumeMounts_def)
qed

text \<open>Every container of a pod drops all capabilities and none is privileged.\<close>

definition confined :: "container \<Rightarrow> bool" where
  "confined c = (case k_SecurityContext c of
     None \<Rightarrow> False
   | Some sc \<Rightarrow> cap_Drop (sc_Capabilities sc) = [''ALL''] \<and> sc_Privileged sc \<noteq> Some True)"

lemma init_container_confined:
  assumes "generateInitContainers L G d n rq = Inr inits" "Some c \<in> set inits"
  shows "confined c"
  using assms
  by (auto simp: generateInitContainers_def getChownInitContainer_def BuildAdditionalMountInitContainer_def
      Let_def confined_def split: sum.splits if_splits prod.splits)

lemma sidecar_confined: "Some c \<in> set (generateSidecarContainers L G d n) \<Longrightarrow> confined c"
  by (auto simp: generateSidecarContainers_def getExporterContainer_def confined_def split: if_splits)

lemma security_Generate_container:
  "cap_Drop (sc_Capabilities (snd (security_Generate L n d))) = [''ALL'']"
  "sc_Privileged (snd (security_Generate L n d)) = Some False"
  "cap_Add (sc_Capabilities (snd (security_Generate L n d))) = effectiveCapabilities L n d"
  by (simp_all add: security_Generate_def Let_def split: prod.splits)

lemma template_confined:
  assumes "run_state (GetPodTemplate L E G d n) h = (Inr t, h')"
  shows "list_all confined (p_InitContainers t @ p_Containers t)"
proof -
  obtain vols rq inits aliases where i: "generateInitContainers L G d n rq = Inr inits"
    and t: "t = assemblePodTemplate L G d n vols rq inits aliases"
    by (rule GetPodTemplate_result [OF assms])
  obtain c where c: "p_Containers t = c # List.map_filter id (generateSidecarContainers L G d n)"
    "k_SecurityContext c = Some (snd (security_Generate L n d))"
    using assemblePodTemplate_fields(3) t by blast
  then have "confined c" by (simp add: confined_def security_Generate_container)
  with c i t init_container_confined sidecar_confined show ?thesis
    by (auto simp: assemblePodTemplate_fields list_all_iff set_map_filter_id)
qed

text \<open>Generating a template or a deployment changes nothing outside.\<close>

lemma GetPodTemplate_reads: "calls_only (\<lambda>c. \<not> mutates c) (GetPodTemplate L E G d n)"
  unfolding GetPodTemplate_def requirements_Generate_def io_defs
  by (auto intro!: emits_rules emits_req split: prod.splits simp: Let_def)

lemma updateDoguDeployment_reads: "calls_only (\<lambda>c. \<not> mutates c) (updateDoguDeployment L E G dep d n)"
  unfolding updateDoguDeployment_def Let_def
  by (intro emits_rules GetPodTemplate_reads)

lemma chown_commands_ids:
  "chown_commands vs = Inr cs \<Longrightarrow> v \<in> set vs \<Longrightarrow>
     \<exists>uid gid. Atoi (v_Owner v) = Inr uid \<and> Atoi (v_Group v) = Inr gid \<and> 0 < uid \<and> 0 < gid"
  by (induction vs arbitrary: cs) (auto split: sum.splits if_splits)

end
