(* ===== verification/Exec.thy ===== *)
theory Exec
  imports PodSpec
begin

text \<open>
  Package \<^verbatim>\<open>exec\<close>: running commands in the pod of a dogu, the exec pod that gives access to the files of a
  dogu image, and the extraction of custom Kubernetes resources from it.
\<close>

section \<open>Commands in pods\<close>

text \<open>
  \<^verbatim>\<open>stateError\<close> has no \<^verbatim>\<open>Unwrap\<close> method. Creating the SPDY executor for a request is a function of the library, which
  may fail; streaming the command is one call to the pod.
\<close>

definition NewShellCommand :: "string \<Rightarrow> string list \<Rightarrow> shell_command" where
  "NewShellCommand command args = \<lparr> sh_Command = command, sh_Args = args, sh_Stdin = None \<rparr>"

definition NewShellCommandWithStdin :: "string \<Rightarrow> string \<Rightarrow> string list \<Rightarrow> shell_command" where
  "NewShellCommandWithStdin stdin command args = \<lparr> sh_Command = command, sh_Args = args, sh_Stdin = Some stdin \<rparr>"

definition CommandWithArgs :: "shell_command \<Rightarrow> string list" where
  "CommandWithArgs cmd = sh_Command cmd # sh_Args cmd"

text \<open>The text of a command in events and messages.\<close>

definition command_String :: "shell_command \<Rightarrow> string" where
  "command_String cmd = Join (sh_Command cmd # sh_Args cmd) '' ''"

definition getDefaultContainer :: "pod \<Rightarrow> string" where
  "getDefaultContainer p =
     (case map_of (pod_Annotations p) ''kubectl.kubernetes.io/default-container'' of Some c \<Rightarrow> c | None \<Rightarrow> [])"

definition getCreateExecRequest :: "pod \<Rightarrow> shell_command \<Rightarrow> exec_request" where
  "getCreateExecRequest p cmd = \<lparr> xr_Pod = pod_Name p, xr_Namespace = pod_Namespace p, xr_Container = getDefaultContainer p,
     xr_Command = CommandWithArgs cmd, xr_Stdin = (sh_Stdin cmd \<noteq> None) \<rparr>"

definition stateError :: "err \<Rightarrow> err" where
  "stateError e = ErrOpaque ''resource does not meet requirements for exec'' e"

definition streamCommandToPod :: "env \<Rightarrow> pod \<Rightarrow> shell_command \<Rightarrow> string res op" where
  "streamCommandToPod E p cmd =
     attempt (exec_in_pod E p cmd) (\<lambda>e. throw (stateError (ErrWrap ''error streaming command to pod'' e))) ok"

definition ExecCommandForPod :: "lib \<Rightarrow> env \<Rightarrow> pod \<Rightarrow> shell_command \<Rightarrow> string res op" where
  "ExecCommandForPod L E p cmd =
     (case lib_NewSPDYExecutor L (getCreateExecRequest p cmd) of
        Some e \<Rightarrow> throw (stateError (ErrWrap ''failed to create new spdy executor'' e))
      | None \<Rightarrow> streamCommandToPod E p cmd)"

definition ExecCommandForDogu :: "lib \<Rightarrow> env \<Rightarrow> dogu \<Rightarrow> shell_command \<Rightarrow> string res op" where
  "ExecCommandForDogu L E d cmd =
     attempt (get_dogu E (d_Name d)) (throw_wrap ''failed to get dogu'')
       (\<lambda>updatedDogu.
          if lib_ConditionIsFalse L updatedDogu ConditionHealthy then throw (ErrMsg ''dogu is not available'')
          else attempt (get_pod_for_labels E (lib_GetPodLabelsWithStatusVersion L updatedDogu))
                 (throw_wrap ''failed to get pod from dogu'')
                 (\<lambda>p. ExecCommandForPod L E p cmd))"

section \<open>The exec pod\<close>

definition execPodLabel :: string where "execPodLabel = ''k8s.cloudogu.com/execPod''"

definition execPodName :: "lib \<Rightarrow> descriptor \<Rightarrow> string" where
  "execPodName L n = lib_GetSimpleName L n @ ''-execpod''"

definition createPod :: "lib \<Rightarrow> string \<Rightarrow> dogu \<Rightarrow> descriptor \<Rightarrow> pod res" where
  "createPod L stage d n =
     (let labels = AList.update execPodLabel (lib_GetSimpleName L n) GetAppLabel;
          pullPolicy = (if stage = StageDevelopment then ''Always'' else ''IfNotPresent'');
          c = empty_container\<lparr> k_Name := execPodName L n, k_Image := n_Image n @ '':'' @ n_Version n,
                k_Command := [''/bin/sleep'', ''infinity''], k_ImagePullPolicy := pullPolicy,
                k_Resources := \<lparr> rq_Limits = [(''memory'', Quantity ''105M'')],
                  rq_Requests = [(''memory'', Quantity ''105M''), (''cpu'', Quantity ''15m'')] \<rparr> \<rparr> in
      case lib_SetControllerReference L d None of
        Inl e \<Rightarrow> Inl (ErrWrap ''failed to set controller reference to exec pod'' e)
      | Inr owner \<Rightarrow> Inr \<lparr> pod_Name = execPodName L n, pod_Namespace = d_Namespace d, pod_Labels = labels,
            pod_Annotations = [], pod_Owner = owner, pod_Containers = [c],
            pod_ImagePullSecrets = [''ces-container-registries''],
            pod_AutomountServiceAccountToken = Some False, pod_Phase = [], pod_StartTime = None,
            pod_ContainerStatuses = [] \<rparr>)"

definition execpod_getPod :: "lib \<Rightarrow> env \<Rightarrow> descriptor \<Rightarrow> pod res op" where
  "execpod_getPod L E n = get_pod E (execPodName L n)"

definition execpod_Exists :: "lib \<Rightarrow> env \<Rightarrow> descriptor \<Rightarrow> bool op" where
  "execpod_Exists L E n = do {
     r \<leftarrow> execpod_getPod L E n;
     ret (case r of Inl e \<Rightarrow> \<not> IsNotFound e | Inr _ \<Rightarrow> True)
   }"

definition execpod_Create :: "lib \<Rightarrow> env \<Rightarrow> string \<Rightarrow> dogu \<Rightarrow> descriptor \<Rightarrow> err option op" where
  "execpod_Create L E stage d n =
     (case createPod L stage d n of
        Inl e \<Rightarrow> ret (Some e)
      | Inr p \<Rightarrow> do {
          exists \<leftarrow> execpod_Exists L E n;
          if \<not> exists then err_only (create_pod E p) else ret None
        })"

definition execpod_CheckReady :: "lib \<Rightarrow> env \<Rightarrow> descriptor \<Rightarrow> err option op" where
  "execpod_CheckReady L E n =
     attempt (execpod_getPod L E n) (\<lambda>e. ret (Some (ErrWrap ''failed to get exec pod'' e)))
       (\<lambda>p. if pod_Phase p = ''Running'' then ret None else ret (Some (ErrMsg ''exec pod has status phase: not running'')))"

text \<open>
  The wait of the deprecated \<^verbatim>\<open>CreateBlocking\<close>: errors of the type \<^verbatim>\<open>TestableRetrierError\<close> are retried, a
  failed or finished pod is final.
\<close>

definition TestableRetryFunc :: "err \<Rightarrow> bool" where
  "TestableRetryFunc e = (case e of ErrWrap m _ \<Rightarrow> m = ''TestableRetrierError'' | _ \<Rightarrow> False)"

definition waitForPodToSpawn :: "lib \<Rightarrow> env \<Rightarrow> descriptor \<Rightarrow> err option op" where
  "waitForPodToSpawn L E n = do {
     r \<leftarrow> retry_on (lib_RetryBound L) TestableRetryFunc
            (attempt (execpod_getPod L E n) (throw_wrap ''TestableRetrierError'')
              (\<lambda>p. if pod_Phase p = ''Running'' then ok ()
                   else if pod_Phase p = ''Failed'' \<or> pod_Phase p = ''Succeeded''
                   then throw (ErrMsg ''quitting dogu installation because exec pod failed or did not come up in time'')
                   else throw (ErrWrap ''TestableRetrierError'' (ErrMsg ''found exec pod but with status phase''))));
     ret (wrap_err ''failed to wait for exec pod to spawn'' (err_of r))
   }"

definition execpod_CreateBlocking :: "lib \<Rightarrow> env \<Rightarrow> string \<Rightarrow> dogu \<Rightarrow> descriptor \<Rightarrow> err option op" where
  "execpod_CreateBlocking L E stage d n =
     (case createPod L stage d n of
        Inl e \<Rightarrow> ret (Some e)
      | Inr p \<Rightarrow> attempt (create_pod E p) (\<lambda>e. ret (Some e)) (\<lambda>_. waitForPodToSpawn L E n))"

definition execpod_Delete :: "lib \<Rightarrow> env \<Rightarrow> descriptor \<Rightarrow> err option op" where
  "execpod_Delete L E n =
     attempt (delete_pods E [(execPodLabel, lib_GetSimpleName L n)])
       (\<lambda>e. if \<not> IsNotFound e then ret (Some (ErrWrap ''failed to delete execPodFactory'' e)) else ret None)
       (\<lambda>_. ret None)"

definition execpod_Exec :: "lib \<Rightarrow> env \<Rightarrow> descriptor \<Rightarrow> shell_command \<Rightarrow> string res op" where
  "execpod_Exec L E n cmd =
     attempt (execpod_getPod L E n) (throw_wrap ''could not get pod'') (\<lambda>p. ExecCommandForPod L E p cmd)"

section \<open>Custom resources of a dogu image\<close>

fun extract_loop :: "lib \<Rightarrow> env \<Rightarrow> descriptor \<Rightarrow> string list \<Rightarrow> smap \<Rightarrow> smap res op" where
  "extract_loop L E n [] docs = ok docs"
| "extract_loop L E n (f # fs) docs =
     (let trimmedFile = ''/k8s/'' @ TrimSpace f in
      attempt (execpod_Exec L E n (NewShellCommand ''/bin/cat'' [trimmedFile])) throw
        (\<lambda>content. extract_loop L E n fs (AList.update trimmedFile content docs)))"

definition ExtractK8sResourcesFromExecPod :: "lib \<Rightarrow> env \<Rightarrow> descriptor \<Rightarrow> smap res op" where
  "ExtractK8sResourcesFromExecPod L E n =
     attempt (execpod_Exec L E n (NewShellCommand ''/bin/sh'' [''-c'', ''/bin/ls /k8s/ || true''])) throw
       (\<lambda>fileList.
          if fileList = [] \<or> Contains fileList ''No such file or directory'' \<or> Contains fileList ''total 0''
          then ok []
          else extract_loop L E n (Split CHR '' '' fileList) [])"

definition CollectApply :: "env \<Rightarrow> smap \<Rightarrow> dogu \<Rightarrow> err option op" where
  "CollectApply E docs d =
     (if docs = [] then ret None
      else do {
        r \<leftarrow> for_each (\<lambda>(file, yamlDocs). do {
               e \<leftarrow> err_only (apply_yaml E file yamlDocs);
               ret (map_option Some e)
             }) docs;
        ret (case r of None \<Rightarrow> None | Some e \<Rightarrow> e)
      })"

section \<open>Properties\<close>

text \<open>A listing of a directory with several files on separate lines is read as one file name.\<close>

lemma file_list_newline_not_split:
  "CHR '' '' \<notin> set a \<Longrightarrow> CHR '' '' \<notin> set b \<Longrightarrow> Split CHR '' '' (a @ CHR 0x0A # b) = [a @ CHR 0x0A # b]"
  by (rule Split_no_sep) auto

text \<open>Commands run only in a dogu that is not marked unhealthy.\<close>

lemma ExecCommandForDogu_healthy:
  assumes "run_state (ExecCommandForDogu L E d cmd) h = (Inr out, h')"
  shows "\<exists>dg p. a_GetDogu (E h) (d_Name d) = Inr dg \<and> \<not> lib_ConditionIsFalse L dg ConditionHealthy \<and>
    h' = h @ [Event (CGetDogu (d_Name d)) None, Event (CGetPodForLabels (lib_GetPodLabelsWithStatusVersion L dg)) None,
      Event (CExec p cmd) None]"
  using assms
  by (auto simp: ExecCommandForDogu_def ExecCommandForPod_def streamCommandToPod_def run_attempt io_defs run_req
      split: sum.splits if_splits prod.splits option.splits)

lemma execpod_Create_no_duplicate:
  assumes "a_GetPod (E h) (execPodName L n) = Inr p"
  shows "snd (run_state (execpod_Create L E stage d n) h) \<in>
    {h, h @ [Event (CGetPod (execPodName L n)) None]}"
  using assms
  by (auto simp: execpod_Create_def execpod_Exists_def execpod_getPod_def io_defs run_req split: sum.splits)

end
