(* ===== verification/ServiceAccount.thy ===== *)
theory ServiceAccount
  imports Exec
begin

text \<open>
  Package \<^verbatim>\<open>serviceaccount\<close>: service accounts of a dogu are created in other dogus (by a command exposed in
  their descriptor) or in components (by an HTTP call), and the credentials are kept in the sensitive
  configuration of the dogu.

  The configuration is a pointer that the functions modify; the model returns it. It is also returned
  next to an error, since the loop of \<^verbatim>\<open>RemoveAll\<close> goes on with it.
\<close>

section \<open>HTTP interface of components\<close>

definition http_success :: "http_response \<Rightarrow> bool" where
  "http_success r \<longleftrightarrow> \<not> (hs_StatusCode r < 200 \<or> hs_StatusCode r \<ge> 300)"

definition createServiceAccount :: "lib \<Rightarrow> env \<Rightarrow> string \<Rightarrow> string \<Rightarrow> string \<Rightarrow> string list \<Rightarrow> smap res op" where
  "createServiceAccount L E baseUrl apiKey consumer params =
     attempt (http_do E \<lparr> hq_Method = ''POST'', hq_URL = baseUrl, hq_ApiKey = apiKey, hq_Consumer = consumer, hq_Params = params \<rparr>)
       (throw_wrap ''error while sending request'')
       (\<lambda>resp. if \<not> http_success resp then throw (ErrMsg ''request was not successful'')
               else case lib_DecodeCredentials L (hs_Body resp) of
                   Inl e \<Rightarrow> throw_wrap ''error parsing credentials from response'' e
                 | Inr creds \<Rightarrow> ok creds)"

definition deleteServiceAccount :: "lib \<Rightarrow> env \<Rightarrow> string \<Rightarrow> string \<Rightarrow> string \<Rightarrow> err option op" where
  "deleteServiceAccount L E baseUrl apiKey consumer =
     (case lib_URLJoinPath L baseUrl consumer of
        Inl e \<Rightarrow> ret (Some (ErrWrap ''error creating url'' e))
      | Inr fullUrl \<Rightarrow>
          attempt (http_do E \<lparr> hq_Method = ''DELETE'', hq_URL = fullUrl, hq_ApiKey = apiKey, hq_Consumer = [], hq_Params = [] \<rparr>)
            (\<lambda>e. ret (Some (ErrWrap ''error while sending request'' e)))
            (\<lambda>resp. if \<not> http_success resp then ret (Some (ErrMsg ''request was not successful'')) else ret None))"

section \<open>Helpers\<close>

definition registryCredentialPath :: "service_account \<Rightarrow> string" where
  "registryCredentialPath sa = ''sa-'' @ sa_Type sa"

definition serviceAccountExists :: "string \<Rightarrow> dogu_config \<Rightarrow> bool" where
  "serviceAccountExists p cfg = list_ex (\<lambda>(k, v). HasPrefix k (p @ ''/'')) (cfg_Entries cfg)"

definition containsDependency :: "dependency list \<Rightarrow> string \<Rightarrow> bool" where
  "containsDependency deps name = list_ex (\<lambda>x. dep_Name x = name) deps"

definition isOptionalServiceAccount :: "descriptor \<Rightarrow> string \<Rightarrow> bool" where
  "isOptionalServiceAccount n sa =
     (if containsDependency (n_Dependencies n) sa then False
      else if containsDependency (n_OptionalDependencies n) sa then True else False)"

definition isCASServiceAccount :: "service_account \<Rightarrow> bool" where
  "isCASServiceAccount sa = (sa_Type sa = ''cas'')"

definition shouldSkipLegacyCASServiceAccount :: "operator_config \<Rightarrow> service_account \<Rightarrow> bool" where
  "shouldSkipLegacyCASServiceAccount C sa =
     (if \<not> isCASServiceAccount sa then False else oc_AuthRegistrationEnabled C)"

definition getExposedCommand :: "descriptor \<Rightarrow> string \<Rightarrow> exposed_command res" where
  "getExposedCommand n command =
     (case find (\<lambda>c. ec_Name c = command) (n_ExposedCommands n) of
        None \<Rightarrow> Inl (ErrMsg ''service account dogu does not expose command'')
      | Some c \<Rightarrow> Inr c)"

text \<open>
  Reading the output of the create command. \<^verbatim>\<open>bufio.Reader.ReadLine\<close> has a buffer of 4096 bytes: a longer
  line is delivered in pieces, and a carriage return at the end of a full buffer is left for the next
  piece. Every piece is treated as a line.
\<close>

definition bufferSize :: nat where "bufferSize = 4096"

function read_pieces :: "string \<Rightarrow> string list" where
  "read_pieces l =
     (if length l < bufferSize then [l]
      else let k = (if l ! (bufferSize - 1) = CHR 0x0D then bufferSize - 1 else bufferSize) in
        take k l # read_pieces (drop k l))"
  by pat_completeness auto
termination by (relation "measure length") (auto simp: bufferSize_def)

declare read_pieces.simps [simp del]

definition read_lines :: "string \<Rightarrow> string list" where
  "read_lines s = concat (map read_pieces (Split CHR 0x0A s))"

fun parse_lines :: "string list \<Rightarrow> smap \<Rightarrow> smap res" where
  "parse_lines [] acc = Inr acc"
| "parse_lines (l # ls) acc =
     (let line = TrimSpace l in
      if length line > 0 then
        (case Split CHR '':'' line of
           [k, v] \<Rightarrow> parse_lines ls (AList.update (TrimSpace k) (TrimSpace v) acc)
         | _ \<Rightarrow> Inl (ErrMsg ''invalid output from service account command on dogu''))
      else parse_lines ls acc)"

definition parseServiceCommandOutput :: "string \<Rightarrow> smap res" where
  "parseServiceCommandOutput output = parse_lines (read_lines output) []"

definition writeConfig :: "env \<Rightarrow> dogu_config \<Rightarrow> (err option \<times> dogu_config) op" where
  "writeConfig E cfg = do {
     r \<leftarrow> config_update E SensitiveConfig cfg;
     case r of
       Inr cfg' \<Rightarrow> ret (None, cfg')
     | Inl e \<Rightarrow>
         if IsConflictError e then do {
           r2 \<leftarrow> config_save_or_merge E SensitiveConfig cfg;
           case r2 of
             Inr merged \<Rightarrow> ret (None, merged)
           | Inl e2 \<Rightarrow> ret (Some (ErrWrap ''unable to save and merge sensitive config after conflict error'' e2), cfg)
         }
         else ret (Some (ErrWrap ''unable to update sensitive config'' e), cfg)
   }"

fun set_credentials :: "lib \<Rightarrow> service_account \<Rightarrow> smap \<Rightarrow> dogu_config \<Rightarrow> err option \<times> dogu_config" where
  "set_credentials L sa [] cfg = (None, cfg)"
| "set_credentials L sa ((k, v) # kvs) cfg =
     (case lib_ConfigSet L (cfg_Entries cfg) (''/sa-'' @ sa_Type sa @ ''/'' @ k) v of
        Inl e \<Rightarrow> (Some (ErrWrap ''failed to set sa value of key to sensisitive dogu config'' e), cfg)
      | Inr entries \<Rightarrow> set_credentials L sa kvs (cfg\<lparr> cfg_Entries := entries \<rparr>))"

definition writeServiceAccounts :: "lib \<Rightarrow> env \<Rightarrow> dogu_config \<Rightarrow> service_account \<Rightarrow> smap \<Rightarrow> (err option \<times> dogu_config) op" where
  "writeServiceAccounts L E cfg sa creds =
     (case set_credentials L sa creds cfg of
        (Some e, cfg') \<Rightarrow> ret (Some e, cfg')
      | (None, cfg') \<Rightarrow> do {
          (eo, cfg'') \<leftarrow> writeConfig E cfg';
          ret (wrap_err ''failed write config for dogu after updating'' eo, cfg'')
        })"

section \<open>Accounts in dogus\<close>

definition getDoguResource :: "env \<Rightarrow> string \<Rightarrow> dogu res op" where
  "getDoguResource E name = attempt (get_dogu E name) (throw_wrap ''failed to fetch dogu resource'') ok"

definition runExposedCommand :: "lib \<Rightarrow> env \<Rightarrow> string \<Rightarrow> descriptor \<Rightarrow> descriptor \<Rightarrow> service_account \<Rightarrow> string res op" where
  "runExposedCommand L E name consumer saDogu sa =
     (case getExposedCommand saDogu name of
        Inl e \<Rightarrow> throw e
      | Inr c \<Rightarrow>
          attempt (getDoguResource E (lib_GetSimpleName L saDogu)) throw
            (\<lambda>dr. attempt (ExecCommandForDogu L E dr
                     (NewShellCommand (ec_Command c) (sa_Params sa @ [lib_GetSimpleName L consumer])))
                   (throw_wrap ''failed to execute command'') ok))"

definition create_executeCommand :: "lib \<Rightarrow> env \<Rightarrow> descriptor \<Rightarrow> descriptor \<Rightarrow> service_account \<Rightarrow> smap res op" where
  "create_executeCommand L E consumer saDogu sa =
     attempt (runExposedCommand L E ''service-account-create'' consumer saDogu sa) throw
       (\<lambda>out. case parseServiceCommandOutput out of
           Inl e \<Rightarrow> throw_wrap ''failed to parse service account'' e
         | Inr creds \<Rightarrow> ok creds)"

definition sa_create :: "lib \<Rightarrow> env \<Rightarrow> descriptor \<Rightarrow> service_account \<Rightarrow> dogu_config \<Rightarrow> (err option \<times> dogu_config) op" where
  "sa_create L E n sa cfg =
     attempt (FetchInstalled E (sa_Type sa))
       (\<lambda>e. ret (Some (ErrWrap ''failed to get service account dogu.json'' e), cfg))
       (\<lambda>saDogu. attempt (create_executeCommand L E n saDogu sa)
          (\<lambda>e. ret (Some (ErrWrap ''failed to execute service account create command'' e), cfg))
          (\<lambda>creds. do {
             (eo, cfg') \<leftarrow> writeServiceAccounts L E cfg sa creds;
             ret (wrap_err ''failed to write the service account credentials'' eo, cfg')
           }))"

definition createDoguServiceAccount :: "lib \<Rightarrow> env \<Rightarrow> operator_config \<Rightarrow> descriptor \<Rightarrow> dogu_config \<Rightarrow> service_account \<Rightarrow>
    (err option \<times> dogu_config) op" where
  "createDoguServiceAccount L E C n cfg sa =
     (if shouldSkipLegacyCASServiceAccount C sa then ret (None, cfg)
      else if serviceAccountExists (registryCredentialPath sa) cfg then ret (None, cfg)
      else attempt (Enabled E (sa_Type sa))
        (\<lambda>e. ret (Some (ErrWrap ''failed to check if dogu is enabled'' e), cfg))
        (\<lambda>enabled.
           if \<not> enabled \<and> isOptionalServiceAccount n (sa_Type sa) then ret (None, cfg)
           else if \<not> enabled \<and> containsDependency (n_Dependencies n) (sa_Type sa)
           then ret (Some (ErrMsg ''service account dogu is not enabled and not optional''), cfg)
           else sa_create L E n sa cfg))"

section \<open>Accounts in components\<close>

definition getAnnotationOrDefault :: "service \<Rightarrow> string \<Rightarrow> string \<Rightarrow> string" where
  "getAnnotationOrDefault svc name dflt =
     (let v = smap_get (svc_Annotations svc) name in if v = [] then dflt else v)"

definition getServiceForLabels :: "env \<Rightarrow> string \<Rightarrow> string \<Rightarrow> service res op" where
  "getServiceForLabels E k v =
     attempt (list_services E k v) (throw_wrap ''failed to get services'')
       (\<lambda>svcs. case svcs of
           [] \<Rightarrow> throw (ErrMsg ''found no services for labelSelector'')
         | [s] \<Rightarrow> ok s
         | _ \<Rightarrow> throw (ErrMsg ''found more than one service for labelSelector''))"

definition getSaApiBaseUrl :: "service \<Rightarrow> string" where
  "getSaApiBaseUrl svc =
     ''http://'' @ svc_ClusterIP svc @ '':'' @
     getAnnotationOrDefault svc ''ces.cloudogu.com/serviceaccount-port'' ''8080'' @
     getAnnotationOrDefault svc ''ces.cloudogu.com/serviceaccount-path'' ''/serviceaccounts''"

definition readApiKeySecret :: "env \<Rightarrow> string \<Rightarrow> string \<Rightarrow> string res op" where
  "readApiKeySecret E name key =
     attempt (get_secret E name) (throw_wrap ''error reading apiKeySecret'')
       (\<lambda>s. case map_of (sct_Data s) key of
           None \<Rightarrow> throw (ErrMsg ''could not find key in secret'')
         | Some v \<Rightarrow> ok v)"

definition getApiKey :: "env \<Rightarrow> service \<Rightarrow> string res op" where
  "getApiKey E svc =
     attempt (readApiKeySecret E (getAnnotationOrDefault svc ''ces.cloudogu.com/serviceaccount-secret-name'' [])
                (getAnnotationOrDefault svc ''ces.cloudogu.com/serviceaccount-secret-key'' ''apiKey''))
       (throw_wrap ''failed to get apiKey-secret'') ok"

definition saLabelProviderSvc :: string where "saLabelProviderSvc = ''ces.cloudogu.com/serviceaccount-provider''"

definition createComponentServiceAccount :: "lib \<Rightarrow> env \<Rightarrow> descriptor \<Rightarrow> dogu_config \<Rightarrow> service_account \<Rightarrow>
    (err option \<times> dogu_config) op" where
  "createComponentServiceAccount L E n cfg sa =
     (if serviceAccountExists (registryCredentialPath sa) cfg then ret (None, cfg)
      else attempt (getServiceForLabels E saLabelProviderSvc (sa_Type sa))
        (\<lambda>e. if isOptionalServiceAccount n (sa_Type sa) then ret (None, cfg)
             else ret (Some (ErrWrap ''failed to get service'' e), cfg))
        (\<lambda>svc. attempt (getApiKey E svc)
           (\<lambda>e. ret (Some (ErrWrap ''error getting apiKey'' e), cfg))
           (\<lambda>apiKey. attempt (createServiceAccount L E (getSaApiBaseUrl svc) apiKey (lib_GetSimpleName L n) (sa_Params sa))
              (\<lambda>e. ret (Some (ErrWrap ''failed to get credetials for service account'' e), cfg))
              (\<lambda>creds. do {
                 (eo, cfg') \<leftarrow> writeServiceAccounts L E cfg sa creds;
                 ret (wrap_err ''failed to save the service account credentials'' eo, cfg')
               }))))"

section \<open>Creating all accounts\<close>

definition create_one :: "lib \<Rightarrow> env \<Rightarrow> operator_config \<Rightarrow> descriptor \<Rightarrow> dogu_config \<Rightarrow> service_account \<Rightarrow>
    (err option \<times> dogu_config) op" where
  "create_one L E C n cfg sa =
     (if sa_Kind sa = [] \<or> sa_Kind sa = ''dogu'' then do {
        (eo, cfg') \<leftarrow> createDoguServiceAccount L E C n cfg sa;
        ret (wrap_err ''unable to create service account for dogu'' eo, cfg')
      } else if sa_Kind sa = ''component'' then do {
        (eo, cfg') \<leftarrow> createComponentServiceAccount L E n cfg sa;
        ret (wrap_err ''unable to create service account for component'' eo, cfg')
      } else ret (None, cfg))"

fun createAll_loop :: "lib \<Rightarrow> env \<Rightarrow> operator_config \<Rightarrow> descriptor \<Rightarrow> dogu_config \<Rightarrow> service_account list \<Rightarrow> err option op" where
  "createAll_loop L E C n cfg [] = ret None"
| "createAll_loop L E C n cfg (sa # sas) = do {
     (eo, cfg') \<leftarrow> create_one L E C n cfg sa;
     case eo of Some e \<Rightarrow> ret (Some e) | None \<Rightarrow> createAll_loop L E C n cfg' sas
   }"

definition CreateAll :: "lib \<Rightarrow> env \<Rightarrow> operator_config \<Rightarrow> descriptor \<Rightarrow> err option op" where
  "CreateAll L E C n =
     attempt (config_get E SensitiveConfig (lib_GetSimpleName L n))
       (\<lambda>e. ret (Some (ErrWrap ''unable to get sensitive config for dogu'' e)))
       (\<lambda>cfg. createAll_loop L E C n cfg (n_ServiceAccounts n))"

section \<open>Removing accounts\<close>

definition deleteFromConfig :: "lib \<Rightarrow> env \<Rightarrow> service_account \<Rightarrow> dogu_config \<Rightarrow> (err option \<times> dogu_config) op" where
  "deleteFromConfig L E sa cfg = do {
     (eo, cfg') \<leftarrow> writeConfig E (cfg\<lparr> cfg_Entries := lib_ConfigDeleteRecursive L (cfg_Entries cfg) (registryCredentialPath sa) \<rparr>);
     ret (wrap_err ''failed write config for dogu after updating'' eo, cfg')
   }"

definition sa_delete :: "lib \<Rightarrow> env \<Rightarrow> service_account \<Rightarrow> descriptor \<Rightarrow> dogu_config \<Rightarrow> (err option \<times> dogu_config) op" where
  "sa_delete L E sa n cfg =
     attempt (FetchInstalled E (sa_Type sa))
       (\<lambda>e. ret (Some (ErrWrap ''failed to get service account dogu.json'' e), cfg))
       (\<lambda>saDogu. attempt (runExposedCommand L E ''service-account-remove'' n saDogu sa)
          (\<lambda>e. ret (Some (ErrWrap ''failed to execute service account remove command'' e), cfg))
          (\<lambda>_. deleteFromConfig L E sa cfg))"

definition removeDoguServiceAccount :: "lib \<Rightarrow> env \<Rightarrow> descriptor \<Rightarrow> service_account \<Rightarrow> dogu_config \<Rightarrow> (err option \<times> dogu_config) op" where
  "removeDoguServiceAccount L E n sa cfg =
     (if \<not> serviceAccountExists (registryCredentialPath sa) cfg then ret (None, cfg)
      else attempt (Enabled E (sa_Type sa))
        (\<lambda>e. ret (Some (ErrWrap ''failed to check if dogu is enabled'' e), cfg))
        (\<lambda>enabled. if \<not> enabled then ret (None, cfg) else sa_delete L E sa n cfg))"

definition removeComponentServiceAccount :: "lib \<Rightarrow> env \<Rightarrow> descriptor \<Rightarrow> service_account \<Rightarrow> dogu_config \<Rightarrow> (err option \<times> dogu_config) op" where
  "removeComponentServiceAccount L E n sa cfg =
     (if \<not> serviceAccountExists (registryCredentialPath sa) cfg then ret (None, cfg)
      else attempt (getServiceForLabels E saLabelProviderSvc (sa_Type sa))
        (\<lambda>e. ret (Some (ErrWrap ''failed to get service'' e), cfg))
        (\<lambda>svc. attempt (getApiKey E svc)
           (\<lambda>e. ret (Some (ErrWrap ''error getting apiKey'' e), cfg))
           (\<lambda>apiKey. check_err (deleteServiceAccount L E (getSaApiBaseUrl svc) apiKey (lib_GetSimpleName L n))
              (\<lambda>e. ret (Some (ErrWrap ''failed to remove service account'' e), cfg))
              (deleteFromConfig L E sa cfg))))"

definition remove_one :: "lib \<Rightarrow> env \<Rightarrow> descriptor \<Rightarrow> service_account \<Rightarrow> dogu_config \<Rightarrow> (err option \<times> dogu_config) op" where
  "remove_one L E n sa cfg =
     (if sa_Kind sa = [] \<or> sa_Kind sa = ''dogu'' then do {
        (eo, cfg') \<leftarrow> removeDoguServiceAccount L E n sa cfg;
        ret (wrap_err ''unable to remove service account for dogu'' eo, cfg')
      } else if sa_Kind sa = ''component'' then do {
        (eo, cfg') \<leftarrow> removeComponentServiceAccount L E n sa cfg;
        ret (wrap_err ''unable to remove service account for component'' eo, cfg')
      } else ret (None, cfg))"

fun removeAll_loop :: "(service_account \<Rightarrow> dogu_config \<Rightarrow> (err option \<times> dogu_config) op) \<Rightarrow> service_account list \<Rightarrow>
    dogu_config \<Rightarrow> (err option list) op" where
  "removeAll_loop f [] cfg = ret []"
| "removeAll_loop f (sa # sas) cfg = do {
     (eo, cfg') \<leftarrow> f sa cfg;
     rest \<leftarrow> removeAll_loop f sas cfg';
     ret (eo # rest)
   }"

definition with_sensitive_config :: "lib \<Rightarrow> env \<Rightarrow> descriptor \<Rightarrow> (dogu_config \<Rightarrow> err option op) \<Rightarrow> err option op" where
  "with_sensitive_config L E n k =
     attempt (config_get E SensitiveConfig (lib_GetSimpleName L n))
       (\<lambda>e. if IsNotFoundError e then ret None
            else ret (Some (ErrWrap ''unable to get sensitive config for dogu'' e))) k"

definition RemoveAll :: "lib \<Rightarrow> env \<Rightarrow> descriptor \<Rightarrow> err option op" where
  "RemoveAll L E n = with_sensitive_config L E n
     (\<lambda>cfg. do { es \<leftarrow> removeAll_loop (remove_one L E n) (n_ServiceAccounts n) cfg; ret (errors_Join es) })"

definition remove_component_one :: "lib \<Rightarrow> env \<Rightarrow> descriptor \<Rightarrow> service_account \<Rightarrow> dogu_config \<Rightarrow> (err option \<times> dogu_config) op" where
  "remove_component_one L E n sa cfg =
     (if sa_Kind sa = ''component'' then do {
        (eo, cfg') \<leftarrow> removeComponentServiceAccount L E n sa cfg;
        ret (wrap_err ''unable to remove service account for component'' eo, cfg')
      } else ret (None, cfg))"

definition RemoveAllFromComponents :: "lib \<Rightarrow> env \<Rightarrow> descriptor \<Rightarrow> err option op" where
  "RemoveAllFromComponents L E n = with_sensitive_config L E n
     (\<lambda>cfg. do { es \<leftarrow> removeAll_loop (remove_component_one L E n) (n_ServiceAccounts n) cfg; ret (errors_Join es) })"

section \<open>Parsing what a create command prints\<close>

text \<open>The format the commands print: one line \<^verbatim>\<open>key: value\<close> per credential.\<close>

definition print_credential :: "string \<times> string \<Rightarrow> string" where
  "print_credential kv = fst kv @ '': '' @ snd kv @ [CHR 0x0A]"

definition print_credentials :: "smap \<Rightarrow> string" where
  "print_credentials m = concat (map print_credential m)"

definition printable :: "string \<Rightarrow> bool" where
  "printable s \<longleftrightarrow> s \<noteq> [] \<and> trimmed s \<and> CHR '':'' \<notin> set s \<and> CHR 0x0A \<notin> set s"

definition printable_credential :: "string \<times> string \<Rightarrow> bool" where
  "printable_credential kv \<longleftrightarrow> printable (fst kv) \<and> printable (snd kv) \<and>
     length (fst kv) + length (snd kv) + 2 < bufferSize"

lemma read_pieces_short: "length l < bufferSize \<Longrightarrow> read_pieces l = [l]"
  by (simp add: read_pieces.simps)

lemma read_lines_Nil: "read_lines [] = [[]]"
  by (simp add: read_lines_def read_pieces_short bufferSize_def)

lemma read_lines_print:
  "list_all printable_credential m \<Longrightarrow>
     read_lines (print_credentials m) = map (\<lambda>kv. fst kv @ '': '' @ snd kv) m @ [[]]"
proof (induction m)
  case Nil
  then show ?case by (simp add: print_credentials_def read_lines_Nil)
next
  case (Cons kv m)
  let ?l = "fst kv @ '': '' @ snd kv"
  have p: "print_credentials (kv # m) = ?l @ CHR 0x0A # print_credentials m"
    by (simp add: print_credentials_def print_credential_def)
  have "CHR 0x0A \<notin> set ?l" using Cons.prems by (auto simp: printable_credential_def printable_def)
  then have "Split CHR 0x0A (print_credentials (kv # m)) = ?l # Split CHR 0x0A (print_credentials m)"
    unfolding p by (rule Split_append)
  moreover have "read_pieces ?l = [?l]"
    using Cons.prems by (intro read_pieces_short) (simp add: printable_credential_def)
  ultimately show ?case using Cons by (simp add: read_lines_def)
qed

lemma trimmed_line: "printable k \<Longrightarrow> printable v \<Longrightarrow> trimmed (k @ '': '' @ v)"
  by (auto simp: trimmed_def printable_def)

lemma TrimSpace_lead: "trimmed v \<Longrightarrow> TrimSpace (CHR '' '' # v) = v"
  using TrimSpace_pad [of v "'' ''" "[]"] by (simp add: is_space_def)

lemma parse_line:
  assumes "printable k" "printable v"
  shows "parse_lines ((k @ CHR '':'' # CHR '' '' # v) # ls) acc = parse_lines ls (AList.update k v acc)"
proof -
  have "Split CHR '':'' (k @ CHR '':'' # CHR '' '' # v) = [k, CHR '' '' # v]"
    using assms by (simp add: Split_append Split_no_sep printable_def)
  moreover have "TrimSpace (k @ '': '' @ v) = k @ CHR '':'' # CHR '' '' # v"
    using TrimSpace_trimmed [OF trimmed_line [OF assms]] by simp
  ultimately show ?thesis
    using assms by (simp add: Let_def printable_def TrimSpace_lead TrimSpace_trimmed)
qed

lemma update_fresh: "k \<notin> fst ` set acc \<Longrightarrow> AList.update k v acc = acc @ [(k, v)]"
  by (induction acc) auto

lemma parse_printed_lines:
  assumes "list_all printable_credential m" "distinct (map fst (acc @ m))"
  shows "parse_lines (map (\<lambda>kv. fst kv @ '': '' @ snd kv) m @ [[]]) acc = Inr (acc @ m)"
  using assms
proof (induction m arbitrary: acc)
  case Nil
  then show ?case by (simp add: TrimSpace_def)
next
  case (Cons kv m)
  have "AList.update (fst kv) (snd kv) acc = acc @ [kv]"
    using Cons.prems(2) by (subst update_fresh) auto
  moreover have "printable (fst kv)" "printable (snd kv)"
    using Cons.prems(1) by (simp_all add: printable_credential_def)
  moreover have "parse_lines (map (\<lambda>kv. fst kv @ '': '' @ snd kv) m @ [[]]) (acc @ [kv]) = Inr ((acc @ [kv]) @ m)"
    using Cons.prems by (intro Cons.IH) auto
  ultimately show ?case by (simp only: list.map append_Cons parse_line append_assoc append_Nil)
qed

section \<open>When credentials are written\<close>

fun writes_credentials :: "event \<Rightarrow> bool" where
  "writes_credentials (Event (CConfigUpdate SensitiveConfig _) _) = True"
| "writes_credentials (Event (CConfigSaveOrMerge SensitiveConfig _) _) = True"
| "writes_credentials _ = False"

text \<open>A successful command in another dogu or a successful HTTP call to a component.\<close>

fun account_call :: "event \<Rightarrow> bool" where
  "account_call (Event (CExec _ _) None) = True"
| "account_call (Event (CHttp _) None) = True"
| "account_call _ = False"

lemma ExecCommandForDogu_establishes: "establishes account_call writes_credentials (ExecCommandForDogu L E d cmd)"
  unfolding ExecCommandForDogu_def ExecCommandForPod_def streamCommandToPod_def io_defs req_def
  by (intro establishes_attempt establishes_if establishes_fail establishes_option establishes_then establishes_ask emits_rules) auto

lemma getDoguResource_quiet: "emits (\<lambda>e. \<not> writes_credentials e) (getDoguResource E name)"
  unfolding getDoguResource_def io_defs by (intro emits_rules; simp)

lemma runExposedCommand_establishes:
  "establishes account_call writes_credentials (runExposedCommand L E name consumer saDogu sa)"
proof (cases "getExposedCommand saDogu name")
  case (Inr c)
  have "establishes account_call writes_credentials
      (attempt (ExecCommandForDogu L E dr cmd) (throw_wrap ''failed to execute command'') ok)" for dr cmd
    by (rule establishes_then [OF ExecCommandForDogu_establishes emits_return])
  then show ?thesis
    by (simp add: runExposedCommand_def Inr) (rule establishes_attempt [OF getDoguResource_quiet], blast)
qed (simp add: runExposedCommand_def establishes_fail)

lemma registry_reads_quiet:
  "emits (\<lambda>e. \<not> writes_credentials e) (FetchInstalled E name)"
  "emits (\<lambda>e. \<not> writes_credentials e) (Enabled E name)"
  by (auto intro!: emits_rules simp: registry_defs io_defs)

lemma writeConfig_emits: "emits (\<lambda>_. True) (writeConfig E cfg)"
  unfolding writeConfig_def io_defs by (intro emits_rules TrueI)

lemma writeServiceAccounts_emits: "emits (\<lambda>_. True) (writeServiceAccounts L E cfg sa creds)"
  unfolding writeServiceAccounts_def
  by (cases "set_credentials L sa creds cfg") (auto intro!: emits_rules writeConfig_emits split: option.splits)

lemma deleteFromConfig_emits: "emits (\<lambda>_. True) (deleteFromConfig L E sa cfg)"
  unfolding deleteFromConfig_def by (intro emits_rules writeConfig_emits)

lemma createServiceAccount_establishes:
  "establishes account_call writes_credentials (createServiceAccount L E url key consumer params)"
  unfolding createServiceAccount_def io_defs req_def
  by (intro establishes_then establishes_ask) (auto intro!: emits_rules)

lemma getServiceForLabels_quiet: "emits (\<lambda>e. \<not> writes_credentials e) (getServiceForLabels E k v)"
  unfolding getServiceForLabels_def io_defs by (intro emits_rules; simp)

lemma getApiKey_quiet: "emits (\<lambda>e. \<not> writes_credentials e) (getApiKey E svc)"
  unfolding getApiKey_def readApiKeySecret_def io_defs by (intro emits_rules; simp)

lemma create_executeCommand_establishes:
  "establishes account_call writes_credentials (create_executeCommand L E n saDogu sa)"
  unfolding create_executeCommand_def
  by (intro establishes_then runExposedCommand_establishes) (auto intro!: emits_rules)

lemma createDoguServiceAccount_ordered:
  "ordered account_call writes_credentials (createDoguServiceAccount L E C n cfg sa)"
  unfolding createDoguServiceAccount_def sa_create_def
  by (intro ordered_rules ordered_attempt ordered_attempt_establishes registry_reads_quiet
      create_executeCommand_establishes emits_rules writeServiceAccounts_emits)

lemma createComponentServiceAccount_ordered:
  "ordered account_call writes_credentials (createComponentServiceAccount L E n cfg sa)"
  unfolding createComponentServiceAccount_def
  by (intro ordered_rules ordered_attempt ordered_attempt_establishes getServiceForLabels_quiet getApiKey_quiet
      createServiceAccount_establishes emits_rules writeServiceAccounts_emits)

lemma removeDoguServiceAccount_ordered:
  "ordered account_call writes_credentials (removeDoguServiceAccount L E n sa cfg)"
  unfolding removeDoguServiceAccount_def sa_delete_def
  by (intro ordered_rules ordered_attempt ordered_attempt_establishes registry_reads_quiet
      runExposedCommand_establishes emits_rules deleteFromConfig_emits)

lemma create_one_ordered: "ordered account_call writes_credentials (create_one L E C n cfg sa)"
  unfolding create_one_def
  by (intro ordered_rules ordered_bind_last createDoguServiceAccount_ordered createComponentServiceAccount_ordered
      emits_rules)

section \<open>Existing accounts are skipped\<close>

definition account_settled :: "dogu_config \<Rightarrow> service_account \<Rightarrow> bool" where
  "account_settled cfg sa \<longleftrightarrow>
     serviceAccountExists (registryCredentialPath sa) cfg \<or>
     sa_Kind sa \<notin> {[], ''dogu'', ''component''}"

lemma create_one_settled: "account_settled cfg sa \<Longrightarrow> create_one L E C n cfg sa = ret (None, cfg)"
  by (auto simp: create_one_def account_settled_def createDoguServiceAccount_def createComponentServiceAccount_def wrap_err_def)

lemma createAll_loop_settled:
  "list_all (account_settled cfg) sas \<Longrightarrow> createAll_loop L E C n cfg sas = ret None"
  by (induction sas) (simp_all add: create_one_settled)

end
