(* ===== verification/Auth.thy ===== *)
theory Auth
  imports Registry
begin

text \<open>
  Package \<^verbatim>\<open>authregistration\<close>: instead of a CAS service account a dogu gets an \<^verbatim>\<open>AuthRegistration\<close> resource;
  once another controller has completed it, the credentials of its secret are copied into the sensitive
  configuration of the dogu.
\<close>

section \<open>Parameters\<close>

definition AuthProtocolCAS :: string where "AuthProtocolCAS = ''CAS''"
definition AuthProtocolOIDC :: string where "AuthProtocolOIDC = ''OIDC''"
definition AuthProtocolOAuth :: string where "AuthProtocolOAuth = ''OAUTH''"

definition parseProtocol :: "string \<Rightarrow> string res" where
  "parseProtocol p =
     (let u = ToUpper (TrimSpace p) in
      if u = AuthProtocolCAS then Inr AuthProtocolCAS
      else if u = AuthProtocolOIDC then Inr AuthProtocolOIDC
      else if u = AuthProtocolOAuth then Inr AuthProtocolOAuth
      else Inl (ErrMsg ''unsupported protocol value''))"

definition parseLegacyCASServiceAccountParams :: "string list \<Rightarrow> (string \<times> string option) res" where
  "parseLegacyCASServiceAccountParams params =
     (if length params < 1 \<or> length params > 2
      then Inl (ErrMsg ''invalid number of CAS service account params: expected account_type [logout_uri]'')
      else let accountType = TrimSpace (params ! 0) in
        if accountType = [] then Inl (ErrMsg ''account_type must not be empty'')
        else (case parseProtocol accountType of
            Inl e \<Rightarrow> Inl e
          | Inr protocol \<Rightarrow>
              Inr (protocol,
                if length params = 2 then
                  (let uri = TrimSpace (params ! 1) in if uri \<noteq> [] then Some uri else None)
                else None)))"

definition isDoguServiceAccount :: "service_account \<Rightarrow> bool" where
  "isDoguServiceAccount sa \<longleftrightarrow> sa_Kind sa = [] \<or> sa_Kind sa = ''dogu''"

definition getCASServiceAccount :: "descriptor \<Rightarrow> service_account option" where
  "getCASServiceAccount n = find (\<lambda>sa. isDoguServiceAccount sa \<and> sa_Type sa = ''cas'') (n_ServiceAccounts n)"

definition createAuthRegistrationName :: "string \<Rightarrow> string" where
  "createAuthRegistrationName n = n @ ''-authregistration''"

section \<open>Credentials\<close>

definition ConditionCompleted :: string where "ConditionCompleted = ''Completed''"

definition hasCredentialData :: "secret \<Rightarrow> bool" where
  "hasCredentialData s = list_ex (\<lambda>(k, v). TrimSpace v \<noteq> []) (sct_Data s)"

definition credential_path :: "string \<Rightarrow> string \<Rightarrow> string" where
  "credential_path saType k = ''/sa-'' @ saType @ ''/'' @ k"

fun sync_entries :: "lib \<Rightarrow> string \<Rightarrow> smap \<Rightarrow> smap \<Rightarrow> bool \<Rightarrow> (smap \<times> bool) res" where
  "sync_entries L saType [] entries changed = Inr (entries, changed)"
| "sync_entries L saType ((k, v) # kvs) entries changed =
     (let path = credential_path saType k in
      if lib_ConfigLookup L entries path = Some v then sync_entries L saType kvs entries changed
      else case lib_ConfigSet L entries path v of
          Inl e \<Rightarrow> Inl (ErrWrap ''failed to set value for path'' e)
        | Inr entries' \<Rightarrow> sync_entries L saType kvs entries' True)"

definition writeSensitiveDoguConfig :: "env \<Rightarrow> dogu_config \<Rightarrow> err option op" where
  "writeSensitiveDoguConfig E cfg =
     attempt (config_update E SensitiveConfig cfg)
       (\<lambda>e. if IsConflictError e then
              attempt (config_save_or_merge E SensitiveConfig cfg)
                (\<lambda>e2. ret (Some (ErrWrap ''unable to save and merge sensitive config after conflict error'' e2)))
                (\<lambda>_. ret None)
            else ret (Some (ErrWrap ''unable to update sensitive config'' e)))
       (\<lambda>_. ret None)"

definition SyncCredentials :: "lib \<Rightarrow> env \<Rightarrow> auth_registration \<Rightarrow> string \<Rightarrow> string \<Rightarrow> err option op" where
  "SyncCredentials L E ar doguName saType =
     (let secretName = TrimSpace (ar_ResolvedSecretRef ar) in
      if secretName = [] then ret (Some (ErrMsg ''auth-registration has no resolved secretRef yet''))
      else if (case find_condition (ar_Conditions ar) ConditionCompleted of
                 None \<Rightarrow> True | Some c \<Rightarrow> c_Status c \<noteq> ConditionTrue)
      then ret (Some (ErrMsg ''auth-registration is not completed yet''))
      else attempt (get_secret E secretName) (\<lambda>e. ret (Some (ErrWrap ''failed to get secret'' e)))
        (\<lambda>s. if \<not> hasCredentialData s then ret (Some (ErrMsg ''auth-registration secret has no credentials yet''))
             else attempt (config_get E SensitiveConfig doguName)
               (\<lambda>e. ret (Some (ErrWrap ''failed to get sensitive dogu config'' e)))
               (\<lambda>cfg. case sync_entries L saType (sct_Data s) (cfg_Entries cfg) False of
                   Inl e \<Rightarrow> ret (Some e)
                 | Inr (entries, changed) \<Rightarrow>
                     if \<not> changed then ret None
                     else do {
                       eo \<leftarrow> writeSensitiveDoguConfig E (cfg\<lparr> cfg_Entries := entries \<rparr>);
                       ret (wrap_err ''failed to write sensitive dogu config'' eo)
                     })))"

section \<open>The manager\<close>

definition NewControllerRef :: "dogu \<Rightarrow> owner_reference" where
  "NewControllerRef d = \<lparr> or_Name = d_Name d, or_Kind = ''Dogu'', or_APIVersion = DoguAPIVersion, or_UID = d_UID d,
     or_Controller = True, or_BlockOwnerDeletion = True \<rparr>"

definition desired_auth_reg :: "dogu \<Rightarrow> string \<times> string option \<Rightarrow> auth_registration" where
  "desired_auth_reg d p = \<lparr> ar_Name = createAuthRegistrationName (d_Name d), ar_Owners = [NewControllerRef d],
     ar_Protocol = fst p, ar_Consumer = d_Name d, ar_LogoutURL = snd p, ar_ResolvedSecretRef = [], ar_Conditions = [] \<rparr>"

definition same_spec :: "auth_registration \<Rightarrow> auth_registration \<Rightarrow> bool" where
  "same_spec a b \<longleftrightarrow> ar_Protocol a = ar_Protocol b \<and> ar_Consumer a = ar_Consumer b \<and> ar_LogoutURL a = ar_LogoutURL b"

definition ensure_registration :: "env \<Rightarrow> auth_registration \<Rightarrow> auth_registration res op" where
  "ensure_registration E desired = do {
     r \<leftarrow> get_auth_reg E (ar_Name desired);
     case r of
       Inl e \<Rightarrow>
         if IsNotFound e
         then attempt (create_auth_reg E desired) (throw_wrap ''failed to create AuthRegistration'') ok
         else throw_wrap ''failed to get AuthRegistration'' e
     | Inr ar \<Rightarrow>
         if same_spec ar desired \<and> ar_Owners ar = ar_Owners desired then ok ar
         else attempt (update_auth_reg E (ar\<lparr> ar_Protocol := ar_Protocol desired, ar_Consumer := ar_Consumer desired,
                  ar_LogoutURL := ar_LogoutURL desired, ar_Owners := ar_Owners desired \<rparr>))
                (throw_wrap ''failed to update AuthRegistration'') ok
   }"

definition EnsureAuthRegistration :: "lib \<Rightarrow> env \<Rightarrow> dogu \<Rightarrow> err option op" where
  "EnsureAuthRegistration L E d =
     attempt (FetchInstalled E (lib_GetSimpleDoguName L d))
       (\<lambda>e. ret (Some (ErrWrap ''failed to fetch installed dogu descriptor'' e)))
       (\<lambda>n. case getCASServiceAccount n of
           None \<Rightarrow> ret None
         | Some sa \<Rightarrow>
             (case parseLegacyCASServiceAccountParams (sa_Params sa) of
                Inl e \<Rightarrow> ret (Some (ErrWrap ''failed to parse CAS service account parameters'' e))
              | Inr p \<Rightarrow>
                  attempt (ensure_registration E (desired_auth_reg d p)) (\<lambda>e. ret (Some e))
                    (\<lambda>ar. do {
                       eo \<leftarrow> SyncCredentials L E ar (d_Name d) (sa_Type sa);
                       ret (wrap_err ''failed to synchronize auth registration credentials into sensitive dogu config'' eo)
                     })))"

definition RemoveAuthRegistration :: "env \<Rightarrow> string \<Rightarrow> err option op" where
  "RemoveAuthRegistration E doguName =
     attempt (delete_auth_reg E (createAuthRegistrationName doguName))
       (\<lambda>e. if IsNotFound e then ret None else ret (Some (ErrWrap ''failed to delete AuthRegistration'' e)))
       (\<lambda>_. ret None)"

section \<open>Properties\<close>

text \<open>The three protocols are recognised in any case and with blanks around them, and nothing else is.\<close>

lemma parseProtocol_iff:
  "parseProtocol p = Inr q \<longleftrightarrow> q = ToUpper (TrimSpace p) \<and> q \<in> {AuthProtocolCAS, AuthProtocolOIDC, AuthProtocolOAuth}"
  by (auto simp: parseProtocol_def Let_def AuthProtocolCAS_def AuthProtocolOIDC_def AuthProtocolOAuth_def)

text \<open>
  The laws of the configuration library that synchronisation relies on: what was set is found, and
  other keys keep their values.
\<close>

definition lawful_config :: "lib \<Rightarrow> bool" where
  "lawful_config L \<longleftrightarrow>
     (\<forall>m k v m'. lib_ConfigSet L m k v = Inr m' \<longrightarrow>
        (\<forall>k'. lib_ConfigLookup L m' k' = (if k' = k then Some v else lib_ConfigLookup L m k')))"

lemma lawful_configD:
  "lawful_config L \<Longrightarrow> lib_ConfigSet L m k v = Inr m' \<Longrightarrow>
     lib_ConfigLookup L m' k' = (if k' = k then Some v else lib_ConfigLookup L m k')"
  unfolding lawful_config_def by blast

lemma credential_path_inj [simp]: "credential_path t k = credential_path t k' \<longleftrightarrow> k = k'"
  by (simp add: credential_path_def)

lemma sync_entries_keeps:
  assumes "lawful_config L" "sync_entries L saType kvs entries changed = Inr (entries', changed')"
    "path \<notin> credential_path saType ` fst ` set kvs"
  shows "lib_ConfigLookup L entries' path = lib_ConfigLookup L entries path"
  using assms(2,3)
proof (induction kvs arbitrary: entries changed)
  case (Cons kv kvs)
  obtain k v where kv: "kv = (k, v)" by (cases kv)
  with Cons show ?case
    by (auto simp: Let_def lawful_configD [OF assms(1)] split: if_splits sum.splits)
qed simp

lemma sync_entries_stores:
  assumes "lawful_config L" "sync_entries L saType kvs entries changed = Inr (entries', changed')"
    "distinct (map fst kvs)" "(k, v) \<in> set kvs"
  shows "lib_ConfigLookup L entries' (credential_path saType k) = Some v"
  using assms(2-4)
proof (induction kvs arbitrary: entries changed)
  case (Cons kv kvs)
  obtain k' v' where kv: "kv = (k', v')" by (cases kv)
  show ?case
  proof (cases "(k, v) = (k', v')")
    case True
    have fresh: "credential_path saType k \<notin> credential_path saType ` fst ` set kvs"
      using Cons.prems(2) True kv by force
    from Cons.prems(1) kv True obtain es c where
      s: "sync_entries L saType kvs es c = Inr (entries', changed')"
      and "lib_ConfigLookup L es (credential_path saType k) = Some v"
      by (auto simp: Let_def lawful_configD [OF assms(1)] split: if_splits sum.splits)
    with sync_entries_keeps [OF assms(1) s fresh] show ?thesis by simp
  next
    case False
    with Cons kv show ?thesis by (auto simp: Let_def split: if_splits sum.splits)
  qed
qed simp

lemma sync_entries_unchanged:
  "sync_entries L saType kvs entries changed = Inr (entries', False) \<Longrightarrow> entries' = entries \<and> \<not> changed"
  by (induction L saType kvs entries changed rule: sync_entries.induct)
     (auto simp: Let_def split: if_splits sum.splits)

end
