(* ===== verification/Upsert.thy ===== *)
theory Upsert
  imports PodSpec
begin

text \<open>
  \<^verbatim>\<open>resource/upserter.go\<close> and \<^verbatim>\<open>resource/networkPolicyGenerator.go\<close>: generated resources are created or
  updated in the cluster, and stale network policies are removed. The contract of an upsert is a
  locale, interpreted for every kind of resource the operator applies.
\<close>

section \<open>Update or insert\<close>

text \<open>
  The Go types of the objects that are upserted; the nil interface is \<open>None\<close>. Reflection gives the name of the type a pointer
  points to.
\<close>

datatype object_type = TDeployment | TService | TPersistentVolumeClaim | TNetworkPolicy

primrec type_name :: "object_type \<Rightarrow> string" where
  "type_name TDeployment = ''Deployment''"
| "type_name TService = ''Service''"
| "type_name TPersistentVolumeClaim = ''PersistentVolumeClaim''"
| "type_name TNetworkPolicy = ''NetworkPolicy''"

definition getTypeName :: "object_type \<Rightarrow> string" where
  "getTypeName t = ''*'' @ type_name t"

definition sameResourceTypes :: "object_type \<Rightarrow> object_type \<Rightarrow> bool \<times> string \<times> string" where
  "sameResourceTypes resourceType newResource =
     (if resourceType = newResource then (True, [], []) else (False, getTypeName resourceType, getTypeName newResource))"

text \<open>The object is given by its type and the three calls of the client for it.\<close>

definition updateOrInsert ::
    "object_type option \<Rightarrow> object_type \<Rightarrow> 'a res op \<Rightarrow> 'b res op \<Rightarrow> 'c res op \<Rightarrow> err option op" where
  "updateOrInsert resourceType upsertType get create update =
     (case resourceType of
        None \<Rightarrow> ret (Some (ErrMsg ''upsert type must be a valid pointer to an K8s resource''))
      | Some rt \<Rightarrow>
          (case sameResourceTypes rt upsertType of (same, type1, type2) \<Rightarrow>
             if \<not> same
             then ret (Some (ErrMsg (''incompatible types provided ('' @ type1 @ '' != '' @ type2 @ '')'')))
             else do {
               r \<leftarrow> get;
               case r of
                 Inl e \<Rightarrow> if \<not> IsNotFound e then ret (Some e) else err_only create
               | Inr _ \<Rightarrow> err_only update
             }))"

lemma sameResourceTypes_iff: "fst (sameResourceTypes a b) \<longleftrightarrow> a = b"
  by (simp add: sameResourceTypes_def)

lemma updateOrInsert_same:
  "updateOrInsert (Some t) t get create update = do {
     r \<leftarrow> get;
     case r of
       Inl e \<Rightarrow> if \<not> IsNotFound e then ret (Some e) else err_only create
     | Inr _ \<Rightarrow> err_only update
   }"
  by (simp add: updateOrInsert_def sameResourceTypes_def)

text \<open>With no type or another one, nothing is called.\<close>

lemma updateOrInsert_mismatch:
  assumes "rt \<noteq> Some t"
  shows "\<exists>m. run_state (updateOrInsert rt t get create update) h = (Some (ErrMsg m), h)"
  using assms by (cases rt) (auto simp: updateOrInsert_def sameResourceTypes_def)

definition upserted :: "call \<Rightarrow> call \<Rightarrow> call \<Rightarrow> err option \<Rightarrow> log \<Rightarrow> bool" where
  "upserted g c u r t \<longleftrightarrow>
     (\<exists>e. \<not> IsNotFound e \<and> r = Some e \<and> t = [Event g (Some e)]) \<or>
     (\<exists>e. IsNotFound e \<and> t = [Event g (Some e), Event c r]) \<or>
     t = [Event g None, Event u r]"

locale upsert_client =
  fixes get :: "'o \<Rightarrow> 'a res op"
    and create :: "'o \<Rightarrow> 'b res op"
    and update :: "'o \<Rightarrow> 'c res op"
    and get_call :: "'o \<Rightarrow> call"
    and create_call :: "'o \<Rightarrow> call"
    and update_call :: "'o \<Rightarrow> call"
  assumes get_logs: "spec (get x) (\<lambda>r t. t = [Event (get_call x) (err_of r)])"
    and create_logs: "spec (create x) (\<lambda>r t. t = [Event (create_call x) (err_of r)])"
    and update_logs: "spec (update x) (\<lambda>r t. t = [Event (update_call x) (err_of r)])"
begin

lemma write_logs:
  "spec (err_only (create x)) (\<lambda>r t. t = [Event (create_call x) r])"
  "spec (err_only (update x)) (\<lambda>r t. t = [Event (update_call x) r])"
  unfolding err_only_def
  by (rule spec_bind [OF create_logs], auto intro!: spec_return)
     (rule spec_bind [OF update_logs], auto intro!: spec_return)

text \<open>
  Exactly one read, then at most one write: a creation only after a not-found answer, an update only
  of an object that exists, and no write at all after any other error.
\<close>

lemma upsert_spec:
  "spec (updateOrInsert (Some ty) ty (get x) (create x) (update x)) (upserted (get_call x) (create_call x) (update_call x))"
  unfolding updateOrInsert_same
proof (rule spec_bind [OF get_logs])
  fix r t
  assume t: "t = [Event (get_call x) (err_of r)]"
  show "spec (case r of Inl e \<Rightarrow> if \<not> IsNotFound e then ret (Some e) else err_only (create x)
          | Inr _ \<Rightarrow> err_only (update x))
      (\<lambda>r t'. upserted (get_call x) (create_call x) (update_call x) r (t @ t'))"
    by (cases r) (auto simp: t upserted_def intro!: spec_return spec_conseq [OF write_logs(1)] spec_conseq [OF write_logs(2)])
qed

end

text \<open>Deployments and services are looked up by the name of the dogu.\<close>

interpretation deployment_upsert: upsert_client
  "\<lambda>x. get_deployment E (fst x)" "\<lambda>x. create_deployment E (snd x)" "\<lambda>x. update_deployment E (snd x)"
  "\<lambda>x. CGetDeployment (fst x)" "\<lambda>x. CCreateDeployment (snd x)" "\<lambda>x. CUpdateDeployment (snd x)" for E
  by unfold_locales (simp_all only: io_defs req_logs)

interpretation service_upsert: upsert_client
  "\<lambda>x. get_service E (fst x)" "\<lambda>x. create_service E (snd x)" "\<lambda>x. update_service E (snd x)"
  "\<lambda>x. CGetService (fst x)" "\<lambda>x. CCreateService (snd x)" "\<lambda>x. CUpdateService (snd x)" for E
  by unfold_locales (simp_all only: io_defs req_logs)

interpretation pvc_upsert: upsert_client
  "\<lambda>p. get_pvc E (pvc_Name p)" "create_pvc E" "update_pvc E"
  "\<lambda>p. CGetPVC (pvc_Name p)" CCreatePVC CUpdatePVC for E
  by unfold_locales (simp_all only: io_defs req_logs)

interpretation netpol_upsert: upsert_client
  "\<lambda>p. get_netpol E (np_Name p)" "create_netpol E" "update_netpol E"
  "\<lambda>p. CGetNetPol (np_Name p)" CCreateNetPol CUpdateNetPol for E
  by unfold_locales (simp_all only: io_defs req_logs)

section \<open>Deployment, service and volume claim\<close>

definition UpsertDoguDeployment :: "lib \<Rightarrow> env \<Rightarrow> generator \<Rightarrow> dogu \<Rightarrow> descriptor \<Rightarrow>
    (deployment \<Rightarrow> deployment) option \<Rightarrow> deployment res op" where
  "UpsertDoguDeployment L E G d n patch =
     attempt (CreateDoguDeployment L E G d n) (throw_wrap ''failed to generate deployment'')
       (\<lambda>dep. let newDeployment = (case patch of None \<Rightarrow> dep | Some f \<Rightarrow> f dep) in
          check_err (updateOrInsert (Some TDeployment) TDeployment (get_deployment E (d_Name d)) (create_deployment E newDeployment)
                       (update_deployment E newDeployment))
            throw (ok newDeployment))"

definition UpsertDoguService :: "lib \<Rightarrow> env \<Rightarrow> dogu \<Rightarrow> descriptor \<Rightarrow> image_config \<Rightarrow> service res op" where
  "UpsertDoguService L E d n img =
     (case CreateDoguService L d n img of
        Inl e \<Rightarrow> throw_wrap ''failed to generate service'' e
      | Inr svc \<Rightarrow>
          check_err (updateOrInsert (Some TService) TService (get_service E (d_Name d)) (create_service E svc) (update_service E svc))
            throw (ok svc))"

definition needsPVCs :: "descriptor \<Rightarrow> bool" where
  "needsPVCs n = list_ex v_NeedsBackup (n_Volumes n)"

text \<open>\<^verbatim>\<open>pvcRetry\<close> looks for a phrase in the text of the error: the messages of the chain.\<close>

fun err_texts :: "err \<Rightarrow> string list" where
  "err_texts (ErrApi _ m) = [m]"
| "err_texts (ErrReg _ m) = [m]"
| "err_texts (ErrMsg m) = [m]"
| "err_texts (ErrWrap m e) = m # err_texts e"
| "err_texts (ErrOpaque m e) = m # err_texts e"
| "err_texts (ErrPanic m) = [m]"
| "err_texts (ErrJoin es) = concat (map err_texts es)"

definition pvcRetry :: "err \<Rightarrow> bool" where
  "pvcRetry e = (\<not> list_ex (\<lambda>m. Contains m ''failed to get pvc'') (err_texts e))"

definition maximumTriesWaitForExistingPVC :: nat where "maximumTriesWaitForExistingPVC = 25"

definition waitForExistingPVCToBeTerminated :: "env \<Rightarrow> string \<Rightarrow> err option op" where
  "waitForExistingPVCToBeTerminated E key =
     err_only (retry_on (maximumTriesWaitForExistingPVC - 1) pvcRetry
       (attempt (get_pvc E key)
          (\<lambda>e. if IsNotFound e then ok () else throw_wrap ''failed to get pvc'' e)
          (\<lambda>_. throw (ErrMsg ''pvc still exists''))))"

definition upsertPVC :: "env \<Rightarrow> pvc \<Rightarrow> err option op" where
  "upsertPVC E p =
     attempt (get_pvc E (pvc_Name p))
       (\<lambda>e. if IsNotFound e
            then updateOrInsert (Some TPersistentVolumeClaim) TPersistentVolumeClaim (get_pvc E (pvc_Name p)) (create_pvc E p) (update_pvc E p)
            else ret (Some (ErrWrap ''failed to get pvc'' e)))
       (\<lambda>actual.
          if pvc_DeletionTimestamp actual \<noteq> None then
            check_err (waitForExistingPVCToBeTerminated E (pvc_Name p))
              (\<lambda>e. ret (Some (ErrWrap ''failed to wait for existing pvc to terminate'' e)))
              (updateOrInsert (Some TPersistentVolumeClaim) TPersistentVolumeClaim (get_pvc E (pvc_Name p)) (create_pvc E p) (update_pvc E p))
          else ret None)"

definition UpsertDoguPVCs :: "lib \<Rightarrow> env \<Rightarrow> dogu \<Rightarrow> descriptor \<Rightarrow> (pvc option) res op" where
  "UpsertDoguPVCs L E d n =
     (if needsPVCs n then
        (case CreateDoguPVC L d of
           Inl e \<Rightarrow> throw_wrap ''failed to generate pvc'' e
         | Inr p \<Rightarrow> check_err (upsertPVC E p) throw (ok (Some p)))
      else ok None)"

definition SetControllerReferenceForPVC :: "lib \<Rightarrow> env \<Rightarrow> pvc \<Rightarrow> dogu \<Rightarrow> err option op" where
  "SetControllerReferenceForPVC L E p d =
     (if pvc_Owner p = None then
        (case lib_SetControllerReference L d (pvc_Owner p) of
           Inl e \<Rightarrow> ret (Some (wrapControllerReferenceError e))
         | Inr owner \<Rightarrow>
             let p' = p\<lparr> pvc_Owner := owner \<rparr> in
             check_err (updateOrInsert (Some TPersistentVolumeClaim) TPersistentVolumeClaim (get_pvc E (pvc_Name p')) (create_pvc E p') (update_pvc E p'))
               (\<lambda>e. ret (Some (ErrWrap ''failed to update pvc with controller reference'' e))) (ret None))
      else ret None)"

section \<open>Network policies\<close>

datatype net_pol_type = netPolTypeDogu | netPolTypeComponent | netPolTypeIngress

definition dependencyLabel :: string where "dependencyLabel = ''k8s.cloudogu.com/dependency''"
definition componentNameLabel :: string where "componentNameLabel = ''k8s.cloudogu.com/component.name''"
definition namespaceNameLabel :: string where "namespaceNameLabel = ''kubernetes.io/metadata.name''"
definition gatewayComponentName :: string where "gatewayComponentName = ''k8s-ces-gateway''"

text \<open>The owner error is formatted with \<^verbatim>\<open>%v\<close>, which hides its cause.\<close>

definition generateNetPolWithOwner :: "lib \<Rightarrow> string \<Rightarrow> dogu \<Rightarrow> smap \<Rightarrow> netpol_peer list \<Rightarrow> netpol res" where
  "generateNetPolWithOwner L name d selector peers =
     (case lib_SetControllerReference L d None of
        Inl e \<Rightarrow> Inl (ErrOpaque ''failed to set owner reference on network policy for dogu'' e)
      | Inr owner \<Rightarrow> Inr \<lparr> np_Name = name, np_Namespace = d_Namespace d,
            np_Labels = smap_add GetAppLabel (lib_GetDoguNameLabel L d), np_Owner = owner,
            np_Selector = selector, np_PolicyTypes = [''Ingress''], np_From = peers \<rparr>)"

definition generateDenyAllPolicy :: "lib \<Rightarrow> dogu \<Rightarrow> descriptor \<Rightarrow> netpol res" where
  "generateDenyAllPolicy L d n =
     generateNetPolWithOwner L (lib_GetSimpleName L n @ ''-deny-all'') d [(DoguLabelName, lib_GetSimpleName L n)] []"

fun getSelectors :: "lib \<Rightarrow> dogu \<Rightarrow> descriptor \<Rightarrow> string \<Rightarrow> net_pol_type \<Rightarrow> string \<times> smap \<times> smap \<times> smap" where
  "getSelectors L d n dep netPolTypeDogu =
     (lib_GetSimpleName L n @ ''-dependency-dogu-'' @ dep, [(DoguLabelName, lib_GetSimpleName L n)],
      [(namespaceNameLabel, d_Namespace d)], [(DoguLabelName, dep)])"
| "getSelectors L d n dep netPolTypeIngress =
     (lib_GetSimpleName L n @ ''-ingress'', [(componentNameLabel, gatewayComponentName)],
      [(namespaceNameLabel, d_Namespace d)], [(DoguLabelName, lib_GetSimpleName L n)])"
| "getSelectors L d n dep netPolTypeComponent =
     (lib_GetSimpleName L n @ ''-dependency-component-'' @ dep, [(DoguLabelName, lib_GetSimpleName L n)],
      [(namespaceNameLabel, d_Namespace d)], [(componentNameLabel, dep)])"

definition generateNetPol :: "lib \<Rightarrow> dogu \<Rightarrow> descriptor \<Rightarrow> string \<Rightarrow> net_pol_type \<Rightarrow> netpol res" where
  "generateNetPol L d n dep ty =
     (let (name, podSelector, namespaceSelector, matchLabels) = getSelectors L d n dep ty in
      case generateNetPolWithOwner L name d matchLabels
             [\<lparr> np_PodSelector = podSelector, np_NamespaceSelector = namespaceSelector \<rparr>] of
        Inl e \<Rightarrow> Inl e
      | Inr np \<Rightarrow> Inr (np\<lparr> np_Labels := AList.update dependencyLabel dep (np_Labels np) \<rparr>))"

definition generateDoguDepNetPol :: "lib \<Rightarrow> dogu \<Rightarrow> descriptor \<Rightarrow> string \<Rightarrow> netpol res" where
  "generateDoguDepNetPol L d n dep = generateNetPol L d n dep netPolTypeDogu"

definition generateComponentDepNetPol :: "lib \<Rightarrow> dogu \<Rightarrow> descriptor \<Rightarrow> string \<Rightarrow> netpol res" where
  "generateComponentDepNetPol L d n dep = generateNetPol L d n dep netPolTypeComponent"

definition generateIngressNetPol :: "lib \<Rightarrow> dogu \<Rightarrow> descriptor \<Rightarrow> netpol res" where
  "generateIngressNetPol L d n = generateNetPol L d n [] netPolTypeIngress"

definition upsertNetworkPolicy :: "env \<Rightarrow> netpol \<Rightarrow> err option op" where
  "upsertNetworkPolicy E np = updateOrInsert (Some TNetworkPolicy) TNetworkPolicy (get_netpol E (np_Name np)) (create_netpol E np) (update_netpol E np)"

definition upsert_generated :: "env \<Rightarrow> string \<Rightarrow> string \<Rightarrow> netpol res \<Rightarrow> err option op" where
  "upsert_generated E gen_msg upsert_msg r =
     (case r of
        Inl e \<Rightarrow> ret (Some (ErrWrap gen_msg e))
      | Inr np \<Rightarrow> do { eo \<leftarrow> upsertNetworkPolicy E np; ret (wrap_err upsert_msg eo) })"

definition upsertDoguDependencyNetworkPolicy :: "lib \<Rightarrow> env \<Rightarrow> string \<Rightarrow> dogu \<Rightarrow> descriptor \<Rightarrow> err option op" where
  "upsertDoguDependencyNetworkPolicy L E dep d n =
     upsert_generated E ''failed to generate dogu dependency netpol''
       ''failed to create or update network policy allow rule for dependency'' (generateDoguDepNetPol L d n dep)"

definition upsertComponentDependencyNetworkPolicy :: "lib \<Rightarrow> env \<Rightarrow> string \<Rightarrow> dogu \<Rightarrow> descriptor \<Rightarrow> err option op" where
  "upsertComponentDependencyNetworkPolicy L E dep d n =
     upsert_generated E ''failed to generate component dependency netpol''
       ''failed to create or update network policy allow rule for dependency'' (generateComponentDepNetPol L d n dep)"

fun upsertNetworkPoliciesForDependencies :: "lib \<Rightarrow> env \<Rightarrow> dogu \<Rightarrow> descriptor \<Rightarrow> dependency list \<Rightarrow> (err option list) op" where
  "upsertNetworkPoliciesForDependencies L E d n [] = ret []"
| "upsertNetworkPoliciesForDependencies L E d n (dep # deps) = do {
     e1 \<leftarrow> (if dep_Type dep = ''dogu'' then upsertDoguDependencyNetworkPolicy L E (dep_Name dep) d n else ret None);
     e2 \<leftarrow> (if dep_Type dep = ''component'' then upsertComponentDependencyNetworkPolicy L E (dep_Name dep) d n else ret None);
     rest \<leftarrow> upsertNetworkPoliciesForDependencies L E d n deps;
     ret (e1 # e2 # rest)
   }"

definition upsertServiceAnnotationNetworkPolicy :: "lib \<Rightarrow> env \<Rightarrow> dogu \<Rightarrow> descriptor \<Rightarrow> service \<Rightarrow> err option op" where
  "upsertServiceAnnotationNetworkPolicy L E d n svc =
     (if map_of (svc_Annotations svc) CesServicesAnnotation = None then ret None
      else upsert_generated E ''failed to generate ingress netpol''
             ''failed to create or update network policy allow rule for ingress'' (generateIngressNetPol L d n))"

text \<open>A policy is stale if it is labelled with a dependency that the descriptor no longer has.\<close>

definition stale_policy :: "dependency list \<Rightarrow> netpol \<Rightarrow> bool" where
  "stale_policy deps np \<longleftrightarrow>
     smap_get (np_Labels np) dependencyLabel \<noteq> [] \<and>
     \<not> list_ex (\<lambda>x. dep_Name x = smap_get (np_Labels np) dependencyLabel) deps"

fun deletePolicies_loop :: "env \<Rightarrow> dependency list \<Rightarrow> netpol list \<Rightarrow> (err option list) op" where
  "deletePolicies_loop E deps [] = ret []"
| "deletePolicies_loop E deps (np # nps) =
     (if stale_policy deps np then do {
        eo \<leftarrow> err_only (delete_netpol E (np_Name np));
        rest \<leftarrow> deletePolicies_loop E deps nps;
        ret (eo # rest)
      } else deletePolicies_loop E deps nps)"

definition deleteNonExistentDependencyPolicies :: "lib \<Rightarrow> env \<Rightarrow> descriptor \<Rightarrow> dependency list \<Rightarrow> err option op" where
  "deleteNonExistentDependencyPolicies L E n deps =
     attempt (list_netpols E [(DoguLabelName, lib_GetSimpleName L n)]) (\<lambda>e. ret (Some e))
       (\<lambda>nps. do { es \<leftarrow> deletePolicies_loop E deps nps; ret (errors_Join es) })"

definition UpsertDoguNetworkPolicies :: "lib \<Rightarrow> env \<Rightarrow> operator_config \<Rightarrow> dogu \<Rightarrow> descriptor \<Rightarrow> service \<Rightarrow> err option op" where
  "UpsertDoguNetworkPolicies L E C d n svc =
     (if \<not> oc_NetworkPoliciesEnabled C then do {
        eo \<leftarrow> err_only (delete_netpols E [(DoguLabelName, lib_GetSimpleName L n)]);
        ret (wrap_err ''failed to delete network policies because they are disabled'' eo)
      } else
        (case generateDenyAllPolicy L d n of
           Inl e \<Rightarrow> ret (Some (ErrWrap ''failed to generate deny all policy'' e))
         | Inr np \<Rightarrow> do {
             e1 \<leftarrow> upsertNetworkPolicy E np;
             es \<leftarrow> upsertNetworkPoliciesForDependencies L E d n (n_Dependencies n @ n_OptionalDependencies n);
             e3 \<leftarrow> upsertServiceAnnotationNetworkPolicy L E d n svc;
             e4 \<leftarrow> deleteNonExistentDependencyPolicies L E n (n_Dependencies n @ n_OptionalDependencies n);
             ret (errors_Join [wrap_err ''failed to create or update deny all rule for dogu'' e1, errors_Join es, e3, e4])
           }))"

section \<open>What the policies admit\<close>

text \<open>
  The meaning of a policy: it applies to pods whose labels match its selector, and admits traffic from
  a pod if some peer matches the labels of that pod and of its namespace.
\<close>

definition selects :: "smap \<Rightarrow> smap \<Rightarrow> bool" where
  "selects sel labels = list_all (\<lambda>(k, v). map_of labels k = Some v) sel"

definition np_admits :: "netpol \<Rightarrow> smap \<Rightarrow> smap \<Rightarrow> smap \<Rightarrow> bool" where
  "np_admits np src ns dst \<longleftrightarrow> selects (np_Selector np) dst \<and>
     list_ex (\<lambda>peer. selects (np_PodSelector peer) src \<and> selects (np_NamespaceSelector peer) ns) (np_From np)"

lemma generateDenyAllPolicy_admits:
  assumes "generateDenyAllPolicy L d n = Inr np"
  shows "selects (np_Selector np) dst \<longleftrightarrow> map_of dst DoguLabelName = Some (lib_GetSimpleName L n)"
    "\<not> np_admits np src ns dst" "np_PolicyTypes np = [''Ingress'']"
  using assms
  by (auto simp: generateDenyAllPolicy_def generateNetPolWithOwner_def np_admits_def selects_def split: sum.splits)

lemma generateNetPol_admits:
  assumes "generateNetPol L d n dep ty = Inr np"
  shows "np_admits np src ns dst \<longleftrightarrow> map_of ns namespaceNameLabel = Some (d_Namespace d) \<and>
    (case ty of
       netPolTypeDogu \<Rightarrow> map_of dst DoguLabelName = Some dep \<and> map_of src DoguLabelName = Some (lib_GetSimpleName L n)
     | netPolTypeComponent \<Rightarrow> map_of dst componentNameLabel = Some dep \<and> map_of src DoguLabelName = Some (lib_GetSimpleName L n)
     | netPolTypeIngress \<Rightarrow> map_of dst DoguLabelName = Some (lib_GetSimpleName L n) \<and>
         map_of src componentNameLabel = Some gatewayComponentName)"
  using assms
  by (cases ty) (auto simp: generateNetPol_def generateNetPolWithOwner_def np_admits_def selects_def split: sum.splits)

section \<open>Which policies are deleted\<close>

text \<open>The loop deletes exactly the stale policies of the list, in its order.\<close>

lemma deletePolicies_loop_calls:
  "spec (deletePolicies_loop E deps nps)
     (\<lambda>es t. map ev_call t = map (\<lambda>np. CDeleteNetPol (np_Name np)) (filter (stale_policy deps) nps) \<and>
             es = map ev_err t)"
proof (induction nps)
  case Nil
  then show ?case by (auto intro: spec_return)
next
  case (Cons np nps)
  have del: "spec (err_only (delete_netpol E (np_Name np))) (\<lambda>r t. t = [Event (CDeleteNetPol (np_Name np)) r])"
    unfolding err_only_def delete_netpol_def by (rule spec_bind [OF req_logs]) (auto intro: spec_return)
  show ?case
  proof (cases "stale_policy deps np")
    case True
    then show ?thesis
      by (auto intro!: spec_bind [OF del] spec_bind [OF Cons.IH] spec_return)
  next
    case False
    with Cons.IH show ?thesis by simp
  qed
qed

lemma upsertPVC_keeps_existing:
  assumes "a_GetPVC (E h) (pvc_Name p) = Inr actual" "pvc_DeletionTimestamp actual = None"
  shows "run_state (upsertPVC E p) h = (None, h @ [Event (CGetPVC (pvc_Name p)) None])"
  using assms by (simp add: upsertPVC_def run_attempt io_defs)

section \<open>What the operations write\<close>

text \<open>
  Generating the deployment only reads; then the contract of the upsert holds for the generated deployment.
\<close>

definition reads_then :: "('a \<Rightarrow> log \<Rightarrow> bool) \<Rightarrow> 'a \<Rightarrow> log \<Rightarrow> bool" where
  "reads_then Q r t \<longleftrightarrow> (\<exists>reads u. t = reads @ u \<and> list_all (\<lambda>e. \<not> mutates (ev_call e)) reads \<and> Q r u)"

lemma reads_thenI: "list_all (\<lambda>e. \<not> mutates (ev_call e)) s \<Longrightarrow> Q r u \<Longrightarrow> reads_then Q r (s @ u)"
  by (auto simp: reads_then_def)

definition deployment_upserted :: "string \<Rightarrow> deployment res \<Rightarrow> log \<Rightarrow> bool" where
  "deployment_upserted name r t \<longleftrightarrow> t = [] \<and> err_of r \<noteq> None \<or>
     (\<exists>dep. upserted (CGetDeployment name) (CCreateDeployment dep) (CUpdateDeployment dep) (err_of r) t \<and>
        (err_of r = None \<longrightarrow> r = Inr dep))"

lemma UpsertDoguDeployment_writes:
  "spec (UpsertDoguDeployment L E G d n patch) (reads_then (deployment_upserted (d_Name d)))"
proof -
  have gen: "spec (CreateDoguDeployment L E G d n) (\<lambda>_ t. list_all (\<lambda>e. \<not> mutates (ev_call e)) t)"
    using updateDoguDeployment_reads by (simp add: CreateDoguDeployment_def emits_def)
  have up: "spec (check_err (updateOrInsert (Some TDeployment) TDeployment (get_deployment E (d_Name d)) (create_deployment E dep) (update_deployment E dep)) throw (ok dep))
      (deployment_upserted (d_Name d))" for dep
    by (rule spec_check_err [OF deployment_upsert.upsert_spec [of _ E "(d_Name d, dep)", simplified]])
       (auto simp: deployment_upserted_def intro!: spec_return)
  show ?thesis
    unfolding UpsertDoguDeployment_def Let_def
  proof (rule spec_attempt [OF gen])
    fix e t
    assume t: "list_all (\<lambda>e. \<not> mutates (ev_call e)) t"
    show "spec (throw_wrap ''failed to generate deployment'' e) (\<lambda>r t'. reads_then (deployment_upserted (d_Name d)) r (t @ t'))"
      by (intro spec_return reads_thenI t) (simp add: deployment_upserted_def)
  next
    fix x t
    assume "list_all (\<lambda>e. \<not> mutates (ev_call e)) t"
    then show "spec (check_err (updateOrInsert (Some TDeployment) TDeployment (get_deployment E (d_Name d))
          (create_deployment E (case patch of None \<Rightarrow> x | Some f \<Rightarrow> f x)) (update_deployment E (case patch of None \<Rightarrow> x | Some f \<Rightarrow> f x)))
        throw (ok (case patch of None \<Rightarrow> x | Some f \<Rightarrow> f x)))
      (\<lambda>r t'. reads_then (deployment_upserted (d_Name d)) r (t @ t'))"
      by (intro spec_conseq [OF up] reads_thenI)
  qed
qed

lemma UpsertDoguService_writes:
  "spec (UpsertDoguService L E d n img)
     (\<lambda>r t. t = [] \<and> err_of r \<noteq> None \<or>
        (\<exists>svc. CreateDoguService L d n img = Inr svc \<and>
           upserted (CGetService (d_Name d)) (CCreateService svc) (CUpdateService svc) (err_of r) t))"
proof (cases "CreateDoguService L d n img")
  case (Inr svc)
  then show ?thesis
    unfolding UpsertDoguService_def
    by (simp, intro spec_check_err [OF service_upsert.upsert_spec [of _ E "(d_Name d, svc)", simplified]]) (auto intro!: spec_return)
qed (simp add: UpsertDoguService_def spec_return)

lemma upsertNetworkPolicy_writes:
  "spec (upsertNetworkPolicy E np) (upserted (CGetNetPol (np_Name np)) (CCreateNetPol np) (CUpdateNetPol np))"
  unfolding upsertNetworkPolicy_def by (rule netpol_upsert.upsert_spec)

text \<open>A volume claim is created only if the last look for it found none.\<close>

definition claim_missing :: "string \<Rightarrow> event \<Rightarrow> bool" where
  "claim_missing name e \<longleftrightarrow> ev_call e = CGetPVC name \<and> (\<exists>x. ev_err e = Some x \<and> IsNotFound x)"

definition creates_claim :: "event \<Rightarrow> bool" where
  "creates_claim e \<longleftrightarrow> (\<exists>p. ev_call e = CCreatePVC p)"

lemma upserted_claim:
  "upserted (CGetPVC name) (CCreatePVC p) (CUpdatePVC p) r t \<Longrightarrow> precedes (claim_missing name) creates_claim t"
  by (auto simp: upserted_def claim_missing_def creates_claim_def)

lemma upsert_claim_ordered:
  "ordered (claim_missing (pvc_Name p)) creates_claim (updateOrInsert (Some TPersistentVolumeClaim) TPersistentVolumeClaim (get_pvc E (pvc_Name p)) (create_pvc E p) (update_pvc E p))"
  unfolding ordered_def by (rule spec_conseq [OF pvc_upsert.upsert_spec]) (rule upserted_claim)

lemma upsertPVC_ordered: "ordered (claim_missing (pvc_Name p)) creates_claim (upsertPVC E p)"
  unfolding upsertPVC_def
  by (intro ordered_attempt ordered_rules ordered_check_err upsert_claim_ordered)
     (auto simp: waitForExistingPVCToBeTerminated_def creates_claim_def io_defs intro!: emits_rules)

end
