(* ===== verification/Managers.thy ===== *)
theory Managers
  imports Upsert
begin

text \<open>
  Package \<^verbatim>\<open>manager\<close>: start times of deployments, restarts, additional mounts, export mode, support mode;
  and the upgrade checker of package \<^verbatim>\<open>upgrade\<close>. A dogu resource that a function replaces through its
  pointer is returned next to the error.
\<close>

section \<open>Start time and restart\<close>

fun last_start :: "int option list \<Rightarrow> int option \<Rightarrow> int option" where
  "last_start [] acc = acc"
| "last_start (None # ts) acc = last_start ts acc"
| "last_start (Some t # ts) acc =
     last_start ts (case acc of None \<Rightarrow> Some t | Some t' \<Rightarrow> if t > t' then Some t else Some t')"

definition GetLastStartingTime :: "env \<Rightarrow> string \<Rightarrow> int res op" where
  "GetLastStartingTime E name =
     attempt (get_deployment E name) throw
       (\<lambda>dep. attempt (list_pods E (dep_Selector dep)) throw
          (\<lambda>pods. case last_start (map pod_StartTime pods) None of
              None \<Rightarrow> throw (ErrMsg ''no last starting time found for deployment'')
            | Some t \<Rightarrow> ok t))"

definition restartedAtAnnotationKey :: string where
  "restartedAtAnnotationKey = ''k8s.cloudogu.com/restartedAt''"

definition RestartDogu :: "lib \<Rightarrow> env \<Rightarrow> dogu \<Rightarrow> err option op" where
  "RestartDogu L E d =
     attempt (get_deployment E (d_Name d)) (\<lambda>e. ret (Some e))
       (\<lambda>dep. do {
          now \<leftarrow> time_now E;
          let tmpl = dep_Template dep;
          err_only (update_deployment E (dep\<lparr> dep_Template :=
            tmpl\<lparr> p_Annotations := AList.update restartedAtAnnotationKey (lib_FormatTime L now) (p_Annotations tmpl) \<rparr> \<rparr>))
        })"

section \<open>Additional mounts\<close>

definition additionalMountsInitContainerName :: string where
  "additionalMountsInitContainerName = ''dogu-additional-mounts-init''"

definition getDoguDeployment :: "env \<Rightarrow> dogu \<Rightarrow> deployment res op" where
  "getDoguDeployment E d =
     attempt (list_deployments E (d_Name d)) (throw_wrap ''failed to get deployment for dogu'')
       (\<lambda>ds. case ds of [dep] \<Rightarrow> ok dep | _ \<Rightarrow> throw (ErrMsg ''dogu has more than one or zero deployments''))"

definition createAdditionalMountInitContainer :: "lib \<Rightarrow> env \<Rightarrow> string \<Rightarrow> dogu \<Rightarrow> container res op" where
  "createAdditionalMountInitContainer L E img d =
     attempt (FetchInstalled E (d_Name d)) (throw_wrap ''failed to get dogu descriptor'')
       (\<lambda>n. attempt (requirements_Generate L E n) (throw_wrap ''failed to generate requirements'')
          (\<lambda>rq. case BuildAdditionalMountInitContainer L n d img rq of
              Inl e \<Rightarrow> throw_wrap ''failed to generate dogu additional mounts init container while diff calculation'' e
            | Inr c \<Rightarrow> ok c))"

definition AdditionalMountsChanged :: "lib \<Rightarrow> env \<Rightarrow> string \<Rightarrow> dogu \<Rightarrow> bool res op" where
  "AdditionalMountsChanged L E img d =
     attempt (getDoguDeployment E d) throw
       (\<lambda>dep.
          let actual = find (\<lambda>c. k_Name c = additionalMountsInitContainerName) (p_InitContainers (dep_Template dep));
              data = s_AdditionalMounts (d_Spec d);
              noAdditionalMountsExists = (case actual of None \<Rightarrow> True | Some c \<Rightarrow> length (k_Args c) \<le> 1) in
          case actual of
            Some c \<Rightarrow>
              if length data = 0 \<or> noAdditionalMountsExists
              then ok ((length data = 0) \<noteq> noAdditionalMountsExists)
              else attempt (createAdditionalMountInitContainer L E img d) throw
                     (\<lambda>c'. ok (k_Args c' \<noteq> k_Args c \<or> k_Image c \<noteq> img))
          | None \<Rightarrow> ok ((length data = 0) \<noteq> noAdditionalMountsExists))"

definition replace_init_container :: "container \<Rightarrow> volume list \<Rightarrow> deployment \<Rightarrow> deployment" where
  "replace_init_container c vols dep =
     (let tmpl = dep_Template dep in
      dep\<lparr> dep_Template := tmpl\<lparr>
        p_InitContainers := filter (\<lambda>k. k_Name k \<noteq> additionalMountsInitContainerName) (p_InitContainers tmpl) @ [c],
        p_Volumes := vols \<rparr> \<rparr>)"

definition UpdateAdditionalMounts :: "lib \<Rightarrow> env \<Rightarrow> string \<Rightarrow> dogu \<Rightarrow> err option op" where
  "UpdateAdditionalMounts L E img d =
     attempt (FetchInstalled E (d_Name d)) (\<lambda>e. ret (Some (ErrWrap ''failed to get dogu descriptor'' e)))
       (\<lambda>n. check_err (ValidateAdditionalMounts L E n d)
          (\<lambda>e. ret (Some (ErrWrap ''additional mounts are not valid for dogu'' e)))
          (attempt (createAdditionalMountInitContainer L E img d) (\<lambda>e. ret (Some e))
             (\<lambda>c. case CreateVolumes L d n (s_ExportMode (d_Spec d)) of
                 Inl e \<Rightarrow> ret (Some e)
               | Inr vols \<Rightarrow> do {
                   r \<leftarrow> retry_on (lib_RetryBound L) IsConflict
                          (attempt (getDoguDeployment E d) throw
                             (\<lambda>dep. update_deployment E (replace_init_container c vols dep)));
                   ret (wrap_err ''failed to update deployment additional mounts for dogu'' (err_of r))
                 })))"

section \<open>Export mode\<close>

fun first_status :: "string \<Rightarrow> container_status list \<Rightarrow> bool option" where
  "first_status name [] = None"
| "first_status name (c # cs) = (if cst_Name c = name then Some (cst_Ready c) else first_status name cs)"

definition exporter_ready :: "string \<Rightarrow> pod list \<Rightarrow> bool" where
  "exporter_ready name pods =
     (case first_status name (concat (map pod_ContainerStatuses pods)) of Some b \<Rightarrow> b | None \<Rightarrow> False)"

definition isDeploymentInExportMode :: "env \<Rightarrow> string \<Rightarrow> bool res op" where
  "isDeploymentInExportMode E name =
     attempt (list_pods E [(DoguLabelName, name)]) (throw_wrap ''failed to get pods of deployment'')
       (\<lambda>pods. ok (exporter_ready (CreateExporterContainerName name) pods))"

definition shouldUpdateExportMode :: "env \<Rightarrow> dogu \<Rightarrow> bool res op" where
  "shouldUpdateExportMode E d =
     attempt (isDeploymentInExportMode E (d_Name d)) (throw_wrap ''failed to check if deployment is in export-mode'')
       (\<lambda>active. ok (s_ExportMode (d_Spec d) \<noteq> active))"

definition deploymentUpdateNeeded :: "env \<Rightarrow> dogu \<Rightarrow> bool res op" where
  "deploymentUpdateNeeded E d =
     attempt (list_deployments E (d_Name d)) (throw_wrap ''failed to list deployment'')
       (\<lambda>ds. ok (s_ExportMode (d_Spec d) \<noteq>
          list_ex (\<lambda>dep. list_ex (\<lambda>c. k_Name c = CreateExporterContainerName (d_Name d)) (p_Containers (dep_Template dep))) ds))"

definition export_updateStatus :: "env \<Rightarrow> dogu \<Rightarrow> string \<Rightarrow> bool \<Rightarrow> dogu res op" where
  "export_updateStatus E d phase activated =
     attempt (update_dogu_status E d (\<lambda>s. s\<lparr> t_Status := phase, t_ExportMode := activated \<rparr>))
       (throw_wrap ''failed to update status of dogu'') ok"

definition updateExportMode :: "lib \<Rightarrow> env \<Rightarrow> generator \<Rightarrow> dogu \<Rightarrow> (err option \<times> dogu) op" where
  "updateExportMode L E G d =
     attempt (deploymentUpdateNeeded E d)
       (\<lambda>e. ret (Some (ErrWrap ''failed to check if deployment update is needed'' e), d))
       (\<lambda>needed. if \<not> needed then ret (None, d)
          else attempt (export_updateStatus E d DoguStatusChangingExportMode (t_ExportMode (d_Status d)))
            (\<lambda>e. ret (Some e, d))
            (\<lambda>d'. attempt (FetchInstalled E (lib_GetSimpleDoguName L d'))
               (\<lambda>e. ret (Some (ErrWrap ''failed to get local descriptor'' e), d'))
               (\<lambda>n. attempt (UpsertDoguDeployment L E G d' n None)
                  (\<lambda>e. ret (Some (ErrWrap ''failed to upsert deployment for export-mode change'' e), d'))
                  (\<lambda>_. ret (None, d')))))"

text \<open>\<^verbatim>\<open>exportModeNotYetChangedError\<close> has no \<^verbatim>\<open>Unwrap\<close> method.\<close>

definition exportModeNotYetChangedError :: "err option \<Rightarrow> err" where
  "exportModeNotYetChangedError eo =
     (case eo of Some e \<Rightarrow> ErrOpaque ''error while changing the export-mode'' e
      | None \<Rightarrow> ErrMsg ''the export-mode has not yet been changed to its desired state'')"

definition UpdateExportMode :: "lib \<Rightarrow> env \<Rightarrow> generator \<Rightarrow> dogu \<Rightarrow> (err option \<times> dogu) op" where
  "UpdateExportMode L E G d =
     attempt (shouldUpdateExportMode E d)
       (\<lambda>e. ret (Some (exportModeNotYetChangedError (Some e)), d))
       (\<lambda>should. if \<not> should then
            attempt (export_updateStatus E d DoguStatusInstalled (s_ExportMode (d_Spec d)))
              (\<lambda>e. ret (Some e, d)) (\<lambda>d'. ret (None, d'))
          else do {
            (eo, d') \<leftarrow> updateExportMode L E G d;
            ret (Some (exportModeNotYetChangedError eo), d')
          })"

section \<open>Support mode\<close>

definition SupportModeEnvVar :: string where "SupportModeEnvVar = ''SUPPORT_MODE''"

definition support_container :: "container \<Rightarrow> container" where
  "support_container c = c\<lparr> k_LivenessProbe := None, k_ReadinessProbe := None, k_StartupProbe := None,
     k_Command := [''sleep''], k_Args := [''infinity''],
     k_Env := k_Env c @ [\<lparr> ev_Name = SupportModeEnvVar, ev_Value = EnvLiteral ''true'' \<rparr>] \<rparr>"

definition setDoguPodTemplateInSupportMode :: "dogu \<Rightarrow> pod_template \<Rightarrow> pod_template" where
  "setDoguPodTemplateInSupportMode d tmpl =
     tmpl\<lparr> p_Containers := map (\<lambda>c. if k_Name c = d_Name d then support_container c else c) (p_Containers tmpl) \<rparr>"

definition isDeploymentInSupportMode :: "deployment \<Rightarrow> bool" where
  "isDeploymentInSupportMode dep =
     list_ex (\<lambda>c. list_ex (\<lambda>v. ev_Name v = SupportModeEnvVar \<and> ev_Value v = EnvLiteral ''true'') (k_Env c))
       (p_Containers (dep_Template dep))"

definition supportModeChanged :: "dogu \<Rightarrow> bool \<Rightarrow> bool" where
  "supportModeChanged d active =
     (let mode = s_SupportMode (d_Spec d) in
      if mode \<and> active \<or> \<not> mode \<and> \<not> active then False else True)"

definition support_updateDeployment :: "lib \<Rightarrow> env \<Rightarrow> generator \<Rightarrow> dogu \<Rightarrow> deployment \<Rightarrow> err option op" where
  "support_updateDeployment L E G d dep =
     attempt (FetchInstalled E (lib_GetSimpleDoguName L d))
       (\<lambda>e. ret (Some (ErrWrap ''failed to get dogu descriptor'' e)))
       (\<lambda>n. attempt (GetPodTemplate L E G d n)
          (\<lambda>e. ret (Some (ErrWrap ''failed to get pod template in support action'' e)))
          (\<lambda>tmpl. do {
             let tmpl' = (if s_SupportMode (d_Spec d) then setDoguPodTemplateInSupportMode d tmpl else tmpl);
             eo \<leftarrow> err_only (update_deployment E (dep\<lparr> dep_Template := tmpl' \<rparr>));
             ret (wrap_err ''failed to update dogu deployment'' eo)
           }))"

definition HandleSupportMode :: "lib \<Rightarrow> env \<Rightarrow> generator \<Rightarrow> dogu \<Rightarrow> bool res op" where
  "HandleSupportMode L E G d =
     attempt (get_deployment E (d_Name d))
       (\<lambda>e. if IsNotFound e then do { _ \<leftarrow> record_event EventTypeWarning ''Support''; ok False }
            else throw_wrap ''failed to get deployment of dogu'' e)
       (\<lambda>dep.
          if \<not> supportModeChanged d (isDeploymentInSupportMode dep) then ok False
          else check_err (support_updateDeployment L E G d dep) throw
            (do { _ \<leftarrow> record_event EventTypeNormal ''Support''; ok True }))"

section \<open>Upgrade check\<close>

definition IsUpgrade :: "lib \<Rightarrow> env \<Rightarrow> dogu \<Rightarrow> bool res op" where
  "IsUpgrade L E d =
     attempt (FetchInstalled E (lib_GetSimpleDoguName L d))
       (throw_wrap ''failed to fetch dogu when checking for upgrade'')
       (\<lambda>n. case lib_ParseVersion L (s_Version (d_Spec d)) of
           Inl e \<Rightarrow> throw_wrap ''failed to parse desired dogu version'' e
         | Inr desired \<Rightarrow>
             (case lib_ParseVersion L (n_Version n) of
                Inl e \<Rightarrow> throw_wrap ''failed to parse installed dogu version'' e
              | Inr installedVersion \<Rightarrow> ok (lib_IsNewerThan L desired installedVersion)))"

section \<open>Properties\<close>

lemma last_start_Some:
  "last_start ts acc = Some m \<Longrightarrow>
     (Some m \<in> set ts \<or> acc = Some m) \<and> (\<forall>t. Some t \<in> set ts \<or> acc = Some t \<longrightarrow> t \<le> m)"
proof (induction ts acc rule: last_start.induct)
  case (3 t ts acc)
  then show ?case by (cases acc) (force split: if_splits)+
qed auto

lemma last_start_None: "last_start ts acc = None \<longleftrightarrow> acc = None \<and> (\<forall>t \<in> set ts. t = None)"
  by (induction ts acc rule: last_start.induct) (auto split: option.splits)

text \<open>Applying the support template makes the deployment count as in support mode.\<close>

lemma support_template_detected:
  assumes "list_ex (\<lambda>c. k_Name c = d_Name d) (p_Containers tmpl)"
  shows "isDeploymentInSupportMode (dep\<lparr> dep_Template := setDoguPodTemplateInSupportMode d tmpl \<rparr>)"
proof -
  from assms obtain c where c: "c \<in> set (p_Containers tmpl)" "k_Name c = d_Name d"
    by (auto simp: list_ex_iff)
  then have "support_container c \<in> set (p_Containers (setDoguPodTemplateInSupportMode d tmpl))"
    by (force simp: setDoguPodTemplateInSupportMode_def)
  moreover have "list_ex (\<lambda>v. ev_Name v = SupportModeEnvVar \<and> ev_Value v = EnvLiteral ''true'') (k_Env (support_container c))"
    by (simp add: support_container_def)
  ultimately show ?thesis unfolding isDeploymentInSupportMode_def list_ex_iff by auto
qed

lemma template_not_in_support_mode:
  assumes "run_state (GetPodTemplate L E G d n) h = (Inr t, h')"
  shows "\<not> isDeploymentInSupportMode (dep\<lparr> dep_Template := t \<rparr>)"
proof -
  obtain vols rq inits aliases where t: "t = assemblePodTemplate L G d n vols rq inits aliases"
    by (rule GetPodTemplate_result [OF assms])
  show ?thesis
    by (simp add: t isDeploymentInSupportMode_def builder_defs empty_container_def dogu_env_vars_def
        SupportModeEnvVar_def generateSidecarContainers_def getExporterContainer_def List.map_filter_simps
        split: option.splits)
qed

text \<open>The init container of additional mounts occurs exactly once after an update, with the new volumes.\<close>

lemma replace_init_container_once:
  assumes "k_Name c = additionalMountsInitContainerName"
  shows "filter (\<lambda>k. k_Name k = additionalMountsInitContainerName)
           (p_InitContainers (dep_Template (replace_init_container c vols dep))) = [c]"
    "p_Volumes (dep_Template (replace_init_container c vols dep)) = vols"
  using assms by (simp_all add: replace_init_container_def Let_def)

end
