(* ===== verification/Images.thy ===== *)
theory Images
  imports PodSpec
begin

text \<open>
  Container images: the auxiliary images the operator is configured with (\<^verbatim>\<open>initfx/additionalImages.go\<close>), read once
  at start-up, and the configuration of a dogu's image (package \<^verbatim>\<open>imageregistry\<close>). The regular expression for image
  references and the pull of an image are library code.
\<close>

section \<open>Additional images\<close>

definition OperatorAdditionalImagesConfigmapName :: string where
  "OperatorAdditionalImagesConfigmapName = ''k8s-dogu-operator-additional-images''"

definition imageKeys :: "string list" where
  "imageKeys = [''chownInitImage'', ''exporterImage'', ''additionalMountsInitContainerImage'']"

definition verifyImageTag :: "lib \<Rightarrow> string \<Rightarrow> err option" where
  "verifyImageTag L imageTag =
     (case lib_MatchImageReference L imageTag of
        Inl e \<Rightarrow> Some (ErrWrap ''image tag validation failed'' e)
      | Inr matched \<Rightarrow> if \<not> matched then Some (ErrMsg ''image tag seems invalid'') else None)"

definition imageForKey :: "lib \<Rightarrow> string \<Rightarrow> config_map \<Rightarrow> string res" where
  "imageForKey L key cm =
     (let imageTag = smap_get (cm_Data cm) key in
      if imageTag = [] then Inl (ErrMsg ''configmap must not contain empty image name for key'')
      else case verifyImageTag L imageTag of
          Some e \<Rightarrow> Inl (ErrWrap ''configmap contains an invalid image tag for key'' e)
        | None \<Rightarrow> Inr imageTag)"

text \<open>The loop over the keys: the image of each key (empty after an error) and the errors.\<close>

fun images_loop :: "lib \<Rightarrow> config_map \<Rightarrow> string list \<Rightarrow> smap \<times> err list" where
  "images_loop L cm [] = ([], [])"
| "images_loop L cm (key # keys) =
     (let (images, errs) = images_loop L cm keys in
      case imageForKey L key cm of
        Inl e \<Rightarrow> ((key, []) # images, e # errs)
      | Inr img \<Rightarrow> ((key, img) # images, errs))"

definition GetAdditionalImages :: "lib \<Rightarrow> env \<Rightarrow> smap res op" where
  "GetAdditionalImages L E =
     attempt (get_config_map E OperatorAdditionalImagesConfigmapName) (throw_wrap ''error while getting configmap'')
       (\<lambda>cm. let (images, errs) = images_loop L cm imageKeys in
          if errs \<noteq> [] then throw (ErrWrap ''error while getting additional images'' (ErrJoin errs)) else ok images)"

text \<open>A reference that passed: not empty, and accepted by the regular expression.\<close>

definition valid_image :: "lib \<Rightarrow> string \<Rightarrow> bool" where
  "valid_image L img \<longleftrightarrow> img \<noteq> [] \<and> lib_MatchImageReference L img = Inr True"

lemma imageForKey_valid: "imageForKey L key cm = Inr img \<Longrightarrow> valid_image L img \<and> img = smap_get (cm_Data cm) key"
  by (auto simp: imageForKey_def verifyImageTag_def valid_image_def Let_def split: if_splits sum.splits option.splits)

lemma images_loop_valid:
  assumes "images_loop L cm keys = (images, [])"
  shows "map fst images = keys \<and> list_all (\<lambda>(k, img). valid_image L img \<and> img = smap_get (cm_Data cm) k) images"
  using assms
proof (induction keys arbitrary: images)
  case (Cons key keys)
  obtain images' errs' where r: "images_loop L cm keys = (images', errs')" by fastforce
  with Cons.prems obtain img where "imageForKey L key cm = Inr img" "errs' = []" "images = (key, img) # images'"
    by (auto split: sum.splits)
  with Cons.IH [of images'] r imageForKey_valid [of L key cm img] show ?case by auto
qed simp

text \<open>An operator that starts has a valid image under each key.\<close>

lemma GetAdditionalImages_valid:
  assumes "run_state (GetAdditionalImages L E) h = (Inr images, h')" "key \<in> set imageKeys"
  shows "valid_image L (smap_get images key)"
proof -
  from assms(1) obtain cm where "images_loop L cm imageKeys = (images, [])"
    by (auto simp: GetAdditionalImages_def run_attempt io_defs split: sum.splits if_splits prod.splits)
  from images_loop_valid [OF this] have keys: "map fst images = imageKeys"
    and valid: "list_all (\<lambda>(k, img). valid_image L img) images" by (auto simp: list_all_iff)
  from keys assms(2) obtain img where "map_of images key = Some img"
    by (metis in_set_conv_decomp_first list.set_map map_of_eq_None_iff not_None_eq)
  with valid show ?thesis by (auto simp: smap_get_def list_all_iff dest: map_of_SomeD)
qed

text \<open>
  With such an image the init container that changes owners is left out only if no volume needs it, so every pod of a
  dogu with own volumes gets one or the generation fails.
\<close>

lemma getChownInitContainer_present:
  assumes "valid_image L img" "getChownInitContainer Lc n d img rq = Inr c"
  shows "c = None \<longleftrightarrow> filterVolumesWithClient (n_Volumes n) doguOperatorClient = []"
  using assms by (auto simp: valid_image_def getChownInitContainer_def Let_def split: if_splits sum.splits)

section \<open>The configuration of an image\<close>

text \<open>
  The proxy setting is parsed and handed to the transport of the library; development installations pull insecurely.
  The pull is retried for some time on every error; reading the configuration of the pulled image is not.
\<close>

definition pull_stage :: "lib \<Rightarrow> string" where
  "pull_stage L = (case GetStage L of Inl _ \<Rightarrow> [] | Inr s \<Rightarrow> s)"

definition proxy_error :: "lib \<Rightarrow> err option" where
  "proxy_error L =
     (case lib_Getenv L ''PROXY_URL'' of
        None \<Rightarrow> None
      | Some proxyURL \<Rightarrow>
          if length proxyURL > 0 then (case lib_ParseURL L proxyURL of Inl e \<Rightarrow> Some e | Inr _ \<Rightarrow> None) else None)"

definition PullImageConfig :: "lib \<Rightarrow> env \<Rightarrow> string \<Rightarrow> image_config res op" where
  "PullImageConfig L E img =
     (case proxy_error L of
        Some e \<Rightarrow> throw e
      | None \<Rightarrow>
          let insecure = (pull_stage L = StageDevelopment) in
          attempt (retry_on (lib_RetryBound L) (\<lambda>_. True) (pull_image E img insecure)) (throw_wrap ''error pulling image'')
            (\<lambda>_. image_config_file E img insecure))"

text \<open>An image is pulled insecurely in the development stage only, and at most as often as the library allows.\<close>

lemma pull_logs:
  "spec (pull_image E img b) (\<lambda>r t. t = [Event (CPullImage img b) (err_of r)])"
  "spec (image_config_file E img b) (\<lambda>r t. t = [Event (CImageConfigFile img b) (err_of r)])"
  unfolding io_defs by (rule req_logs)+

lemma retried_pull_calls:
  "spec (retry_on k (\<lambda>_. True) (pull_image E img b))
     (\<lambda>_ t. length t \<le> Suc k \<and> list_all (\<lambda>e. ev_call e = CPullImage img b) t)"
proof (induction k)
  case 0
  show ?case by (simp, rule spec_conseq [OF pull_logs(1)]) auto
next
  case (Suc k)
  show ?case
    unfolding retry_on.simps
    by (rule spec_bind [OF pull_logs(1)]) (auto intro!: spec_return spec_conseq [OF Suc.IH] split: sum.splits)
qed

lemma PullImageConfig_insecure:
  assumes "run_state (PullImageConfig L E img) h = (r, h @ t)" "Event (CPullImage img' True) eo \<in> set t"
  shows "GetStage L = Inr StageDevelopment \<and> img' = img"
proof -
  let ?b = "pull_stage L = StageDevelopment"
  have "spec (PullImageConfig L E img)
      (\<lambda>_ t. list_all (\<lambda>e. ev_call e = CPullImage img ?b \<or> ev_call e = CImageConfigFile img ?b) t)"
    unfolding PullImageConfig_def Let_def
    by (auto simp: list_all_iff intro!: spec_return spec_attempt [OF retried_pull_calls] spec_conseq [OF pull_logs(2)] split: option.splits)
  from specD [OF this assms(1)] assms(2) have "?b" "img' = img" by (auto simp: list_all_iff)
  then show ?thesis by (auto simp: pull_stage_def StageDevelopment_def split: sum.splits)
qed

end
