(* ===== verification/Steps_Install.thy ===== *)
theory Steps_Install
  imports ServiceAccount Auth Managers Images
begin

text \<open>
  Steps of a reconciliation (\<^verbatim>\<open>steps/step.go\<close>) and the steps of package \<^verbatim>\<open>steps/install\<close>. A step gets the
  dogu resource by pointer, so it returns the resource it leaves behind next to its result.
\<close>

section \<open>Steps\<close>

record step_result =
  sr_RequeueAfter :: int
  sr_Err :: "err option"
  sr_Continue :: bool

definition Continue :: step_result where
  "Continue = \<lparr> sr_RequeueAfter = 0, sr_Err = None, sr_Continue = True \<rparr>"

definition Abort :: step_result where
  "Abort = \<lparr> sr_RequeueAfter = 0, sr_Err = None, sr_Continue = False \<rparr>"

definition RequeueAfter :: "int \<Rightarrow> step_result" where
  "RequeueAfter n = \<lparr> sr_RequeueAfter = n, sr_Err = None, sr_Continue = False \<rparr>"

definition RequeueWithError :: "err \<Rightarrow> step_result" where
  "RequeueWithError e = \<lparr> sr_RequeueAfter = 0, sr_Err = Some e, sr_Continue = False \<rparr>"

lemmas step_result_defs = Continue_def Abort_def RequeueAfter_def RequeueWithError_def

text \<open>A result that lets the next step run.\<close>

definition proceeds :: "step_result \<Rightarrow> bool" where
  "proceeds r \<longleftrightarrow> sr_Err r = None \<and> sr_RequeueAfter r = 0 \<and> sr_Continue r"

lemma proceeds_simps [simp]:
  "proceeds Continue" "\<not> proceeds Abort" "\<not> proceeds (RequeueWithError e)" "\<not> proceeds (RequeueAfter n)"
  by (simp_all add: proceeds_def step_result_defs)

type_synonym step = "dogu \<Rightarrow> (step_result \<times> dogu) op"

text \<open>
  What the constructors inject into the steps: libraries, cluster, operator configuration and resource
  generator; \<open>cx_Fuel\<close> bounds the recursion over dependencies.
\<close>

record ctx =
  cx_L :: lib
  cx_E :: env
  cx_C :: operator_config
  cx_G :: generator
  cx_Fuel :: nat

abbreviation continue_with :: "dogu \<Rightarrow> (step_result \<times> dogu) op" where
  "continue_with d \<equiv> ret (Continue, d)"

abbreviation fail_with :: "dogu \<Rightarrow> err \<Rightarrow> (step_result \<times> dogu) op" where
  "fail_with d e \<equiv> ret (RequeueWithError e, d)"

abbreviation fail_wrap :: "dogu \<Rightarrow> string \<Rightarrow> err \<Rightarrow> (step_result \<times> dogu) op" where
  "fail_wrap d m e \<equiv> ret (RequeueWithError (ErrWrap m e), d)"

text \<open>\<^verbatim>\<open>retry.OnConflict\<close> around a function that also changes the resource.\<close>

fun retry_dogu :: "nat \<Rightarrow> (err \<Rightarrow> bool) \<Rightarrow> (dogu \<Rightarrow> (err option \<times> dogu) op) \<Rightarrow> dogu \<Rightarrow> (err option \<times> dogu) op" where
  "retry_dogu 0 p f d = f d"
| "retry_dogu (Suc k) p f d = do {
     (eo, d') \<leftarrow> f d;
     case eo of
       None \<Rightarrow> ret (None, d')
     | Some e \<Rightarrow> if p e then retry_dogu k p f d' else ret (Some e, d')
   }"

definition modify_dogu :: "env \<Rightarrow> (dogu \<Rightarrow> dogu) \<Rightarrow> dogu \<Rightarrow> (err option \<times> dogu) op" where
  "modify_dogu E f d =
     attempt (get_dogu E (d_Name d)) (\<lambda>e. ret (Some e, d))
       (\<lambda>d'. attempt (update_dogu E (f d')) (\<lambda>e. ret (Some e, f d')) (\<lambda>d''. ret (None, d'')))"

section \<open>Conditions, pause, health\<close>

definition expectedConditions :: "string list" where
  "expectedConditions = [ConditionHealthy, ConditionMeetsMinVolumeSize, ConditionReady, ConditionSupportMode,
     ConditionPauseReconciliation]"

definition missing_conditions :: "dogu \<Rightarrow> condition list" where
  "missing_conditions d =
     map (\<lambda>t. mk_condition t ConditionUnknown ''Initializing'' ''Controller is initializing, status not yet determined'' (d_Generation d))
       (filter (\<lambda>t. t \<notin> set (map c_Type (t_Conditions (d_Status d)))) expectedConditions)"

definition InitializeConditionsStep :: "ctx \<Rightarrow> step" where
  "InitializeConditionsStep X d =
     (let cs = missing_conditions d in
      if length cs > 0 then
        attempt (UpdateConditions (cx_L X) (cx_E X) d cs) (fail_with d) continue_with
      else continue_with d)"

definition pause_condition :: "dogu \<Rightarrow> condition" where
  "pause_condition d =
     (if \<not> s_PauseReconciliation (d_Spec d)
      then mk_condition ConditionPauseReconciliation ConditionFalse ''ReconciliationIsEnabled''
             ''Reconciliation of this resource is currently enabled'' (d_Generation d)
      else mk_condition ConditionPauseReconciliation ConditionTrue ''ReconciliationIsPaused''
             ''Reconciliation is paused because of spec change'' (d_Generation d))"

definition PauseReconciliationStep :: "ctx \<Rightarrow> step" where
  "PauseReconciliationStep X d =
     attempt (update_dogu_status (cx_E X) d (set_condition (cx_L X) (pause_condition d))) (fail_with d)
       (\<lambda>d'. if s_PauseReconciliation (d_Spec d') then ret (Abort, d') else continue_with d')"

definition health_condition :: "dogu \<Rightarrow> bool \<Rightarrow> condition" where
  "health_condition d available =
     (if available
      then mk_condition ConditionHealthy ConditionTrue ''DoguIsHealthy'' ''All replicas are available'' (d_Generation d)
      else mk_condition ConditionHealthy ConditionFalse ''DoguIsNotHealthy'' ''Not all replicas are available'' (d_Generation d))"

definition health_status :: "lib \<Rightarrow> dogu \<Rightarrow> bool \<Rightarrow> dogu_status \<Rightarrow> dogu_status" where
  "health_status L d available s =
     set_condition L (health_condition d available)
       (s\<lparr> t_Health := (if available then AvailableHealthStatus else UnavailableHealthStatus) \<rparr>)"

definition updateDoguHealth :: "ctx \<Rightarrow> deployment \<Rightarrow> dogu \<Rightarrow> dogu res op" where
  "updateDoguHealth X dep d =
     attempt (FetchInstalled (cx_E X) (dep_ObjName dep))
       (throw_wrap ''failed to get current dogu json to update health state configMap'')
       (\<lambda>n. check_err (UpdateHealthConfigMap (cx_L X) (cx_E X) dep n)
          (throw_wrap ''failed to update health state configMap'')
          (update_dogu_status (cx_E X) d (health_status (cx_L X) d (IsAvailable dep))))"

definition HealthCheckStep :: "ctx \<Rightarrow> step" where
  "HealthCheckStep X d =
     attempt (get_deployment (cx_E X) (d_Name d))
       (\<lambda>e. if IsNotFound e then continue_with d else fail_with d e)
       (\<lambda>dep. attempt (updateDoguHealth X dep d)
          (\<lambda>e. if IsNotFoundError e then continue_with d else fail_with d e) continue_with)"

section \<open>Descriptor, validation, finalizer\<close>

definition FetchRemoteDoguDescriptorStep :: "ctx \<Rightarrow> step" where
  "FetchRemoteDoguDescriptorStep X d =
     (case lib_GetSimpleNameVersion (cx_L X) d of
        Inl e \<Rightarrow> fail_with d e
      | Inr v \<Rightarrow>
          attempt (repo_get (cx_E X) v)
            (\<lambda>e. if \<not> IsNotFoundError e then fail_with d e
                 else attempt (FetchWithResource (cx_L X) (cx_E X) d) (fail_wrap d ''failed to fetch dogu descriptor'')
                   (\<lambda>(n, developmentDoguMap).
                      attempt (repo_add (cx_E X) (lib_GetSimpleDoguName (cx_L X) d) n) (fail_with d)
                        (\<lambda>_. case developmentDoguMap of
                            None \<Rightarrow> continue_with d
                          | Some cm \<Rightarrow>
                              attempt (delete_config_map (cx_E X) (cm_Name cm)) (\<lambda>_. continue_with d) (\<lambda>_. continue_with d))))
            (\<lambda>_. continue_with d))"

definition isOlder :: "lib \<Rightarrow> string \<Rightarrow> string \<Rightarrow> bool res" where
  "isOlder L v1 v2 =
     (case lib_ParseVersion L v1 of
        Inl e \<Rightarrow> Inl e
      | Inr w1 \<Rightarrow> (case lib_ParseVersion L v2 of Inl e \<Rightarrow> Inl e | Inr w2 \<Rightarrow> Inr (lib_IsOlderThan L w1 w2)))"

definition checkDoguIdentity :: "lib \<Rightarrow> descriptor \<Rightarrow> descriptor \<Rightarrow> bool \<Rightarrow> err option" where
  "checkDoguIdentity L localDogu remoteDogu namespaceChange =
     (if lib_GetSimpleName L localDogu \<noteq> lib_GetSimpleName L remoteDogu
      then Some (ErrMsg ''dogus must have the same name'')
      else if \<not> namespaceChange \<and> lib_GetNamespace L localDogu \<noteq> lib_GetNamespace L remoteDogu
      then Some (ErrMsg ''dogus must have the same namespace'')
      else None)"

definition shouldAbortBecauseOfUnallowedDowngrade :: "lib \<Rightarrow> descriptor option \<Rightarrow> dogu \<Rightarrow> bool res op" where
  "shouldAbortBecauseOfUnallowedDowngrade L fromDogu d =
     (case fromDogu of
        None \<Rightarrow> ok False
      | Some n \<Rightarrow>
          (case isOlder L (s_Version (d_Spec d)) (n_Version n) of
             Inl e \<Rightarrow> throw e
           | Inr older \<Rightarrow>
               if older \<and> \<not> s_ForceUpgrade (d_Spec d)
               then do { _ \<leftarrow> record_event EventTypeWarning ''Installation''; ok True }
               else ok False))"

definition shouldValidateDependencies :: "dogu \<Rightarrow> bool" where
  "shouldValidateDependencies d = (\<not> s_Stopped (d_Spec d))"

text \<open>A recursion over dependencies that does not end within the fuel would exhaust the stack.\<close>

definition checkHealthOfDependencies :: "ctx \<Rightarrow> descriptor \<Rightarrow> err option op" where
  "checkHealthOfDependencies X n = do {
     r \<leftarrow> CheckDependenciesRecursive (cx_L X) (cx_E X) (cx_C X) (cx_Fuel X) n;
     ret (case r of None \<Rightarrow> Some (ErrPanic ''stack overflow'') | Some eo \<Rightarrow> eo)
   }"

definition validateTarget :: "ctx \<Rightarrow> descriptor \<Rightarrow> step" where
  "validateTarget X toDogu d =
     check_err (if shouldValidateDependencies d then
          check_err (ValidateDependencies (cx_L X) (cx_E X) (cx_C X) toDogu) (\<lambda>e. ret (Some e))
            (checkHealthOfDependencies X toDogu)
        else ret None)
       (fail_with d)
       (case ValidateSecurity (cx_L X) toDogu d of
          Some e \<Rightarrow> fail_with d e
        | None \<Rightarrow>
            check_err (ValidateAdditionalMounts (cx_L X) (cx_E X) toDogu d) (fail_with d) (continue_with d))"

definition ValidationStep :: "ctx \<Rightarrow> step" where
  "ValidationStep X d = do {
     r \<leftarrow> FetchInstalled (cx_E X) (lib_GetSimpleDoguName (cx_L X) d);
     if (case r of Inl e \<Rightarrow> \<not> IsNotFoundError e | Inr _ \<Rightarrow> False)
     then fail_with d (case r of Inl e \<Rightarrow> e | Inr _ \<Rightarrow> ErrMsg [])
     else let fromDogu = (case r of Inl _ \<Rightarrow> None | Inr n \<Rightarrow> Some n) in
       attempt (shouldAbortBecauseOfUnallowedDowngrade (cx_L X) fromDogu d) (fail_with d)
         (\<lambda>unallowed. if unallowed then ret (Abort, d)
            else attempt (FetchForResource (cx_L X) (cx_E X) d) (fail_wrap d ''failed to fetch dogu descriptor'')
              (\<lambda>toDogu.
                 case (case fromDogu of None \<Rightarrow> None
                       | Some n \<Rightarrow> checkDoguIdentity (cx_L X) n toDogu (s_AllowNamespaceSwitch (d_Spec d))) of
                   Some e \<Rightarrow> fail_with d e
                 | None \<Rightarrow> validateTarget X toDogu d))
   }"

definition finalizerName :: string where "finalizerName = ''k8s.cloudogu.com/dogu-cleanup''"
definition legacyFinalizerName :: string where "legacyFinalizerName = ''dogu-finalizer''"

definition AddFinalizer :: "string \<Rightarrow> dogu \<Rightarrow> dogu" where
  "AddFinalizer f d =
     (if f \<in> set (d_Finalizers d) then d else d\<lparr> d_Finalizers := d_Finalizers d @ [f] \<rparr>)"

definition CreateFinalizerStep :: "ctx \<Rightarrow> step" where
  "CreateFinalizerStep X d =
     (if finalizerName \<in> set (d_Finalizers d) then continue_with d
      else do {
        (eo, d') \<leftarrow> retry_dogu (lib_RetryBound (cx_L X)) IsConflict (modify_dogu (cx_E X) (AddFinalizer finalizerName)) d;
        case eo of Some e \<Rightarrow> fail_wrap d' ''failed to update dogu'' e | None \<Rightarrow> continue_with d'
      })"

section \<open>Configuration, owner references, registration\<close>

definition CreateConfigStep :: "ctx \<Rightarrow> config_repo \<Rightarrow> step" where
  "CreateConfigStep X repo d =
     attempt (config_get (cx_E X) repo (d_Name d))
       (\<lambda>e. if \<not> IsNotFoundError e then fail_with d e
            else attempt (config_create (cx_E X) repo \<lparr> cfg_DoguName = d_Name d, cfg_Entries = [], cfg_LastUpdated = 0 \<rparr>)
                   (fail_with d) (\<lambda>_. continue_with d))
       (\<lambda>_. continue_with d)"

definition OwnerReferenceStep :: "ctx \<Rightarrow> owned_repo \<Rightarrow> step" where
  "OwnerReferenceStep X repo d =
     (case lib_GVKForDogu (cx_L X) d of
        Inl e \<Rightarrow> fail_with d e
      | Inr (kind, groupVersion) \<Rightarrow>
          attempt (set_owner_reference (cx_E X) repo (d_Name d)
              \<lparr> or_Name = d_Name d, or_Kind = kind, or_APIVersion = groupVersion, or_UID = d_UID d,
                or_Controller = True, or_BlockOwnerDeletion = True \<rparr>)
            (fail_with d) (\<lambda>_. continue_with d))"

definition install_RegisterDoguVersionStep :: "ctx \<Rightarrow> step" where
  "install_RegisterDoguVersionStep X d =
     attempt (Enabled (cx_E X) (lib_GetSimpleDoguName (cx_L X) d)) (fail_wrap d ''failed to check if dogu is enabled'')
       (\<lambda>enabled. if enabled then continue_with d
          else attempt (FetchForResource (cx_L X) (cx_E X) d) (fail_wrap d ''failed to fetch dogu descriptor'')
            (\<lambda>n. check_err (RegisterNewDogu (cx_L X) (cx_E X) n) (fail_wrap d ''failed to register dogu'') (continue_with d)))"

section \<open>Service accounts and authentication\<close>

definition RemoveServiceAccountStep :: "ctx \<Rightarrow> step" where
  "RemoveServiceAccountStep X d =
     (if map_of (d_Annotations d) ''wasRestored'' = None then continue_with d
      else attempt (FetchInstalled (cx_E X) (lib_GetSimpleDoguName (cx_L X) d)) (fail_with d)
        (\<lambda>n. check_err (RemoveAllFromComponents (cx_L X) (cx_E X) n) (fail_with d)
           (let d' = d\<lparr> d_Annotations := AList.delete ''wasRestored'' (d_Annotations d) \<rparr> in
            attempt (update_dogu (cx_E X) d') (fail_with d') (\<lambda>_. continue_with d'))))"

definition ServiceAccountStep :: "ctx \<Rightarrow> step" where
  "ServiceAccountStep X d =
     attempt (FetchInstalled (cx_E X) (lib_GetSimpleDoguName (cx_L X) d)) (fail_with d)
       (\<lambda>n. check_err (CreateAll (cx_L X) (cx_E X) (cx_C X) n) (fail_with d) (continue_with d))"

definition AuthRegistrationStep :: "ctx \<Rightarrow> step" where
  "AuthRegistrationStep X d =
     (if \<not> oc_AuthRegistrationEnabled (cx_C X) then continue_with d
      else check_err (EnsureAuthRegistration (cx_L X) (cx_E X) d) (fail_with d) (continue_with d))"

section \<open>Cluster resources\<close>

definition createOrUpdateService :: "env \<Rightarrow> service \<Rightarrow> err option op" where
  "createOrUpdateService E svc =
     attempt (get_service E (svc_Name svc))
       (\<lambda>e. if \<not> IsNotFound e then ret (Some e) else err_only (create_service E svc))
       (\<lambda>_. err_only (update_service E svc))"

definition ServiceStep :: "ctx \<Rightarrow> step" where
  "ServiceStep X d =
     attempt (FetchForResource (cx_L X) (cx_E X) d) (fail_with d)
       (\<lambda>n. attempt (PullImageConfig (cx_L X) (cx_E X) (n_Image n @ '':'' @ n_Version n)) (fail_with d)
          (\<lambda>img. case CreateDoguService (cx_L X) d n img of
              Inl e \<Rightarrow> fail_with d e
            | Inr svc \<Rightarrow> check_err (createOrUpdateService (cx_E X) svc) (fail_with d) (continue_with d)))"

definition CreateExecPodStep :: "ctx \<Rightarrow> step" where
  "CreateExecPodStep X d = do {
     r \<leftarrow> get_deployment (cx_E X) (d_Name d);
     if IgnoreNotFound (err_of r) \<noteq> None then fail_with d (case r of Inl e \<Rightarrow> e | Inr _ \<Rightarrow> ErrMsg [])
     else if s_Stopped (d_Spec d) \<or>
          (case r of Inl _ \<Rightarrow> False
           | Inr dep \<Rightarrow> smap_get (p_Labels (dep_Template dep)) DoguLabelVersion = s_Version (d_Spec d))
     then continue_with d
     else attempt (FetchForResource (cx_L X) (cx_E X) d) (fail_wrap d ''dogu not found in local registry'')
       (\<lambda>n. do {
          _ \<leftarrow> record_event EventTypeNormal ''Installation'';
          check_err (execpod_Create (cx_L X) (cx_E X) (g_Stage (cx_G X)) d n)
            (fail_wrap d ''failed to create execPod for dogu'') (continue_with d)
        })
   }"

definition CustomK8sResourceStep :: "ctx \<Rightarrow> step" where
  "CustomK8sResourceStep X d =
     attempt (FetchInstalled (cx_E X) (lib_GetSimpleDoguName (cx_L X) d)) (fail_wrap d ''failed to fetch dogu descriptor'')
       (\<lambda>n. do {
          exists \<leftarrow> execpod_Exists (cx_L X) (cx_E X) n;
          if \<not> exists then continue_with d
          else check_err (execpod_CheckReady (cx_L X) (cx_E X) n) (fail_wrap d ''failed to check if exec pod is ready'')
            (attempt (ExtractK8sResourcesFromExecPod (cx_L X) (cx_E X) n) (fail_wrap d ''failed to extract customK8sResources'')
               (\<lambda>docs. if length docs > 0 then do {
                     _ \<leftarrow> record_event EventTypeNormal ''Installation'';
                     check_err (CollectApply (cx_E X) docs d) (fail_wrap d ''failed to apply customK8sResources'') (continue_with d)
                   } else continue_with d))
        })"

definition CreateVolumeStep :: "ctx \<Rightarrow> step" where
  "CreateVolumeStep X d =
     attempt (get_pvc (cx_E X) (d_Name d))
       (\<lambda>e. if \<not> IsNotFound e then fail_with d e
            else attempt (FetchInstalled (cx_E X) (d_Name d)) (fail_wrap d ''failed to get dogu descriptor for dogu'')
              (\<lambda>n. attempt (UpsertDoguPVCs (cx_L X) (cx_E X) d n) (fail_with d) (\<lambda>_. continue_with d)))
       (\<lambda>p. check_err (SetControllerReferenceForPVC (cx_L X) (cx_E X) p d) (fail_with d) (continue_with d))"

definition NetworkPoliciesStep :: "ctx \<Rightarrow> step" where
  "NetworkPoliciesStep X d =
     attempt (FetchInstalled (cx_E X) (lib_GetSimpleDoguName (cx_L X) d)) (fail_with d)
       (\<lambda>n. attempt (get_service (cx_E X) (d_Name d)) (fail_wrap d ''failed to get dogu service'')
          (\<lambda>svc. check_err (UpsertDoguNetworkPolicies (cx_L X) (cx_E X) (cx_C X) d n svc) (fail_with d) (continue_with d)))"

definition CreateDeploymentStep :: "ctx \<Rightarrow> step" where
  "CreateDeploymentStep X d =
     attempt (get_deployment (cx_E X) (d_Name d))
       (\<lambda>e. if \<not> IsNotFound e then fail_with d e
            else attempt (FetchInstalled (cx_E X) (lib_GetSimpleDoguName (cx_L X) d)) (fail_with d)
              (\<lambda>n. attempt (UpsertDoguDeployment (cx_L X) (cx_E X) (cx_G X) d n None) (fail_with d) (\<lambda>_. continue_with d)))
       (\<lambda>_. continue_with d)"

section \<open>What a passed validation means\<close>

lemma run_checkHealthOfDependencies:
  assumes "cx_E X = (\<lambda>_. K)"
  shows "fst (run_state (checkHealthOfDependencies X n) h) = None \<longleftrightarrow>
    dependency_errors (cx_L X) K (cx_C X) (cx_Fuel X) n = Some None"
proof -
  obtain x h' where x: "run_state (CheckDependenciesRecursive (cx_L X) (\<lambda>_. K) (cx_C X) (cx_Fuel X) n) h = (x, h')" by fastforce
  with CheckDependenciesRecursive_errors(1) [of "cx_L X" K "cx_C X" "cx_Fuel X" n h] show ?thesis
    by (auto simp: checkHealthOfDependencies_def assms split: option.splits)
qed

definition dependencies_satisfied :: "lib \<Rightarrow> cluster \<Rightarrow> operator_config \<Rightarrow> descriptor \<Rightarrow> bool" where
  "dependencies_satisfied L K C n \<longleftrightarrow>
     list_all (operator_allows L C) (lib_GetDependenciesOfType L n ''client'') \<and>
     list_all (\<lambda>dep. dependency_met L K C False dep \<and> dependency_healthy K C False dep) (lib_GetDependenciesOfType L n ''dogu'') \<and>
     list_all (\<lambda>dep. dependency_met L K C True dep \<and> dependency_healthy K C True dep) (lib_GetOptionalDependenciesOfType L n ''dogu'')"

lemma validateTarget_proceeds:
  assumes K: "cx_E X = (\<lambda>_. K)" and run: "run_state (validateTarget X n d) h = ((r, d'), h')" and "proceeds r"
  shows "ValidateSecurity (cx_L X) n d = None \<and>
    (s_Stopped (d_Spec d) \<or> dependencies_satisfied (cx_L X) K (cx_C X) n)"
proof -
  let ?V = "ValidateDependencies (cx_L X) (cx_E X) (cx_C X) n"
  obtain v h1 where v: "run_state ?V h = (v, h1)" by fastforce
  obtain c h2 where c: "run_state (checkHealthOfDependencies X n) h1 = (c, h2)" by fastforce
  have sec: "ValidateSecurity (cx_L X) n d = None"
    using run \<open>proceeds r\<close> by (auto simp: validateTarget_def run_check_err split: prod.splits option.splits)
  moreover have "dependencies_satisfied (cx_L X) K (cx_C X) n" if "\<not> s_Stopped (d_Spec d)"
  proof -
    have "v = None" "c = None"
      using run \<open>proceeds r\<close> v c that
      by (auto simp: validateTarget_def shouldValidateDependencies_def run_check_err split: option.splits)
    then have "dependency_errors (cx_L X) K (cx_C X) (cx_Fuel X) n = Some None"
      using c run_checkHealthOfDependencies [OF K, of n h1] by simp
    from dependency_errors_healthy [OF this] \<open>v = None\<close> v ValidateDependencies_decides [where L = "cx_L X" and C = "cx_C X" and K = K and dogu = n and h = h]
    show ?thesis by (auto simp: K dependencies_satisfied_def list.pred_set)
  qed
  ultimately show ?thesis by blast
qed

lemma ValidationStep_passed:
  assumes K: "cx_E X = (\<lambda>_. K)" and run: "run_state (ValidationStep X d) h = ((r, d'), h')" and "proceeds r"
  shows "\<exists>v n. lib_GetSimpleNameVersion (cx_L X) d = Inr v \<and> a_GetDescriptor K v = Inr n \<and>
    (\<forall>n0. installed K (lib_GetSimpleDoguName (cx_L X) d) = Inr n0 \<longrightarrow>
       (isOlder (cx_L X) (s_Version (d_Spec d)) (n_Version n0) = Inr False \<or> s_ForceUpgrade (d_Spec d)) \<and>
       checkDoguIdentity (cx_L X) n0 n (s_AllowNamespaceSwitch (d_Spec d)) = None) \<and>
    ValidateSecurity (cx_L X) n d = None \<and>
    (s_Stopped (d_Spec d) \<or> dependencies_satisfied (cx_L X) K (cx_C X) n)"
proof -
  obtain h1 where i: "run_state (FetchInstalled (\<lambda>_. K) (lib_GetSimpleDoguName (cx_L X) d)) h =
      (installed K (lib_GetSimpleDoguName (cx_L X) d), h1)" using FetchInstalled_run by blast
  obtain v n h2 where v: "lib_GetSimpleNameVersion (cx_L X) d = Inr v" "a_GetDescriptor K v = Inr n"
    and t: "run_state (validateTarget X n d) h2 = ((r, d'), h')"
    and "\<forall>n0. installed K (lib_GetSimpleDoguName (cx_L X) d) = Inr n0 \<longrightarrow>
       (isOlder (cx_L X) (s_Version (d_Spec d)) (n_Version n0) = Inr False \<or> s_ForceUpgrade (d_Spec d)) \<and>
       checkDoguIdentity (cx_L X) n0 n (s_AllowNamespaceSwitch (d_Spec d)) = None"
    using run i \<open>proceeds r\<close>
    by (auto simp: ValidationStep_def K run_attempt shouldAbortBecauseOfUnallowedDowngrade_def FetchForResource_def io_defs Let_def
        split: sum.splits if_splits option.splits)
  with validateTarget_proceeds [OF K t \<open>proceeds r\<close>] show ?thesis by blast
qed

end
