(* ===== verification/Steps_Delete.thy ===== *)
theory Steps_Delete
  imports Steps_Install
begin

text \<open>Package \<^verbatim>\<open>steps/deletion\<close>: the steps that run once a dogu resource is marked for deletion.\<close>

definition deleting_condition :: "dogu \<Rightarrow> string \<Rightarrow> condition" where
  "deleting_condition d t = mk_condition t ConditionFalse ''Deleting'' ''The dogu is being deleted.'' (d_Generation d)"

definition deleting_status :: "lib \<Rightarrow> dogu \<Rightarrow> dogu_status \<Rightarrow> dogu_status" where
  "deleting_status L d s =
     set_condition L (deleting_condition d ConditionReady)
       (set_condition L (deleting_condition d ConditionHealthy)
          (s\<lparr> t_Status := DoguStatusDeleting, t_Health := UnavailableHealthStatus \<rparr>))"

definition StatusStep :: "ctx \<Rightarrow> step" where
  "StatusStep X d =
     attempt (update_dogu_status (cx_E X) d (deleting_status (cx_L X) d))
       (\<lambda>e. if IsNotFound e then continue_with d else fail_wrap d ''failed to update status of dogu when deleting'' e)
       continue_with"

definition AuthRegistrationRemoverStep :: "ctx \<Rightarrow> step" where
  "AuthRegistrationRemoverStep X d =
     check_err (RemoveAuthRegistration (cx_E X) (lib_GetSimpleDoguName (cx_L X) d)) (fail_with d) (continue_with d)"

definition ServiceAccountRemoverStep :: "ctx \<Rightarrow> step" where
  "ServiceAccountRemoverStep X d =
     attempt (FetchInstalled (cx_E X) (lib_GetSimpleDoguName (cx_L X) d))
       (\<lambda>e. if IsNotFoundError e then continue_with d else fail_with d e)
       (\<lambda>n. check_err (RemoveAll (cx_L X) (cx_E X) n) (fail_with d) (continue_with d))"

definition DeleteOutOfHealthConfigMapStep :: "ctx \<Rightarrow> step" where
  "DeleteOutOfHealthConfigMapStep X d =
     check_err (DeleteDoguOutOfHealthConfigMap (cx_E X) d) (fail_with d) (continue_with d)"

definition RemoveDoguConfigStep :: "ctx \<Rightarrow> config_repo \<Rightarrow> step" where
  "RemoveDoguConfigStep X repo d =
     attempt (config_delete (cx_E X) repo (d_Name d))
       (\<lambda>e. if \<not> IsNotFoundError e then fail_wrap d ''could not delete dogu config'' e else continue_with d)
       (\<lambda>_. continue_with d)"

definition RemoveFinalizer :: "string \<Rightarrow> dogu \<Rightarrow> dogu" where
  "RemoveFinalizer f d = d\<lparr> d_Finalizers := filter (\<lambda>x. x \<noteq> f) (d_Finalizers d) \<rparr>"

definition remove_finalizers :: "dogu \<Rightarrow> dogu" where
  "remove_finalizers d = RemoveFinalizer finalizerName (RemoveFinalizer legacyFinalizerName d)"

definition RemoveFinalizerStep :: "ctx \<Rightarrow> step" where
  "RemoveFinalizerStep X d =
     (if legacyFinalizerName \<notin> set (d_Finalizers d) \<and> finalizerName \<notin> set (d_Finalizers d) then continue_with d
      else do {
        (eo, d') \<leftarrow> retry_dogu (lib_RetryBound (cx_L X)) IsConflict (modify_dogu (cx_E X) remove_finalizers) d;
        case eo of Some e \<Rightarrow> fail_wrap d' ''failed to update dogu'' e | None \<Rightarrow> continue_with d'
      })"

end
