(* ===== verification/Steps_Post.thy ===== *)
theory Steps_Post
  imports Steps_Install
begin

text \<open>
  Package \<^verbatim>\<open>steps/postinstall\<close>: start and stop, volume expansion, security context, export mode, support
  mode, additional mounts.
\<close>

section \<open>Start and stop\<close>

definition requeueAfterReplicasStep :: int where "requeueAfterReplicasStep = 5 * 10 ^ 9"
definition requeueAfterVolume :: int where "requeueAfterVolume = 10 * 10 ^ 9"

definition hasPvc :: "descriptor \<Rightarrow> bool" where
  "hasPvc n = list_ex v_NeedsBackup (n_Volumes n)"

definition request_resized :: "lib \<Rightarrow> pvc \<Rightarrow> quantity \<Rightarrow> bool" where
  "request_resized L p q \<longleftrightarrow> lib_QuantityValue L (pvc_RequestStorage p) \<ge> lib_QuantityValue L q"

definition shouldBeStopped :: "ctx \<Rightarrow> dogu \<Rightarrow> bool res op" where
  "shouldBeStopped X d =
     (if s_Stopped (d_Spec d) then ok True
      else attempt (FetchInstalled (cx_E X) (d_Name d)) throw
        (\<lambda>n. if hasPvc n then
               attempt (get_pvc (cx_E X) (d_Name d)) throw
                 (\<lambda>p. case lib_GetMinDataVolumeSize (cx_L X) d of
                     Inl e \<Rightarrow> throw e
                   | Inr q \<Rightarrow> ok (\<not> request_resized (cx_L X) p q))
             else ok False))"

definition StartStopStep :: "ctx \<Rightarrow> step" where
  "StartStopStep X d =
     attempt (get_scale (cx_E X) (d_Name d)) (fail_with d)
       (\<lambda>replicas. attempt (shouldBeStopped X d) (fail_with d)
          (\<lambda>stop.
             if stop \<and> replicas = 0 \<or> \<not> stop \<and> replicas = 1 then
               (if s_Stopped (d_Spec d) then ret (Abort, d) else continue_with d)
             else attempt (update_scale (cx_E X) (d_Name d) (if stop then 0 else 1)) (fail_with d)
               (\<lambda>_. attempt (update_dogu_status (cx_E X) d (\<lambda>s. s\<lparr> t_Stopped := stop \<rparr>)) (fail_with d)
                  (\<lambda>d'. ret (RequeueAfter requeueAfterReplicasStep, d')))))"

section \<open>Volumes\<close>

definition capacity_resized :: "lib \<Rightarrow> pvc \<Rightarrow> quantity \<Rightarrow> bool" where
  "capacity_resized L p q \<longleftrightarrow> lib_QuantityValue L (pvc_CapacityStorage p) \<ge> lib_QuantityValue L q"

definition setSuccessCondition :: "ctx \<Rightarrow> dogu \<Rightarrow> dogu res op" where
  "setSuccessCondition X d =
     update_dogu_status (cx_E X) d (set_condition (cx_L X)
       (mk_condition ConditionMeetsMinVolumeSize ConditionTrue ''ActualVolumeSizeMeetsMinDataSize''
          ''Current VolumeSize meets the configured minimum VolumeSize'' (d_Generation d)))"

text \<open>
  The error of \<^verbatim>\<open>SetCurrentDataVolumeSize\<close> is dropped: the result of \<^verbatim>\<open>RequeueWithError\<close> is not returned.
  \<^verbatim>\<open>pvc.Spec.Size()\<close> and \<^verbatim>\<open>quantity.Size()\<close> are lengths of protobuf encodings; their comparison is a
  parameter.
\<close>

definition VolumeExpanderStep :: "ctx \<Rightarrow> step" where
  "VolumeExpanderStep X d =
     attempt (FetchInstalled (cx_E X) (d_Name d)) (fail_with d)
       (\<lambda>n. if \<not> hasPvc n then attempt (setSuccessCondition X d) (fail_with d) continue_with
            else attempt (get_pvc (cx_E X) (d_Name d)) (fail_with d)
              (\<lambda>p. case lib_GetMinDataVolumeSize (cx_L X) d of
                  Inl e \<Rightarrow> fail_with d e
                | Inr q \<Rightarrow>
                    if capacity_resized (cx_L X) p q then attempt (setSuccessCondition X d) (fail_with d) continue_with
                    else if lib_SpecSizeEqual (cx_L X) p q then ret (RequeueAfter requeueAfterVolume, d)
                    else do {
                      (_, d') \<leftarrow> SetCurrentDataVolumeSize (cx_L X) (cx_E X) d (Some p);
                      attempt (update_pvc (cx_E X) (p\<lparr> pvc_RequestStorage := q \<rparr>)) (fail_wrap d' ''failed to update PVC'')
                        (\<lambda>_. ret (RequeueAfter requeueAfterVolume, d'))
                    }))"

definition equalPtr :: "'a option \<Rightarrow> 'a option \<Rightarrow> bool" where
  "equalPtr a b = (case (a, b) of (Some x, Some y) \<Rightarrow> x = y | _ \<Rightarrow> a = None \<and> b = None)"

lemma equalPtr_iff [simp]: "equalPtr a b \<longleftrightarrow> a = b"
  by (cases a; cases b) (simp_all add: equalPtr_def)

definition MismatchedStorageClassWarningStep :: "ctx \<Rightarrow> step" where
  "MismatchedStorageClassWarningStep X d =
     (if s_StorageClassName (d_Spec d) = None then continue_with d
      else attempt (get_pvc (cx_E X) (d_Name d)) (fail_with d)
        (\<lambda>p. if pvc_StorageClassName p = None then continue_with d
             else if \<not> equalPtr (pvc_StorageClassName p) (s_StorageClassName (d_Spec d)) then do {
               _ \<leftarrow> record_event EventTypeWarning ''StorageClassMismatch'';
               _ \<leftarrow> record_event EventTypeWarning ''StorageClassMismatch'';
               continue_with d
             } else continue_with d))"

section \<open>Security context\<close>

definition apply_security :: "pod_security_context \<times> security_context \<Rightarrow> deployment \<Rightarrow> deployment" where
  "apply_security sc dep =
     (let tmpl = dep_Template dep in
      dep\<lparr> dep_Template := tmpl\<lparr> p_SecurityContext := Some (fst sc),
        p_Containers := map (\<lambda>c. c\<lparr> k_SecurityContext := Some (snd sc) \<rparr>) (p_Containers tmpl) \<rparr> \<rparr>)"

definition SecurityContextStep :: "ctx \<Rightarrow> step" where
  "SecurityContextStep X d =
     attempt (FetchInstalled (cx_E X) (lib_GetSimpleDoguName (cx_L X) d)) (fail_wrap d ''failed to get local descriptor'')
       (\<lambda>n. do {
          r \<leftarrow> retry_on (lib_RetryBound (cx_L X)) IsConflict
                 (attempt (get_deployment (cx_E X) (d_Name d)) (throw_wrap ''failed to get deployment of dogu'')
                    (\<lambda>dep. update_deployment (cx_E X) (apply_security (security_Generate (cx_L X) n d) dep)));
          case r of Inl e \<Rightarrow> fail_with d e | Inr _ \<Rightarrow> continue_with d
        })"

section \<open>Export mode, support mode, additional mounts\<close>

definition ExportModeStep :: "ctx \<Rightarrow> step" where
  "ExportModeStep X d = do {
     (eo, d') \<leftarrow> UpdateExportMode (cx_L X) (cx_E X) (cx_G X) d;
     case eo of Some e \<Rightarrow> fail_with d' e | None \<Rightarrow> continue_with d'
   }"

definition support_condition :: "dogu \<Rightarrow> bool \<Rightarrow> condition" where
  "support_condition d active =
     (if active
      then mk_condition ConditionSupportMode ConditionTrue ''SupportModeActive'' ''The Support mode is active'' (d_Generation d)
      else mk_condition ConditionSupportMode ConditionFalse ''SupportModeInactive'' ''The Support mode is inactive'' (d_Generation d))"

definition setSupportModeCondition :: "ctx \<Rightarrow> dogu \<Rightarrow> condition \<Rightarrow> condition option \<Rightarrow> dogu res op" where
  "setSupportModeCondition X d c healthCondition =
     update_dogu_status (cx_E X) d
       (\<lambda>s. let s' = set_condition (cx_L X) c s in
          case healthCondition of Some hc \<Rightarrow> set_condition (cx_L X) hc s' | None \<Rightarrow> s')"

text \<open>The step has its own copy of the check of the support manager.\<close>

definition step_isDeploymentInSupportMode :: "deployment \<Rightarrow> bool" where
  "step_isDeploymentInSupportMode dep =
     list_ex (\<lambda>c. list_ex (\<lambda>e. ev_Name e = SupportModeEnvVar \<and> ev_Value e = EnvLiteral ''true'') (k_Env c)) (p_Containers (dep_Template dep))"

lemma step_isDeploymentInSupportMode_eq [simp]: "step_isDeploymentInSupportMode dep = isDeploymentInSupportMode dep"
  by (simp add: step_isDeploymentInSupportMode_def isDeploymentInSupportMode_def)

definition SupportModeStep :: "ctx \<Rightarrow> step" where
  "SupportModeStep X d =
     attempt (HandleSupportMode (cx_L X) (cx_E X) (cx_G X) d) (fail_wrap d ''failed to handle support mode'')
       (\<lambda>_. attempt (get_deployment (cx_E X) (d_Name d)) (fail_wrap d ''failed to get deployment of dogu'')
          (\<lambda>dep.
             if step_isDeploymentInSupportMode dep then
               let d' = d\<lparr> d_Status := (d_Status d)\<lparr> t_Health := UnavailableHealthStatus \<rparr> \<rparr> in
               attempt (setSupportModeCondition X d' (support_condition d' True)
                   (Some (mk_condition ConditionHealthy ConditionFalse ''SupportModeActive'' ''The Support mode is active'' (d_Generation d'))))
                 (fail_with d') (\<lambda>d''. ret (Abort, d''))
             else attempt (setSupportModeCondition X d (support_condition d False) None) (fail_with d) continue_with))"

definition AdditionalMountsStep :: "ctx \<Rightarrow> step" where
  "AdditionalMountsStep X d =
     (let img = smap_get (g_AdditionalImages (cx_G X)) ''additionalMountsInitContainerImage'' in
      attempt (AdditionalMountsChanged (cx_L X) (cx_E X) img d) (fail_with d)
        (\<lambda>changed. if changed then
             check_err (UpdateAdditionalMounts (cx_L X) (cx_E X) img d) (fail_with d) (continue_with d)
           else continue_with d))"

section \<open>When the steps let the reconciliation proceed\<close>

lemma shouldBeStopped_False:
  "run_state (shouldBeStopped X d) h = (Inr False, h') \<Longrightarrow> \<not> s_Stopped (d_Spec d)"
  by (auto simp: shouldBeStopped_def)

text \<open>A dogu is started with one replica, and only if its volume claim asks for enough space.\<close>

lemma StartStopStep_proceeds:
  assumes "run_state (StartStopStep X d) h = ((r, d'), h')" "proceeds r"
  shows "\<not> s_Stopped (d_Spec d)"
    "\<exists>stop h1. fst (run_state (shouldBeStopped X d) h1) = Inr stop \<and> a_GetScale (cx_E X h) (d_Name d) = Inr (if stop then 0 else 1)"
proof -
  obtain x h1 where x: "run_state (shouldBeStopped X d) (h @ [Event (CGetScale (d_Name d)) (err_of (a_GetScale (cx_E X h) (d_Name d)))]) = (x, h1)"
    by fastforce
  with assms show "\<not> s_Stopped (d_Spec d)"
    by (auto simp: StartStopStep_def run_attempt io_defs split: sum.splits if_splits)
  from x assms obtain stop where "x = Inr stop" "a_GetScale (cx_E X h) (d_Name d) = Inr (if stop then 0 else 1)"
    by (auto simp: StartStopStep_def run_attempt io_defs split: sum.splits if_splits)
  with x show "\<exists>stop h1. fst (run_state (shouldBeStopped X d) h1) = Inr stop \<and> a_GetScale (cx_E X h) (d_Name d) = Inr (if stop then 0 else 1)"
    by (metis fst_conv)
qed

text \<open>The scale is only ever set to the wanted value, and only if it differs.\<close>

lemma StartStopStep_scale:
  assumes "run_state (StartStopStep X d) h = ((r, d'), h @ t)" "Event (CUpdateScale m k) eo \<in> set t"
  shows "m = d_Name d \<and> k \<in> {0, 1} \<and> (s_Stopped (d_Spec d) \<longrightarrow> k = 0) \<and> \<not> proceeds r"
proof -
  have quiet: "emits (\<lambda>e. \<forall>m k. ev_call e \<noteq> CUpdateScale m k) (shouldBeStopped X d)"
    unfolding shouldBeStopped_def FetchInstalled_def getLocalDogu_def io_defs by (auto intro!: emits_rules)
  obtain x h1 where x: "run_state (shouldBeStopped X d) (h @ [Event (CGetScale (d_Name d)) (err_of (a_GetScale (cx_E X h) (d_Name d)))]) = (x, h1)"
    by fastforce
  with emitsD [OF quiet] obtain s where s: "h1 = h @ [Event (CGetScale (d_Name d)) (err_of (a_GetScale (cx_E X h) (d_Name d)))] @ s"
    "list_all (\<lambda>e. \<forall>m k. ev_call e \<noteq> CUpdateScale m k) s" by fastforce
  have stop: "x = Inr False \<Longrightarrow> \<not> s_Stopped (d_Spec d)" using x shouldBeStopped_False by blast
  have "Event (CUpdateScale m k) eo \<notin> set s" using s(2) by (auto simp: list_all_iff)
  then show ?thesis
    using assms x s(1) stop
    by (auto simp: StartStopStep_def run_attempt io_defs split: sum.splits if_splits)
qed

text \<open>The reconciliation goes on only when the volume is as large as the dogu asks for.\<close>

lemma VolumeExpanderStep_proceeds:
  assumes "cx_E X = (\<lambda>_. K)" "run_state (VolumeExpanderStep X d) h = ((r, d'), h')" "proceeds r"
  shows "\<exists>n. installed K (d_Name d) = Inr n \<and> (hasPvc n \<longrightarrow>
    (\<exists>p q. a_GetPVC K (d_Name d) = Inr p \<and> lib_GetMinDataVolumeSize (cx_L X) d = Inr q \<and> capacity_resized (cx_L X) p q))"
proof -
  obtain h1 where "run_state (FetchInstalled (\<lambda>_. K) (d_Name d)) h = (installed K (d_Name d), h1)"
    using FetchInstalled_run by blast
  with assms show ?thesis
    by (auto simp: VolumeExpanderStep_def run_attempt io_defs split: sum.splits if_splits prod.splits)
qed

text \<open>The steps after support mode run only if the deployment is not in support mode.\<close>

lemma SupportModeStep_proceeds:
  assumes "run_state (SupportModeStep X d) h = ((r, d'), h')" "proceeds r"
  shows "\<exists>h1 dep. a_GetDeployment (cx_E X h1) (d_Name d) = Inr dep \<and> \<not> isDeploymentInSupportMode dep"
  using assms
  by (auto simp: SupportModeStep_def run_attempt io_defs Let_def split: sum.splits prod.splits if_splits)

lemma ExportModeStep_proceeds:
  assumes "run_state (ExportModeStep X d) h = ((r, d'), h')" "proceeds r"
  shows "\<exists>pods. a_ListPods (cx_E X h) [(DoguLabelName, d_Name d)] = Inr pods \<and>
    exporter_ready (CreateExporterContainerName (d_Name d)) pods = s_ExportMode (d_Spec d)"
  using assms
  by (auto simp: ExportModeStep_def UpdateExportMode_def shouldUpdateExportMode_def isDeploymentInExportMode_def run_attempt io_defs
      split: sum.splits prod.splits if_splits)

end
