(* ===== verification/Steps_Upgrade.thy ===== *)
theory Steps_Upgrade
  imports Steps_Install
begin

text \<open>Package \<^verbatim>\<open>steps/upgrade\<close>: the steps that carry out an upgrade and the last steps of a reconciliation.\<close>

section \<open>Before the upgrade\<close>

definition not_ready_condition :: "dogu \<Rightarrow> string \<Rightarrow> string \<Rightarrow> string \<Rightarrow> condition" where
  "not_ready_condition d reason msg t = mk_condition t ConditionFalse reason msg (d_Generation d)"

definition upgrading_status :: "lib \<Rightarrow> dogu \<Rightarrow> dogu_status \<Rightarrow> dogu_status" where
  "upgrading_status L d s =
     (let c = not_ready_condition d ''Upgrading''
                ''The spec version differs from the installed version, therefore an upgrade was scheduled.'' in
      set_condition L (c ConditionReady) (set_condition L (c ConditionHealthy)
        (s\<lparr> t_Status := DoguStatusUpgrading, t_Health := UnavailableHealthStatus \<rparr>)))"

definition PreUpgradeStatusStep :: "ctx \<Rightarrow> step" where
  "PreUpgradeStatusStep X d =
     attempt (IsUpgrade (cx_L X) (cx_E X) d) (fail_wrap d ''failed to check if dogu is upgrading'')
       (\<lambda>isUpgrade. if isUpgrade then
            attempt (update_dogu_status (cx_E X) d (upgrading_status (cx_L X) d))
              (fail_wrap d ''failed to update dogu status before upgrade'') continue_with
          else continue_with d)"

section \<open>The new version in the deployment\<close>

definition requeueAfterUpdateDeployment :: int where "requeueAfterUpdateDeployment = 3 * 10 ^ 9"
definition preUpgradeScriptDir :: string where "preUpgradeScriptDir = ''/tmp/pre-upgrade''"
definition upgradeStartupProbeFailureThresholdRetries :: int where "upgradeStartupProbeFailureThresholdRetries = 1080"

definition exposedCommand :: "descriptor \<Rightarrow> string \<Rightarrow> exposed_command option" where
  "exposedCommand n name = find (\<lambda>c. ec_Name c = name) (n_ExposedCommands n)"

definition isDoguVersionUpdatedInDeployment :: "dogu \<Rightarrow> deployment \<Rightarrow> bool" where
  "isDoguVersionUpdatedInDeployment d dep =
     (smap_get (p_Labels (dep_Template dep)) DoguLabelVersion = s_Version (d_Spec d))"

fun increase_threshold :: "string \<Rightarrow> container list \<Rightarrow> container list" where
  "increase_threshold name [] = []"
| "increase_threshold name (c # cs) =
     (case k_StartupProbe c of
        Some p \<Rightarrow>
          if k_Name c = name
          then c\<lparr> k_StartupProbe := Some (p\<lparr> pr_FailureThreshold := upgradeStartupProbeFailureThresholdRetries \<rparr>) \<rparr> # cs
          else c # increase_threshold name cs
      | None \<Rightarrow> c # increase_threshold name cs)"

definition increaseStartupProbeTimeoutForUpdate :: "string \<Rightarrow> deployment \<Rightarrow> deployment" where
  "increaseStartupProbeTimeoutForUpdate name dep =
     (let tmpl = dep_Template dep in
      dep\<lparr> dep_Template := tmpl\<lparr> p_Containers := increase_threshold name (p_Containers tmpl) \<rparr> \<rparr>)"

definition copyPreUpgradeScriptFromPodToPod :: "ctx \<Rightarrow> descriptor \<Rightarrow> pod \<Rightarrow> exposed_command \<Rightarrow> err option op" where
  "copyPreUpgradeScriptFromPodToPod X toDogu destPod c =
     attempt (execpod_Exec (cx_L X) (cx_E X) toDogu (NewShellCommand ''/bin/tar'' [''cf'', ''-'', ec_Command c]))
       (\<lambda>e. ret (Some (ErrWrap ''failed to get pre-upgrade script from execpod'' e)))
       (\<lambda>archive. attempt (ExecCommandForPod (cx_L X) (cx_E X) destPod (NewShellCommand ''/bin/mkdir'' [''-p'', preUpgradeScriptDir]))
          (\<lambda>e. ret (Some (ErrWrap ''failed to create pre-upgrade target dir'' e)))
          (\<lambda>_. attempt (ExecCommandForPod (cx_L X) (cx_E X) destPod
                 (NewShellCommandWithStdin archive ''/bin/tar'' [''xf'', ''-'', ''-C'', preUpgradeScriptDir]))
             (\<lambda>e. ret (Some (ErrWrap ''failed to extract pre-upgrade script to dogu pod'' e)))
             (\<lambda>_. ret None)))"

definition preUpgradeCommand :: "exposed_command \<Rightarrow> string \<Rightarrow> string \<Rightarrow> shell_command" where
  "preUpgradeCommand c fromVersion toVersion =
     NewShellCommand (path_Join [preUpgradeScriptDir, path_Base (ec_Command c)]) [fromVersion, toVersion]"

definition applyPreUpgradeScriptToOlderDogu :: "ctx \<Rightarrow> string \<Rightarrow> pod \<Rightarrow> dogu \<Rightarrow> exposed_command \<Rightarrow> err option op" where
  "applyPreUpgradeScriptToOlderDogu X fromVersion fromPod d c =
     attempt (ExecCommandForPod (cx_L X) (cx_E X) fromPod (preUpgradeCommand c fromVersion (s_Version (d_Spec d))))
       (\<lambda>e. ret (Some (ErrWrap ''failed to execute'' e))) (\<lambda>_. ret None)"

definition applyPreUpgradeScript :: "ctx \<Rightarrow> dogu \<Rightarrow> string \<Rightarrow> descriptor \<Rightarrow> err option op" where
  "applyPreUpgradeScript X d fromVersion toDogu =
     (case exposedCommand toDogu ''pre-upgrade'' of
        None \<Rightarrow> ret None
      | Some c \<Rightarrow>
          attempt (get_pod_for_labels (cx_E X) (AList.update DoguLabelVersion fromVersion (lib_GetPodLabels (cx_L X) d)))
            (\<lambda>e. ret (Some (ErrWrap ''failed to find pod for dogu'' e)))
            (\<lambda>fromPod. check_err (copyPreUpgradeScriptFromPodToPod X toDogu fromPod c) (\<lambda>e. ret (Some e))
               (applyPreUpgradeScriptToOlderDogu X fromVersion fromPod d c)))"

text \<open>The part of the step behind the fetch of the new descriptor.\<close>

definition upgradeDeployment :: "ctx \<Rightarrow> dogu \<Rightarrow> descriptor \<Rightarrow> (step_result \<times> dogu) op" where
  "upgradeDeployment X d n = do {
     exists \<leftarrow> execpod_Exists (cx_L X) (cx_E X) n;
     if \<not> exists then ret (RequeueAfter requeueAfterUpdateDeployment, d)
     else check_err (execpod_CheckReady (cx_L X) (cx_E X) n) (fail_wrap d ''failed to check if exec pod is ready'')
       (attempt (FetchInstalled (cx_E X) (d_Name d)) (fail_wrap d ''failed to fetch dogu descriptor'')
          (\<lambda>fromDogu. check_err (applyPreUpgradeScript X d (n_Version fromDogu) n) (fail_wrap d ''pre-upgrade failed'')
             (attempt (UpsertDoguDeployment (cx_L X) (cx_E X) (cx_G X) d n
                         (Some (increaseStartupProbeTimeoutForUpdate (d_Name d))))
                (fail_with d) (\<lambda>_. ret (RequeueAfter requeueAfterUpdateDeployment, d)))))
   }"

definition UpdateDeploymentVersionStep :: "ctx \<Rightarrow> step" where
  "UpdateDeploymentVersionStep X d =
     attempt (get_deployment (cx_E X) (d_Name d)) (fail_with d)
       (\<lambda>dep. if isDoguVersionUpdatedInDeployment d dep then continue_with d
          else attempt (FetchForResource (cx_L X) (cx_E X) d) (fail_wrap d ''failed to fetch dogu descriptor'')
            (upgradeDeployment X d))"

section \<open>Registration and clean-up\<close>

definition upgrade_RegisterDoguVersionStep :: "ctx \<Rightarrow> step" where
  "upgrade_RegisterDoguVersionStep X d =
     attempt (FetchForResource (cx_L X) (cx_E X) d) (fail_wrap d ''failed to fetch dogu descriptor'')
       (\<lambda>n. check_err (RegisterDoguVersion (cx_L X) (cx_E X) n)
          (\<lambda>e. if IsAlreadyExistsError e then continue_with d else fail_wrap d ''failed to register dogu'' e)
          (continue_with d))"

definition DeleteExecPodStep :: "ctx \<Rightarrow> step" where
  "DeleteExecPodStep X d =
     attempt (FetchInstalled (cx_E X) (lib_GetSimpleDoguName (cx_L X) d)) (fail_wrap d ''dogu not found in local registry'')
       (\<lambda>n. check_err (execpod_Delete (cx_L X) (cx_E X) n) (fail_wrap d ''failed to delete exec pod'') (continue_with d))"

section \<open>After the upgrade\<close>

definition requeueAfterRevertStartupProbe :: int where "requeueAfterRevertStartupProbe = 3 * 10 ^ 9"

definition startupProbeHasDefaultValue :: "deployment \<Rightarrow> string \<Rightarrow> probe option \<Rightarrow> bool" where
  "startupProbeHasDefaultValue dep name p =
     (case find (\<lambda>c. k_Name c = name) (p_Containers (dep_Template dep)) of
        Some c \<Rightarrow> k_StartupProbe c = p | None \<Rightarrow> False)"

definition postUpgradeCommand :: "exposed_command \<Rightarrow> string \<Rightarrow> string \<Rightarrow> shell_command" where
  "postUpgradeCommand c fromVersion toVersion = NewShellCommand (ec_Command c) [fromVersion, toVersion]"

definition executePostUpgradeScript :: "ctx \<Rightarrow> dogu \<Rightarrow> string \<Rightarrow> exposed_command \<Rightarrow> err option op" where
  "executePostUpgradeScript X d fromVersion c =
     attempt (get_pod_for_labels (cx_E X) (lib_GetPodLabels (cx_L X) d))
       (\<lambda>e. ret (Some (ErrWrap ''failed to get new pod for post upgrade'' e)))
       (\<lambda>p. attempt (ExecCommandForPod (cx_L X) (cx_E X) p (postUpgradeCommand c fromVersion (s_Version (d_Spec d))))
          (\<lambda>e. ret (Some (ErrWrap ''failed to execute'' e))) (\<lambda>_. ret None))"

definition applyPostUpgradeScript :: "ctx \<Rightarrow> dogu \<Rightarrow> string \<Rightarrow> descriptor \<Rightarrow> err option op" where
  "applyPostUpgradeScript X d fromVersion toDogu =
     (case exposedCommand toDogu ''post-upgrade'' of
        None \<Rightarrow> ret None | Some c \<Rightarrow> executePostUpgradeScript X d fromVersion c)"

fun revert_probe :: "string \<Rightarrow> probe option \<Rightarrow> container list \<Rightarrow> (container list) option" where
  "revert_probe name p [] = None"
| "revert_probe name p (c # cs) =
     (if k_Name c = name \<and> k_StartupProbe c \<noteq> None then Some (c\<lparr> k_StartupProbe := p \<rparr> # cs)
      else map_option ((#) c) (revert_probe name p cs))"

definition revertStartupProbeAfterUpdate :: "ctx \<Rightarrow> dogu \<Rightarrow> descriptor \<Rightarrow> deployment \<Rightarrow> err option op" where
  "revertStartupProbeAfterUpdate X d toDogu dep =
     (case revert_probe (d_Name d) (CreateStartupProbe (cx_L X) toDogu) (p_Containers (dep_Template dep)) of
        None \<Rightarrow> ret None
      | Some cs \<Rightarrow>
          (let tmpl = dep_Template dep in
           err_only (update_deployment (cx_E X) (dep\<lparr> dep_Template := tmpl\<lparr> p_Containers := cs \<rparr> \<rparr>))))"

definition PostUpgradeStep :: "ctx \<Rightarrow> step" where
  "PostUpgradeStep X d =
     attempt (FetchForResource (cx_L X) (cx_E X) d) (fail_wrap d ''failed to fetch dogu descriptor'')
       (\<lambda>toDogu. attempt (get_deployment (cx_E X) (d_Name d)) (fail_wrap d ''failed to fetch deployment'')
          (\<lambda>dep.
             if startupProbeHasDefaultValue dep (lib_GetSimpleName (cx_L X) toDogu) (CreateStartupProbe (cx_L X) toDogu)
             then continue_with d
             else attempt (FetchInstalled (cx_E X) (lib_GetSimpleDoguName (cx_L X) d))
                 (fail_wrap d ''failed to fetch installed dogu'')
               (\<lambda>fromDogu. check_err (applyPostUpgradeScript X d (n_Version fromDogu) toDogu) (fail_wrap d ''post-upgrade failed'')
                  (check_err (revertStartupProbeAfterUpdate X d toDogu dep) (fail_with d)
                     (ret (RequeueAfter requeueAfterRevertStartupProbe, d))))))"

definition InstalledVersionStep :: "ctx \<Rightarrow> step" where
  "InstalledVersionStep X d =
     attempt (update_dogu_status (cx_E X) d
        (\<lambda>s. s\<lparr> t_InstalledVersion := s_Version (d_Spec d), t_Status := DoguStatusInstalled \<rparr>)) (fail_with d) continue_with"

definition RegenerateDeploymentStep :: "ctx \<Rightarrow> step" where
  "RegenerateDeploymentStep X d =
     (if t_InstalledVersion (d_Status d) \<noteq> s_Version (d_Spec d) then continue_with d
      else attempt (get_deployment (cx_E X) (d_Name d)) (fail_with d)
        (\<lambda>actual. attempt (FetchForResource (cx_L X) (cx_E X) d) (fail_with d)
           (\<lambda>n. attempt (UpdateDoguDeployment (cx_L X) (cx_E X) (cx_G X) actual d n) (fail_with d)
              (\<lambda>target. attempt (update_deployment (cx_E X) target) (fail_with d) (\<lambda>_. continue_with d)))))"

definition UpdateStartedAtStep :: "ctx \<Rightarrow> step" where
  "UpdateStartedAtStep X d =
     attempt (GetLastStartingTime (cx_E X) (d_Name d)) (fail_with d)
       (\<lambda>t. attempt (update_dogu_status (cx_E X) d (\<lambda>s. s\<lparr> t_StartedAt := t \<rparr>)) (fail_with d) continue_with)"

definition restarting_status :: "lib \<Rightarrow> dogu \<Rightarrow> dogu_status \<Rightarrow> dogu_status" where
  "restarting_status L d s =
     (let c = not_ready_condition d ''Restarting'' ''the dogu needs to be restarted because of config changes'' in
      (set_condition L (c ConditionReady) (set_condition L (c ConditionHealthy) s))\<lparr> t_Health := UnavailableHealthStatus \<rparr>)"

definition config_changed_after :: "int \<Rightarrow> int list \<Rightarrow> bool" where
  "config_changed_after startingTime updates = list_ex (\<lambda>u. startingTime < u) updates"

definition RestartAfterConfigChangeStep :: "ctx \<Rightarrow> step" where
  "RestartAfterConfigChangeStep X d =
     attempt (GetLastStartingTime (cx_E X) (d_Name d)) (fail_with d)
       (\<lambda>t. attempt (config_get (cx_E X) SensitiveConfig (lib_GetSimpleDoguName (cx_L X) d)) (fail_with d)
          (\<lambda>sens. attempt (config_get (cx_E X) NormalConfig (lib_GetSimpleDoguName (cx_L X) d)) (fail_with d)
             (\<lambda>cfg. attempt (global_config_last_updated (cx_E X)) (fail_with d)
                (\<lambda>globalUpdated.
                   if config_changed_after t [cfg_LastUpdated sens, cfg_LastUpdated cfg, globalUpdated] then
                     check_err (RestartDogu (cx_L X) (cx_E X) d) (fail_with d)
                       (attempt (update_dogu_status (cx_E X) d (restarting_status (cx_L X) d)) (fail_with d) continue_with)
                   else continue_with d))))"

definition wants_account_of :: "string \<Rightarrow> descriptor \<Rightarrow> bool" where
  "wants_account_of name n =
     list_ex (\<lambda>sa. (sa_Kind sa = ''dogu'' \<or> sa_Kind sa = []) \<and> sa_Type sa = name) (n_ServiceAccounts n)"

fun retroactive_loop :: "ctx \<Rightarrow> string \<Rightarrow> dogu list \<Rightarrow> (err option list) op" where
  "retroactive_loop X name [] = ret []"
| "retroactive_loop X name (dg # ds) = do {
     r \<leftarrow> FetchForResource (cx_L X) (cx_E X) dg;
     case r of
       Inl e \<Rightarrow> do { es \<leftarrow> retroactive_loop X name ds; ret (Some e # es) }
     | Inr n \<Rightarrow> do {
         _ \<leftarrow> (if wants_account_of name n then enqueue_dogu dg else ret ());
         retroactive_loop X name ds
       }
   }"

definition RetroactiveServiceAccountStep :: "ctx \<Rightarrow> step" where
  "RetroactiveServiceAccountStep X d =
     attempt (list_dogus (cx_E X)) (fail_wrap d ''list dogus for retroactive service accounts'')
       (\<lambda>ds. do {
          es \<leftarrow> retroactive_loop X (d_Name d) ds;
          case errors_Join es of
            Some e \<Rightarrow> fail_wrap d ''retrieve retroactive service accounts'' e
          | None \<Rightarrow> continue_with d
        })"

section \<open>When the steps let the reconciliation proceed\<close>

text \<open>The later steps run only once the deployment carries the version of the spec.\<close>

lemma UpdateDeploymentVersionStep_proceeds:
  assumes "run_state (UpdateDeploymentVersionStep X d) h = ((r, d'), h')" "proceeds r"
  shows "\<exists>dep. a_GetDeployment (cx_E X h) (d_Name d) = Inr dep \<and> isDoguVersionUpdatedInDeployment d dep \<and>
    d' = d \<and> h' = h @ [Event (CGetDeployment (d_Name d)) None]"
  using assms
  by (auto simp: UpdateDeploymentVersionStep_def upgradeDeployment_def run_attempt run_check_err io_defs
      split: sum.splits prod.splits option.splits if_splits)

text \<open>After this step the installed version is the version of the spec.\<close>

lemma InstalledVersionStep_proceeds:
  assumes "status_update_lawful (cx_E X)" "run_state (InstalledVersionStep X d) h = ((r, d'), h')" "proceeds r"
  shows "t_InstalledVersion (d_Status d') = s_Version (d_Spec d')" "d_Spec d' = d_Spec d"
proof -
  have u: "a_UpdateDoguStatus (cx_E X h) d
      (\<lambda>s. s\<lparr> t_InstalledVersion := s_Version (d_Spec d), t_Status := DoguStatusInstalled \<rparr>) = Inr d'"
    using assms(2,3) by (auto simp: InstalledVersionStep_def run_attempt io_defs split: sum.splits)
  from status_update_lawfulD [OF assms(1) u]
  show "t_InstalledVersion (d_Status d') = s_Version (d_Spec d')" "d_Spec d' = d_Spec d" by auto
qed

lemma PostUpgradeStep_proceeds:
  assumes "cx_E X = (\<lambda>_. K)" "run_state (PostUpgradeStep X d) h = ((r, d'), h')" "proceeds r"
  shows "\<exists>v n dep. lib_GetSimpleNameVersion (cx_L X) d = Inr v \<and> a_GetDescriptor K v = Inr n \<and>
    a_GetDeployment K (d_Name d) = Inr dep \<and>
    startupProbeHasDefaultValue dep (lib_GetSimpleName (cx_L X) n) (CreateStartupProbe (cx_L X) n)"
  using assms
  by (auto simp: PostUpgradeStep_def FetchForResource_def run_attempt run_check_err io_defs
      split: sum.splits prod.splits option.splits if_splits)

section \<open>Startup probes during an upgrade\<close>

lemma increase_threshold_sets:
  assumes "c \<in> set cs" "k_Name c = name" "k_StartupProbe c \<noteq> None" "distinct (map k_Name cs)"
  shows "\<exists>c' \<in> set (increase_threshold name cs). k_Name c' = name \<and>
    (\<exists>p. k_StartupProbe c' = Some p \<and> pr_FailureThreshold p = upgradeStartupProbeFailureThresholdRetries)"
  using assms
proof (induction cs)
  case (Cons a cs)
  then show ?case by (cases "a = c") (fastforce split: option.splits)+
qed simp

text \<open>Raising the threshold and reverting the probe restores the generated container.\<close>

lemma revert_increase:
  assumes "\<exists>c \<in> set cs. k_Name c = name \<and> k_StartupProbe c = p" "p \<noteq> None" "distinct (map k_Name cs)"
  shows "revert_probe name p (increase_threshold name cs) = Some cs"
  using assms
proof (induction cs)
  case (Cons a cs)
  show ?case
  proof (cases "k_Name a = name")
    case True
    with Cons.prems have "k_StartupProbe a = p" by (auto simp: image_iff)
    with True Cons.prems show ?thesis by auto
  next
    case False
    with Cons show ?thesis by (auto split: option.splits)
  qed
qed simp

end
