(* ===== verification/Usecase.thy ===== *)
theory Usecase
  imports Steps_Delete Steps_Post Steps_Upgrade
begin

text \<open>
  Package \<^verbatim>\<open>usecase\<close>: the two lists of steps and \<^verbatim>\<open>HandleUntilApplied\<close>, which runs a list until a step
  stops it. The lemmas reduce a statement about a whole reconciliation to statements about its steps.
\<close>

section \<open>The use cases\<close>

definition delete_steps :: "ctx \<Rightarrow> step list" where
  "delete_steps X =
     [StatusStep X, AuthRegistrationRemoverStep X, ServiceAccountRemoverStep X, DeleteOutOfHealthConfigMapStep X,
      RemoveDoguConfigStep X SensitiveConfig, RemoveFinalizerStep X]"

definition change_steps :: "ctx \<Rightarrow> step list" where
  "change_steps X =
     [InitializeConditionsStep X, HealthCheckStep X, FetchRemoteDoguDescriptorStep X, ValidationStep X,
      PauseReconciliationStep X, CreateFinalizerStep X,
      CreateConfigStep X NormalConfig, OwnerReferenceStep X OwnDoguConfig,
      CreateConfigStep X SensitiveConfig, OwnerReferenceStep X OwnSensitiveConfig,
      RemoveServiceAccountStep X, install_RegisterDoguVersionStep X, OwnerReferenceStep X OwnLocalDescriptor,
      AuthRegistrationStep X, ServiceAccountStep X, ServiceStep X, CreateExecPodStep X, CustomK8sResourceStep X,
      CreateVolumeStep X, NetworkPoliciesStep X,
      CreateDeploymentStep X, StartStopStep X, VolumeExpanderStep X, MismatchedStorageClassWarningStep X,
      SecurityContextStep X, ExportModeStep X, SupportModeStep X, AdditionalMountsStep X,
      PreUpgradeStatusStep X, UpdateDeploymentVersionStep X, upgrade_RegisterDoguVersionStep X, DeleteExecPodStep X,
      PostUpgradeStep X, InstalledVersionStep X, RegenerateDeploymentStep X, UpdateStartedAtStep X,
      RestartAfterConfigChangeStep X, RetroactiveServiceAccountStep X]"

text \<open>The outcome: time to requeue after, whether all steps were applied, and the error.\<close>

type_synonym outcome = "int \<times> bool \<times> err option"

fun HandleUntilApplied :: "step list \<Rightarrow> dogu \<Rightarrow> (outcome \<times> dogu) op" where
  "HandleUntilApplied [] d = ret ((0, True, None), d)"
| "HandleUntilApplied (s # ss) d = do {
     (result, d') \<leftarrow> s d;
     if sr_Err result \<noteq> None \<or> sr_RequeueAfter result \<noteq> 0 then ret ((sr_RequeueAfter result, False, sr_Err result), d')
     else if \<not> sr_Continue result then ret ((0, False, None), d')
     else HandleUntilApplied ss d'
   }"

section \<open>The step at which a reconciliation stops\<close>

definition outcome_of :: "step_result \<Rightarrow> outcome" where
  "outcome_of r = (if sr_Err r \<noteq> None \<or> sr_RequeueAfter r \<noteq> 0 then (sr_RequeueAfter r, False, sr_Err r) else (0, False, None))"

text \<open>All steps of the list run one after the other, each on the resource its predecessor left.\<close>

inductive passes :: "step list \<Rightarrow> dogu \<Rightarrow> log \<Rightarrow> dogu \<Rightarrow> log \<Rightarrow> bool" where
  passes_Nil: "passes [] d h d h"
| passes_Cons: "run_state (s d) h = ((r, d1), h1) \<Longrightarrow> proceeds r \<Longrightarrow> passes ss d1 h1 d2 h2 \<Longrightarrow> passes (s # ss) d h d2 h2"

inductive_simps passes_Nil_iff [simp]: "passes [] d h d' h'"
inductive_simps passes_Cons_iff: "passes (s # ss) d h d' h'"

lemma passes_append: "passes (ss @ ss') d h d2 h2 \<longleftrightarrow> (\<exists>d1 h1. passes ss d h d1 h1 \<and> passes ss' d1 h1 d2 h2)"
proof (induction ss arbitrary: d h)
  case (Cons s ss)
  show ?case unfolding append_Cons passes_Cons_iff Cons.IH by blast
qed simp

lemma HandleUntilApplied_step:
  "HandleUntilApplied (s # ss) d =
     do { (r, d') \<leftarrow> s d; if proceeds r then HandleUntilApplied ss d' else ret (outcome_of r, d') }"
  unfolding HandleUntilApplied.simps
  by (rule arg_cong [where f = "State_Monad.bind (s d)"]) (auto simp: proceeds_def outcome_of_def fun_eq_iff)

declare HandleUntilApplied.simps(2) [simp del]

lemma HandleUntilApplied_Cons:
  assumes "run_state (s d) h = ((r, d1), h1)"
  shows "run_state (HandleUntilApplied (s # ss) d) h =
    (if proceeds r then run_state (HandleUntilApplied ss d1) h1 else ((outcome_of r, d1), h1))"
  using assms by (simp add: HandleUntilApplied_step)

lemma HandleUntilApplied_applied:
  "(\<exists>q e. run_state (HandleUntilApplied ss d) h = (((q, True, e), d'), h')) \<longleftrightarrow> passes ss d h d' h'"
proof (induction ss arbitrary: d h)
  case (Cons s ss)
  obtain r d1 h1 where s: "run_state (s d) h = ((r, d1), h1)" by (metis surj_pair)
  have "passes (s # ss) d h d' h' \<longleftrightarrow> proceeds r \<and> passes ss d1 h1 d' h'"
    using s by (auto simp: passes_Cons_iff)
  with Cons.IH [of d1 h1] show ?case
    by (auto simp: HandleUntilApplied_Cons [of s d h, OF s] outcome_of_def)
qed auto

lemma HandleUntilApplied_True:
  "run_state (HandleUntilApplied ss d) h = (((q, True, e), d'), h') \<Longrightarrow> q = 0 \<and> e = None"
proof (induction ss arbitrary: d h)
  case (Cons s ss)
  obtain r d1 h1 where s: "run_state (s d) h = ((r, d1), h1)" by (metis surj_pair)
  with Cons show ?case by (auto simp: HandleUntilApplied_Cons [of s d h, OF s] outcome_of_def split: if_splits)
qed simp

lemma HandleUntilApplied_stopped:
  "run_state (HandleUntilApplied ss d) h = (((q, False, e), d'), h') \<Longrightarrow>
   \<exists>pre s post d1 h1 r. ss = pre @ s # post \<and> passes pre d h d1 h1 \<and> run_state (s d1) h1 = ((r, d'), h') \<and>
     \<not> proceeds r \<and> outcome_of r = (q, False, e)"
proof (induction ss arbitrary: d h)
  case (Cons s ss)
  obtain r d1 h1 where s: "run_state (s d) h = ((r, d1), h1)" by (metis surj_pair)
  show ?case
  proof (cases "proceeds r")
    case True
    with Cons.prems s have "run_state (HandleUntilApplied ss d1) h1 = (((q, False, e), d'), h')"
      by (simp add: HandleUntilApplied_Cons [of s d h, OF s])
    from Cons.IH [OF this] obtain pre s' post d2 h2 r' where
      "ss = pre @ s' # post" "passes pre d1 h1 d2 h2" "run_state (s' d2) h2 = ((r', d'), h')" "\<not> proceeds r'"
      "outcome_of r' = (q, False, e)" by blast
    with s True show ?thesis
      by (intro exI [of _ "s # pre"]) (auto simp: passes_Cons_iff)
  next
    case False
    with Cons.prems s have "d' = d1" "h' = h1" "outcome_of r = (q, False, e)"
      by (simp_all add: HandleUntilApplied_Cons [of s d h, OF s])
    with s False show ?thesis by (intro exI [of _ "[]"]) auto
  qed
qed simp

section \<open>Calls across steps\<close>

text \<open>
  \<open>keeps I s\<close>: the step preserves the property \<open>I\<close> of the resource. \<open>stops I s\<close>: on a resource with \<open>I\<close> the step
  never lets the reconciliation proceed. \<open>gate I Q P s\<close>: on such a resource the step makes no \<open>P\<close> call, and
  lets the reconciliation proceed only after a \<open>Q\<close> call.
\<close>

definition keeps :: "(dogu \<Rightarrow> bool) \<Rightarrow> step \<Rightarrow> bool" where
  "keeps I s \<longleftrightarrow> (\<forall>d. I d \<longrightarrow> spec (s d) (\<lambda>r t. I (snd r)))"

definition stops :: "(dogu \<Rightarrow> bool) \<Rightarrow> step \<Rightarrow> bool" where
  "stops I s \<longleftrightarrow> (\<forall>d. I d \<longrightarrow> spec (s d) (\<lambda>r t. \<not> proceeds (fst r)))"

definition gate :: "(dogu \<Rightarrow> bool) \<Rightarrow> (event \<Rightarrow> bool) \<Rightarrow> (event \<Rightarrow> bool) \<Rightarrow> step \<Rightarrow> bool" where
  "gate I Q P s \<longleftrightarrow>
     (\<forall>d. I d \<longrightarrow> spec (s d) (\<lambda>r t. list_all (\<lambda>e. \<not> P e) t \<and> (proceeds (fst r) \<longrightarrow> list_ex Q t)))"

lemma keepsD: "keeps I s \<Longrightarrow> I d \<Longrightarrow> run_state (s d) h = ((r, d'), h') \<Longrightarrow> I d'"
  unfolding keeps_def by (metis snd_conv specD)

lemma stopsD: "stops I s \<Longrightarrow> I d \<Longrightarrow> run_state (s d) h = ((r, d'), h') \<Longrightarrow> \<not> proceeds r"
  unfolding stops_def by (metis fst_conv specD)

lemma keeps_passes:
  "passes ss d h d' h' \<Longrightarrow> (\<And>s. s \<in> set ss \<Longrightarrow> keeps I s) \<Longrightarrow> I d \<Longrightarrow> I d'"
  by (induction rule: passes.induct) (auto dest: keepsD)

lemma passes_extends:
  "passes ss d h d' h' \<Longrightarrow> (\<And>s d. s \<in> set ss \<Longrightarrow> emits (\<lambda>_. True) (s d)) \<Longrightarrow> \<exists>t. h' = h @ t"
proof (induction ss arbitrary: d h)
  case (Cons s ss)
  then obtain r d1 h1 where s: "run_state (s d) h = ((r, d1), h1)" and ss: "passes ss d1 h1 d' h'"
    by (auto simp: passes_Cons_iff)
  have "emits (\<lambda>_. True) (s d)" using Cons.prems(2) by simp
  from emitsD [OF this s] Cons.IH [OF ss] Cons.prems(2) show ?case by auto
qed simp

lemma emits_HandleUntilApplied:
  "(\<And>s d. s \<in> set ss \<Longrightarrow> emits P (s d)) \<Longrightarrow> emits P (HandleUntilApplied ss d)"
proof (induction ss arbitrary: d)
  case (Cons s ss)
  then show ?case by (auto simp: HandleUntilApplied_step intro!: emits_rules Cons.IH)
qed (simp add: emits_rules)

text \<open>Behind a step that stops, no step runs.\<close>

lemma HandleUntilApplied_stops:
  assumes "\<And>s. s \<in> set pre \<Longrightarrow> keeps I s" "stops I s" "I d"
  shows "run_state (HandleUntilApplied (pre @ s # post) d) h = run_state (HandleUntilApplied (pre @ [s]) d) h"
  using assms(1,3)
proof (induction pre arbitrary: d h)
  case Nil
  obtain r d1 h1 where s: "run_state (s d) h = ((r, d1), h1)" by (metis surj_pair)
  with stopsD [OF assms(2)] Nil show ?case by (simp add: HandleUntilApplied_Cons [of s d h, OF s])
next
  case (Cons s' pre)
  obtain r d1 h1 where s': "run_state (s' d) h = ((r, d1), h1)" by (metis surj_pair)
  with keepsD [of I s' d h r d1 h1] Cons have "I d1" by auto
  with Cons show ?case by (simp add: HandleUntilApplied_Cons [of s' d h, OF s'])
qed

lemma HandleUntilApplied_stops_applied:
  assumes "\<And>s. s \<in> set pre \<Longrightarrow> keeps I s" "stops I s" "I d"
    and "run_state (HandleUntilApplied (pre @ s # post) d) h = (((q, cont, e), d'), h')"
  shows "\<not> cont"
proof
  assume cont
  with assms(4) HandleUntilApplied_stops [of pre I s d post h] assms(1-3)
  have "passes (pre @ [s]) d h d' h'" by (auto simp flip: HandleUntilApplied_applied)
  then obtain d1 h1 where "passes pre d h d1 h1" "passes [s] d1 h1 d' h'" by (auto simp: passes_append)
  moreover from this(1) have "I d1" by (rule keeps_passes) (use assms in auto)
  ultimately show False by (auto simp: passes_Cons_iff dest: stopsD [OF assms(2)])
qed

text \<open>
  Before a gate no step makes a \<open>P\<close> call; the steps behind it may do anything.
\<close>

lemma HandleUntilApplied_gate:
  assumes "gate I Q P s" "I d" "\<And>s' d. s' \<in> set post \<Longrightarrow> emits (\<lambda>_. True) (s' d)"
  shows "ordered Q P (HandleUntilApplied (s # post) d)"
proof -
  have post: "spec (HandleUntilApplied post d') (\<lambda>_ _. True)" for d'
    using emits_HandleUntilApplied [of post "\<lambda>_. True"] assms(3) by (auto simp: emits_def intro: spec_conseq)
  have s: "spec (s d) (\<lambda>r t. list_all (\<lambda>e. \<not> P e) t \<and> (proceeds (fst r) \<longrightarrow> list_ex Q t))"
    using assms(1,2) by (simp add: gate_def)
  show ?thesis
    unfolding ordered_def HandleUntilApplied_step
    by (rule spec_bind [OF s])
       (auto simp: precedes_append precedes_none intro!: spec_return intro: spec_conseq [OF post])
qed

lemma HandleUntilApplied_ordered:
  assumes "\<And>s. s \<in> set pre \<Longrightarrow> keeps I s" "\<And>s d. s \<in> set pre \<Longrightarrow> emits (\<lambda>e. \<not> P e) (s d)"
    and "\<And>d. I d \<Longrightarrow> ordered Q P (HandleUntilApplied post d)" and "I d"
  shows "ordered Q P (HandleUntilApplied (pre @ post) d)"
  using assms(1,2,4)
proof (induction pre arbitrary: d)
  case (Cons s pre)
  have s: "spec (s d) (\<lambda>r t. list_all (\<lambda>e. \<not> P e) t \<and> I (snd r))"
  proof (rule specI)
    fix h
    obtain r d1 h1 where r: "run_state (s d) h = ((r, d1), h1)" by (metis surj_pair)
    have "emits (\<lambda>e. \<not> P e) (s d)" using Cons.prems(2) [of s d] by simp
    from emitsD [OF this r] obtain t where t: "h1 = h @ t" "list_all (\<lambda>e. \<not> P e) t" by blast
    moreover have "I d1" using Cons.prems(1) [of s] Cons.prems(3) r by (auto dest: keepsD)
    ultimately show "\<exists>t. snd (run_state (s d) h) = h @ t \<and> list_all (\<lambda>e. \<not> P e) t \<and> I (snd (fst (run_state (s d) h)))"
      using r by auto
  qed
  have "ordered Q P (HandleUntilApplied (pre @ post) d')" if "I d'" for d'
    using Cons.IH [of d'] Cons.prems that by auto
  then show ?case
    unfolding ordered_def append_Cons HandleUntilApplied_step
    by (intro spec_bind [OF s]) (auto simp: precedes_none intro!: spec_return spec_append_quiet)
qed (simp add: assms(3))

text \<open>
  A list of steps with a gate: the steps before the gate keep the property of the resource on which the gate relies and make no
  \<open>P\<close> call themselves; nothing is asked of the steps behind the gate.
\<close>

locale gated_steps =
  fixes I :: "dogu \<Rightarrow> bool" and Q P :: "event \<Rightarrow> bool" and pre :: "step list" and s :: step and post :: "step list"
  assumes pre_keeps: "s' \<in> set pre \<Longrightarrow> keeps I s'"
    and pre_quiet: "s' \<in> set pre \<Longrightarrow> emits (\<lambda>e. \<not> P e) (s' d)"
    and is_gate: "gate I Q P s"
    and post_appends: "s' \<in> set post \<Longrightarrow> emits (\<lambda>_. True) (s' d)"
begin

lemma gate_orders: "I d \<Longrightarrow> ordered Q P (HandleUntilApplied (pre @ s # post) d)"
  by (rule HandleUntilApplied_ordered [where I = I])
     (auto intro: pre_keeps pre_quiet HandleUntilApplied_gate [OF is_gate] post_appends)

lemma gate_passed:
  assumes "I d" "passes (pre @ s # post) d h d' h'"
  shows "\<exists>t. h' = h @ t \<and> list_ex Q t"
proof -
  from assms(2) obtain d1 h1 d2 h2 where 1: "passes pre d h d1 h1" and 2: "passes [s] d1 h1 d2 h2" and 3: "passes post d2 h2 d' h'"
    by (metis append_Cons append_Nil passes_append)
  have "I d1" using keeps_passes [OF 1 pre_keeps] assms(1) by blast
  from 2 obtain r where s: "run_state (s d1) h1 = ((r, d2), h2)" "proceeds r" by (auto simp: passes_Cons_iff)
  have "spec (s d1) (\<lambda>r t. list_all (\<lambda>e. \<not> P e) t \<and> (proceeds (fst r) \<longrightarrow> list_ex Q t))"
    using is_gate \<open>I d1\<close> by (simp add: gate_def)
  from specD [OF this s(1)] s(2) obtain t2 where t2: "h2 = h1 @ t2" "list_ex Q t2" by auto
  have "\<exists>t. h1 = h @ t" using passes_extends [OF 1] pre_quiet by (blast intro: emits_mono)
  moreover have "\<exists>t. h' = h2 @ t" using passes_extends [OF 3] post_appends by blast
  ultimately show ?thesis using t2 by auto
qed

text \<open>Both together, for the outcome of a run: \<open>cont\<close> says that it was applied.\<close>

lemma gate_decides:
  assumes "I d" "run_state (HandleUntilApplied (pre @ s # post) d) h = (((q, cont, e), d'), h')"
  shows "\<exists>t. h' = h @ t \<and> precedes Q P t \<and> (cont \<longrightarrow> list_ex Q t)"
proof -
  obtain t where t: "h' = h @ t" "precedes Q P t" using orderedD [OF gate_orders [OF assms(1)] assms(2)] by blast
  have "list_ex Q t" if cont
  proof -
    from that assms(2) have "passes (pre @ s # post) d h d' h'" by (auto simp flip: HandleUntilApplied_applied)
    from gate_passed [OF assms(1) this] t(1) show ?thesis by simp
  qed
  with t show ?thesis by blast
qed

end

end
