(* ===== verification/Footprint.thy ===== *)
theory Footprint
  imports Usecase
begin

text \<open>
  What every operation and every step may change in the cluster. \<open>effect_of\<close> classifies the calls that
  change something; \<open>touches F m\<close> says that all changes \<open>m\<close> makes are of the kinds in \<open>F\<close>, whatever the
  cluster answers. The rules are collected in \<open>touch_rules\<close>, one per operation, so that the footprint of a
  step follows from those of the operations it calls.
\<close>

section \<open>Effects\<close>

datatype effect =
    WDogu | WDoguStatus | WDoguSpec | WCreateDeployment | WDeployment | WScale | WCreatePod | WDeletePods | WService | WCreatePVC | WPVC
  | WConfigMap | WDeleteConfigMap | WNetPol | WDeleteNetPol | WAddDescriptor | WEnableVersion | WDeleteDescriptors
  | WConfig | WDeleteConfig | WOwner | WExec | WHttp | WApply | WAuthReg | WDeleteAuthReg | WRestart | WDeleteRestart

fun dogu_effect :: "dogu_call \<Rightarrow> effect option" where
  "dogu_effect (QUpdateDogu _) = Some WDogu"
| "dogu_effect (QUpdateDoguStatus _ _) = Some WDoguStatus"
| "dogu_effect (QUpdateDoguSpec _ _) = Some WDoguSpec"
| "dogu_effect _ = None"

fun deployment_effect :: "deployment_call \<Rightarrow> effect option" where
  "deployment_effect (QCreateDeployment _) = Some WCreateDeployment"
| "deployment_effect (QUpdateDeployment _) = Some WDeployment"
| "deployment_effect (QUpdateScale _ _) = Some WScale"
| "deployment_effect _ = None"

fun pod_effect :: "pod_call \<Rightarrow> effect option" where
  "pod_effect (QCreatePod _) = Some WCreatePod"
| "pod_effect (QDeletePods _) = Some WDeletePods"
| "pod_effect _ = None"

fun service_effect :: "service_call \<Rightarrow> effect option" where
  "service_effect (QCreateService _) = Some WService"
| "service_effect (QUpdateService _) = Some WService"
| "service_effect _ = None"

fun storage_effect :: "storage_call \<Rightarrow> effect option" where
  "storage_effect (QCreatePVC _) = Some WCreatePVC"
| "storage_effect (QUpdatePVC _) = Some WPVC"
| "storage_effect (QCreateConfigMap _) = Some WConfigMap"
| "storage_effect (QUpdateConfigMap _) = Some WConfigMap"
| "storage_effect (QDeleteConfigMap _) = Some WDeleteConfigMap"
| "storage_effect _ = None"

fun netpol_effect :: "netpol_call \<Rightarrow> effect option" where
  "netpol_effect (QCreateNetPol _) = Some WNetPol"
| "netpol_effect (QUpdateNetPol _) = Some WNetPol"
| "netpol_effect (QDeleteNetPol _) = Some WDeleteNetPol"
| "netpol_effect (QDeleteNetPols _) = Some WDeleteNetPol"
| "netpol_effect _ = None"

fun registry_effect :: "registry_call \<Rightarrow> effect option" where
  "registry_effect (QEnableVersion _) = Some WEnableVersion"
| "registry_effect (QAddDescriptor _ _) = Some WAddDescriptor"
| "registry_effect (QDeleteDescriptors _) = Some WDeleteDescriptors"
| "registry_effect _ = None"

fun config_effect :: "config_call \<Rightarrow> effect option" where
  "config_effect (QConfigCreate _ _) = Some WConfig"
| "config_effect (QConfigUpdate _ _) = Some WConfig"
| "config_effect (QConfigSaveOrMerge _ _) = Some WConfig"
| "config_effect (QConfigDelete _ _) = Some WDeleteConfig"
| "config_effect (QSetOwnerReference _ _ _) = Some WOwner"
| "config_effect _ = None"

fun exec_effect :: "exec_call \<Rightarrow> effect option" where
  "exec_effect (QExec _ _) = Some WExec"
| "exec_effect (QHttp _) = Some WHttp"
| "exec_effect (QApplyYaml _ _) = Some WApply"
| "exec_effect _ = None"

fun auth_effect :: "auth_call \<Rightarrow> effect option" where
  "auth_effect (QCreateAuthReg _) = Some WAuthReg"
| "auth_effect (QUpdateAuthReg _) = Some WAuthReg"
| "auth_effect (QDeleteAuthReg _) = Some WDeleteAuthReg"
| "auth_effect _ = None"

fun restart_effect :: "restart_call \<Rightarrow> effect option" where
  "restart_effect (QUpdateRestartPhase _ _) = Some WRestart"
| "restart_effect (QDeleteRestart _) = Some WDeleteRestart"
| "restart_effect _ = None"

fun effect_of :: "call \<Rightarrow> effect option" where
  "effect_of (DoguCall q) = dogu_effect q"
| "effect_of (DeploymentCall q) = deployment_effect q"
| "effect_of (PodCall q) = pod_effect q"
| "effect_of (ServiceCall q) = service_effect q"
| "effect_of (StorageCall q) = storage_effect q"
| "effect_of (NetPolCall q) = netpol_effect q"
| "effect_of (RegistryCall q) = registry_effect q"
| "effect_of (ConfigCall q) = config_effect q"
| "effect_of (ExecCall q) = exec_effect q"
| "effect_of (AuthCall q) = auth_effect q"
| "effect_of (RestartCall q) = restart_effect q"
| "effect_of (NotifyCall q) = None"

text \<open>The classification covers exactly the mutating calls.\<close>

lemma effect_of_mutates: "effect_of c \<noteq> None \<longleftrightarrow> mutates c"
proof (cases c)
  case (DoguCall q) then show ?thesis by (cases q) auto
next
  case (DeploymentCall q) then show ?thesis by (cases q) auto
next
  case (PodCall q) then show ?thesis by (cases q) auto
next
  case (ServiceCall q) then show ?thesis by (cases q) auto
next
  case (StorageCall q) then show ?thesis by (cases q) auto
next
  case (NetPolCall q) then show ?thesis by (cases q) auto
next
  case (RegistryCall q) then show ?thesis by (cases q) auto
next
  case (ConfigCall q) then show ?thesis by (cases q) auto
next
  case (ExecCall q) then show ?thesis by (cases q) auto
next
  case (AuthCall q) then show ?thesis by (cases q) auto
next
  case (RestartCall q) then show ?thesis by (cases q) auto
next
  case (NotifyCall q) then show ?thesis by (cases q) auto
qed

definition within :: "effect set \<Rightarrow> event \<Rightarrow> bool" where
  "within F e \<longleftrightarrow> (case effect_of (ev_call e) of None \<Rightarrow> True | Some f \<Rightarrow> f \<in> F)"

lemma within_simps [simp]:
  "within F (Event c eo) = (case effect_of c of None \<Rightarrow> True | Some f \<Rightarrow> f \<in> F)"
  by (simp add: within_def)

abbreviation touches :: "effect set \<Rightarrow> 'a op \<Rightarrow> bool" where
  "touches F m \<equiv> emits (within F) m"

named_theorems touch_rules \<open>the footprint of an operation\<close>

lemma touches_mono: "touches F m \<Longrightarrow> F \<subseteq> G \<Longrightarrow> touches G m"
  by (erule emits_mono) (auto simp: within_def split: option.splits)

text \<open>From a footprint to the absence of a call.\<close>

lemma touches_not:
  "touches F m \<Longrightarrow> (\<And>e. P e \<Longrightarrow> \<exists>f. effect_of (ev_call e) = Some f \<and> f \<notin> F) \<Longrightarrow> emits (\<lambda>e. \<not> P e) m"
  by (erule emits_mono) (fastforce simp: within_def)

lemma touches_appends: "touches F m \<Longrightarrow> emits (\<lambda>_. True) m"
  by (erule emits_mono) simp

lemma reads_touches: "calls_only (\<lambda>c. \<not> mutates c) m \<Longrightarrow> touches F m"
  by (erule emits_mono) (metis effect_of_mutates option.simps(4) within_def)

section \<open>Operations that only read\<close>

lemma read_rules [touch_rules]:
  "touches F (FetchInstalled E n)" "touches F (FetchForResource L E d)" "touches F (Enabled E n)"
  "touches F (checkDoguVersionEnabled E n)" "touches F (FetchWithResource L E d)"
  unfolding registry_defs getFromDevelopmentDoguMap_def io_defs
  by (auto intro!: emits_rules split: option.splits sum.splits)

lemma dependency_rules [touch_rules]:
  "touches F (ValidateDependencies L E C n)"
  by (rule emits_mono [OF ValidateDependencies_calls [where P = "\<lambda>c. effect_of c = None"]]) (simp_all add: within_def)

lemma CheckDependencies_rules [touch_rules]:
  "touches F (CheckDependenciesRecursive L E C k n)"
  "touches F (check_loop L E C k opt deps)"
  by (induction L E C k n and L E C k opt deps rule: CheckDependenciesRecursive_check_loop.induct)
     (auto simp: CheckByName_def io_defs intro!: emits_rules read_rules split: option.splits sum.splits)

lemma validate_mounts_rules [touch_rules]:
  "touches F (ValidateAdditionalMounts L E n d)"
proof -
  have "touches F (validateSource L E m)" for m
    unfolding validateSource_def checkIfResourceExists_def configMapResourceGetter_def secretResourceGetter_def io_defs
    by (auto intro!: emits_rules)
  then have "touches F (validateMounts_loop L E n all ms)" for all ms
    by (induction ms arbitrary: all) (auto intro!: emits_rules split: option.splits)
  then show ?thesis unfolding ValidateAdditionalMounts_def by (auto intro!: emits_rules)
qed

lemma template_rules [touch_rules]:
  "touches F (GetPodTemplate L E G d n)"
  "touches F (UpdateDoguDeployment L E G dep d n)"
  "touches F (CreateDoguDeployment L E G d n)"
  using GetPodTemplate_reads updateDoguDeployment_reads
  by (auto simp: UpdateDoguDeployment_def CreateDoguDeployment_def intro!: emits_rules intro: reads_touches)

lemma manager_read_rules [touch_rules]:
  "touches F (GetLastStartingTime E m)" "touches F (AdditionalMountsChanged L E img d)"
  "touches F (createAdditionalMountInitContainer L E img d)" "touches F (isDeploymentInExportMode E m)"
  "touches F (IsUpgrade L E d)" "touches F (getDoguDeployment E d)"
  "touches F (execpod_Exists L E n)" "touches F (execpod_CheckReady L E n)"
  unfolding GetLastStartingTime_def AdditionalMountsChanged_def createAdditionalMountInitContainer_def
    isDeploymentInExportMode_def IsUpgrade_def getDoguDeployment_def execpod_Exists_def execpod_CheckReady_def
    execpod_getPod_def requirements_Generate_def io_defs
  by (auto intro!: emits_rules read_rules split: option.splits sum.splits)

lemma image_rules [touch_rules]: "touches F (PullImageConfig L E img)" "touches F (GetAdditionalImages L E)"
  unfolding PullImageConfig_def GetAdditionalImages_def Let_def io_defs
  by (auto intro!: emits_rules split: option.splits prod.splits)

section \<open>Operations that change something\<close>

lemma registry_write_rules [touch_rules]:
  assumes "WAddDescriptor \<in> F" "WEnableVersion \<in> F"
  shows "touches F (RegisterNewDogu L E n)" "touches F (RegisterDoguVersion L E n)"
  using assms unfolding registry_defs io_defs
  by (auto intro!: emits_rules split: option.splits sum.splits)

lemma health_map_rules [touch_rules]:
  assumes "WConfigMap \<in> F"
  shows "touches F (UpdateHealthConfigMap L E dep n)" "touches F (DeleteDoguOutOfHealthConfigMap E d)"
  using assms unfolding UpdateHealthConfigMap_def updateHealthConfigMapForPod_def DeleteDoguOutOfHealthConfigMap_def
    getOrCreateHealthConfigMap_def io_defs
  by (auto intro!: emits_rules split: option.splits sum.splits)

lemma upsert_deployment_rules [touch_rules]:
  assumes "WCreateDeployment \<in> F" "WDeployment \<in> F"
  shows "touches F (UpsertDoguDeployment L E G d n patch)"
  using assms unfolding UpsertDoguDeployment_def updateOrInsert_same io_defs
  by (auto intro!: emits_rules touch_rules split: option.splits sum.splits)

lemma exec_rules [touch_rules]:
  assumes "WExec \<in> F"
  shows "touches F (ExecCommandForPod L E p c)" "touches F (ExecCommandForDogu L E d c)"
    "touches F (execpod_Exec L E n c)" "touches F (ExtractK8sResourcesFromExecPod L E n)"
proof -
  show e: "touches F (execpod_Exec L E n c)" for c
    using assms unfolding execpod_Exec_def execpod_getPod_def ExecCommandForPod_def streamCommandToPod_def io_defs
    by (auto intro!: emits_rules split: option.splits)
  have "touches F (extract_loop L E n fs m)" for fs m
    using e by (induction fs arbitrary: m) (auto intro!: emits_rules)
  with e show "touches F (ExtractK8sResourcesFromExecPod L E n)"
    unfolding ExtractK8sResourcesFromExecPod_def by (auto intro!: emits_rules)
  show "touches F (ExecCommandForPod L E p c)" "touches F (ExecCommandForDogu L E d c)"
    using assms unfolding ExecCommandForPod_def streamCommandToPod_def ExecCommandForDogu_def CheckByName_def io_defs
    by (auto intro!: emits_rules split: option.splits)
qed

lemma execpod_rules [touch_rules]:
  "WCreatePod \<in> F \<Longrightarrow> touches F (execpod_Create L E stage d n)"
  "WDeletePods \<in> F \<Longrightarrow> touches F (execpod_Delete L E n)"
  "WApply \<in> F \<Longrightarrow> touches F (CollectApply E docs d)"
  unfolding execpod_Create_def execpod_Delete_def CollectApply_def execpod_getPod_def io_defs
  by (auto intro!: emits_rules touch_rules split: option.splits sum.splits)

lemma pvc_rules [touch_rules]:
  assumes "WPVC \<in> F"
  shows "WCreatePVC \<in> F \<Longrightarrow> touches F (UpsertDoguPVCs L E d n)"
    "WCreatePVC \<in> F \<Longrightarrow> touches F (SetControllerReferenceForPVC L E p d)"
    "WDoguStatus \<in> F \<Longrightarrow> touches F (SetCurrentDataVolumeSize L E d po)"
  using assms unfolding UpsertDoguPVCs_def upsertPVC_def waitForExistingPVCToBeTerminated_def
    SetControllerReferenceForPVC_def SetCurrentDataVolumeSize_def grow_claim_def updateOrInsert_same io_defs
  by (auto intro!: emits_rules split: option.splits sum.splits)

lemma netpol_rules [touch_rules]:
  assumes "WNetPol \<in> F" "WDeleteNetPol \<in> F"
  shows "touches F (UpsertDoguNetworkPolicies L E C d n svc)"
proof -
  have up: "touches F (upsertNetworkPolicy E p)" for p
    using assms unfolding upsertNetworkPolicy_def updateOrInsert_same io_defs by (auto intro!: emits_rules)
  have gen: "touches F (upsert_generated E k m r)" for k m r
    unfolding upsert_generated_def by (auto intro!: emits_rules up split: sum.splits)
  have deps: "touches F (upsertNetworkPoliciesForDependencies L E d n ds)" for ds
    by (induction ds)
       (auto simp: upsertDoguDependencyNetworkPolicy_def upsertComponentDependencyNetworkPolicy_def intro!: emits_rules gen)
  have del: "touches F (deletePolicies_loop E ds ps)" for ds ps
    using assms by (induction ps) (auto simp: io_defs intro!: emits_rules)
  show ?thesis
    using assms unfolding UpsertDoguNetworkPolicies_def deleteNonExistentDependencyPolicies_def
      upsertServiceAnnotationNetworkPolicy_def io_defs
    by (auto intro!: emits_rules up gen deps del split: option.splits sum.splits)
qed

subsection \<open>Service accounts\<close>

lemma account_config_rules:
  assumes "WConfig \<in> F"
  shows "touches F (writeConfig E cfg)" "touches F (writeServiceAccounts L E cfg sa creds)"
    "touches F (deleteFromConfig L E sa cfg)"
proof -
  show w: "touches F (writeConfig E cfg)" for cfg
    using assms unfolding writeConfig_def io_defs by (auto intro!: emits_rules)
  show "touches F (writeServiceAccounts L E cfg sa creds)" "touches F (deleteFromConfig L E sa cfg)"
    unfolding writeServiceAccounts_def deleteFromConfig_def by (auto intro!: emits_rules w)
qed

lemma account_dogu_rules:
  assumes "WConfig \<in> F" "WExec \<in> F"
  shows "touches F (createDoguServiceAccount L E C n cfg sa)" "touches F (removeDoguServiceAccount L E n sa cfg)"
proof -
  have x: "touches F (runExposedCommand L E m d1 d2 sa)" for m d1 d2 sa
    using assms unfolding runExposedCommand_def getDoguResource_def io_defs
    by (auto intro!: emits_rules touch_rules split: option.splits)
  show "touches F (createDoguServiceAccount L E C n cfg sa)" "touches F (removeDoguServiceAccount L E n sa cfg)"
    unfolding createDoguServiceAccount_def sa_create_def create_executeCommand_def removeDoguServiceAccount_def sa_delete_def
    by (auto intro!: emits_rules touch_rules x account_config_rules assms)
qed

lemma account_component_rules:
  assumes "WConfig \<in> F" "WHttp \<in> F"
  shows "touches F (createComponentServiceAccount L E n cfg sa)" "touches F (removeComponentServiceAccount L E n sa cfg)"
  using assms
  unfolding createComponentServiceAccount_def removeComponentServiceAccount_def getServiceForLabels_def getApiKey_def
    readApiKeySecret_def createServiceAccount_def deleteServiceAccount_def io_defs
  by (auto intro!: emits_rules account_config_rules)

lemma removeAll_loop_touches:
  "(\<And>sa cfg. touches F (f sa cfg)) \<Longrightarrow> touches F (removeAll_loop f sas cfg)"
  by (induction sas arbitrary: cfg) (auto intro!: emits_rules)

lemma RemoveAllFromComponents_rule [touch_rules]:
  "WConfig \<in> F \<Longrightarrow> WHttp \<in> F \<Longrightarrow> touches F (RemoveAllFromComponents L E n)"
  unfolding RemoveAllFromComponents_def with_sensitive_config_def io_defs remove_component_one_def
  by (auto intro!: emits_rules removeAll_loop_touches account_component_rules)

lemma service_account_rules [touch_rules]:
  assumes "WConfig \<in> F" "WExec \<in> F" "WHttp \<in> F"
  shows "touches F (CreateAll L E C n)" "touches F (RemoveAll L E n)"
proof -
  have "touches F (create_one L E C n cfg sa)" for cfg sa
    using assms unfolding create_one_def by (auto intro!: emits_rules account_dogu_rules account_component_rules)
  then have "touches F (createAll_loop L E C n cfg sas)" for cfg sas
    by (induction sas arbitrary: cfg) (auto intro!: emits_rules)
  then show "touches F (CreateAll L E C n)"
    unfolding CreateAll_def io_defs by (auto intro!: emits_rules)
  show "touches F (RemoveAll L E n)"
    using assms unfolding RemoveAll_def with_sensitive_config_def remove_one_def io_defs
    by (auto intro!: emits_rules removeAll_loop_touches account_dogu_rules account_component_rules)
qed

lemma auth_rules [touch_rules]:
  "WAuthReg \<in> F \<Longrightarrow> WConfig \<in> F \<Longrightarrow> touches F (EnsureAuthRegistration L E d)"
  "WDeleteAuthReg \<in> F \<Longrightarrow> touches F (RemoveAuthRegistration E name)"
  unfolding EnsureAuthRegistration_def ensure_registration_def SyncCredentials_def writeSensitiveDoguConfig_def
    RemoveAuthRegistration_def io_defs
  by (auto simp: Let_def intro!: emits_rules touch_rules)

subsection \<open>Managers\<close>

lemma manager_rules [touch_rules]:
  assumes "WDeployment \<in> F"
  shows "touches F (RestartDogu L E d)" "touches F (UpdateAdditionalMounts L E img d)"
    "touches F (HandleSupportMode L E G d)"
    "WCreateDeployment \<in> F \<Longrightarrow> WDoguStatus \<in> F \<Longrightarrow> touches F (UpdateExportMode L E G d)"
  using assms
  unfolding RestartDogu_def UpdateAdditionalMounts_def HandleSupportMode_def support_updateDeployment_def
    UpdateExportMode_def shouldUpdateExportMode_def updateExportMode_def deploymentUpdateNeeded_def
    export_updateStatus_def io_defs
  by (auto simp: Let_def intro!: emits_rules touch_rules)

section \<open>Steps\<close>

lemma retry_dogu_touches: "(\<And>d. emits P (f d)) \<Longrightarrow> emits P (retry_dogu k p f d)"
  by (induction k arbitrary: d) (auto intro!: emits_rules)

lemma modify_dogu_touches [touch_rules]: "WDogu \<in> F \<Longrightarrow> touches F (modify_dogu E f d)"
  unfolding modify_dogu_def io_defs by (auto intro!: emits_rules)

subsection \<open>Install\<close>

lemma InitializeConditionsStep_touches: "touches {WDoguStatus} (InitializeConditionsStep X d)"
  unfolding InitializeConditionsStep_def UpdateConditions_def io_defs
  by (auto simp: Let_def intro!: emits_rules touch_rules retry_dogu_touches)

lemma HealthCheckStep_touches: "touches {WConfigMap, WDoguStatus} (HealthCheckStep X d)"
  unfolding HealthCheckStep_def updateDoguHealth_def io_defs
  by (auto simp: Let_def intro!: emits_rules touch_rules retry_dogu_touches)

lemma FetchRemoteDoguDescriptorStep_touches: "touches {WAddDescriptor, WDeleteConfigMap} (FetchRemoteDoguDescriptorStep X d)"
  unfolding FetchRemoteDoguDescriptorStep_def io_defs
  by (auto simp: Let_def intro!: emits_rules touch_rules retry_dogu_touches)

lemma ValidationStep_touches: "touches {} (ValidationStep X d)"
  unfolding ValidationStep_def validateTarget_def checkHealthOfDependencies_def shouldAbortBecauseOfUnallowedDowngrade_def io_defs
  by (auto simp: Let_def intro!: emits_rules touch_rules retry_dogu_touches)

lemma PauseReconciliationStep_touches: "touches {WDoguStatus} (PauseReconciliationStep X d)"
  unfolding PauseReconciliationStep_def io_defs
  by (auto simp: Let_def intro!: emits_rules touch_rules retry_dogu_touches)

lemma CreateFinalizerStep_touches: "touches {WDogu} (CreateFinalizerStep X d)"
  unfolding CreateFinalizerStep_def io_defs
  by (auto simp: Let_def intro!: emits_rules touch_rules retry_dogu_touches)

lemma CreateConfigStep_touches: "touches {WConfig} (CreateConfigStep X repo d)"
  unfolding CreateConfigStep_def io_defs
  by (auto simp: Let_def intro!: emits_rules touch_rules retry_dogu_touches)

lemma OwnerReferenceStep_touches: "touches {WOwner} (OwnerReferenceStep X own d)"
  unfolding OwnerReferenceStep_def io_defs
  by (auto simp: Let_def intro!: emits_rules touch_rules retry_dogu_touches)

lemma RemoveServiceAccountStep_touches: "touches {WConfig, WHttp, WDogu} (RemoveServiceAccountStep X d)"
  unfolding RemoveServiceAccountStep_def io_defs
  by (auto simp: Let_def intro!: emits_rules touch_rules retry_dogu_touches)

lemma install_RegisterDoguVersionStep_touches: "touches {WAddDescriptor, WEnableVersion} (install_RegisterDoguVersionStep X d)"
  unfolding install_RegisterDoguVersionStep_def io_defs
  by (auto simp: Let_def intro!: emits_rules touch_rules retry_dogu_touches)

lemma AuthRegistrationStep_touches: "touches {WAuthReg, WConfig} (AuthRegistrationStep X d)"
  unfolding AuthRegistrationStep_def io_defs
  by (auto simp: Let_def intro!: emits_rules touch_rules retry_dogu_touches)

lemma ServiceAccountStep_touches: "touches {WConfig, WExec, WHttp} (ServiceAccountStep X d)"
  unfolding ServiceAccountStep_def io_defs
  by (auto simp: Let_def intro!: emits_rules touch_rules retry_dogu_touches)

lemma ServiceStep_touches: "touches {WService} (ServiceStep X d)"
  unfolding ServiceStep_def createOrUpdateService_def io_defs
  by (auto simp: Let_def intro!: emits_rules touch_rules retry_dogu_touches)

lemma CreateExecPodStep_touches: "touches {WCreatePod} (CreateExecPodStep X d)"
  unfolding CreateExecPodStep_def io_defs
  by (auto simp: Let_def intro!: emits_rules touch_rules retry_dogu_touches)

lemma CustomK8sResourceStep_touches: "touches {WExec, WApply} (CustomK8sResourceStep X d)"
  unfolding CustomK8sResourceStep_def io_defs
  by (auto simp: Let_def intro!: emits_rules touch_rules retry_dogu_touches)

lemma CreateVolumeStep_touches: "touches {WCreatePVC, WPVC} (CreateVolumeStep X d)"
  unfolding CreateVolumeStep_def io_defs
  by (auto simp: Let_def intro!: emits_rules touch_rules retry_dogu_touches)

lemma NetworkPoliciesStep_touches: "touches {WNetPol, WDeleteNetPol} (NetworkPoliciesStep X d)"
  unfolding NetworkPoliciesStep_def io_defs
  by (auto simp: Let_def intro!: emits_rules touch_rules retry_dogu_touches)

lemma CreateDeploymentStep_touches: "touches {WCreateDeployment, WDeployment} (CreateDeploymentStep X d)"
  unfolding CreateDeploymentStep_def io_defs
  by (auto simp: Let_def intro!: emits_rules touch_rules retry_dogu_touches)

subsection \<open>Deletion\<close>

lemma StatusStep_touches: "touches {WDoguStatus} (StatusStep X d)"
  unfolding StatusStep_def io_defs
  by (auto simp: Let_def intro!: emits_rules touch_rules retry_dogu_touches)

lemma AuthRegistrationRemoverStep_touches: "touches {WDeleteAuthReg} (AuthRegistrationRemoverStep X d)"
  unfolding AuthRegistrationRemoverStep_def io_defs
  by (auto simp: Let_def intro!: emits_rules touch_rules retry_dogu_touches)

lemma ServiceAccountRemoverStep_touches: "touches {WConfig, WExec, WHttp} (ServiceAccountRemoverStep X d)"
  unfolding ServiceAccountRemoverStep_def io_defs
  by (auto simp: Let_def intro!: emits_rules touch_rules retry_dogu_touches)

lemma DeleteOutOfHealthConfigMapStep_touches: "touches {WConfigMap} (DeleteOutOfHealthConfigMapStep X d)"
  unfolding DeleteOutOfHealthConfigMapStep_def io_defs
  by (auto simp: Let_def intro!: emits_rules touch_rules retry_dogu_touches)

lemma RemoveDoguConfigStep_touches: "touches {WDeleteConfig} (RemoveDoguConfigStep X repo d)"
  unfolding RemoveDoguConfigStep_def io_defs
  by (auto simp: Let_def intro!: emits_rules touch_rules retry_dogu_touches)

lemma RemoveFinalizerStep_touches: "touches {WDogu} (RemoveFinalizerStep X d)"
  unfolding RemoveFinalizerStep_def io_defs
  by (auto simp: Let_def intro!: emits_rules touch_rules retry_dogu_touches)

subsection \<open>Post-install\<close>

lemma StartStopStep_touches: "touches {WScale, WDoguStatus} (StartStopStep X d)"
  unfolding StartStopStep_def shouldBeStopped_def io_defs
  by (auto simp: Let_def intro!: emits_rules touch_rules)

lemma VolumeExpanderStep_touches: "touches {WPVC, WDoguStatus} (VolumeExpanderStep X d)"
  unfolding VolumeExpanderStep_def setSuccessCondition_def io_defs
  by (auto simp: Let_def intro!: emits_rules touch_rules)

lemma MismatchedStorageClassWarningStep_touches: "touches {} (MismatchedStorageClassWarningStep X d)"
  unfolding MismatchedStorageClassWarningStep_def io_defs
  by (auto simp: Let_def intro!: emits_rules touch_rules)

lemma SecurityContextStep_touches: "touches {WDeployment} (SecurityContextStep X d)"
  unfolding SecurityContextStep_def io_defs
  by (auto simp: Let_def intro!: emits_rules touch_rules)

lemma ExportModeStep_touches: "touches {WCreateDeployment, WDeployment, WDoguStatus} (ExportModeStep X d)"
  unfolding ExportModeStep_def io_defs
  by (auto simp: Let_def intro!: emits_rules touch_rules)

lemma SupportModeStep_touches: "touches {WDeployment, WDoguStatus} (SupportModeStep X d)"
  unfolding SupportModeStep_def setSupportModeCondition_def io_defs
  by (auto simp: Let_def intro!: emits_rules touch_rules)

lemma AdditionalMountsStep_touches: "touches {WDeployment} (AdditionalMountsStep X d)"
  unfolding AdditionalMountsStep_def io_defs
  by (auto simp: Let_def intro!: emits_rules touch_rules)

lemma retroactive_loop_touches [touch_rules]: "touches F (retroactive_loop X name ds)"
  by (induction ds) (auto simp: io_defs intro!: emits_rules read_rules)

subsection \<open>Upgrade\<close>

lemma PreUpgradeStatusStep_touches: "touches {WDoguStatus} (PreUpgradeStatusStep X d)"
  unfolding PreUpgradeStatusStep_def io_defs
  by (auto simp: Let_def intro!: emits_rules touch_rules)

lemma UpdateDeploymentVersionStep_touches: "touches {WExec, WCreateDeployment, WDeployment} (UpdateDeploymentVersionStep X d)"
  unfolding UpdateDeploymentVersionStep_def upgradeDeployment_def applyPreUpgradeScript_def applyPreUpgradeScriptToOlderDogu_def copyPreUpgradeScriptFromPodToPod_def io_defs
  by (auto simp: Let_def intro!: emits_rules touch_rules)

lemma upgrade_RegisterDoguVersionStep_touches: "touches {WAddDescriptor, WEnableVersion} (upgrade_RegisterDoguVersionStep X d)"
  unfolding upgrade_RegisterDoguVersionStep_def io_defs
  by (auto simp: Let_def intro!: emits_rules touch_rules)

lemma DeleteExecPodStep_touches: "touches {WDeletePods} (DeleteExecPodStep X d)"
  unfolding DeleteExecPodStep_def io_defs
  by (auto simp: Let_def intro!: emits_rules touch_rules)

lemma PostUpgradeStep_touches: "touches {WExec, WDeployment} (PostUpgradeStep X d)"
  unfolding PostUpgradeStep_def applyPostUpgradeScript_def executePostUpgradeScript_def revertStartupProbeAfterUpdate_def io_defs
  by (auto simp: Let_def intro!: emits_rules touch_rules)

lemma InstalledVersionStep_touches: "touches {WDoguStatus} (InstalledVersionStep X d)"
  unfolding InstalledVersionStep_def io_defs
  by (auto simp: Let_def intro!: emits_rules touch_rules)

lemma RegenerateDeploymentStep_touches: "touches {WDeployment} (RegenerateDeploymentStep X d)"
  unfolding RegenerateDeploymentStep_def io_defs
  by (auto simp: Let_def intro!: emits_rules touch_rules)

lemma UpdateStartedAtStep_touches: "touches {WDoguStatus} (UpdateStartedAtStep X d)"
  unfolding UpdateStartedAtStep_def io_defs
  by (auto simp: Let_def intro!: emits_rules touch_rules)

lemma RestartAfterConfigChangeStep_touches: "touches {WDeployment, WDoguStatus} (RestartAfterConfigChangeStep X d)"
  unfolding RestartAfterConfigChangeStep_def io_defs
  by (auto simp: Let_def intro!: emits_rules touch_rules)

lemma RetroactiveServiceAccountStep_touches: "touches {} (RetroactiveServiceAccountStep X d)"
  unfolding RetroactiveServiceAccountStep_def io_defs
  by (auto simp: Let_def intro!: emits_rules touch_rules)

end
