(* ===== verification/Restart.thy ===== *)
theory Restart
  imports Health "HOL-Library.Sublist"
begin

text \<open>
  The DoguRestart controller (\<^verbatim>\<open>dogurestart_controller.go\<close>, \<^verbatim>\<open>restartInstruction.go\<close>) and the garbage collector
  of finished restarts (package \<^verbatim>\<open>garbagecollection\<close>). A restart is a state machine over the phase in its
  status: each reconciliation writes at most one new phase.
\<close>

section \<open>Instructions\<close>

datatype restart_operation =
    op_ignore | op_wait | op_stop | op_checkStopped | op_start | op_checkStarted
  | op_handleDoguNotFound | op_handleGetDoguFailed | op_handleGetDoguRestartFailed

record ctrl_result =
  cr_Requeue :: bool
  cr_RequeueAfter :: int

definition no_requeue :: ctrl_result where
  "no_requeue = \<lparr> cr_Requeue = False, cr_RequeueAfter = 0 \<rparr>"

definition requeueWaitTimeout :: int where "requeueWaitTimeout = 5 * 10 ^ 9"

definition requeue_wait :: ctrl_result where
  "requeue_wait = \<lparr> cr_Requeue = False, cr_RequeueAfter = requeueWaitTimeout \<rparr>"

fun RestartOperationFromRestartStatusPhase :: "restart_phase \<Rightarrow> restart_operation" where
  "RestartOperationFromRestartStatusPhase PhaseCompleted = op_ignore"
| "RestartOperationFromRestartStatusPhase PhaseDoguNotFound = op_ignore"
| "RestartOperationFromRestartStatusPhase PhaseStopping = op_checkStopped"
| "RestartOperationFromRestartStatusPhase PhaseStarting = op_checkStarted"
| "RestartOperationFromRestartStatusPhase PhaseStopped = op_start"
| "RestartOperationFromRestartStatusPhase PhaseFailedStart = op_start"
| "RestartOperationFromRestartStatusPhase PhaseNew = op_stop"
| "RestartOperationFromRestartStatusPhase PhaseFailedStop = op_stop"
| "RestartOperationFromRestartStatusPhase _ = op_ignore"

text \<open>
  The instruction: \<open>ri_Restart\<close> is nil if the restart could not be read, \<open>ri_Dogu\<close> is nil unless its dogu was
  read.
\<close>

record restart_instruction =
  ri_Op :: restart_operation
  ri_Err :: "err option"
  ri_Restart :: "dogu_restart option"
  ri_Dogu :: "dogu option"

definition createRestartInstruction :: "env \<Rightarrow> string \<Rightarrow> restart_instruction op" where
  "createRestartInstruction E name = do {
     r \<leftarrow> get_restart E name;
     case r of
       Inl e \<Rightarrow> ret \<lparr> ri_Op = op_handleGetDoguRestartFailed, ri_Err = Some e, ri_Restart = None, ri_Dogu = None \<rparr>
     | Inr restart \<Rightarrow>
         let op = RestartOperationFromRestartStatusPhase (r_Phase restart) in
         if op = op_ignore then ret \<lparr> ri_Op = op, ri_Err = None, ri_Restart = Some restart, ri_Dogu = None \<rparr>
         else do {
           r2 \<leftarrow> get_dogu E (r_DoguName restart);
           ret (case r2 of
               Inl e \<Rightarrow> \<lparr> ri_Op = (if IsNotFound e then op_handleDoguNotFound else op_handleGetDoguFailed),
                   ri_Err = Some e, ri_Restart = Some restart, ri_Dogu = None \<rparr>
             | Inr d \<Rightarrow> \<lparr> ri_Op = op, ri_Err = None, ri_Restart = Some restart, ri_Dogu = Some d \<rparr>)
         }
   }"

definition updateDoguRestartPhase :: "env \<Rightarrow> dogu_restart \<Rightarrow> restart_phase \<Rightarrow> err option op" where
  "updateDoguRestartPhase E r phase = err_only (update_restart_phase E (r_Name r) phase)"

definition updateDoguSpecStopped :: "env \<Rightarrow> dogu \<Rightarrow> bool \<Rightarrow> err option op" where
  "updateDoguSpecStopped E d shouldStop = err_only (update_dogu_spec E d (\<lambda>s. s\<lparr> s_Stopped := shouldStop \<rparr>))"

definition getCheckStartStopAttributes :: "bool \<Rightarrow> string \<times> bool \<times> restart_phase" where
  "getCheckStartStopAttributes stopped =
     (if stopped then (''Stopped'', True, PhaseStopped) else (''Started'', False, PhaseCompleted))"

definition checkStartStop :: "env \<Rightarrow> dogu_restart \<Rightarrow> dogu \<Rightarrow> bool \<Rightarrow> (ctrl_result \<times> err option) op" where
  "checkStartStop E r d shouldStop =
     (let (reason, requeue, phase) = getCheckStartStopAttributes shouldStop in
      if t_Stopped (d_Status d) \<and> shouldStop \<or> \<not> t_Stopped (d_Status d) \<and> \<not> shouldStop then do {
        _ \<leftarrow> record_event EventTypeNormal reason;
        statusErr \<leftarrow> updateDoguRestartPhase E r phase;
        ret (\<lparr> cr_Requeue = requeue, cr_RequeueAfter = 0 \<rparr>, statusErr)
      } else ret (requeue_wait, None))"

definition getHandleStartStopAttributes :: "bool \<Rightarrow> string \<times> bool \<times> restart_phase \<times> restart_phase" where
  "getHandleStartStopAttributes stopped =
     (if stopped then (''Stopping'', True, PhaseStopping, PhaseFailedStop)
      else (''Starting'', False, PhaseStarting, PhaseFailedStart))"

definition handleStartStop :: "env \<Rightarrow> dogu_restart \<Rightarrow> dogu \<Rightarrow> bool \<Rightarrow> (ctrl_result \<times> err option) op" where
  "handleStartStop E r d shouldStop =
     (let (reason, requeue, phase, phaseOnFail) = getHandleStartStopAttributes shouldStop in
      check_err (updateDoguSpecStopped E d shouldStop)
        (\<lambda>e. do {
           _ \<leftarrow> record_event EventTypeWarning reason;
           statusErr \<leftarrow> updateDoguRestartPhase E r phaseOnFail;
           ret (no_requeue, case statusErr of Some e2 \<Rightarrow> errors_Join [Some e, Some e2] | None \<Rightarrow> Some e)
         })
        (check_err (updateDoguRestartPhase E r phase) (\<lambda>e. ret (no_requeue, Some e))
           (do {
              _ \<leftarrow> record_event EventTypeNormal reason;
              ret (if requeue then requeue_wait else no_requeue, None)
            })))"

definition handleGetDoguFailed :: "env \<Rightarrow> dogu_restart \<Rightarrow> err option \<Rightarrow> (ctrl_result \<times> err option) op" where
  "handleGetDoguFailed E r err = do {
     _ \<leftarrow> record_event EventTypeWarning ''FailedGetDogu'';
     statusErr \<leftarrow> updateDoguRestartPhase E r PhaseFailedGetDogu;
     ret (no_requeue, errors_Join [err, statusErr])
   }"

definition handleDoguNotFound :: "env \<Rightarrow> dogu_restart \<Rightarrow> (ctrl_result \<times> err option) op" where
  "handleDoguNotFound E r = do {
     _ \<leftarrow> record_event EventTypeWarning ''DoguNotFound'';
     _ \<leftarrow> updateDoguRestartPhase E r PhaseDoguNotFound;
     ret (no_requeue, None)
   }"

text \<open>An operation on a restart or dogu that is nil would be a panic.\<close>

definition nil_panic :: "(ctrl_result \<times> err option) op" where
  "nil_panic = ret (no_requeue, Some (ErrPanic ''nil pointer dereference''))"

definition with_restart :: "restart_instruction \<Rightarrow> (dogu_restart \<Rightarrow> (ctrl_result \<times> err option) op) \<Rightarrow> (ctrl_result \<times> err option) op" where
  "with_restart i k = (case ri_Restart i of Some r \<Rightarrow> k r | None \<Rightarrow> nil_panic)"

definition with_dogu :: "restart_instruction \<Rightarrow> (dogu_restart \<Rightarrow> dogu \<Rightarrow> (ctrl_result \<times> err option) op) \<Rightarrow> (ctrl_result \<times> err option) op" where
  "with_dogu i k = with_restart i (\<lambda>r. case ri_Dogu i of Some d \<Rightarrow> k r d | None \<Rightarrow> nil_panic)"

definition checkStopped :: "env \<Rightarrow> dogu_restart \<Rightarrow> dogu \<Rightarrow> (ctrl_result \<times> err option) op" where [simp]:
  "checkStopped E r d = checkStartStop E r d True"

definition checkStarted :: "env \<Rightarrow> dogu_restart \<Rightarrow> dogu \<Rightarrow> (ctrl_result \<times> err option) op" where [simp]:
  "checkStarted E r d = checkStartStop E r d False"

definition handleStop :: "env \<Rightarrow> dogu_restart \<Rightarrow> dogu \<Rightarrow> (ctrl_result \<times> err option) op" where [simp]:
  "handleStop E r d = handleStartStop E r d True"

definition handleStart :: "env \<Rightarrow> dogu_restart \<Rightarrow> dogu \<Rightarrow> (ctrl_result \<times> err option) op" where [simp]:
  "handleStart E r d = handleStartStop E r d False"

definition execute :: "env \<Rightarrow> restart_instruction \<Rightarrow> (ctrl_result \<times> err option) op" where
  "execute E i =
     (case ri_Op i of
        op_ignore \<Rightarrow> ret (no_requeue, None)
      | op_wait \<Rightarrow> ret (requeue_wait, None)
      | op_checkStopped \<Rightarrow> with_dogu i (checkStopped E)
      | op_checkStarted \<Rightarrow> with_dogu i (checkStarted E)
      | op_stop \<Rightarrow> with_dogu i (handleStop E)
      | op_start \<Rightarrow> with_dogu i (handleStart E)
      | op_handleGetDoguRestartFailed \<Rightarrow> ret (no_requeue, IgnoreNotFound (ri_Err i))
      | op_handleDoguNotFound \<Rightarrow> with_restart i (handleDoguNotFound E)
      | op_handleGetDoguFailed \<Rightarrow> with_restart i (\<lambda>r. handleGetDoguFailed E r (ri_Err i)))"

section \<open>Garbage collection\<close>

text \<open>
  \<^verbatim>\<open>sort.Slice\<close> is not stable: restarts with equal creation time may end up in any order. The sorting
  function is a parameter with the contract of \<^verbatim>\<open>sort.Slice\<close> for this comparison.
\<close>

locale restart_sorter =
  fixes sorter :: "dogu_restart list \<Rightarrow> dogu_restart list"
  assumes sorter_set: "set (sorter rs) = set rs"
    and sorter_length: "length (sorter rs) = length rs"
    and sorter_sorted: "sorted (map r_CreationTimestamp (sorter rs))"
begin

lemma older_first:
  assumes "r \<in> set (take k (sorter rs))" "s \<in> set (drop k (sorter rs))"
  shows "r_CreationTimestamp r \<le> r_CreationTimestamp s"
proof -
  have "sorted (map r_CreationTimestamp (take k (sorter rs)) @ map r_CreationTimestamp (drop k (sorter rs)))"
    using sorter_sorted [of rs] by (metis append_take_drop_id map_append)
  with assms show ?thesis by (auto simp: sorted_append)
qed

end

definition sort_restarts :: "dogu_restart list \<Rightarrow> dogu_restart list" where
  "sort_restarts = sort_key r_CreationTimestamp"

interpretation sort_restarts: restart_sorter sort_restarts
  by unfold_locales (simp_all add: sort_restarts_def)

definition garbageCollectionDisabled :: "lib \<Rightarrow> bool res" where
  "garbageCollectionDisabled L =
     (case lib_Getenv L ''DOGU_RESTART_GARBAGE_COLLECTION_DISABLED'' of
        None \<Rightarrow> Inr False
      | Some s \<Rightarrow> (case ParseBool s of
          None \<Rightarrow> Inl (ErrMsg ''failed to convert garbage collection disabled flag of dogu restarts'')
        | Some b \<Rightarrow> Inr b))"

definition getDoguRestartsForDogu :: "env \<Rightarrow> string \<Rightarrow> (dogu_restart list) res op" where
  "getDoguRestartsForDogu E doguName =
     attempt (list_restarts E) (throw_wrap ''failed to list dogu restarts for dogu'')
       (\<lambda>rs. ok (filter (\<lambda>r. r_DoguName r = doguName) rs))"

definition filterDoguRestarts :: "dogu_restart list \<Rightarrow> (restart_phase \<Rightarrow> bool) \<Rightarrow> dogu_restart list" where
  "filterDoguRestarts items f = filter (\<lambda>r. f (r_Phase r)) items"

definition historyLimit :: "lib \<Rightarrow> string \<Rightarrow> int \<Rightarrow> int res" where
  "historyLimit L limitEnv fallback =
     (case lib_Getenv L limitEnv of
        None \<Rightarrow> Inr fallback
      | Some s \<Rightarrow> (case Atoi s of
          Inl e \<Rightarrow> Inl (ErrWrap ''failed to convert history limit of dogu restarts'' e)
        | Inr n \<Rightarrow> Inr n))"

fun delete_restarts :: "env \<Rightarrow> dogu_restart list \<Rightarrow> (err option list) op" where
  "delete_restarts E [] = ret []"
| "delete_restarts E (r # rs) = do {
     eo \<leftarrow> err_only (delete_restart E (r_Name r));
     es \<leftarrow> delete_restarts E rs;
     ret (eo # es)
   }"

definition truncateDoguRestartHistory ::
    "lib \<Rightarrow> env \<Rightarrow> (dogu_restart list \<Rightarrow> dogu_restart list) \<Rightarrow> dogu_restart list \<Rightarrow> string \<Rightarrow> int \<Rightarrow> err option op" where
  "truncateDoguRestartHistory L E sorter items limitEnv fallback =
     (if length items = 0 then ret None
      else case historyLimit L limitEnv fallback of
          Inl e \<Rightarrow> ret (Some e)
        | Inr limit \<Rightarrow>
            if limit < 0 then ret (Some (ErrMsg ''failed to execute garbage collection because the limit is less than 0''))
            else let amount = int (length items) - limit in
              if amount \<le> 0 then ret None
              else do { es \<leftarrow> delete_restarts E (take (nat amount) (sorter items)); ret (errors_Join es) })"

definition DoGarbageCollection :: "lib \<Rightarrow> env \<Rightarrow> (dogu_restart list \<Rightarrow> dogu_restart list) \<Rightarrow> string \<Rightarrow> err option op" where
  "DoGarbageCollection L E sorter doguName =
     (case garbageCollectionDisabled L of
        Inl e \<Rightarrow> ret (Some e)
      | Inr disabled \<Rightarrow>
          if disabled then ret None
          else attempt (getDoguRestartsForDogu E doguName) (\<lambda>e. ret (Some e))
            (\<lambda>restarts. do {
               e1 \<leftarrow> truncateDoguRestartHistory L E sorter (filterDoguRestarts restarts (\<lambda>p. p = PhaseCompleted))
                       ''DOGU_RESTART_SUCCESSFUL_HISTORY_LIMIT'' 3;
               e2 \<leftarrow> truncateDoguRestartHistory L E sorter (filterDoguRestarts restarts (lib_PhaseIsFailed L))
                       ''DOGU_RESTART_FAILED_HISTORY_LIMIT'' 3;
               ret (errors_Join [e1, e2])
             }))"

definition restart_Reconcile :: "lib \<Rightarrow> env \<Rightarrow> (dogu_restart list \<Rightarrow> dogu_restart list) \<Rightarrow> string \<Rightarrow> (ctrl_result \<times> err option) op" where
  "restart_Reconcile L E sorter name = do {
     i \<leftarrow> createRestartInstruction E name;
     (result, eo) \<leftarrow> execute E i;
     case eo of
       Some e \<Rightarrow> ret (result, Some (ErrWrap ''failed to execute restart instruction'' e))
     | None \<Rightarrow>
         (case ri_Restart i of
            Some r \<Rightarrow>
              if \<not> cr_Requeue result \<and> cr_RequeueAfter result = 0 then do {
                eo2 \<leftarrow> DoGarbageCollection L E sorter (r_DoguName r);
                ret (result, wrap_err ''failed to do garbagecollection for dogurestart'' eo2)
              } else ret (result, None)
          | None \<Rightarrow> ret (result, None))
   }"

section \<open>The state machine\<close>

text \<open>The transitions between phases, and their ranks.\<close>

inductive restart_step :: "restart_phase \<Rightarrow> restart_phase \<Rightarrow> bool" where
  stop_ok: "p \<in> {PhaseNew, PhaseFailedStop} \<Longrightarrow> restart_step p PhaseStopping"
| stop_failed: "p \<in> {PhaseNew, PhaseFailedStop} \<Longrightarrow> restart_step p PhaseFailedStop"
| stopped: "restart_step PhaseStopping PhaseStopped"
| start_ok: "p \<in> {PhaseStopped, PhaseFailedStart} \<Longrightarrow> restart_step p PhaseStarting"
| start_failed: "p \<in> {PhaseStopped, PhaseFailedStart} \<Longrightarrow> restart_step p PhaseFailedStart"
| started: "restart_step PhaseStarting PhaseCompleted"
| not_found: "RestartOperationFromRestartStatusPhase p \<noteq> op_ignore \<Longrightarrow> restart_step p PhaseDoguNotFound"
| get_failed: "RestartOperationFromRestartStatusPhase p \<noteq> op_ignore \<Longrightarrow> restart_step p PhaseFailedGetDogu"

inductive_cases restart_step_toE [elim!]:
  "restart_step p PhaseNew" "restart_step p PhaseStopping" "restart_step p PhaseStopped" "restart_step p PhaseStarting"
  "restart_step p PhaseCompleted" "restart_step p PhaseFailedStop" "restart_step p PhaseFailedStart"

fun phase_of_call :: "event \<Rightarrow> restart_phase option" where
  "phase_of_call (Event (CUpdateRestartPhase _ p) _) = Some p"
| "phase_of_call _ = None"

definition phases_written :: "log \<Rightarrow> restart_phase list" where
  "phases_written t = List.map_filter phase_of_call t"

lemma phases_written_append [simp]: "phases_written (s @ t) = phases_written s @ phases_written t"
  by (induction s) (auto simp: phases_written_def List.map_filter_simps split: option.splits)

lemma phases_written_Cons [simp]:
  "phases_written [] = []"
  "phases_written (e # t) = (case phase_of_call e of None \<Rightarrow> phases_written t | Some p \<Rightarrow> p # phases_written t)"
  by (simp_all add: phases_written_def List.map_filter_simps split: option.splits)

text \<open>At most one phase is written, and it is a step of the machine from \<open>p\<close>.\<close>

definition one_step :: "restart_phase \<Rightarrow> log \<Rightarrow> bool" where
  "one_step p t \<longleftrightarrow> phases_written t = [] \<or> (\<exists>q. phases_written t = [q] \<and> restart_step p q)"

lemma updateDoguRestartPhase_spec:
  "spec (updateDoguRestartPhase E r p) (\<lambda>_ t. phases_written t = [p])"
  unfolding updateDoguRestartPhase_def io_defs by (rule spec_conseq [OF err_only_logs]) simp

lemma updateDoguSpecStopped_spec:
  "spec (updateDoguSpecStopped E d b) (\<lambda>_ t. phases_written t = [])"
  unfolding updateDoguSpecStopped_def io_defs by (rule spec_conseq [OF err_only_logs]) simp

lemma record_event_spec: "spec (record_event a b) (\<lambda>_ t. phases_written t = [])"
  unfolding record_event_def tell_def by (rule spec_ask) simp

lemma checkStartStop_spec:
  "spec (checkStartStop E r d True) (\<lambda>_ t. phases_written t \<in> {[], [PhaseStopped]})"
  "spec (checkStartStop E r d False) (\<lambda>_ t. phases_written t \<in> {[], [PhaseCompleted]})"
  unfolding checkStartStop_def getCheckStartStopAttributes_def
  by (auto intro!: spec_return spec_bind [OF record_event_spec] spec_bind [OF updateDoguRestartPhase_spec])

lemma handleStartStop_spec:
  "spec (handleStartStop E r d True) (\<lambda>_ t. phases_written t \<in> {[PhaseStopping], [PhaseFailedStop]})"
  "spec (handleStartStop E r d False) (\<lambda>_ t. phases_written t \<in> {[PhaseStarting], [PhaseFailedStart]})"
  unfolding handleStartStop_def getHandleStartStopAttributes_def
  by (auto intro!: spec_return spec_check_err [OF updateDoguSpecStopped_spec] spec_check_err [OF updateDoguRestartPhase_spec]
      spec_bind [OF record_event_spec] spec_bind [OF updateDoguRestartPhase_spec])

lemma handleDoguNotFound_spec: "spec (handleDoguNotFound E r) (\<lambda>_ t. phases_written t = [PhaseDoguNotFound])"
  unfolding handleDoguNotFound_def
  by (auto intro!: spec_return spec_bind [OF record_event_spec] spec_bind [OF updateDoguRestartPhase_spec])

lemma handleGetDoguFailed_spec: "spec (handleGetDoguFailed E r e) (\<lambda>_ t. phases_written t = [PhaseFailedGetDogu])"
  unfolding handleGetDoguFailed_def
  by (auto intro!: spec_return spec_bind [OF record_event_spec] spec_bind [OF updateDoguRestartPhase_spec])

lemma delete_restarts_spec:
  "spec (delete_restarts E rs) (\<lambda>_ t. map ev_call t = map (\<lambda>r. CDeleteRestart (r_Name r)) rs \<and> phases_written t = [])"
proof (induction rs)
  case (Cons r rs)
  show ?case
    by (auto simp: io_defs intro!: spec_bind [OF err_only_logs] spec_bind [OF Cons.IH] spec_return)
qed (auto intro: spec_return)

lemma truncate_no_phases: "spec (truncateDoguRestartHistory L E S items v f) (\<lambda>_ t. phases_written t = [])"
  unfolding truncateDoguRestartHistory_def Let_def
  by (auto intro!: spec_return spec_bind [OF delete_restarts_spec] split: sum.splits)

lemma DoGarbageCollection_no_phases: "spec (DoGarbageCollection L E S n) (\<lambda>_ t. phases_written t = [])"
proof -
  have get: "spec (getDoguRestartsForDogu E n) (\<lambda>_ t. phases_written t = [])"
    unfolding getDoguRestartsForDogu_def io_defs
    by (rule spec_attempt [OF req_logs]) (auto intro: spec_return)
  show ?thesis
    unfolding DoGarbageCollection_def
    by (auto intro!: spec_return spec_attempt [OF get] spec_bind [OF truncate_no_phases] split: sum.splits)
qed

text \<open>What \<^verbatim>\<open>createRestartInstruction\<close> returns for a restart \<open>r\<close>.\<close>

definition instruction_for :: "dogu_restart \<Rightarrow> restart_instruction \<Rightarrow> bool" where
  "instruction_for r i \<longleftrightarrow> ri_Restart i = Some r \<and>
     (ri_Op i = op_ignore \<and> RestartOperationFromRestartStatusPhase (r_Phase r) = op_ignore \<or>
      RestartOperationFromRestartStatusPhase (r_Phase r) \<noteq> op_ignore \<and>
        (ri_Op i \<in> {op_handleDoguNotFound, op_handleGetDoguFailed} \<or>
         ri_Op i = RestartOperationFromRestartStatusPhase (r_Phase r) \<and> ri_Dogu i \<noteq> None))"

lemma createRestartInstruction_run:
  assumes "a_GetRestart (E h) name = Inr r"
  shows "\<exists>i t. run_state (createRestartInstruction E name) h = (i, h @ t) \<and> instruction_for r i \<and> phases_written t = []"
  using assms
  by (auto simp: createRestartInstruction_def io_defs Let_def instruction_for_def split: sum.splits)

lemma operation_phase:
  "RestartOperationFromRestartStatusPhase p = op_checkStopped \<longleftrightarrow> p = PhaseStopping"
  "RestartOperationFromRestartStatusPhase p = op_checkStarted \<longleftrightarrow> p = PhaseStarting"
  "RestartOperationFromRestartStatusPhase p = op_stop \<longleftrightarrow> p \<in> {PhaseNew, PhaseFailedStop}"
  "RestartOperationFromRestartStatusPhase p = op_start \<longleftrightarrow> p \<in> {PhaseStopped, PhaseFailedStart}"
  "RestartOperationFromRestartStatusPhase p \<notin> {op_wait, op_handleDoguNotFound, op_handleGetDoguFailed, op_handleGetDoguRestartFailed}"
  by (cases p; simp)+

lemma execute_one_step:
  assumes "instruction_for r i"
  shows "spec (execute E i) (\<lambda>_ t. one_step (r_Phase r) t)"
proof (cases "ri_Op i")
  case op_ignore
  then show ?thesis by (auto simp: execute_def one_step_def intro: spec_return)
next
  case op_wait
  then show ?thesis using assms operation_phase(5) [of "r_Phase r"] by (auto simp: instruction_for_def)
next
  case op_stop
  with assms obtain d where "ri_Restart i = Some r" "ri_Dogu i = Some d" "r_Phase r \<in> {PhaseNew, PhaseFailedStop}"
    by (auto simp: instruction_for_def operation_phase operation_phase [unfolded eq_commute [of "RestartOperationFromRestartStatusPhase _"]])
  then show ?thesis
    by (auto simp: execute_def op_stop with_dogu_def with_restart_def one_step_def
        intro!: spec_conseq [OF handleStartStop_spec(1)] intro: restart_step.intros)
next
  case op_checkStopped
  with assms obtain d where "ri_Restart i = Some r" "ri_Dogu i = Some d" "r_Phase r = PhaseStopping"
    by (auto simp: instruction_for_def operation_phase operation_phase [unfolded eq_commute [of "RestartOperationFromRestartStatusPhase _"]])
  then show ?thesis
    by (auto simp: execute_def op_checkStopped with_dogu_def with_restart_def one_step_def
        intro!: spec_conseq [OF checkStartStop_spec(1)] intro: restart_step.intros)
next
  case op_start
  with assms obtain d where "ri_Restart i = Some r" "ri_Dogu i = Some d" "r_Phase r \<in> {PhaseStopped, PhaseFailedStart}"
    by (auto simp: instruction_for_def operation_phase operation_phase [unfolded eq_commute [of "RestartOperationFromRestartStatusPhase _"]])
  then show ?thesis
    by (auto simp: execute_def op_start with_dogu_def with_restart_def one_step_def
        intro!: spec_conseq [OF handleStartStop_spec(2)] intro: restart_step.intros)
next
  case op_checkStarted
  with assms obtain d where "ri_Restart i = Some r" "ri_Dogu i = Some d" "r_Phase r = PhaseStarting"
    by (auto simp: instruction_for_def operation_phase operation_phase [unfolded eq_commute [of "RestartOperationFromRestartStatusPhase _"]])
  then show ?thesis
    by (auto simp: execute_def op_checkStarted with_dogu_def with_restart_def one_step_def
        intro!: spec_conseq [OF checkStartStop_spec(2)] intro: restart_step.intros)
next
  case op_handleDoguNotFound
  with assms show ?thesis
    by (auto simp: execute_def with_restart_def one_step_def instruction_for_def
        intro!: spec_conseq [OF handleDoguNotFound_spec] intro: restart_step.intros)
next
  case op_handleGetDoguFailed
  with assms show ?thesis
    by (auto simp: execute_def with_restart_def one_step_def instruction_for_def
        intro!: spec_conseq [OF handleGetDoguFailed_spec] intro: restart_step.intros)
next
  case op_handleGetDoguRestartFailed
  then show ?thesis using assms operation_phase(5) [of "r_Phase r"] by (auto simp: instruction_for_def)
qed

lemma restart_Reconcile_one_step:
  assumes "a_GetRestart (E h) name = Inr r" "run_state (restart_Reconcile L E S name) h = (res, h')"
  shows "\<exists>t. h' = h @ t \<and> one_step (r_Phase r) t"
proof -
  obtain i t where i: "run_state (createRestartInstruction E name) h = (i, h @ t)" "instruction_for r i"
    and t: "phases_written t = []"
    using createRestartInstruction_run [of E h name r] assms(1) by blast
  obtain result eo h1 where e: "run_state (execute E i) (h @ t) = ((result, eo), h1)"
    by (metis surj_pair)
  obtain t1 where t1: "h1 = h @ t @ t1" "one_step (r_Phase r) t1"
    using specD [OF execute_one_step [OF i(2)] e] by auto
  obtain eo2 h2 where g: "run_state (DoGarbageCollection L E S (r_DoguName r)) h1 = (eo2, h2)" by fastforce
  with DoGarbageCollection_no_phases obtain t2 where t2: "h2 = h1 @ t2" "phases_written t2 = []"
    by (blast dest: specD)
  have "h' = h1 \<or> h' = h2"
    using assms(2) i e g
    by (auto simp: restart_Reconcile_def instruction_for_def split: option.splits if_splits)
  with t t1 t2 show ?thesis by (auto simp: one_step_def)
qed

section \<open>A completed restart was stopped and started\<close>

text \<open>Some reconciliation of a restart in phase \<open>p\<close> writes the phase \<open>q\<close>.\<close>

definition phase_change :: "lib \<Rightarrow> (dogu_restart list \<Rightarrow> dogu_restart list) \<Rightarrow> restart_phase \<Rightarrow> restart_phase \<Rightarrow> bool" where
  "phase_change L S p q \<longleftrightarrow>
     (\<exists>E h name r. a_GetRestart (E h) name = Inr r \<and> r_Phase r = p \<and>
        q \<in> set (phases_written (drop (length h) (snd (run_state (restart_Reconcile L E S name) h)))))"

lemma phase_change_step:
  assumes "phase_change L S p q"
  shows "restart_step p q"
proof -
  from assms obtain E h name r where g: "a_GetRestart (E h) name = Inr r" "r_Phase r = p"
    and q: "q \<in> set (phases_written (drop (length h) (snd (run_state (restart_Reconcile L E S name) h))))"
    unfolding phase_change_def by blast
  obtain res h' where r: "run_state (restart_Reconcile L E S name) h = (res, h')" by fastforce
  with restart_Reconcile_one_step [of E h, OF g(1) r] g(2) q show ?thesis by (auto simp: one_step_def)
qed

fun milestones :: "restart_phase \<Rightarrow> restart_phase list" where
  "milestones PhaseNew = [PhaseStopping, PhaseStopped, PhaseStarting, PhaseCompleted]"
| "milestones PhaseFailedStop = [PhaseStopping, PhaseStopped, PhaseStarting, PhaseCompleted]"
| "milestones PhaseStopping = [PhaseStopped, PhaseStarting, PhaseCompleted]"
| "milestones PhaseStopped = [PhaseStarting, PhaseCompleted]"
| "milestones PhaseFailedStart = [PhaseStarting, PhaseCompleted]"
| "milestones PhaseStarting = [PhaseCompleted]"
| "milestones _ = []"

lemma restart_step_active: "restart_step p q \<Longrightarrow> RestartOperationFromRestartStatusPhase p \<noteq> op_ignore"
  by (induction rule: restart_step.induct) auto

lemma restart_step_milestones:
  assumes "restart_step p q" "q \<noteq> PhaseDoguNotFound" "q \<noteq> PhaseFailedGetDogu"
  shows "milestones p = milestones q \<or> milestones p = q # milestones q"
  using assms by (induction rule: restart_step.induct) auto

lemma completed_milestones:
  "successively restart_step (p # ps) \<Longrightarrow> last (p # ps) = PhaseCompleted \<Longrightarrow> subseq (milestones p) ps"
proof (induction ps arbitrary: p)
  case (Cons q ps)
  then have step: "restart_step p q" and rest: "successively restart_step (q # ps)" "last (q # ps) = PhaseCompleted"
    by auto
  have "q \<noteq> PhaseDoguNotFound \<and> q \<noteq> PhaseFailedGetDogu"
  proof (cases ps)
    case Nil
    with rest show ?thesis by auto
  next
    case (Cons q' ps')
    with rest(1) have "restart_step q q'" by simp
    then show ?thesis by (auto dest: restart_step_active)
  qed
  with restart_step_milestones [OF step] Cons.IH [OF rest] show ?case by (auto intro: list_emb_Cons)
qed simp

section \<open>The garbage collector keeps the newest restarts\<close>

lemma truncate_deletes:
  assumes "restart_sorter S" "historyLimit L v f = Inr lim" "0 \<le> lim"
    "run_state (truncateDoguRestartHistory L E S items v f) h = (res, h')"
  shows "\<exists>del keep t. S items = del @ keep \<and> length keep = min (nat lim) (length items) \<and> h' = h @ t \<and>
    map ev_call t = map (\<lambda>r. CDeleteRestart (r_Name r)) del \<and>
    (\<forall>r \<in> set del. \<forall>s \<in> set keep. r_CreationTimestamp r \<le> r_CreationTimestamp s)"
proof -
  let ?k = "length items - nat lim"
  have k: "length (drop ?k (S items)) = min (nat lim) (length items)"
    by (simp add: restart_sorter.sorter_length [OF assms(1)])
  have "\<exists>t. h' = h @ t \<and> map ev_call t = map (\<lambda>r. CDeleteRestart (r_Name r)) (take ?k (S items))"
  proof (cases "length items = 0 \<or> int (length items) \<le> lim")
    case True
    with assms(2-4) show ?thesis by (auto simp: truncateDoguRestartHistory_def Let_def split: if_splits)
  next
    case False
    then have n: "nat (int (length items) - lim) = ?k" using assms(3) by linarith
    obtain es h1 where d: "run_state (delete_restarts E (take ?k (S items))) h = (es, h1)" by fastforce
    with delete_restarts_spec obtain t where "h1 = h @ t" "map ev_call t = map (\<lambda>r. CDeleteRestart (r_Name r)) (take ?k (S items))"
      by (blast dest: specD)
    moreover have "h' = h1" using False assms(2-4) d by (auto simp: truncateDoguRestartHistory_def Let_def n)
    ultimately show ?thesis by blast
  qed
  moreover have "\<forall>r \<in> set (take ?k (S items)). \<forall>s \<in> set (drop ?k (S items)). r_CreationTimestamp r \<le> r_CreationTimestamp s"
    using restart_sorter.older_first [OF assms(1)] by blast
  ultimately show ?thesis using k by (metis append_take_drop_id)
qed

end
