(* ===== verification/Controller.thy ===== *)
theory Controller
  imports Usecase Restart
begin

text \<open>
  The Dogu controller (\<^verbatim>\<open>dogu_controller.go\<close>), its requeue handler (\<^verbatim>\<open>dogu_requeue_handler.go\<close>) and the
  controller of the global configuration (\<^verbatim>\<open>GlobalConfigReconciler.go\<close>).
\<close>

section \<open>The requeue handler\<close>

text \<open>A resource that was never read (the zero value) or that is being deleted is not requeued.\<close>

definition not_requeued :: "dogu \<Rightarrow> bool" where
  "not_requeued d \<longleftrightarrow> d = empty_dogu \<or> d_DeletionTimestamp d \<noteq> None"

definition handleRequeue :: "operator_config \<Rightarrow> dogu \<Rightarrow> err option \<Rightarrow> int \<Rightarrow> ctrl_result" where
  "handleRequeue C d reconcileError reqTime =
     (if not_requeued d then no_requeue
      else if reconcileError \<noteq> None then no_requeue\<lparr> cr_RequeueAfter := oc_RequeueTime C \<rparr>
      else if reqTime > 0 then no_requeue\<lparr> cr_RequeueAfter := reqTime \<rparr>
      else no_requeue)"

definition handleRequeueEvent :: "dogu \<Rightarrow> err option \<Rightarrow> int \<Rightarrow> unit op" where
  "handleRequeueEvent d reconcileError reqTime =
     (if not_requeued d then ret ()
      else if reconcileError = None \<and> reqTime = 0 then record_event EventTypeNormal ''ReconcileSucceeded''
      else if reconcileError \<noteq> None then record_event EventTypeWarning ''ReconcileFail''
      else record_event EventTypeNormal ''Requeue'')"

definition handleRequeueTime :: "env \<Rightarrow> operator_config \<Rightarrow> dogu \<Rightarrow> ctrl_result \<Rightarrow> ctrl_result op" where
  "handleRequeueTime E C d result =
     (if not_requeued d then ret result
      else attempt (get_dogu E (d_Name d)) (\<lambda>_. ret (result\<lparr> cr_RequeueAfter := oc_RequeueTime C \<rparr>))
        (\<lambda>d'. attempt (update_dogu_status E d' (\<lambda>s. s\<lparr> t_RequeueTime := cr_RequeueAfter result \<rparr>))
           (\<lambda>_. ret (result\<lparr> cr_RequeueAfter := oc_RequeueTime C \<rparr>)) (\<lambda>_. ret result)))"

definition requeue_Handle :: "env \<Rightarrow> operator_config \<Rightarrow> dogu \<Rightarrow> err option \<Rightarrow> int \<Rightarrow> (ctrl_result \<times> err option) op" where
  "requeue_Handle E C d reconcileError reqTime = do {
     let result = handleRequeue C d reconcileError reqTime;
     _ \<leftarrow> handleRequeueEvent d reconcileError (cr_RequeueAfter result);
     result' \<leftarrow> handleRequeueTime E C d result;
     ret (result', None)
   }"

section \<open>The reconciler\<close>

definition setReadyCondition :: "ctx \<Rightarrow> dogu \<Rightarrow> condition \<Rightarrow> (err option \<times> dogu) op" where
  "setReadyCondition X d c =
     attempt (update_dogu_status (cx_E X) d (set_condition (cx_L X) (c\<lparr> c_ObservedGeneration := d_Generation d \<rparr>)))
       (\<lambda>e. ret (Some e, d)) (\<lambda>d'. ret (None, d'))"

text \<open>The ready condition for an outcome of the steps.\<close>

definition ready_condition :: "outcome \<Rightarrow> condition" where
  "ready_condition out =
     (case out of (requeueAfter, cont, err) \<Rightarrow>
        if requeueAfter \<noteq> 0 then mk_condition ConditionReady ConditionFalse ''HasToReconcile'' ''The dogu resource has to be requeued'' 0
        else if err \<noteq> None then mk_condition ConditionReady ConditionFalse ''ReconcileFail'' ''The dogu resource has to be requeued because of an error'' 0
        else if \<not> cont then mk_condition ConditionReady ConditionFalse ''ReconcileFail'' ''The reconcile has been aborted'' 0
        else mk_condition ConditionReady ConditionTrue ''ReconcileSuccess''
               ''The dogu resource has been reconciled successfully and is ready.'' 0)"

text \<open>The part after the steps: read the resource again, set its ready condition, and requeue.\<close>

definition finish_reconcile :: "ctx \<Rightarrow> string \<Rightarrow> dogu \<Rightarrow> outcome \<Rightarrow> (ctrl_result \<times> err option) op" where
  "finish_reconcile X name d out =
     (case out of (requeueAfter, cont, err) \<Rightarrow>
        attempt (get_dogu (cx_E X) name)
          (\<lambda>e. requeue_Handle (cx_E X) (cx_C X) d (errors_Join [Some (ErrWrap ''failed to get doguResource'' e), err]) 0)
          (\<lambda>d2. do {
             (readyErr, d3) \<leftarrow> setReadyCondition X d2 (ready_condition out);
             requeue_Handle (cx_E X) (cx_C X) d3 (errors_Join [readyErr, err]) requeueAfter
           }))"

definition dogu_Reconcile :: "ctx \<Rightarrow> string \<Rightarrow> (ctrl_result \<times> err option) op" where
  "dogu_Reconcile X name =
     attempt (get_dogu (cx_E X) name)
       (\<lambda>e. requeue_Handle (cx_E X) (cx_C X) empty_dogu (IgnoreNotFound (Some e)) 0)
       (\<lambda>d. do {
          _ \<leftarrow> record_event EventTypeNormal ''ReconcileStarted'';
          if d_DeletionTimestamp d = None then do {
            (out, d1) \<leftarrow> HandleUntilApplied (change_steps X) d;
            finish_reconcile X name d1 out
          } else do {
            ((requeueAfter, cont, err), d1) \<leftarrow> HandleUntilApplied (delete_steps X) d;
            if cont then ret (no_requeue, None)
            else finish_reconcile X name d1 (requeueAfter, cont, IgnoreNotFound err)
          }
        })"

section \<open>The global configuration\<close>

definition globalConfigMapName :: string where "globalConfigMapName = ''global-config''"

text \<open>The event filter: only the config map of the global configuration triggers the controller.\<close>

definition globalConfigPredicate :: "string \<Rightarrow> bool" where
  "globalConfigPredicate objectName \<longleftrightarrow> objectName = globalConfigMapName"

definition global_Reconcile :: "env \<Rightarrow> (ctrl_result \<times> err option) op" where
  "global_Reconcile E =
     attempt (list_dogus E) (\<lambda>e. ret (no_requeue, Some e))
       (\<lambda>dogus. do { _ \<leftarrow> enqueue_all dogus; ret (no_requeue, None) })"

section \<open>Requeueing\<close>

lemma handleRequeueTime_result:
  "run_state (handleRequeueTime E C d result) h = (result', h') \<Longrightarrow>
    result' = result \<or> \<not> not_requeued d \<and> result' = result\<lparr> cr_RequeueAfter := oc_RequeueTime C \<rparr>"
  by (auto simp: handleRequeueTime_def run_attempt io_defs split: sum.splits if_splits)

lemma requeue_Handle_split:
  assumes "run_state (requeue_Handle E C d eo q) h = ((result, e), h')"
  shows "e = None \<and> (result = handleRequeue C d eo q \<or>
    \<not> not_requeued d \<and> result = (handleRequeue C d eo q)\<lparr> cr_RequeueAfter := oc_RequeueTime C \<rparr>)"
proof -
  obtain h1 where h1: "run_state (handleRequeueEvent d eo (cr_RequeueAfter (handleRequeue C d eo q))) h = ((), h1)"
    by (metis old.unit.exhaust surj_pair)
  obtain r h2 where r: "run_state (handleRequeueTime E C d (handleRequeue C d eo q)) h1 = (r, h2)" by fastforce
  from assms h1 r have "e = None" "result = r" by (auto simp: requeue_Handle_def Let_def)
  with handleRequeueTime_result [OF r] show ?thesis by simp
qed

lemma requeue_Handle_not_requeued:
  "not_requeued d \<Longrightarrow> run_state (requeue_Handle E C d eo q) h = ((no_requeue, None), h)"
  by (simp add: requeue_Handle_def handleRequeueEvent_def handleRequeueTime_def handleRequeue_def Let_def)

lemma requeue_Handle_error:
  assumes "run_state (requeue_Handle E C d (Some x) q) h = ((result, e), h')" "\<not> not_requeued d"
  shows "e = None" "cr_RequeueAfter result = oc_RequeueTime C"
  using requeue_Handle_split [OF assms(1)] assms(2) by (auto simp: handleRequeue_def)

lemma requeue_Handle_time:
  assumes "run_state (requeue_Handle E C d None q) h = ((result, e), h')" "\<not> not_requeued d" "0 < q"
  shows "e = None" "cr_RequeueAfter result \<in> {q, oc_RequeueTime C}"
  using requeue_Handle_split [OF assms(1)] assms(2,3) by (auto simp: handleRequeue_def)

lemma spec_requeue_Handle: "emits (\<lambda>_. True) (requeue_Handle E C d eo q)"
  unfolding requeue_Handle_def handleRequeueEvent_def handleRequeueTime_def io_defs Let_def
  by (auto intro!: emits_rules)

section \<open>Readiness\<close>

lemma ready_condition_True:
  "c_Status (ready_condition (q, cont, e)) = ConditionTrue \<longleftrightarrow> q = 0 \<and> cont \<and> e = None"
  by (simp add: ready_condition_def mk_condition_def)

lemma ready_condition_type: "c_Type (ready_condition out) = ConditionReady"
  by (cases out) (simp add: ready_condition_def mk_condition_def)

lemma finish_reconcile_log:
  assumes "a_GetDogu (cx_E X h) name = Inr d2"
  shows "\<exists>eo t. snd (run_state (finish_reconcile X name d1 out) h) = h @ [Event (CGetDogu name) None,
    Event (CUpdateDoguStatus (d_Name d2) (set_condition (cx_L X)
      ((ready_condition out)\<lparr> c_ObservedGeneration := d_Generation d2 \<rparr>) (d_Status d2))) eo] @ t"
proof -
  obtain q cont e where out: "out = (q, cont, e)" by (metis surj_pair)
  let ?h = "h @ [Event (CGetDogu name) None]"
  obtain readyErr d3 h3 where s: "run_state (setReadyCondition X d2 (ready_condition out)) ?h = ((readyErr, d3), h3)"
    by (metis surj_pair)
  then obtain eo where h3: "h3 = h @ [Event (CGetDogu name) None, Event (CUpdateDoguStatus (d_Name d2) (set_condition (cx_L X)
      ((ready_condition out)\<lparr> c_ObservedGeneration := d_Generation d2 \<rparr>) (d_Status d2))) eo]"
    by (auto simp: setReadyCondition_def run_attempt io_defs split: sum.splits)
  obtain res h4 where r: "run_state (requeue_Handle (cx_E X) (cx_C X) d3 (errors_Join [readyErr, e]) q) h3 = (res, h4)"
    by fastforce
  with emitsD [OF spec_requeue_Handle] obtain t where t: "h4 = h3 @ t" by fastforce
  have "run_state (finish_reconcile X name d1 out) h = (res, h4)"
    using assms s r by (simp add: finish_reconcile_def out run_attempt io_defs)
  with h3 t show ?thesis by (intro exI [of _ eo] exI [of _ t]) simp
qed

text \<open>What \<^verbatim>\<open>Reconcile\<close> does with a resource that is not being deleted.\<close>

lemma dogu_Reconcile_change:
  assumes "a_GetDogu (cx_E X h) name = Inr d" "d_DeletionTimestamp d = None"
    and "run_state (HandleUntilApplied (change_steps X) d)
      (h @ [Event (CGetDogu name) None, Event (CRecord EventTypeNormal ''ReconcileStarted'') None]) = ((out, d1), h1)"
  shows "run_state (dogu_Reconcile X name) h = run_state (finish_reconcile X name d1 out) h1"
  using assms by (simp add: dogu_Reconcile_def run_attempt io_defs)

lemma dogu_Reconcile_unreadable:
  assumes "a_GetDogu (cx_E X h) name = Inl e"
  shows "run_state (dogu_Reconcile X name) h = ((no_requeue, None), h @ [Event (CGetDogu name) (Some e)])"
  using assms by (simp add: dogu_Reconcile_def run_attempt io_defs requeue_Handle_not_requeued not_requeued_def)

section \<open>The global configuration\<close>

lemma run_enqueue_all: "run_state (enqueue_all ds) h = ((), h @ map (\<lambda>d. Event (CEnqueue (d_Name d)) None) ds)"
  by (induction ds arbitrary: h) (simp_all add: enqueue_dogu_def)

lemma global_Reconcile_run:
  "run_state (global_Reconcile E) h =
    (case a_ListDogus (E h) of
       Inl e \<Rightarrow> ((no_requeue, Some e), h @ [Event CListDogus (Some e)])
     | Inr ds \<Rightarrow> ((no_requeue, None), h @ Event CListDogus None # map (\<lambda>d. Event (CEnqueue (d_Name d)) None) ds))"
  by (simp add: global_Reconcile_def run_attempt io_defs run_enqueue_all split: sum.splits)

end
