(* ===== verification/Pipeline.thy ===== *)
theory Pipeline
  imports Footprint Controller
begin

text \<open>
  Whole reconciliations: what the steps leave of the resource they work on, and the order of calls across
  the steps of the two use cases.
\<close>

section \<open>Name and spec of the resource\<close>

text \<open>A status update returns the resource with the same name and spec, if the API behaves as documented.\<close>

definition same_spec_as :: "dogu \<Rightarrow> dogu \<Rightarrow> bool" where
  "same_spec_as d d' \<longleftrightarrow> d_Name d' = d_Name d \<and> d_Spec d' = d_Spec d"

lemma same_spec_as_refl [simp]: "same_spec_as d d"
  by (simp add: same_spec_as_def)

definition returns_same :: "dogu \<Rightarrow> dogu res op \<Rightarrow> bool" where
  "returns_same d m \<longleftrightarrow> spec m (\<lambda>r t. \<forall>d'. r = Inr d' \<longrightarrow> same_spec_as d d')"

lemma update_dogu_status_same: "status_update_lawful E \<Longrightarrow> returns_same d (update_dogu_status E d f)"
  unfolding returns_same_def same_spec_as_def update_dogu_status_def
  by (intro specI) (auto dest: status_update_lawfulD)

lemma returns_same_attempt:
  assumes "returns_same d m" shows "returns_same d (attempt m (\<lambda>e. throw (f e)) ok)"
  using assms unfolding returns_same_def by (rule spec_attempt) (auto intro!: spec_return)

lemma returns_same_after:
  assumes "emits (\<lambda>_. True) m" "\<And>x. returns_same d (k x)"
  shows "returns_same d (attempt m (\<lambda>e. throw (f e)) k)"
  using assms(1) unfolding returns_same_def emits_def
  by (rule spec_attempt) (auto intro: spec_return spec_conseq [OF assms(2) [unfolded returns_same_def]])

lemma returns_same_check:
  assumes "emits (\<lambda>_. True) m" "returns_same d k"
  shows "returns_same d (check_err m (\<lambda>e. throw (f e)) k)"
  using assms(1) unfolding returns_same_def emits_def
  by (rule spec_check_err) (auto intro: spec_return spec_conseq [OF assms(2) [unfolded returns_same_def]])

text \<open>\<open>leaves I m\<close>: the resource that \<open>m\<close> leaves behind satisfies \<open>I\<close>.\<close>

named_theorems leaves_rules \<open>what a step leaves of the resource\<close>

definition leaves :: "(dogu \<Rightarrow> bool) \<Rightarrow> ('a \<times> dogu) op \<Rightarrow> bool" where
  "leaves I m \<longleftrightarrow> spec m (\<lambda>r t. I (snd r))"

lemma keeps_leaves: "keeps I s \<longleftrightarrow> (\<forall>d. I d \<longrightarrow> leaves I (s d))"
  by (simp add: keeps_def leaves_def)

lemma leaves_return [leaves_rules]: "I d \<Longrightarrow> leaves I (ret (x, d))"
  by (simp add: leaves_def spec_return)

lemma leaves_bind [leaves_rules]:
  assumes "emits (\<lambda>_. True) m" "\<And>x. leaves I (f x)"
  shows "leaves I (State_Monad.bind m f)"
  using assms(1) unfolding leaves_def emits_def
  by (rule spec_bind) (auto intro: spec_conseq [OF assms(2) [unfolded leaves_def]])

lemma leaves_attempt [leaves_rules]:
  assumes "emits (\<lambda>_. True) m" "\<And>e. leaves I (h e)" "\<And>x. leaves I (k x)"
  shows "leaves I (attempt m h k)"
  using assms(1) unfolding leaves_def emits_def
  by (rule spec_attempt) (auto intro: spec_conseq [OF assms(2) [unfolded leaves_def]] spec_conseq [OF assms(3) [unfolded leaves_def]])

lemma leaves_check_err [leaves_rules]:
  assumes "emits (\<lambda>_. True) m" "\<And>e. leaves I (h e)" "leaves I k"
  shows "leaves I (check_err m h k)"
  using assms(1) unfolding leaves_def emits_def
  by (rule spec_check_err) (auto intro: spec_conseq [OF assms(2) [unfolded leaves_def]] spec_conseq [OF assms(3) [unfolded leaves_def]])

lemma leaves_attempt_same:
  assumes "returns_same d m" "\<And>e. leaves I (h e)" "\<And>d'. same_spec_as d d' \<Longrightarrow> leaves I (k d')"
  shows "leaves I (attempt m h k)"
  using assms(1) unfolding leaves_def returns_same_def
  by (rule spec_attempt) (auto intro: spec_conseq [OF assms(2) [unfolded leaves_def]] spec_conseq [OF assms(3) [unfolded leaves_def]])

lemma leaves_if [leaves_rules]: "leaves I m \<Longrightarrow> leaves I n \<Longrightarrow> leaves I (if b then m else n)"
  by simp

lemma leaves_option [leaves_rules]:
  "leaves I m \<Longrightarrow> (\<And>x. leaves I (f x)) \<Longrightarrow> leaves I (case v of None \<Rightarrow> m | Some x \<Rightarrow> f x)"
  by (cases v) auto

lemma leaves_sum [leaves_rules]:
  "(\<And>x. leaves I (f x)) \<Longrightarrow> (\<And>y. leaves I (g y)) \<Longrightarrow> leaves I (case v of Inl x \<Rightarrow> f x | Inr y \<Rightarrow> g y)"
  by (cases v) auto

lemma leaves_prod [leaves_rules]: "(\<And>x y. leaves I (f x y)) \<Longrightarrow> leaves I (case v of (x, y) \<Rightarrow> f x y)"
  by (cases v) auto

text \<open>The steps that run before a reconciliation can be paused, and the deletion steps, keep name and spec.\<close>

lemma InitializeConditionsStep_keeps:
  assumes "status_update_lawful (cx_E X)" shows "keeps (same_spec_as d0) (InitializeConditionsStep X)"
  unfolding keeps_leaves InitializeConditionsStep_def UpdateConditions_def Let_def
  by (auto simp: same_spec_as_def intro!: leaves_rules leaves_attempt_same returns_same_attempt update_dogu_status_same [OF assms])

lemma updateDoguHealth_same:
  "status_update_lawful (cx_E X) \<Longrightarrow> returns_same d (updateDoguHealth X dep d)"
  unfolding updateDoguHealth_def
  by (intro returns_same_after returns_same_check update_dogu_status_same)
     (auto intro!: touches_appends touch_rules)

lemma appends [simp]: "touches UNIV m \<longleftrightarrow> emits (\<lambda>_. True) m"
proof -
  have "within UNIV = (\<lambda>_. True)" by (auto simp: within_def fun_eq_iff split: option.splits)
  then show ?thesis by simp
qed

lemmas append_rules = touch_rules [where F = UNIV, simplified]

lemma HealthCheckStep_keeps:
  assumes "status_update_lawful (cx_E X)" shows "keeps (same_spec_as d0) (HealthCheckStep X)"
proof -
  have health: "leaves (same_spec_as d0) (attempt (updateDoguHealth X dep d)
      (\<lambda>e. if IsNotFoundError e then continue_with d else fail_with d e) continue_with)" if "same_spec_as d0 d" for d dep
    using that
    by (intro leaves_attempt_same [OF updateDoguHealth_same [OF assms]]) (auto simp: same_spec_as_def intro!: leaves_rules)
  show ?thesis
    unfolding keeps_leaves HealthCheckStep_def io_defs
    by (intro allI impI, rule leaves_attempt) (auto intro!: emits_rules leaves_if leaves_return health)
qed

lemma preparation_keeps:
  "keeps (same_spec_as d0) (FetchRemoteDoguDescriptorStep X)"
  "keeps (same_spec_as d0) (ValidationStep X)"
  unfolding keeps_leaves FetchRemoteDoguDescriptorStep_def ValidationStep_def validateTarget_def
    shouldAbortBecauseOfUnallowedDowngrade_def checkHealthOfDependencies_def io_defs Let_def
  by (auto intro!: leaves_rules emits_rules append_rules)

lemma deletion_keeps:
  "keeps (same_spec_as d0) (AuthRegistrationRemoverStep X)" "keeps (same_spec_as d0) (ServiceAccountRemoverStep X)"
  "keeps (same_spec_as d0) (DeleteOutOfHealthConfigMapStep X)" "keeps (same_spec_as d0) (RemoveDoguConfigStep X repo)"
  unfolding keeps_leaves AuthRegistrationRemoverStep_def ServiceAccountRemoverStep_def DeleteOutOfHealthConfigMapStep_def
    RemoveDoguConfigStep_def io_defs
  by (auto intro!: leaves_rules emits_rules append_rules)

lemma StatusStep_keeps:
  assumes "status_update_lawful (cx_E X)" shows "keeps (same_spec_as d0) (StatusStep X)"
  unfolding keeps_leaves StatusStep_def
  by (auto simp: same_spec_as_def intro!: leaves_rules leaves_attempt_same update_dogu_status_same [OF assms])

section \<open>Pausing\<close>

abbreviation preparation_steps :: "ctx \<Rightarrow> step list" where
  "preparation_steps X \<equiv>
     [InitializeConditionsStep X, HealthCheckStep X, FetchRemoteDoguDescriptorStep X, ValidationStep X]"

lemma change_steps_split:
  "change_steps X = preparation_steps X @ PauseReconciliationStep X # drop 5 (change_steps X)"
  by (simp add: change_steps_def)

lemma PauseReconciliationStep_stops:
  assumes "status_update_lawful (cx_E X)" "s_PauseReconciliation (d_Spec d0)"
  shows "stops (same_spec_as d0) (PauseReconciliationStep X)"
proof -
  have "spec (PauseReconciliationStep X d) (\<lambda>r t. \<not> proceeds (fst r))" if "same_spec_as d0 d" for d
    unfolding PauseReconciliationStep_def
    using that assms(2)
    by (intro spec_attempt [OF update_dogu_status_same [OF assms(1), unfolded returns_same_def]])
       (auto simp: same_spec_as_def intro!: spec_return)
  then show ?thesis by (simp add: stops_def)
qed

lemma preparation_steps_keep:
  "status_update_lawful (cx_E X) \<Longrightarrow> s \<in> set (preparation_steps X) \<Longrightarrow> keeps (same_spec_as d0) s"
  by (auto intro: InitializeConditionsStep_keeps HealthCheckStep_keeps preparation_keeps)

lemma preparation_touches:
  "s \<in> set (preparation_steps X @ [PauseReconciliationStep X]) \<Longrightarrow>
    touches {WDoguStatus, WConfigMap, WAddDescriptor, WDeleteConfigMap} (s d)"
  by (auto intro: touches_mono [OF InitializeConditionsStep_touches] touches_mono [OF HealthCheckStep_touches]
      touches_mono [OF FetchRemoteDoguDescriptorStep_touches] touches_mono [OF ValidationStep_touches]
      touches_mono [OF PauseReconciliationStep_touches])

text \<open>A reconciliation that a preparation step or the pause stops changes no more than these steps do.\<close>

abbreviation preparation_effects :: "effect set" where
  "preparation_effects \<equiv> {WDoguStatus, WConfigMap, WAddDescriptor, WDeleteConfigMap}"

lemma stopped_reconciliation:
  assumes "status_update_lawful (cx_E X)" "stops (same_spec_as d) s"
    and split: "preparation_steps X @ [PauseReconciliationStep X] = pre @ s # post"
    and run: "run_state (HandleUntilApplied (change_steps X) d) h = (((q, cont, e), d'), h')"
  shows "\<not> cont \<and> (\<exists>t. h' = h @ t \<and> list_all (within preparation_effects) t)"
proof -
  have "butlast (pre @ s # post) = preparation_steps X" by (simp flip: split)
  then have "set pre \<subseteq> set (preparation_steps X)" by (metis Un_upper1 butlast_append list.simps(3) set_append)
  then have keep: "s' \<in> set pre \<Longrightarrow> keeps (same_spec_as d) s'" for s'
    using preparation_steps_keep [OF assms(1)] by blast
  have "change_steps X = (preparation_steps X @ [PauseReconciliationStep X]) @ drop 5 (change_steps X)"
    using change_steps_split [of X] by simp
  then have run1: "run_state (HandleUntilApplied (pre @ s # post @ drop 5 (change_steps X)) d) h = (((q, cont, e), d'), h')"
    using run unfolding split by simp
  then have run': "run_state (HandleUntilApplied (pre @ [s]) d) h = (((q, cont, e), d'), h')"
    using HandleUntilApplied_stops [OF keep assms(2) same_spec_as_refl] by metis
  have "\<not> cont"
    by (rule HandleUntilApplied_stops_applied [OF keep assms(2) same_spec_as_refl run1])
  moreover have "touches preparation_effects (HandleUntilApplied (pre @ [s]) d)"
  proof (rule emits_HandleUntilApplied)
    fix s' d1
    assume "s' \<in> set (pre @ [s])"
    then have "s' \<in> set (preparation_steps X @ [PauseReconciliationStep X])" unfolding split by auto
    then show "touches preparation_effects (s' d1)" by (rule preparation_touches)
  qed
  ultimately show ?thesis using emitsD [OF _ run'] by blast
qed

lemma paused_reconciliation:
  assumes "status_update_lawful (cx_E X)" "s_PauseReconciliation (d_Spec d)"
    and "run_state (HandleUntilApplied (change_steps X) d) h = (((q, cont, e), d'), h')"
  shows "\<not> cont \<and> (\<exists>t. h' = h @ t \<and> list_all (within preparation_effects) t)"
  by (rule stopped_reconciliation [OF assms(1) PauseReconciliationStep_stops [OF assms(1,2)] refl assms(3)])

text \<open>The installed version is \<open>n0\<close> throughout, and the wanted version is older.\<close>

definition installed_throughout :: "ctx \<Rightarrow> dogu \<Rightarrow> descriptor \<Rightarrow> bool" where
  "installed_throughout X d n0 \<longleftrightarrow>
     (\<forall>d' h. same_spec_as d d' \<longrightarrow> fst (run_state (FetchInstalled (cx_E X) (lib_GetSimpleDoguName (cx_L X) d')) h) = Inr n0)"

definition unallowed_downgrade :: "lib \<Rightarrow> dogu \<Rightarrow> descriptor \<Rightarrow> bool" where
  "unallowed_downgrade L d n0 \<longleftrightarrow>
     isOlder L (s_Version (d_Spec d)) (n_Version n0) = Inr True \<and> \<not> s_ForceUpgrade (d_Spec d)"

lemma ValidationStep_downgrade:
  assumes "fst (run_state (FetchInstalled (cx_E X) (lib_GetSimpleDoguName (cx_L X) d)) h) = Inr n0" "unallowed_downgrade (cx_L X) d n0"
  shows "\<exists>t. run_state (ValidationStep X d) h = ((Abort, d), h @ t @ [Event (CRecord EventTypeWarning ''Installation'') None])"
proof -
  obtain h1 where f: "run_state (FetchInstalled (cx_E X) (lib_GetSimpleDoguName (cx_L X) d)) h = (Inr n0, h1)"
    using assms(1) by (metis prod.collapse)
  have "emits (\<lambda>_. True) (FetchInstalled (cx_E X) (lib_GetSimpleDoguName (cx_L X) d))" by (auto intro!: append_rules)
  from emitsD [OF this f] obtain t where "h1 = h @ t" by blast
  with f assms(2) show ?thesis
    by (simp add: ValidationStep_def run_attempt shouldAbortBecauseOfUnallowedDowngrade_def unallowed_downgrade_def io_defs Let_def)
qed

lemma downgrade_reconciliation:
  assumes "status_update_lawful (cx_E X)" "installed_throughout X d n0" "unallowed_downgrade (cx_L X) d n0"
    and "run_state (HandleUntilApplied (change_steps X) d) h = (((q, cont, e), d'), h')"
  shows "\<not> cont \<and> (\<exists>t. h' = h @ t \<and> list_all (within preparation_effects) t)"
proof (rule stopped_reconciliation [OF assms(1) _ _ assms(4)])
  have "spec (ValidationStep X d1) (\<lambda>r t. \<not> proceeds (fst r))" if same: "same_spec_as d d1" for d1
  proof (rule specI)
    fix h1
    have "unallowed_downgrade (cx_L X) d1 n0" using assms(3) same by (simp add: unallowed_downgrade_def same_spec_as_def)
    with ValidationStep_downgrade [of X d1 h1 n0] assms(2) same
    show "\<exists>t. snd (run_state (ValidationStep X d1) h1) = h1 @ t \<and> \<not> proceeds (fst (fst (run_state (ValidationStep X d1) h1)))"
      by (auto simp: installed_throughout_def)
  qed
  then show "stops (same_spec_as d) (ValidationStep X)" by (simp add: stops_def)
  show "preparation_steps X @ [PauseReconciliationStep X] =
      [InitializeConditionsStep X, HealthCheckStep X, FetchRemoteDoguDescriptorStep X] @ ValidationStep X # [PauseReconciliationStep X]"
    by simp
qed

text \<open>Whatever is changed beyond the preparation was preceded by a passed validation of the same spec.\<close>

lemma HandleUntilApplied_append_stop:
  "run_state (HandleUntilApplied pre d) h = (((q, False, e), d'), h') \<Longrightarrow>
    run_state (HandleUntilApplied (pre @ post) d) h = (((q, False, e), d'), h')"
proof (induction pre arbitrary: d h)
  case (Cons s pre)
  obtain r d1 h1 where "run_state (s d) h = ((r, d1), h1)" by (metis surj_pair)
  with Cons show ?case by (simp add: HandleUntilApplied_step split: if_splits)
qed simp

lemma changes_need_validation:
  assumes "status_update_lawful (cx_E X)"
    and run: "run_state (HandleUntilApplied (change_steps X) d) h = (out, h @ t)" "\<not> list_all (within preparation_effects) t"
  shows "\<exists>d1 h1 r d2 h2. same_spec_as d d1 \<and> run_state (ValidationStep X d1) h1 = ((r, d2), h2) \<and> proceeds r"
proof -
  let ?before = "[InitializeConditionsStep X, HealthCheckStep X, FetchRemoteDoguDescriptorStep X]"
  obtain q cont e d' h' where prep: "run_state (HandleUntilApplied (preparation_steps X) d) h = (((q, cont, e), d'), h')"
    by (metis surj_pair)
  have "touches preparation_effects (HandleUntilApplied (preparation_steps X) d)"
    by (rule emits_HandleUntilApplied, rule preparation_touches [of _ X]) auto
  with prep obtain t' where t': "h' = h @ t'" "list_all (within preparation_effects) t'" by (blast dest: emitsD)
  have cont
  proof (rule ccontr)
    assume "\<not> cont"
    with prep have "run_state (HandleUntilApplied (preparation_steps X) d) h = (((q, False, e), d'), h')" by simp
    then have "run_state (HandleUntilApplied (change_steps X) d) h = (((q, False, e), d'), h')"
      by (subst change_steps_split) (rule HandleUntilApplied_append_stop)
    with run t' show False by simp
  qed
  then have "passes (?before @ [ValidationStep X]) d h d' h'"
    using prep HandleUntilApplied_applied [of "preparation_steps X" d h d' h'] HandleUntilApplied_True by fastforce
  then obtain d1 h1 r where p: "passes ?before d h d1 h1" "run_state (ValidationStep X d1) h1 = ((r, d'), h')" "proceeds r"
    unfolding passes_append by (auto simp: passes_Cons_iff)
  have "same_spec_as d d1"
    by (rule keeps_passes [OF p(1) preparation_steps_keep [OF assms(1)] same_spec_as_refl]) auto
  with p(2,3) show ?thesis by blast
qed

section \<open>Deletion\<close>

text \<open>
  The update of the resource that takes the finalizers away lets Kubernetes remove it for good, so it must come
  after the clean-up.
\<close>

definition updates_dogu :: "event \<Rightarrow> bool" where
  "updates_dogu e \<longleftrightarrow> (\<exists>d. ev_call e = CUpdateDogu d)"

definition gone :: "(err \<Rightarrow> bool) \<Rightarrow> event \<Rightarrow> bool" where
  "gone notFound e \<longleftrightarrow> (case ev_err e of None \<Rightarrow> True | Some x \<Rightarrow> notFound x)"

definition auth_registration_gone :: "lib \<Rightarrow> dogu \<Rightarrow> event \<Rightarrow> bool" where
  "auth_registration_gone L d e \<longleftrightarrow>
     (\<exists>d'. same_spec_as d d' \<and> ev_call e = CDeleteAuthReg (createAuthRegistrationName (lib_GetSimpleDoguName L d'))) \<and>
     gone IsNotFound e"

definition sensitive_config_gone :: "dogu \<Rightarrow> event \<Rightarrow> bool" where
  "sensitive_config_gone d e \<longleftrightarrow> ev_call e = CConfigDelete SensitiveConfig (d_Name d) \<and> gone IsNotFoundError e"

definition health_entry_gone :: "dogu \<Rightarrow> event \<Rightarrow> bool" where
  "health_entry_gone d e \<longleftrightarrow>
     (\<exists>cm. ev_call e = CUpdateConfigMap cm \<and> map_of (cm_Data cm) (d_Name d) = None) \<and> ev_err e = None"

lemma quiet_gate:
  assumes "\<And>d. I d \<Longrightarrow> spec (s d) (\<lambda>r t. list_all (\<lambda>e. \<not> P e) t \<and> (proceeds (fst r) \<longrightarrow> list_ex Q t))"
  shows "gate I Q P s"
  using assms by (simp add: gate_def)

lemma updates_dogu_touches: "touches F m \<Longrightarrow> WDogu \<notin> F \<Longrightarrow> emits (\<lambda>e. \<not> updates_dogu e) m"
  by (erule touches_not) (auto simp: updates_dogu_def)

lemma auth_gate:
  "gate (same_spec_as d0) (auth_registration_gone (cx_L X) d0) updates_dogu (AuthRegistrationRemoverStep X)"
proof (rule quiet_gate)
  fix d assume "same_spec_as d0 d"
  then show "spec (AuthRegistrationRemoverStep X d) (\<lambda>r t. list_all (\<lambda>e. \<not> updates_dogu e) t \<and>
      (proceeds (fst r) \<longrightarrow> list_ex (auth_registration_gone (cx_L X) d0) t))"
    unfolding AuthRegistrationRemoverStep_def RemoveAuthRegistration_def check_err_def attempt_def io_defs
    by (intro specI) (auto simp: updates_dogu_def auth_registration_gone_def gone_def split: sum.splits option.splits if_splits)
qed

lemma config_gate:
  "gate (same_spec_as d0) (sensitive_config_gone d0) updates_dogu (RemoveDoguConfigStep X SensitiveConfig)"
proof (rule quiet_gate)
  fix d assume "same_spec_as d0 d"
  then show "spec (RemoveDoguConfigStep X SensitiveConfig d) (\<lambda>r t. list_all (\<lambda>e. \<not> updates_dogu e) t \<and>
      (proceeds (fst r) \<longrightarrow> list_ex (sensitive_config_gone d0) t))"
    unfolding RemoveDoguConfigStep_def attempt_def io_defs
    by (intro specI) (auto simp: same_spec_as_def updates_dogu_def sensitive_config_gone_def gone_def split: sum.splits)
qed

lemma health_gate:
  "gate (same_spec_as d0) (health_entry_gone d0) updates_dogu (DeleteOutOfHealthConfigMapStep X)"
proof (rule quiet_gate)
  fix d assume "same_spec_as d0 d"
  then show "spec (DeleteOutOfHealthConfigMapStep X d) (\<lambda>r t. list_all (\<lambda>e. \<not> updates_dogu e) t \<and>
      (proceeds (fst r) \<longrightarrow> list_ex (health_entry_gone d0) t))"
    unfolding DeleteOutOfHealthConfigMapStep_def DeleteDoguOutOfHealthConfigMap_def getOrCreateHealthConfigMap_def
      check_err_def attempt_def io_defs
    by (intro specI)
       (auto simp: same_spec_as_def updates_dogu_def health_entry_gone_def err_of_None delete_conv' split: sum.splits option.splits)
qed

lemma delete_steps_keep:
  "status_update_lawful (cx_E X) \<Longrightarrow> s \<in> set (butlast (delete_steps X)) \<Longrightarrow> keeps (same_spec_as d0) s"
  by (auto simp: delete_steps_def intro: StatusStep_keeps deletion_keeps)

lemma delete_steps_quiet: "s \<in> set (butlast (delete_steps X)) \<Longrightarrow> emits (\<lambda>e. \<not> updates_dogu e) (s d)"
  by (auto simp: delete_steps_def
      intro: updates_dogu_touches [OF StatusStep_touches] updates_dogu_touches [OF AuthRegistrationRemoverStep_touches]
        updates_dogu_touches [OF ServiceAccountRemoverStep_touches] updates_dogu_touches [OF DeleteOutOfHealthConfigMapStep_touches]
        updates_dogu_touches [OF RemoveDoguConfigStep_touches])

lemma delete_steps_append: "s \<in> set (delete_steps X) \<Longrightarrow> emits (\<lambda>_. True) (s d)"
  by (auto simp: delete_steps_def
      intro: touches_appends [OF StatusStep_touches] touches_appends [OF AuthRegistrationRemoverStep_touches]
        touches_appends [OF ServiceAccountRemoverStep_touches] touches_appends [OF DeleteOutOfHealthConfigMapStep_touches]
        touches_appends [OF RemoveDoguConfigStep_touches] touches_appends [OF RemoveFinalizerStep_touches])

text \<open>A gate among the deletion steps orders every deletion, and a deletion that was applied went through it.\<close>

lemma deletion_through_gate:
  assumes "gate (same_spec_as d) Q updates_dogu s" "delete_steps X = pre @ s # post" "post \<noteq> []"
    and "status_update_lawful (cx_E X)" "run_state (HandleUntilApplied (delete_steps X) d) h = (((q, cont, e), d'), h')"
  shows "\<exists>t. h' = h @ t \<and> precedes Q updates_dogu t \<and> (cont \<longrightarrow> list_ex Q t)"
proof -
  have pre: "s' \<in> set (butlast (delete_steps X))" if "s' \<in> set pre" for s'
    using that assms(3) by (simp add: assms(2) butlast_append)
  have *: "gated_steps (same_spec_as d) Q updates_dogu pre s post"
    using assms(1,2) delete_steps_keep [OF assms(4) pre] delete_steps_quiet [OF pre] delete_steps_append [where X = X]
    by unfold_locales auto
  from gated_steps.gate_decides [OF * same_spec_as_refl] assms(2,5) show ?thesis by simp
qed

lemma deletion_order:
  assumes "status_update_lawful (cx_E X)" "run_state (HandleUntilApplied (delete_steps X) d) h = (((q, cont, e), d'), h')"
  shows "\<exists>t. h' = h @ t \<and>
    list_all (\<lambda>Q. precedes Q updates_dogu t \<and> (cont \<longrightarrow> list_ex Q t))
      [auth_registration_gone (cx_L X) d, health_entry_gone d, sensitive_config_gone d]"
proof -
  note through = deletion_through_gate [OF _ _ _ assms]
  have "\<exists>t. h' = h @ t \<and> precedes (auth_registration_gone (cx_L X) d) updates_dogu t \<and>
      (cont \<longrightarrow> list_ex (auth_registration_gone (cx_L X) d) t)"
    by (rule through [OF auth_gate, where pre = "take 1 (delete_steps X)" and post = "drop 2 (delete_steps X)"]) (simp_all add: delete_steps_def)
  moreover have "\<exists>t. h' = h @ t \<and> precedes (health_entry_gone d) updates_dogu t \<and> (cont \<longrightarrow> list_ex (health_entry_gone d) t)"
    by (rule through [OF health_gate, where pre = "take 3 (delete_steps X)" and post = "drop 4 (delete_steps X)"]) (simp_all add: delete_steps_def)
  moreover have "\<exists>t. h' = h @ t \<and> precedes (sensitive_config_gone d) updates_dogu t \<and> (cont \<longrightarrow> list_ex (sensitive_config_gone d) t)"
    by (rule through [OF config_gate, where pre = "take 4 (delete_steps X)" and post = "drop 5 (delete_steps X)"]) (simp_all add: delete_steps_def)
  ultimately show ?thesis by auto
qed

section \<open>Installation and change\<close>

text \<open>The footprint of the whole change: nothing that belongs to a deletion.\<close>

definition change_effects :: "effect set" where
  "change_effects =
     {WDogu, WDoguStatus, WCreateDeployment, WDeployment, WScale, WCreatePod, WDeletePods, WService, WCreatePVC, WPVC, WConfigMap,
      WDeleteConfigMap, WNetPol,
      WDeleteNetPol, WAddDescriptor, WEnableVersion, WConfig, WOwner, WExec, WHttp, WApply, WAuthReg}"

lemmas change_step_touches =
  InitializeConditionsStep_touches HealthCheckStep_touches FetchRemoteDoguDescriptorStep_touches ValidationStep_touches
  PauseReconciliationStep_touches CreateFinalizerStep_touches CreateConfigStep_touches OwnerReferenceStep_touches
  RemoveServiceAccountStep_touches install_RegisterDoguVersionStep_touches AuthRegistrationStep_touches
  ServiceAccountStep_touches ServiceStep_touches CreateExecPodStep_touches CustomK8sResourceStep_touches
  CreateVolumeStep_touches NetworkPoliciesStep_touches CreateDeploymentStep_touches StartStopStep_touches
  VolumeExpanderStep_touches MismatchedStorageClassWarningStep_touches SecurityContextStep_touches ExportModeStep_touches
  SupportModeStep_touches AdditionalMountsStep_touches PreUpgradeStatusStep_touches UpdateDeploymentVersionStep_touches
  upgrade_RegisterDoguVersionStep_touches DeleteExecPodStep_touches PostUpgradeStep_touches InstalledVersionStep_touches
  RegenerateDeploymentStep_touches UpdateStartedAtStep_touches RestartAfterConfigChangeStep_touches
  RetroactiveServiceAccountStep_touches

lemma change_steps_touch: "s \<in> set (change_steps X) \<Longrightarrow> touches change_effects (s d)"
  unfolding change_steps_def
  by (auto simp: change_effects_def intro: change_step_touches [THEN touches_mono])

lemma HandleUntilApplied_change_touches: "touches change_effects (HandleUntilApplied (change_steps X) d)"
  by (rule emits_HandleUntilApplied) (rule change_steps_touch)

text \<open>The controller adds the status of the resource, so the footprint holds for a whole reconciliation.\<close>

lemma finish_reconcile_touches: "WDoguStatus \<in> F \<Longrightarrow> touches F (finish_reconcile X name d out)"
  unfolding finish_reconcile_def setReadyCondition_def requeue_Handle_def handleRequeueEvent_def handleRequeueTime_def io_defs Let_def
  by (cases out) (auto simp: within_def intro!: emits_rules)

lemma dogu_Reconcile_change_touches:
  assumes "a_GetDogu (cx_E X h) name = Inr d" "d_DeletionTimestamp d = None"
  shows "\<exists>t. snd (run_state (dogu_Reconcile X name) h) = h @ t \<and> list_all (within change_effects) t"
proof -
  let ?pre = "[Event (CGetDogu name) None, Event (CRecord EventTypeNormal ''ReconcileStarted'') None]"
  obtain out d1 h1 where r: "run_state (HandleUntilApplied (change_steps X) d) (h @ ?pre) = ((out, d1), h1)" by (metis surj_pair)
  obtain res h2 where f: "run_state (finish_reconcile X name d1 out) h1 = (res, h2)" by fastforce
  from emitsD [OF HandleUntilApplied_change_touches r] obtain t1 where t1: "h1 = (h @ ?pre) @ t1" "list_all (within change_effects) t1"
    by blast
  have "WDoguStatus \<in> change_effects" by (simp add: change_effects_def)
  from emitsD [OF finish_reconcile_touches [OF this] f] obtain t2 where t2: "h2 = h1 @ t2" "list_all (within change_effects) t2"
    by blast
  have "list_all (within change_effects) ?pre" by (simp add: within_def)
  with t1 t2 f show ?thesis
    by (intro exI [of _ "?pre @ t1 @ t2"]) (simp add: dogu_Reconcile_change [OF assms r])
qed

lemma change_steps_append: "s \<in> set (change_steps X) \<Longrightarrow> emits (\<lambda>_. True) (s d)"
  by (rule touches_appends [OF change_steps_touch])

subsection \<open>The finalizer comes first\<close>

definition sets_finalizer :: "event \<Rightarrow> bool" where
  "sets_finalizer e \<longleftrightarrow> (\<exists>d. ev_call e = CUpdateDogu d \<and> finalizerName \<in> set (d_Finalizers d)) \<and> ev_err e = None"

text \<open>Changes outside the resource itself.\<close>

definition changes_cluster :: "event \<Rightarrow> bool" where
  "changes_cluster e \<longleftrightarrow> (case effect_of (ev_call e) of None \<Rightarrow> False | Some f \<Rightarrow> f \<notin> {WDogu, WDoguStatus})"

lemma AddFinalizer_adds: "f \<in> set (d_Finalizers (AddFinalizer f d))"
  by (simp add: AddFinalizer_def)

lemma retry_dogu_success:
  assumes "\<And>d. spec (f d) (\<lambda>r t. list_all (\<lambda>e. \<not> P e) t \<and> (fst r = None \<longrightarrow> list_ex Q t))"
  shows "spec (retry_dogu k p f d) (\<lambda>r t. list_all (\<lambda>e. \<not> P e) t \<and> (fst r = None \<longrightarrow> list_ex Q t))"
proof (induction k arbitrary: d)
  case (Suc k)
  have *: "spec (retry_dogu k p f d') (\<lambda>r t'. list_all (\<lambda>e. \<not> P e) (t @ t') \<and> (fst r = None \<longrightarrow> list_ex Q (t @ t')))"
    if "list_all (\<lambda>e. \<not> P e) t" for d' t
    using that by (auto intro!: spec_conseq [OF Suc.IH])
  show ?case
    unfolding retry_dogu.simps
  proof (rule spec_bind [OF assms])
    fix x :: "err option \<times> dogu" and t
    assume "list_all (\<lambda>e. \<not> P e) t \<and> (fst x = None \<longrightarrow> list_ex Q t)"
    with * [of t "snd x"] show "spec (case x of (None, d') \<Rightarrow> ret (None, d')
        | (Some e, d') \<Rightarrow> if p e then retry_dogu k p f d' else ret (Some e, d'))
      (\<lambda>r t'. list_all (\<lambda>e. \<not> P e) (t @ t') \<and> (fst r = None \<longrightarrow> list_ex Q (t @ t')))"
      by (cases x) (auto intro!: spec_return split: option.splits)
  qed
qed (simp add: assms)

lemma modify_dogu_finalizer:
  "spec (modify_dogu E (AddFinalizer finalizerName) d)
     (\<lambda>r t. list_all (\<lambda>e. \<not> changes_cluster e) t \<and> (fst r = None \<longrightarrow> list_ex sets_finalizer t))"
  unfolding modify_dogu_def attempt_def io_defs
  by (intro specI) (auto simp: changes_cluster_def sets_finalizer_def AddFinalizer_adds split: sum.splits)

lemma finalizer_gate:
  "gate (\<lambda>d. finalizerName \<notin> set (d_Finalizers d)) sets_finalizer changes_cluster (CreateFinalizerStep X)"
proof (rule quiet_gate)
  fix d :: dogu
  assume "finalizerName \<notin> set (d_Finalizers d)"
  then show "spec (CreateFinalizerStep X d)
      (\<lambda>r t. list_all (\<lambda>e. \<not> changes_cluster e) t \<and> (proceeds (fst r) \<longrightarrow> list_ex sets_finalizer t))"
    unfolding CreateFinalizerStep_def
    by (auto intro!: spec_bind [OF retry_dogu_success [OF modify_dogu_finalizer]] spec_return split: option.splits)
qed

interpretation finalizer: gated_steps "\<lambda>d. finalizerName \<notin> set (d_Finalizers d)" sets_finalizer changes_cluster
  "[]" "CreateFinalizerStep X" "drop 6 (change_steps X)" for X
  by unfold_locales (auto intro: finalizer_gate change_steps_append [where X = X] dest: in_set_dropD)

lemma finalizer_first:
  assumes "finalizerName \<notin> set (d_Finalizers d)"
    and "run_state (HandleUntilApplied (drop 5 (change_steps X)) d) h = (((q, cont, e), d'), h')"
  shows "\<exists>t. h' = h @ t \<and> precedes sets_finalizer changes_cluster t \<and> (cont \<longrightarrow> list_ex sets_finalizer t)"
proof -
  have "drop 5 (change_steps X) = [] @ CreateFinalizerStep X # drop 6 (change_steps X)" by (simp add: change_steps_def)
  with finalizer.gate_decides [OF assms(1)] assms(2) show ?thesis by simp
qed

subsection \<open>The pre-upgrade script runs before the deployment changes\<close>

definition runs_pre_upgrade :: "dogu \<Rightarrow> event \<Rightarrow> bool" where
  "runs_pre_upgrade d e \<longleftrightarrow>
     (\<exists>p c fromVersion. ev_call e = CExec p (preUpgradeCommand c fromVersion (s_Version (d_Spec d)))) \<and> ev_err e = None"

definition writes_deployment :: "event \<Rightarrow> bool" where
  "writes_deployment e \<longleftrightarrow> (\<exists>dep. ev_call e = CCreateDeployment dep \<or> ev_call e = CUpdateDeployment dep)"

lemma writes_deployment_touches: "touches F m \<Longrightarrow> WDeployment \<notin> F \<Longrightarrow> WCreateDeployment \<notin> F \<Longrightarrow> emits (\<lambda>e. \<not> writes_deployment e) m"
  by (erule touches_not) (auto simp: writes_deployment_def)

text \<open>An operation that makes no \<open>P\<close> call and has made a \<open>Q\<close> call if it returns no error.\<close>

definition secures :: "(event \<Rightarrow> bool) \<Rightarrow> (event \<Rightarrow> bool) \<Rightarrow> err option op \<Rightarrow> bool" where
  "secures Q P m \<longleftrightarrow> spec m (\<lambda>r t. list_all (\<lambda>e. \<not> P e) t \<and> (r = None \<longrightarrow> list_ex Q t))"

lemma secures_attempt:
  assumes "emits (\<lambda>e. \<not> P e) m" "\<And>x. secures Q P (k x)"
  shows "secures Q P (attempt m (\<lambda>e. ret (Some (f e))) k)"
  using assms(1) unfolding secures_def emits_def
  by (rule spec_attempt) (auto intro: spec_return spec_conseq [OF assms(2) [unfolded secures_def]])

lemma secures_check:
  assumes "emits (\<lambda>e. \<not> P e) m" "secures Q P k"
  shows "secures Q P (check_err m (\<lambda>e. ret (Some (f e))) k)"
  using assms(1) unfolding secures_def emits_def
  by (rule spec_check_err) (auto intro: spec_return spec_conseq [OF assms(2) [unfolded secures_def]])

lemma ordered_check_secures:
  assumes "secures Q P m" "\<And>e. ordered Q P (h e)" "emits (\<lambda>_. True) k"
  shows "ordered Q P (check_err m h k)"
  using assms(1) unfolding secures_def ordered_def
  by (rule spec_check_err)
     (auto simp: precedes_append precedes_none intro: spec_append_quiet spec_conseq [OF assms(2) [unfolded ordered_def]]
        spec_conseq [OF assms(3) [unfolded emits_def]])

lemma run_pre_upgrade:
  "secures (runs_pre_upgrade d) writes_deployment (applyPreUpgradeScriptToOlderDogu X fromVersion p d c)"
  unfolding secures_def applyPreUpgradeScriptToOlderDogu_def ExecCommandForPod_def streamCommandToPod_def attempt_def io_defs
  by (intro specI) (auto simp: runs_pre_upgrade_def writes_deployment_def split: sum.splits option.splits)

lemma applyPreUpgradeScript_secures:
  assumes "exposedCommand n ''pre-upgrade'' = Some c"
  shows "secures (runs_pre_upgrade d) writes_deployment (applyPreUpgradeScript X d fromVersion n)"
proof -
  have copy: "touches {WExec} (copyPreUpgradeScriptFromPodToPod X n p c)" for p
    unfolding copyPreUpgradeScriptFromPodToPod_def by (auto intro!: emits_rules touch_rules)
  show ?thesis
    unfolding applyPreUpgradeScript_def assms option.case io_defs
    by (intro secures_attempt secures_check run_pre_upgrade writes_deployment_touches [OF copy])
       (auto simp: writes_deployment_def intro!: emits_rules)
qed

text \<open>The descriptors the registry knows expose a pre-upgrade command.\<close>

definition exposes_pre_upgrade :: "env \<Rightarrow> bool" where
  "exposes_pre_upgrade E \<longleftrightarrow>
     (\<forall>h v n. a_GetDescriptor (E h) v = Inr n \<longrightarrow> exposedCommand n ''pre-upgrade'' \<noteq> None)"

lemma FetchForResource_exposes:
  assumes "exposes_pre_upgrade E"
  shows "spec (FetchForResource L E d)
    (\<lambda>r t. list_all (\<lambda>e. \<not> writes_deployment e) t \<and> (\<forall>n. r = Inr n \<longrightarrow> (\<exists>c. exposedCommand n ''pre-upgrade'' = Some c)))"
  using assms unfolding FetchForResource_def attempt_def io_defs exposes_pre_upgrade_def
  by (intro specI) (auto simp: writes_deployment_def split: sum.splits)

lemma upgrade_ordered:
  assumes "exposes_pre_upgrade (cx_E X)"
  shows "ordered (runs_pre_upgrade d) writes_deployment (UpdateDeploymentVersionStep X d)"
proof -
  let ?Q = "runs_pre_upgrade d" and ?P = writes_deployment
  have quiet: "emits (\<lambda>e. \<not> ?P e) (execpod_Exists (cx_L X) (cx_E X) n)"
    "emits (\<lambda>e. \<not> ?P e) (execpod_CheckReady (cx_L X) (cx_E X) n)"
    "emits (\<lambda>e. \<not> ?P e) (FetchInstalled (cx_E X) m)"
    "emits (\<lambda>e. \<not> ?P e) (get_deployment (cx_E X) m)" for n m
    by (rule writes_deployment_touches [where F = "{}"]; auto simp: io_defs intro!: emits_rules touch_rules)+
  have upgrade: "ordered ?Q ?P (upgradeDeployment X d n)" if "exposedCommand n ''pre-upgrade'' = Some c" for n c
    unfolding upgradeDeployment_def
    by (intro ordered_bind ordered_if ordered_return ordered_check_err ordered_attempt quiet
          ordered_check_secures [OF applyPreUpgradeScript_secures [OF that]])
       (auto intro!: emits_rules append_rules)
  have fetch: "ordered ?Q ?P (attempt (FetchForResource (cx_L X) (cx_E X) d)
      (fail_wrap d ''failed to fetch dogu descriptor'') (upgradeDeployment X d))"
    unfolding ordered_def
    by (rule spec_attempt [OF FetchForResource_exposes [OF assms]])
       (auto intro!: spec_append_quiet ordered_return [unfolded ordered_def] intro: upgrade [unfolded ordered_def])
  show ?thesis
    unfolding UpdateDeploymentVersionStep_def
    by (rule ordered_attempt) (auto intro!: quiet fetch ordered_return)
qed

section \<open>Reconciling a resource that is being deleted\<close>

text \<open>
  A deletion timestamp is never taken back: all answers about the resource \<open>name\<close> carry one.
\<close>

definition deleting :: "string \<Rightarrow> dogu \<Rightarrow> bool" where
  "deleting name d \<longleftrightarrow> d_Name d = name \<and> d_DeletionTimestamp d \<noteq> None"

definition being_deleted :: "env \<Rightarrow> string \<Rightarrow> bool" where
  "being_deleted E name \<longleftrightarrow>
     (\<forall>h d. a_GetDogu (E h) name = Inr d \<longrightarrow> deleting name d) \<and>
     (\<forall>h d f d'. deleting name d \<longrightarrow> a_UpdateDoguStatus (E h) d f = Inr d' \<longrightarrow> deleting name d') \<and>
     (\<forall>h d d'. deleting name d \<longrightarrow> a_UpdateDogu (E h) d = Inr d' \<longrightarrow> deleting name d')"

lemma deleting_steps_keep:
  "keeps (deleting name) (AuthRegistrationRemoverStep X)" "keeps (deleting name) (ServiceAccountRemoverStep X)"
  "keeps (deleting name) (DeleteOutOfHealthConfigMapStep X)" "keeps (deleting name) (RemoveDoguConfigStep X repo)"
  unfolding keeps_leaves AuthRegistrationRemoverStep_def ServiceAccountRemoverStep_def DeleteOutOfHealthConfigMapStep_def
    RemoveDoguConfigStep_def io_defs
  by (auto intro!: leaves_rules emits_rules append_rules)

lemma being_deletedD:
  assumes "being_deleted E name"
  shows "a_GetDogu (E h) name = Inr d \<Longrightarrow> deleting name d"
    "deleting name d \<Longrightarrow> a_UpdateDoguStatus (E h) d f = Inr d' \<Longrightarrow> deleting name d'"
    "deleting name d \<Longrightarrow> a_UpdateDogu (E h) d = Inr d' \<Longrightarrow> deleting name d'"
  using assms unfolding being_deleted_def by blast+

lemma being_deleted_calls:
  assumes "being_deleted E name"
  shows "spec (get_dogu E name) (\<lambda>r t. \<forall>d. r = Inr d \<longrightarrow> deleting name d)"
    "deleting name d \<Longrightarrow> spec (update_dogu_status E d f) (\<lambda>r t. \<forall>d'. r = Inr d' \<longrightarrow> deleting name d')"
    "deleting name d \<Longrightarrow> spec (update_dogu E d) (\<lambda>r t. \<forall>d'. r = Inr d' \<longrightarrow> deleting name d')"
  by (auto simp: io_defs intro!: specI dest: being_deletedD [OF assms])

lemma StatusStep_deleting:
  assumes "being_deleted (cx_E X) name" shows "keeps (deleting name) (StatusStep X)"
  unfolding keeps_def StatusStep_def
  by (intro allI impI spec_attempt [OF being_deleted_calls(2) [OF assms]]) (auto intro!: spec_return)

lemma remove_finalizers_deleting: "deleting name d \<Longrightarrow> deleting name (remove_finalizers d)"
  by (simp add: deleting_def remove_finalizers_def RemoveFinalizer_def)

lemma modify_dogu_deleting:
  assumes "being_deleted E name" "deleting name d"
  shows "leaves (deleting name) (modify_dogu E remove_finalizers d)"
proof -
  have name: "d_Name d = name" using assms(2) by (simp add: deleting_def)
  show ?thesis
    unfolding modify_dogu_def leaves_def name
  proof (rule spec_attempt [OF being_deleted_calls(1) [OF assms(1)]])
    fix d' t assume "\<forall>d. (Inr d' :: dogu res) = Inr d \<longrightarrow> deleting name d"
    then have "deleting name (remove_finalizers d')" by (simp add: remove_finalizers_deleting)
    from being_deleted_calls(3) [OF assms(1) this] this
    show "spec (attempt (update_dogu E (remove_finalizers d')) (\<lambda>e. ret (Some e, remove_finalizers d')) (\<lambda>d''. ret (None, d'')))
        (\<lambda>r t. deleting name (snd r))"
      by (auto intro!: spec_return elim!: spec_attempt)
  qed (use assms(2) in \<open>auto intro!: spec_return\<close>)
qed

lemma retry_dogu_leaves:
  assumes "\<And>d. I d \<Longrightarrow> leaves I (f d)" "I d" shows "leaves I (retry_dogu k p f d)"
  using assms(2)
proof (induction k arbitrary: d)
  case (Suc k)
  then show ?case
    using assms(1) [OF Suc.prems] unfolding leaves_def retry_dogu.simps
    by (elim spec_bind) (auto intro!: spec_return Suc.IH [unfolded leaves_def] split: option.splits)
qed (simp add: assms(1))

lemma RemoveFinalizerStep_deleting:
  assumes "being_deleted (cx_E X) name" shows "keeps (deleting name) (RemoveFinalizerStep X)"
proof -
  have "leaves (deleting name) (RemoveFinalizerStep X d)" if "deleting name d" for d
  proof -
    have r: "spec (retry_dogu k p (modify_dogu (cx_E X) remove_finalizers) d) (\<lambda>r t. deleting name (snd r))" for k p
      using retry_dogu_leaves [where I = "deleting name"] modify_dogu_deleting [OF assms] that by (simp add: leaves_def)
    show ?thesis
      using that unfolding RemoveFinalizerStep_def leaves_def
      by (auto intro!: spec_return spec_bind [OF r] split: option.splits)
  qed
  then show ?thesis by (simp add: keeps_leaves)
qed

lemma delete_steps_deleting:
  "being_deleted (cx_E X) name \<Longrightarrow> s \<in> set (delete_steps X) \<Longrightarrow> keeps (deleting name) s"
  by (auto simp: delete_steps_def intro: StatusStep_deleting deleting_steps_keep RemoveFinalizerStep_deleting)

lemma HandleUntilApplied_keeps:
  assumes "\<And>s. s \<in> set ss \<Longrightarrow> keeps I s" "I d" "run_state (HandleUntilApplied ss d) h = ((out, d'), h')"
  shows "I d'"
  using assms
proof (induction ss arbitrary: d h)
  case (Cons s ss)
  obtain r d1 h1 where s: "run_state (s d) h = ((r, d1), h1)" by (metis surj_pair)
  have "I d1" using Cons.prems(1) [of s] Cons.prems(2) s by (auto dest: keepsD)
  with Cons s show ?case by (auto simp: HandleUntilApplied_Cons [of s d h, OF s] split: if_splits)
qed simp

lemma finish_reconcile_deleting:
  assumes "being_deleted (cx_E X) name" "deleting name d"
  shows "fst (run_state (finish_reconcile X name d out) h) = (no_requeue, None)"
proof -
  obtain q cont e where out: "out = (q, cont, e)" by (metis surj_pair)
  have nr: "not_requeued d'" if "deleting name d'" for d' using that by (simp add: deleting_def not_requeued_def)
  show ?thesis
  proof (cases "a_GetDogu (cx_E X h) name")
    case (Inl e2)
    with nr [OF assms(2)] show ?thesis
      by (simp add: finish_reconcile_def out run_attempt io_defs requeue_Handle_not_requeued)
  next
    case (Inr d2)
    obtain eo d3 h3 where s: "run_state (setReadyCondition X d2 (ready_condition out)) (h @ [Event (CGetDogu name) None]) = ((eo, d3), h3)"
      by (metis surj_pair)
    moreover have "deleting name d2" by (rule being_deletedD(1) [OF assms(1) Inr])
    ultimately have "deleting name d3"
      by (auto simp: setReadyCondition_def run_attempt io_defs split: sum.splits dest: being_deletedD(2) [OF assms(1)])
    with nr s Inr show ?thesis
      by (simp add: finish_reconcile_def out run_attempt io_defs requeue_Handle_not_requeued)
  qed
qed

lemma deletion_not_requeued:
  assumes "being_deleted (cx_E X) name"
  shows "fst (run_state (dogu_Reconcile X name) h) = (no_requeue, None)"
proof (cases "a_GetDogu (cx_E X h) name")
  case (Inl e)
  then show ?thesis by (simp add: dogu_Reconcile_unreadable)
next
  case (Inr d)
  with assms have del: "deleting name d" by (auto simp: being_deleted_def)
  let ?h = "h @ [Event (CGetDogu name) None, Event (CRecord EventTypeNormal ''ReconcileStarted'') None]"
  obtain q cont e d1 h1 where r: "run_state (HandleUntilApplied (delete_steps X) d) ?h = (((q, cont, e), d1), h1)"
    by (metis surj_pair)
  have "deleting name d1"
    using HandleUntilApplied_keeps [where I = "deleting name" and ss = "delete_steps X" and d = d] delete_steps_deleting [OF assms] del r
    by blast
  with Inr del r finish_reconcile_deleting [OF assms, of d1 "(q, cont, IgnoreNotFound e)" h1] show ?thesis
    by (auto simp: dogu_Reconcile_def run_attempt io_defs deleting_def)
qed

end
