(* ===== verification/Startup.thy ===== *)
theory Startup
  imports Controller
begin

text \<open>
  The start of the operator: log level and library loggers (\<^verbatim>\<open>logging/logger.go\<close>), command line and controller manager
  (\<^verbatim>\<open>initfx/controllerManager.go\<close>), and the registration of the controllers (\<^verbatim>\<open>setupWithManager\<close> of each), which says
  what events start a reconciliation. The calls of the controller-runtime have their own log here.
\<close>

section \<open>Logging\<close>

datatype log_level = PanicLevel | FatalLevel | ErrorLevel | WarnLevel | InfoLevel | DebugLevel | TraceLevel

definition errorLevel :: int where "errorLevel = 0"
definition warningLevel :: int where "warningLevel = 1"
definition infoLevel :: int where "infoLevel = 2"
definition debugLevel :: int where "debugLevel = 3"

text \<open>
  A line for the log sink: the verbosity and the text. Formatting the arguments of a message is left to the caller.
\<close>

definition library_log :: "string \<Rightarrow> int \<Rightarrow> string \<Rightarrow> int \<times> string" where
  "library_log name level msg = (level, ''['' @ name @ ''] '' @ msg)"

datatype library_logger = LibraryLogger (ll_name: string)

definition ll_Debug :: "library_logger \<Rightarrow> string \<Rightarrow> int \<times> string" where
  "ll_Debug ll msg = library_log (ll_name ll) debugLevel msg"

definition ll_Info :: "library_logger \<Rightarrow> string \<Rightarrow> int \<times> string" where
  "ll_Info ll msg = library_log (ll_name ll) infoLevel msg"

definition ll_Warning :: "library_logger \<Rightarrow> string \<Rightarrow> int \<times> string" where
  "ll_Warning ll msg = library_log (ll_name ll) warningLevel msg"

definition ll_Error :: "library_logger \<Rightarrow> string \<Rightarrow> int \<times> string" where
  "ll_Error ll msg = library_log (ll_name ll) errorLevel msg"

definition logLevelEnvVar :: string where "logLevelEnvVar = ''LOG_LEVEL''"

text \<open>\<open>parseLevel\<close> stands for \<^verbatim>\<open>logrus.ParseLevel\<close>.\<close>

definition getLogLevelFromEnv :: "lib \<Rightarrow> (string \<Rightarrow> log_level res) \<Rightarrow> log_level res" where
  "getLogLevelFromEnv L parseLevel =
     (case lib_Getenv L logLevelEnvVar of
        None \<Rightarrow> Inr ErrorLevel
      | Some logLevel \<Rightarrow>
          if TrimSpace logLevel = [] then Inr ErrorLevel
          else case parseLevel logLevel of
              Inl e \<Rightarrow> Inl (ErrWrap ''value of log environment variable is not a valid log level'' e)
            | Inr level \<Rightarrow> Inr level)"

text \<open>The level of the logger, and the loggers handed to the two libraries.\<close>

definition NewLogger :: "lib \<Rightarrow> (string \<Rightarrow> log_level res) \<Rightarrow> (log_level \<times> library_logger \<times> library_logger) res" where
  "NewLogger L parseLevel =
     (case getLogLevelFromEnv L parseLevel of
        Inl e \<Rightarrow> Inl e
      | Inr level \<Rightarrow> Inr (level, LibraryLogger ''cesapp-lib'', LibraryLogger ''k8s-apply-lib''))"

section \<open>The command line\<close>

text \<open>
  The flags of \<^verbatim>\<open>NewManagerOptions\<close> and the part of Go's package \<^verbatim>\<open>flag\<close> that parses them. A flag is written with one
  or two hyphens; its value follows after an equals sign or, unless the flag is boolean, as the next argument. The
  first argument that is no flag, or \<^verbatim>\<open>--\<close>, ends the flags.
\<close>

record manager_flags =
  mf_MetricsAddr :: string
  mf_ProbeAddr :: string
  mf_LeaderElection :: bool

definition default_flags :: manager_flags where
  "default_flags = \<lparr> mf_MetricsAddr = '':8080'', mf_ProbeAddr = '':8081'', mf_LeaderElection = False \<rparr>"

datatype flag_error = ErrHelp | FlagError string

definition ParseBool :: "string \<Rightarrow> bool option" where
  "ParseBool s =
     (if s \<in> {''1'', ''t'', ''T'', ''TRUE'', ''true'', ''True''} then Some True
      else if s \<in> {''0'', ''f'', ''F'', ''FALSE'', ''false'', ''False''} then Some False else None)"

text \<open>A flag's name and, after the first equals sign (which cannot come first), its value.\<close>

definition split_flag :: "string \<Rightarrow> string \<times> string option" where
  "split_flag s =
     (take 1 s @ takeWhile (\<lambda>c. c \<noteq> CHR ''='') (drop 1 s),
      case dropWhile (\<lambda>c. c \<noteq> CHR ''='') (drop 1 s) of [] \<Rightarrow> None | _ # v \<Rightarrow> Some v)"

definition set_string_flag :: "string \<Rightarrow> string \<Rightarrow> manager_flags \<Rightarrow> manager_flags" where
  "set_string_flag name v f =
     (if name = ''metrics-bind-address'' then f\<lparr> mf_MetricsAddr := v \<rparr> else f\<lparr> mf_ProbeAddr := v \<rparr>)"

fun flag_Parse :: "string list \<Rightarrow> manager_flags \<Rightarrow> flag_error + manager_flags" where
  "flag_Parse [] f = Inr f"
| "flag_Parse (s # args) f =
     (if length s < 2 \<or> hd s \<noteq> CHR ''-'' then Inr f
      else if s = ''--'' then Inr f
      else let flag = (if s ! 1 = CHR ''-'' then drop 2 s else drop 1 s) in
        if hd flag \<in> {CHR ''-'', CHR ''=''} then Inl (FlagError ''bad flag syntax'')
        else let (name, val) = split_flag flag in
          if name = ''leader-elect'' then
            (case val of
               None \<Rightarrow> flag_Parse args (f\<lparr> mf_LeaderElection := True \<rparr>)
             | Some v \<Rightarrow> (case ParseBool v of
                 None \<Rightarrow> Inl (FlagError ''invalid boolean value'')
               | Some b \<Rightarrow> flag_Parse args (f\<lparr> mf_LeaderElection := b \<rparr>)))
          else if name \<in> {''metrics-bind-address'', ''health-probe-bind-address''} then
            (case val of
               Some v \<Rightarrow> flag_Parse args (set_string_flag name v f)
             | None \<Rightarrow> (case args of
                 [] \<Rightarrow> Inl (FlagError ''flag needs an argument'')
               | v # args' \<Rightarrow> flag_Parse args' (set_string_flag name v f)))
          else if name \<in> {''help'', ''h''} then Inl ErrHelp
          else Inl (FlagError ''flag provided but not defined''))"

record manager_options =
  mo_MetricsBindAddress :: string
  mo_DefaultNamespaces :: "string list"
  mo_WebhookPort :: int
  mo_HealthProbeBindAddress :: string
  mo_LeaderElection :: bool
  mo_LeaderElectionID :: string

text \<open>With \<^verbatim>\<open>flag.ExitOnError\<close> the process ends on an error, with code 0 after a call for help and 2 otherwise.\<close>

datatype 'a started = Exited int | Panicked | Started 'a

definition NewManagerOptions :: "string list \<Rightarrow> operator_config \<Rightarrow> manager_options started" where
  "NewManagerOptions args C =
     (case args of
        [] \<Rightarrow> Panicked
      | _ # args' \<Rightarrow>
          (case flag_Parse args' default_flags of
             Inl ErrHelp \<Rightarrow> Exited 0
           | Inl (FlagError _) \<Rightarrow> Exited 2
           | Inr f \<Rightarrow> Started \<lparr> mo_MetricsBindAddress = mf_MetricsAddr f, mo_DefaultNamespaces = [oc_Namespace C],
               mo_WebhookPort = 9443, mo_HealthProbeBindAddress = mf_ProbeAddr f, mo_LeaderElection = mf_LeaderElection f,
               mo_LeaderElectionID = ''951e217a.cloudogu.com'' \<rparr>))"

text \<open>
  Events are correlated by a key; a fresh identifier as key keeps events apart, so none is aggregated or dropped as spam.
\<close>

definition noAggregationKey :: "string \<Rightarrow> string \<times> string" where
  "noAggregationKey uuid = (uuid, uuid)"

definition noSpamKey :: "string \<Rightarrow> string" where
  "noSpamKey uuid = uuid"

text \<open>Ways to write settings on the command line, for the round trip.\<close>

datatype setting = MetricsAddr string | ProbeAddr string | LeaderElection bool

fun apply_setting :: "setting \<Rightarrow> manager_flags \<Rightarrow> manager_flags" where
  "apply_setting (MetricsAddr v) f = f\<lparr> mf_MetricsAddr := v \<rparr>"
| "apply_setting (ProbeAddr v) f = f\<lparr> mf_ProbeAddr := v \<rparr>"
| "apply_setting (LeaderElection b) f = f\<lparr> mf_LeaderElection := b \<rparr>"

inductive written :: "setting \<Rightarrow> string list \<Rightarrow> bool" where
  joined: "h \<in> {''-'', ''--''} \<Longrightarrow> written (MetricsAddr v) [h @ ''metrics-bind-address='' @ v]"
| separate: "h \<in> {''-'', ''--''} \<Longrightarrow> written (MetricsAddr v) [h @ ''metrics-bind-address'', v]"
| joined_probe: "h \<in> {''-'', ''--''} \<Longrightarrow> written (ProbeAddr v) [h @ ''health-probe-bind-address='' @ v]"
| separate_probe: "h \<in> {''-'', ''--''} \<Longrightarrow> written (ProbeAddr v) [h @ ''health-probe-bind-address'', v]"
| switch: "h \<in> {''-'', ''--''} \<Longrightarrow> written (LeaderElection True) [h @ ''leader-elect'']"
| switch_value: "h \<in> {''-'', ''--''} \<Longrightarrow> ParseBool v = Some b \<Longrightarrow> written (LeaderElection b) [h @ ''leader-elect='' @ v]"

lemma flag_Parse_written:
  assumes "written x w"
  shows "flag_Parse (w @ args) f = flag_Parse args (apply_setting x f)"
  using assms by cases (auto simp: split_flag_def set_string_flag_def)

text \<open>Settings in any order and any spelling are read back, the last one of a kind counts; what is no flag ends them.\<close>

lemma flag_Parse_settings:
  assumes "list_all2 written xs ws"
  shows "flag_Parse (concat ws @ args) f = flag_Parse args (fold apply_setting xs f)"
  using assms
  by (induction xs ws arbitrary: f rule: list_all2_induct) (simp_all add: flag_Parse_written del: flag_Parse.simps)

definition no_flag :: "string \<Rightarrow> bool" where
  "no_flag s \<longleftrightarrow> s = ''--'' \<or> length s < 2 \<or> hd s \<noteq> CHR ''-''"

lemma flag_Parse_stops: "args = [] \<or> no_flag (hd args) \<Longrightarrow> flag_Parse args f = Inr f"
  by (cases args) (auto simp: no_flag_def)

lemma flag_Parse_unknown:
  assumes "name \<noteq> []" "hd name \<noteq> CHR ''-''" "CHR ''='' \<notin> set name"
    and "name \<notin> {''leader-elect'', ''metrics-bind-address'', ''health-probe-bind-address'', ''help'', ''h''}"
  shows "flag_Parse ((''--'' @ name) # args) f = Inl (FlagError ''flag provided but not defined'')"
proof -
  obtain c cs where name: "name = c # cs" using assms(1) by (cases name) auto
  have "takeWhile (\<lambda>c. c \<noteq> CHR ''='') cs = cs" and *: "dropWhile (\<lambda>c. c \<noteq> CHR ''='') cs = []"
    using assms(3) by (auto simp: name takeWhile_eq_all_conv)
  then have "split_flag name = (name, None)" by (simp add: split_flag_def name * del: dropWhile_eq_Nil_conv)
  with assms show ?thesis by (auto simp: name)
qed

section \<open>Controllers and the events that reach them\<close>

datatype object_kind =
    KDogu | KDoguRestart | KConfigMap | KSecret | KService | KDeployment | KPersistentVolumeClaim | KNetworkPolicy | KPod
  | KAuthRegistration

datatype event_filter = NoFilter | GlobalConfigFilter

text \<open>
  What a controller is built with: the kind it reconciles, whether events of it pass the predicate for changed
  generations, the kinds it owns, whether it reads the channel of dogu events, and a filter for all events.
\<close>

record controller_builder =
  cb_For :: object_kind
  cb_GenerationChanged :: bool
  cb_Owns :: "object_kind list"
  cb_Channel :: bool
  cb_EventFilter :: event_filter

definition dogu_controller_builder :: "bool \<Rightarrow> controller_builder" where
  "dogu_controller_builder authRegistrationEnabled =
     (let b = \<lparr> cb_For = KDogu, cb_GenerationChanged = True,
            cb_Owns = [KConfigMap, KSecret, KService, KDeployment, KPersistentVolumeClaim, KNetworkPolicy, KPod],
            cb_Channel = True, cb_EventFilter = NoFilter \<rparr> in
      if authRegistrationEnabled then b\<lparr> cb_Owns := cb_Owns b @ [KAuthRegistration] \<rparr> else b)"

definition restart_controller_builder :: controller_builder where
  "restart_controller_builder = \<lparr> cb_For = KDoguRestart, cb_GenerationChanged = False, cb_Owns = [], cb_Channel = False,
     cb_EventFilter = NoFilter \<rparr>"

definition global_controller_builder :: controller_builder where
  "global_controller_builder = \<lparr> cb_For = KConfigMap, cb_GenerationChanged = False, cb_Owns = [], cb_Channel = False,
     cb_EventFilter = GlobalConfigFilter \<rparr>"

subsection \<open>The calls of the framework\<close>

datatype manager_call =
    QNewManager manager_options
  | QAddHealthzCheck string
  | QAddReadyzCheck string
  | QComplete controller_builder
  | QAddRunnable string
  | QAppendHook string
  | QNewApplier string
  | QAddToScheme
  | QNewRemoteRepository remote_config "string \<times> string"

type_synonym framework = "manager_call \<Rightarrow> err option"
type_synonym 'a mop = "(manager_call \<times> err option, 'a) io"

definition mcall :: "framework \<Rightarrow> manager_call \<Rightarrow> err option mop" where
  "mcall A c = ask (\<lambda>_. A c) (\<lambda>r. (c, r))"

definition addChecks :: "framework \<Rightarrow> err option mop" where
  "addChecks A =
     check_err (mcall A (QAddHealthzCheck ''healthz'')) (\<lambda>e. State_Monad.return (Some (ErrWrap ''failed to add healthz check'' e)))
       (check_err (mcall A (QAddReadyzCheck ''readyz'')) (\<lambda>e. State_Monad.return (Some (ErrWrap ''failed to add readyz check'' e)))
          (State_Monad.return None))"

text \<open>Appending a hook to the lifecycle cannot fail.\<close>

definition append_hook :: "string \<Rightarrow> unit mop" where
  "append_hook name = tell (QAppendHook name, None)"

definition NewControllerManager :: "framework \<Rightarrow> manager_options \<Rightarrow> err option mop" where
  "NewControllerManager A opts =
     check_err (mcall A (QNewManager opts)) (\<lambda>e. State_Monad.return (Some (ErrWrap ''failed to create manager'' e)))
       (check_err (addChecks A) (\<lambda>e. State_Monad.return (Some (ErrWrap ''failed to add checks to the manager'' e)))
          (do {
             _ \<leftarrow> append_hook ''start'';
             _ \<leftarrow> append_hook ''stop'';
             State_Monad.return None
           }))"

text \<open>The stop hook: dogus are marked as unknown, and the manager is cancelled whatever the outcome.\<close>

definition stop_hook :: "lib \<Rightarrow> env \<Rightarrow> unit op" where
  "stop_hook L E = do { _ \<leftarrow> shutdown_Handle L E; ret () }"

definition dogu_setupWithManager :: "framework \<Rightarrow> bool \<Rightarrow> err option mop" where
  "dogu_setupWithManager A authRegistrationEnabled = mcall A (QComplete (dogu_controller_builder authRegistrationEnabled))"

definition restart_setupWithManager :: "framework \<Rightarrow> err option mop" where
  "restart_setupWithManager A = mcall A (QComplete restart_controller_builder)"

definition global_setupWithManager :: "framework \<Rightarrow> err option mop" where
  "global_setupWithManager A = mcall A (QComplete global_controller_builder)"

definition NewDoguReconciler :: "framework \<Rightarrow> operator_config \<Rightarrow> err option mop" where
  "NewDoguReconciler A C =
     check_err (dogu_setupWithManager A (oc_AuthRegistrationEnabled C)) (\<lambda>e. State_Monad.return (Some e)) (State_Monad.return None)"

definition NewDoguRestartReconciler :: "framework \<Rightarrow> err option mop" where
  "NewDoguRestartReconciler A =
     check_err (restart_setupWithManager A) (\<lambda>e. State_Monad.return (Some e)) (State_Monad.return None)"

definition NewGlobalConfigReconciler :: "framework \<Rightarrow> err option mop" where
  "NewGlobalConfigReconciler A =
     check_err (global_setupWithManager A) (\<lambda>e. State_Monad.return (Some e)) (State_Monad.return None)"

definition NewStartupHandler :: "framework \<Rightarrow> err option mop" where
  "NewStartupHandler A =
     check_err (mcall A (QAddRunnable ''StartupHandler'')) (\<lambda>e. State_Monad.return (Some e)) (State_Monad.return None)"

definition k8sDoguOperatorFieldManagerName :: string where "k8sDoguOperatorFieldManagerName = ''k8s-dogu-operator''"

definition NewCollectApplier :: "framework \<Rightarrow> err option mop" where
  "NewCollectApplier A =
     check_err (mcall A (QNewApplier k8sDoguOperatorFieldManagerName))
       (\<lambda>e. State_Monad.return (Some (ErrWrap ''failed to create K8s applier'' e)))
       (check_err (mcall A QAddToScheme) (\<lambda>e. State_Monad.return (Some (ErrWrap ''failed to add apply scheme'' e)))
          (State_Monad.return None))"

definition newRemoteDoguDescriptorRepository :: "lib \<Rightarrow> framework \<Rightarrow> operator_config \<Rightarrow> err option mop" where
  "newRemoteDoguDescriptorRepository L A C =
     (case GetRemoteConfiguration L C of
        Inl e \<Rightarrow> State_Monad.return (Some e)
      | Inr remoteConfig \<Rightarrow>
          check_err (mcall A (QNewRemoteRepository remoteConfig (GetRemoteCredentials C)))
            (\<lambda>e. State_Monad.return (Some (ErrWrap ''failed to create new remote dogu repository'' e))) (State_Monad.return None))"

subsection \<open>Which events start a reconciliation\<close>

datatype event_type = CreateEvent | UpdateEvent | DeleteEvent | GenericEvent

record object_event =
  oe_Type :: event_type
  oe_Kind :: object_kind
  oe_Name :: string
  oe_OldGeneration :: int
  oe_Generation :: int
  oe_Owner :: "(object_kind \<times> string) option"

definition filter_passes :: "event_filter \<Rightarrow> object_event \<Rightarrow> bool" where
  "filter_passes f e = (case f of NoFilter \<Rightarrow> True | GlobalConfigFilter \<Rightarrow> globalConfigPredicate (oe_Name e))"

text \<open>
  What the controller-runtime documents of a controller built this way: an event that passes the filter enqueues the
  object itself if it is of the reconciled kind (an update only with a new generation, if so configured), and the
  controller that owns the object if the object is of an owned kind and the owner of the reconciled kind. Nothing else
  is enqueued.
\<close>

definition lawful_requests :: "(controller_builder \<Rightarrow> object_event \<Rightarrow> string set) \<Rightarrow> bool" where
  "lawful_requests R \<longleftrightarrow>
     (\<forall>b e x. x \<in> R b e \<longleftrightarrow> filter_passes (cb_EventFilter b) e \<and>
        (oe_Kind e = cb_For b \<and> x = oe_Name e \<and>
           (cb_GenerationChanged b \<and> oe_Type e = UpdateEvent \<longrightarrow> oe_Generation e \<noteq> oe_OldGeneration e) \<or>
         oe_Kind e \<in> set (cb_Owns b) \<and> oe_Owner e = Some (cb_For b, x)))"

lemma dogu_controller_builder_sel [simp]:
  "cb_For (dogu_controller_builder b) = KDogu" "cb_GenerationChanged (dogu_controller_builder b)"
  "cb_EventFilter (dogu_controller_builder b) = NoFilter"
  "cb_Owns (dogu_controller_builder b) = [KConfigMap, KSecret, KService, KDeployment, KPersistentVolumeClaim, KNetworkPolicy, KPod] @
     (if b then [KAuthRegistration] else [])"
  by (simp_all add: dogu_controller_builder_def Let_def)

lemma owned_event_requests:
  assumes "lawful_requests R" "k \<in> set (cb_Owns (dogu_controller_builder b))" "oe_Kind e = k" "oe_Owner e = Some (KDogu, x)"
  shows "R (dogu_controller_builder b) e = {x}"
proof -
  have "k \<noteq> KDogu" using assms(2) by (auto split: if_splits)
  with assms show ?thesis unfolding lawful_requests_def filter_passes_def by auto
qed

text \<open>The status updates of the operator do not start reconciliations; changes of the spec do.\<close>

lemma dogu_update_requests:
  assumes "lawful_requests R" "oe_Kind e = KDogu" "oe_Type e = UpdateEvent" "oe_Owner e = None"
  shows "R (dogu_controller_builder b) e = (if oe_Generation e = oe_OldGeneration e then {} else {oe_Name e})"
  using assms unfolding lawful_requests_def
  by (auto simp: filter_passes_def)

text \<open>Only the map of the global configuration reaches its controller.\<close>

lemma global_config_requests:
  assumes "lawful_requests R" "oe_Kind e = KConfigMap"
  shows "R global_controller_builder e = (if oe_Name e = globalConfigMapName then {oe_Name e} else {})"
  using assms unfolding lawful_requests_def
  by (auto simp: filter_passes_def global_controller_builder_def globalConfigPredicate_def)

end
