(* ===== verification/Ownership.thy ===== *)
theory Ownership
  imports Pipeline Startup
begin

text \<open>
  Every object that the reconciliation of a dogu creates has that dogu as its controlling owner and is of a kind the dogu
  controller watches, so a later change of the object starts a reconciliation of the dogu it was made for.
\<close>

section \<open>The name of the resource\<close>

text \<open>What the API documents: a resource is returned under the name it was asked for, and updates do not rename it.\<close>

definition names_kept :: "env \<Rightarrow> bool" where
  "names_kept E \<longleftrightarrow>
     (\<forall>h x d. a_GetDogu (E h) x = Inr d \<longrightarrow> d_Name d = x) \<and>
     (\<forall>h d f d'. a_UpdateDoguStatus (E h) d f = Inr d' \<longrightarrow> d_Name d' = d_Name d) \<and>
     (\<forall>h d d'. a_UpdateDogu (E h) d = Inr d' \<longrightarrow> d_Name d' = d_Name d)"

abbreviation named :: "string \<Rightarrow> dogu \<Rightarrow> bool" where
  "named name d \<equiv> d_Name d = name"

lemma names_keptD:
  assumes "names_kept E"
  shows "a_GetDogu (E h) x = Inr d \<Longrightarrow> named x d" "a_UpdateDoguStatus (E h) d f = Inr d' \<Longrightarrow> named (d_Name d) d'"
    "a_UpdateDogu (E h) d = Inr d' \<Longrightarrow> named (d_Name d) d'"
  using assms unfolding names_kept_def by blast+

definition returns_named :: "string \<Rightarrow> dogu res op \<Rightarrow> bool" where
  "returns_named name m \<longleftrightarrow> spec m (\<lambda>r t. \<forall>d'. r = Inr d' \<longrightarrow> named name d')"

lemma named_calls:
  assumes "names_kept E"
  shows "named name d \<Longrightarrow> returns_named name (update_dogu_status E d f)" "returns_named name (get_dogu E name)"
    "named name d \<Longrightarrow> returns_named name (update_dogu E d)"
  unfolding returns_named_def io_defs by (intro specI; use assms in \<open>auto dest: names_keptD\<close>)+

lemma returns_named_attempt:
  assumes "emits (\<lambda>_. True) m" "\<And>x. returns_named name (k x)"
  shows "returns_named name (attempt m (\<lambda>e. throw (f e)) k)"
  using assms(1) unfolding returns_named_def emits_def
  by (rule spec_attempt) (auto intro: spec_return spec_conseq [OF assms(2) [unfolded returns_named_def]])

lemma returns_named_check:
  assumes "emits (\<lambda>_. True) m" "returns_named name k"
  shows "returns_named name (check_err m (\<lambda>e. throw (f e)) k)"
  using assms(1) unfolding returns_named_def emits_def
  by (rule spec_check_err) (auto intro: spec_return spec_conseq [OF assms(2) [unfolded returns_named_def]])

lemma returns_named_ok:
  assumes "returns_named name m" shows "returns_named name (attempt m (\<lambda>e. throw (f e)) ok)"
  using assms unfolding returns_named_def by (rule spec_attempt) (auto intro!: spec_return)

lemma leaves_named:
  assumes "returns_named name m" "\<And>e. leaves (named name) (g e)" "\<And>d'. named name d' \<Longrightarrow> leaves (named name) (k d')"
  shows "leaves (named name) (attempt m g k)"
  using assms(1) unfolding returns_named_def leaves_def
  by (rule spec_attempt) (auto intro: spec_conseq [OF assms(2) [unfolded leaves_def]] spec_conseq [OF assms(3) [unfolded leaves_def]])

lemmas leaves_status = leaves_named [OF named_calls(1)]

lemma leaves_bind_pair:
  assumes "leaves (named name) m" "\<And>x d'. named name d' \<Longrightarrow> leaves (named name) (f (x, d'))"
  shows "leaves (named name) (State_Monad.bind m f)"
  using assms(1) unfolding leaves_def
  by (rule spec_bind) (auto intro: spec_conseq [OF assms(2) [unfolded leaves_def]])

lemma call_appends:
  "emits (\<lambda>_. True) (get_deployment E x)" "emits (\<lambda>_. True) (get_scale E x)" "emits (\<lambda>_. True) (update_scale E x k)"
  "emits (\<lambda>_. True) (get_pvc E x)" "emits (\<lambda>_. True) (update_pvc E p)" "emits (\<lambda>_. True) (config_get E repo x)"
  "emits (\<lambda>_. True) (config_create E repo cfg)" "emits (\<lambda>_. True) (set_owner_reference E own x ref)"
  "emits (\<lambda>_. True) (update_dogu E d)" "emits (\<lambda>_. True) (get_service E x)" "emits (\<lambda>_. True) (update_deployment E dep)"
  "emits (\<lambda>_. True) (global_config_last_updated E)" "emits (\<lambda>_. True) (list_dogus E)" "emits (\<lambda>_. True) (record_event a b)"
  unfolding io_defs by (rule emits_req emits_tell; simp)+

lemmas named_rules = leaves_return leaves_if leaves_option leaves_sum leaves_prod leaves_attempt leaves_check_err leaves_bind
  call_appends emits_rules append_rules

lemma install_steps_named:
  "keeps (named name) (CreateConfigStep X repo)"
  "keeps (named name) (OwnerReferenceStep X own)" "keeps (named name) (install_RegisterDoguVersionStep X)"
  "keeps (named name) (AuthRegistrationStep X)" "keeps (named name) (ServiceAccountStep X)"
  "keeps (named name) (NetworkPoliciesStep X)" "keeps (named name) (CreateExecPodStep X)"
  "keeps (named name) (CustomK8sResourceStep X)" "keeps (named name) (CreateVolumeStep X)"
  "keeps (named name) (CreateDeploymentStep X)" "keeps (named name) (RemoveServiceAccountStep X)"
  unfolding keeps_leaves CreateConfigStep_def OwnerReferenceStep_def install_RegisterDoguVersionStep_def AuthRegistrationStep_def
    ServiceAccountStep_def NetworkPoliciesStep_def CreateExecPodStep_def CustomK8sResourceStep_def CreateVolumeStep_def
    CreateDeploymentStep_def RemoveServiceAccountStep_def Let_def
  by (auto intro!: named_rules)

lemma remaining_steps_named:
  "keeps (named name) (FetchRemoteDoguDescriptorStep X)" "keeps (named name) (ValidationStep X)"
  "keeps (named name) (ServiceStep X)" "keeps (named name) (MismatchedStorageClassWarningStep X)"
  "keeps (named name) (SecurityContextStep X)" "keeps (named name) (AdditionalMountsStep X)"
  "keeps (named name) (upgrade_RegisterDoguVersionStep X)"
  "keeps (named name) (DeleteExecPodStep X)"
  "keeps (named name) (RegenerateDeploymentStep X)" "keeps (named name) (RetroactiveServiceAccountStep X)"
  unfolding keeps_leaves FetchRemoteDoguDescriptorStep_def ValidationStep_def validateTarget_def
    shouldAbortBecauseOfUnallowedDowngrade_def checkHealthOfDependencies_def ServiceStep_def createOrUpdateService_def
    MismatchedStorageClassWarningStep_def SecurityContextStep_def AdditionalMountsStep_def
    upgrade_RegisterDoguVersionStep_def DeleteExecPodStep_def RegenerateDeploymentStep_def
    RetroactiveServiceAccountStep_def io_defs Let_def
  by (auto intro!: named_rules)

lemma upgrade_steps_named:
  "keeps (named name) (UpdateDeploymentVersionStep X)" "keeps (named name) (PostUpgradeStep X)"
  unfolding keeps_leaves UpdateDeploymentVersionStep_def upgradeDeployment_def applyPreUpgradeScript_def
    applyPreUpgradeScriptToOlderDogu_def copyPreUpgradeScriptFromPodToPod_def PostUpgradeStep_def applyPostUpgradeScript_def
    executePostUpgradeScript_def revertStartupProbeAfterUpdate_def io_defs Let_def
  by (auto intro!: named_rules)

lemma status_steps_named:
  assumes "names_kept (cx_E X)"
  shows "keeps (named name) (PauseReconciliationStep X)" "keeps (named name) (StartStopStep X)"
    "keeps (named name) (PreUpgradeStatusStep X)" "keeps (named name) (InstalledVersionStep X)"
    "keeps (named name) (UpdateStartedAtStep X)" "keeps (named name) (RestartAfterConfigChangeStep X)"
    "keeps (named name) (SupportModeStep X)"
proof -
  have stop: "emits (\<lambda>_. True) (shouldBeStopped X d)" for d
    unfolding shouldBeStopped_def io_defs by (auto intro!: named_rules)
  show "keeps (named name) (PauseReconciliationStep X)" "keeps (named name) (StartStopStep X)"
    "keeps (named name) (PreUpgradeStatusStep X)" "keeps (named name) (InstalledVersionStep X)"
    "keeps (named name) (UpdateStartedAtStep X)" "keeps (named name) (RestartAfterConfigChangeStep X)"
    "keeps (named name) (SupportModeStep X)"
    unfolding keeps_leaves PauseReconciliationStep_def StartStopStep_def PreUpgradeStatusStep_def InstalledVersionStep_def
      UpdateStartedAtStep_def RestartAfterConfigChangeStep_def SupportModeStep_def setSupportModeCondition_def Let_def
    by (intro allI impI, ((rule leaves_status [OF assms] stop named_rules | assumption | simp)+)[1])+
qed

lemma condition_steps_named:
  assumes "names_kept (cx_E X)"
  shows "keeps (named name) (InitializeConditionsStep X)" "keeps (named name) (HealthCheckStep X)"
proof -
  have conds: "returns_named name (UpdateConditions L (cx_E X) d cs)" if "named name d" for L d cs
    unfolding UpdateConditions_def by (rule returns_named_ok [OF named_calls(1) [OF assms that]])
  then show "keeps (named name) (InitializeConditionsStep X)"
    unfolding keeps_leaves InitializeConditionsStep_def Let_def by (auto intro!: leaves_named leaves_return)
  have health: "returns_named name (updateDoguHealth X dep d)" if "named name d" for dep d
    unfolding updateDoguHealth_def
    by (intro returns_named_attempt returns_named_check named_calls(1) [OF assms that] append_rules)
  show "keeps (named name) (HealthCheckStep X)"
    unfolding keeps_leaves HealthCheckStep_def
    by (intro allI impI, ((rule leaves_attempt [OF call_appends(1)] leaves_named [OF health] leaves_if leaves_return | assumption)+)[1])
qed

lemma CreateFinalizerStep_named:
  assumes "names_kept (cx_E X)" shows "keeps (named name) (CreateFinalizerStep X)"
proof -
  have "leaves (named name) (modify_dogu (cx_E X) (AddFinalizer finalizerName) d)" if "named name d" for d
    using that unfolding modify_dogu_def
    by (auto simp: AddFinalizer_def intro!: leaves_named [OF named_calls(2) [OF assms]] leaves_named [OF named_calls(3) [OF assms]] leaves_return)
  then have "leaves (named name) (retry_dogu k p (modify_dogu (cx_E X) (AddFinalizer finalizerName)) d)" if "named name d" for k p d
    using that by (rule retry_dogu_leaves)
  then show ?thesis
    unfolding keeps_leaves CreateFinalizerStep_def
    by (auto intro!: leaves_bind_pair leaves_return split: option.splits)
qed

lemma VolumeExpanderStep_named:
  assumes "names_kept (cx_E X)" shows "keeps (named name) (VolumeExpanderStep X)"
proof -
  have size: "leaves (named name) (SetCurrentDataVolumeSize (cx_L X) (cx_E X) d p)" if "named name d" for d p
  proof -
    have "emits (\<lambda>_. True) (grow_claim (cx_L X) (cx_E X) p)" unfolding grow_claim_def io_defs by (auto intro!: emits_rules)
    with that show ?thesis
      unfolding SetCurrentDataVolumeSize_def Let_def
      by (auto intro!: leaves_sum leaves_check_err leaves_return leaves_status [OF assms])
  qed
  have success: "leaves (named name) (attempt (setSuccessCondition X d) (fail_with d) continue_with)" if "named name d" for d
    using that unfolding setSuccessCondition_def by (auto intro!: leaves_status [OF assms] leaves_return)
  show ?thesis
    unfolding keeps_leaves VolumeExpanderStep_def
    by (intro allI impI, ((simp only: prod.case | rule success leaves_bind_pair [OF size] named_rules | assumption | simp)+)[1])
qed

lemma ExportModeStep_named:
  assumes "names_kept (cx_E X)" shows "keeps (named name) (ExportModeStep X)"
proof -
  have st: "returns_named name (export_updateStatus (cx_E X) d ph a)" if "named name d" for d ph a
    unfolding export_updateStatus_def by (rule returns_named_ok [OF named_calls(1) [OF assms that]])
  have needed: "emits (\<lambda>_. True) (deploymentUpdateNeeded (cx_E X) d)" "emits (\<lambda>_. True) (shouldUpdateExportMode (cx_E X) d)" for d
    unfolding deploymentUpdateNeeded_def shouldUpdateExportMode_def io_defs by (auto intro!: emits_rules append_rules)
  have up: "leaves (named name) (updateExportMode (cx_L X) (cx_E X) (cx_G X) d)" if "named name d" for d
    unfolding updateExportMode_def
    by (insert that, ((rule needed leaves_named [OF st] named_rules | assumption | simp)+)[1])
  have "leaves (named name) (UpdateExportMode (cx_L X) (cx_E X) (cx_G X) d)" if "named name d" for d
    unfolding UpdateExportMode_def
    by (insert that, ((simp only: prod.case | rule needed leaves_named [OF st] leaves_bind_pair [OF up] named_rules | assumption | simp)+)[1])
  then show ?thesis
    unfolding keeps_leaves ExportModeStep_def
    by (auto intro!: leaves_bind_pair leaves_return split: option.splits)
qed

text \<open>Hence no step of a change renames the resource.\<close>

lemma change_steps_named:
  assumes "names_kept (cx_E X)" "s \<in> set (change_steps X)"
  shows "keeps (named name) s"
  using assms(2) unfolding change_steps_def
  by (auto intro: install_steps_named remaining_steps_named upgrade_steps_named status_steps_named [OF assms(1)]
      condition_steps_named [OF assms(1)] CreateFinalizerStep_named [OF assms(1)] VolumeExpanderStep_named [OF assms(1)]
      ExportModeStep_named [OF assms(1)])

section \<open>Objects a reconciliation creates belong to their dogu\<close>

text \<open>The deployments, services, claims, policies, pods and registrations that a call creates, with their controlling owner.\<close>

definition controlling_dogu :: "owner_reference list \<Rightarrow> string option" where
  "controlling_dogu os = map_option or_Name (find or_Controller os)"

fun created_object :: "call \<Rightarrow> (object_kind \<times> string \<times> string option) option" where
  "created_object (DeploymentCall (QCreateDeployment x)) = Some (KDeployment, dep_ObjName x, dep_Owner x)"
| "created_object (ServiceCall (QCreateService x)) = Some (KService, svc_Name x, svc_Owner x)"
| "created_object (StorageCall (QCreatePVC x)) = Some (KPersistentVolumeClaim, pvc_Name x, pvc_Owner x)"
| "created_object (NetPolCall (QCreateNetPol x)) = Some (KNetworkPolicy, np_Name x, np_Owner x)"
| "created_object (PodCall (QCreatePod x)) = Some (KPod, pod_Name x, pod_Owner x)"
| "created_object (AuthCall (QCreateAuthReg x)) = Some (KAuthRegistration, ar_Name x, controlling_dogu (ar_Owners x))"
| "created_object _ = None"

definition owned_creation :: "operator_config \<Rightarrow> string \<Rightarrow> event \<Rightarrow> bool" where
  "owned_creation C name e \<longleftrightarrow>
     (case created_object (ev_call e) of
        None \<Rightarrow> True
      | Some (k, x, owner) \<Rightarrow> owner = Some name \<and> k \<in> set (cb_Owns (dogu_controller_builder (oc_AuthRegistrationEnabled C))))"

text \<open>What \<^verbatim>\<open>SetControllerReference\<close> documents for an object without a controller.\<close>

definition lawful_owner :: "lib \<Rightarrow> bool" where
  "lawful_owner L \<longleftrightarrow> (\<forall>d owner. lib_SetControllerReference L d None = Inr owner \<longrightarrow> owner = Some (d_Name d))"

definition creating_effects :: "effect set" where
  "creating_effects = {WCreateDeployment, WService, WCreatePVC, WNetPol, WCreatePod, WAuthReg}"

lemma created_object_effect: "created_object c \<noteq> None \<Longrightarrow> \<exists>f \<in> creating_effects. effect_of c = Some f"
  by (cases c rule: created_object.cases) (auto simp: creating_effects_def)

lemma touches_owned:
  assumes "touches F m" "F \<inter> creating_effects = {}"
  shows "emits (owned_creation C name) m"
proof (rule emits_mono [OF assms(1)])
  fix e assume "within F e"
  with created_object_effect [of "ev_call e"] assms(2) show "owned_creation C name e"
    by (cases "created_object (ev_call e)") (auto simp: owned_creation_def within_def)
qed

lemma owned_creation_simps [simp]:
  "owned_creation C name (Event (CCreateDeployment dep) eo) \<longleftrightarrow> dep_Owner dep = Some name"
  "owned_creation C name (Event (CCreateService svc) eo) \<longleftrightarrow> svc_Owner svc = Some name"
  "owned_creation C name (Event (CCreatePVC c) eo) \<longleftrightarrow> pvc_Owner c = Some name"
  "owned_creation C name (Event (CCreateNetPol np) eo) \<longleftrightarrow> np_Owner np = Some name"
  "owned_creation C name (Event (CCreatePod p) eo) \<longleftrightarrow> pod_Owner p = Some name"
  "owned_creation C name (Event (CCreateAuthReg a) eo) \<longleftrightarrow>
     controlling_dogu (ar_Owners a) = Some name \<and> oc_AuthRegistrationEnabled C"
  by (auto simp: owned_creation_def)

lemma owned_creation_other: "created_object c = None \<Longrightarrow> owned_creation C name (Event c eo)"
  by (simp add: owned_creation_def)

lemma generated_owner:
  assumes "lawful_owner L"
  shows "createPod L stage d n = Inr p \<Longrightarrow> pod_Owner p = Some (d_Name d)"
    "CreateDoguService L d n img = Inr svc \<Longrightarrow> svc_Owner svc = Some (d_Name d)"
    "CreateDoguPVC L d = Inr c \<Longrightarrow> pvc_Owner c = Some (d_Name d)"
    "generateDenyAllPolicy L d n = Inr np \<Longrightarrow> np_Owner np = Some (d_Name d)"
    "generateNetPol L d n dep ty = Inr np \<Longrightarrow> np_Owner np = Some (d_Name d)"
  using assms
  by (auto simp: lawful_owner_def createPod_def CreateDoguService_def CreateDoguPVC_def createPVC_def generateDenyAllPolicy_def
      generateNetPol_def generateNetPolWithOwner_def Let_def split: sum.splits prod.splits)

lemma updateOrInsert_owned:
  assumes "emits (owned_creation C name) get" "emits (owned_creation C name) create" "emits (owned_creation C name) update"
  shows "emits (owned_creation C name) (updateOrInsert (Some t) t get create update)"
  using assms unfolding updateOrInsert_same by (auto intro!: emits_rules)

subsection \<open>Deployments\<close>

lemma CreateDoguDeployment_owner:
  assumes "lawful_owner L"
  shows "spec (CreateDoguDeployment L E G d n)
    (\<lambda>r t. list_all (owned_creation C name) t \<and> (\<forall>dep. r = Inr dep \<longrightarrow> dep_Owner dep = Some (d_Name d)))"
proof -
  have t: "spec (GetPodTemplate L E G d n) (\<lambda>_ t. list_all (owned_creation C name) t)"
    using touches_owned [OF template_rules(1), of "{}"] by (simp add: emits_def)
  show ?thesis
    unfolding CreateDoguDeployment_def updateDoguDeployment_def
    by (rule spec_attempt [OF t])
       (use assms in \<open>auto simp: lawful_owner_def Let_def updateDeploymentSpec_def empty_deployment_def intro!: spec_return split: sum.splits\<close>)
qed

lemma UpsertDoguDeployment_owned:
  assumes "lawful_owner L" "\<And>f dep. patch = Some f \<Longrightarrow> dep_Owner (f dep) = dep_Owner dep"
  shows "emits (owned_creation C (d_Name d)) (UpsertDoguDeployment L E G d n patch)"
proof -
  have up: "emits (owned_creation C (d_Name d)) (check_err (updateOrInsert (Some TDeployment) TDeployment (get_deployment E x) (create_deployment E dep)
      (update_deployment E dep)) throw (ok dep))" if "dep_Owner dep = Some (d_Name d)" for dep x
    using that by (auto simp: io_defs owned_creation_other intro!: emits_rules updateOrInsert_owned)
  show ?thesis
    unfolding UpsertDoguDeployment_def emits_def
  proof (rule spec_attempt [OF CreateDoguDeployment_owner [OF assms(1), where C = C and name = "d_Name d"]])
    fix dep t
    assume "list_all (owned_creation C (d_Name d)) t \<and> (\<forall>x. (Inr dep :: deployment res) = Inr x \<longrightarrow> dep_Owner x = Some (d_Name d))"
    then have t: "list_all (owned_creation C (d_Name d)) t" and o: "dep_Owner (case patch of None \<Rightarrow> dep | Some f \<Rightarrow> f dep) = Some (d_Name d)"
      using assms(2) by (auto split: option.splits)
    from up [OF o, of "d_Name d"] t
    show "spec (let newDeployment = case patch of None \<Rightarrow> dep | Some f \<Rightarrow> f dep in
          check_err (updateOrInsert (Some TDeployment) TDeployment (get_deployment E (d_Name d)) (create_deployment E newDeployment) (update_deployment E newDeployment))
            throw (ok newDeployment)) (\<lambda>_ t'. list_all (owned_creation C (d_Name d)) (t @ t'))"
      unfolding Let_def emits_def by (auto elim!: spec_conseq)
  qed (auto intro!: spec_return)
qed

subsection \<open>Other objects\<close>

lemma PVC_owned:
  assumes "lawful_owner L"
  shows "emits (owned_creation C (d_Name d)) (UpsertDoguPVCs L E d n)"
    "emits (owned_creation C (d_Name d)) (SetControllerReferenceForPVC L E p d)"
proof -
  have up: "emits (owned_creation C (d_Name d)) (updateOrInsert (Some TPersistentVolumeClaim) TPersistentVolumeClaim (get_pvc E x) (create_pvc E c) (update_pvc E c))"
    if "pvc_Owner c = Some (d_Name d)" for c x
    using that by (auto simp: io_defs owned_creation_other intro!: emits_rules updateOrInsert_owned)
  have "emits (owned_creation C (d_Name d)) (upsertPVC E c)" if "pvc_Owner c = Some (d_Name d)" for c
    using up [OF that] unfolding upsertPVC_def waitForExistingPVCToBeTerminated_def get_pvc_def [of E "pvc_Name c"]
    by (auto simp: owned_creation_other io_defs intro!: emits_rules)
  then show "emits (owned_creation C (d_Name d)) (UpsertDoguPVCs L E d n)"
    using generated_owner(3) [OF assms] unfolding UpsertDoguPVCs_def by (auto intro!: emits_rules split: sum.splits)
  show "emits (owned_creation C (d_Name d)) (SetControllerReferenceForPVC L E p d)"
    using assms unfolding SetControllerReferenceForPVC_def
    by (auto simp: Let_def lawful_owner_def intro!: emits_rules up split: sum.splits)
qed

lemma netpol_owned:
  assumes "lawful_owner L"
  shows "emits (owned_creation C (d_Name d)) (UpsertDoguNetworkPolicies L E C' d n svc)"
proof -
  have up: "emits (owned_creation C (d_Name d)) (upsertNetworkPolicy E np)" if "np_Owner np = Some (d_Name d)" for np
    using that unfolding upsertNetworkPolicy_def
    by (auto simp: io_defs owned_creation_other intro!: emits_rules updateOrInsert_owned)
  have gen: "emits (owned_creation C (d_Name d)) (upsert_generated E k m (generateNetPol L d n dep ty))" for k m dep ty
    unfolding upsert_generated_def by (auto intro!: emits_rules up generated_owner(5) [OF assms] split: sum.splits)
  have deps: "emits (owned_creation C (d_Name d)) (upsertNetworkPoliciesForDependencies L E d n ds)" for ds
    by (induction ds)
       (auto simp: upsertDoguDependencyNetworkPolicy_def upsertComponentDependencyNetworkPolicy_def generateDoguDepNetPol_def
          generateComponentDepNetPol_def intro!: emits_rules gen)
  have del: "emits (owned_creation C (d_Name d)) (deletePolicies_loop E ds ps)" for ds ps
    by (induction ps) (auto simp: io_defs owned_creation_other intro!: emits_rules)
  show ?thesis
    unfolding UpsertDoguNetworkPolicies_def deleteNonExistentDependencyPolicies_def upsertServiceAnnotationNetworkPolicy_def
      generateIngressNetPol_def io_defs
    by (auto simp: owned_creation_other intro!: emits_rules up gen deps del generated_owner(4) [OF assms] split: sum.splits)
qed

lemma execpod_Create_owned:
  assumes "lawful_owner L"
  shows "emits (owned_creation C (d_Name d)) (execpod_Create L E stage d n)"
  using generated_owner(1) [OF assms] unfolding execpod_Create_def execpod_Exists_def execpod_getPod_def io_defs
  by (auto simp: owned_creation_other intro!: emits_rules split: sum.splits)

lemma EnsureAuthRegistration_owned:
  assumes "oc_AuthRegistrationEnabled C"
  shows "emits (owned_creation C (d_Name d)) (EnsureAuthRegistration L E d)"
proof -
  have "emits (owned_creation C (d_Name d)) (ensure_registration E (desired_auth_reg d p))" for p
    using assms unfolding ensure_registration_def io_defs
    by (auto simp: owned_creation_other desired_auth_reg_def NewControllerRef_def controlling_dogu_def Let_def intro!: emits_rules)
  moreover have "emits (owned_creation C (d_Name d)) (SyncCredentials L E ar m ty)" for ar m ty
    unfolding SyncCredentials_def writeSensitiveDoguConfig_def io_defs
    by (auto simp: owned_creation_other Let_def intro!: emits_rules)
  moreover have "emits (owned_creation C (d_Name d)) (FetchInstalled E m)" for m
    by (rule touches_owned [OF read_rules(1), of "{}"]) simp
  ultimately show ?thesis unfolding EnsureAuthRegistration_def by (auto intro!: emits_rules)
qed

subsection \<open>Steps\<close>

lemma fetch_owned:
  "emits (owned_creation C name) (FetchInstalled E m)" "emits (owned_creation C name) (FetchForResource L E d)"
  by (rule touches_owned [OF read_rules(1), of "{}"] touches_owned [OF read_rules(2), of "{}"]; simp)+

lemmas owned_rules = emits_rules fetch_owned PVC_owned netpol_owned execpod_Create_owned EnsureAuthRegistration_owned

lemma creating_steps_owned:
  assumes "lawful_owner (cx_L X)"
  shows "emits (owned_creation (cx_C X) (d_Name d)) (AuthRegistrationStep X d)"
    "emits (owned_creation (cx_C X) (d_Name d)) (ServiceStep X d)"
    "emits (owned_creation (cx_C X) (d_Name d)) (CreateExecPodStep X d)"
    "emits (owned_creation (cx_C X) (d_Name d)) (CreateVolumeStep X d)"
    "emits (owned_creation (cx_C X) (d_Name d)) (NetworkPoliciesStep X d)"
    "emits (owned_creation (cx_C X) (d_Name d)) (CreateDeploymentStep X d)"
    "emits (owned_creation (cx_C X) (d_Name d)) (UpdateDeploymentVersionStep X d)"
proof -
  show "emits (owned_creation (cx_C X) (d_Name d)) (AuthRegistrationStep X d)"
    unfolding AuthRegistrationStep_def by (auto intro!: owned_rules)
  have pull: "emits (owned_creation (cx_C X) (d_Name d)) (PullImageConfig (cx_L X) (cx_E X) img)" for img
    by (rule touches_owned [OF image_rules(1), of "{}"]) simp
  have svc: "emits (owned_creation (cx_C X) (d_Name d)) (case CreateDoguService (cx_L X) d n img of
      Inl e \<Rightarrow> fail_with d e | Inr svc \<Rightarrow> check_err (createOrUpdateService (cx_E X) svc) (fail_with d) (continue_with d))" for n img
    using generated_owner(2) [OF assms, of d n img]
    by (cases "CreateDoguService (cx_L X) d n img")
       (auto simp: createOrUpdateService_def io_defs owned_creation_other intro!: emits_rules)
  show "emits (owned_creation (cx_C X) (d_Name d)) (ServiceStep X d)"
    unfolding ServiceStep_def by (intro emits_attempt fetch_owned pull svc) (auto intro!: emits_rules)
  show "emits (owned_creation (cx_C X) (d_Name d)) (CreateExecPodStep X d)"
    "emits (owned_creation (cx_C X) (d_Name d)) (CreateVolumeStep X d)"
    "emits (owned_creation (cx_C X) (d_Name d)) (NetworkPoliciesStep X d)"
    "emits (owned_creation (cx_C X) (d_Name d)) (CreateDeploymentStep X d)"
    using assms unfolding CreateExecPodStep_def CreateVolumeStep_def NetworkPoliciesStep_def CreateDeploymentStep_def io_defs
    by (auto simp: owned_creation_other intro!: owned_rules UpsertDoguDeployment_owned)
  have script: "emits (owned_creation (cx_C X) (d_Name d)) (applyPreUpgradeScript X d v n)" for v n
    by (rule touches_owned [of "{WExec}"])
       (auto simp: applyPreUpgradeScript_def applyPreUpgradeScriptToOlderDogu_def copyPreUpgradeScriptFromPodToPod_def io_defs
          creating_effects_def intro!: emits_rules touch_rules)
  have pods: "emits (owned_creation (cx_C X) (d_Name d)) (execpod_Exists (cx_L X) (cx_E X) n)"
    "emits (owned_creation (cx_C X) (d_Name d)) (execpod_CheckReady (cx_L X) (cx_E X) n)" for n
    by (rule touches_owned [of "{}"]; simp add: manager_read_rules)+
  show "emits (owned_creation (cx_C X) (d_Name d)) (UpdateDeploymentVersionStep X d)"
    unfolding UpdateDeploymentVersionStep_def upgradeDeployment_def io_defs
    by (auto simp: owned_creation_other increaseStartupProbeTimeoutForUpdate_def Let_def
        intro!: owned_rules script pods UpsertDoguDeployment_owned [OF assms])
qed

text \<open>A change of the export mode generates the deployment for the resource that the status update returned.\<close>

lemma updateExportMode_owned:
  assumes "lawful_owner L" "names_kept E"
  shows "emits (owned_creation C (d_Name d)) (updateExportMode L E G d)"
proof -
  have st: "spec (export_updateStatus E d ph a)
      (\<lambda>r t. list_all (owned_creation C (d_Name d)) t \<and> (\<forall>d'. r = Inr d' \<longrightarrow> d_Name d' = d_Name d))" for ph a
    unfolding export_updateStatus_def attempt_def io_defs
    by (intro specI) (auto simp: owned_creation_other split: sum.splits dest: names_keptD(2) [OF assms(2)])
  have up: "emits (owned_creation C (d_Name d)) (attempt (FetchInstalled E m) (\<lambda>e. ret (f e))
      (\<lambda>n. attempt (UpsertDoguDeployment L E G d' n None) (\<lambda>e. ret (g e)) (\<lambda>_. ret x)))"
    if "d_Name d' = d_Name d" for d' m and f g :: "err \<Rightarrow> err option \<times> dogu" and x
    using UpsertDoguDeployment_owned [OF assms(1), of None C d'] that
    by (intro emits_attempt fetch_owned emits_return) (auto intro!: emits_rules)
  have change: "emits (owned_creation C (d_Name d)) (attempt (export_updateStatus E d ph a) (\<lambda>e. ret (h e))
      (\<lambda>d'. attempt (FetchInstalled E (m d')) (\<lambda>e. ret (f d' e))
        (\<lambda>n. attempt (UpsertDoguDeployment L E G d' n None) (\<lambda>e. ret (g d' e)) (\<lambda>_. ret (x d')))))"
    for ph a m h and f g :: "dogu \<Rightarrow> err \<Rightarrow> err option \<times> dogu" and x
    unfolding emits_def
    by (rule spec_attempt [OF st]) (auto intro!: spec_return spec_conseq [OF up [unfolded emits_def]])
  have needed: "emits (owned_creation C (d_Name d)) (deploymentUpdateNeeded E d)"
    unfolding deploymentUpdateNeeded_def io_defs by (auto simp: owned_creation_other intro!: emits_rules)
  show ?thesis
    unfolding updateExportMode_def by (rule emits_attempt [OF needed]) (simp_all add: emits_return change)
qed

lemma ExportModeStep_owned:
  assumes "lawful_owner (cx_L X)" "names_kept (cx_E X)"
  shows "emits (owned_creation (cx_C X) (d_Name d)) (ExportModeStep X d)"
proof -
  have "emits (owned_creation (cx_C X) (d_Name d)) (shouldUpdateExportMode (cx_E X) d)"
    "emits (owned_creation (cx_C X) (d_Name d)) (export_updateStatus (cx_E X) d ph a)" for ph a
    unfolding shouldUpdateExportMode_def isDeploymentInExportMode_def export_updateStatus_def io_defs
    by (auto simp: owned_creation_other intro!: emits_rules)
  then show ?thesis
    unfolding ExportModeStep_def UpdateExportMode_def
    by (auto intro!: emits_rules updateExportMode_owned assms)
qed

lemma change_steps_owned:
  assumes "lawful_owner (cx_L X)" "names_kept (cx_E X)" "s \<in> set (change_steps X)"
  shows "emits (owned_creation (cx_C X) (d_Name d)) (s d)"
  using assms(3) unfolding change_steps_def
  by (auto simp: creating_effects_def intro: creating_steps_owned [OF assms(1)] ExportModeStep_owned [OF assms(1,2)]
      change_step_touches [THEN touches_owned])

subsection \<open>Whole reconciliations\<close>

lemma emits_HandleUntilApplied_named:
  assumes "\<And>s. s \<in> set ss \<Longrightarrow> keeps (named name) s" "\<And>s d. s \<in> set ss \<Longrightarrow> named name d \<Longrightarrow> emits P (s d)" "named name d"
  shows "emits P (HandleUntilApplied ss d)"
  using assms
proof (induction ss arbitrary: d)
  case (Cons s ss)
  have s: "spec (s d) (\<lambda>r t. list_all P t \<and> named name (snd r))"
  proof (rule specI)
    fix h
    obtain r d1 h1 where r: "run_state (s d) h = ((r, d1), h1)" by (metis surj_pair)
    have k: "keeps (named name) s" and e: "emits P (s d)" using Cons.prems by auto
    from emitsD [OF e r] keepsD [OF k _ r] Cons.prems(3) r
    show "\<exists>t. snd (run_state (s d) h) = h @ t \<and> list_all P t \<and> named name (snd (fst (run_state (s d) h)))" by auto
  qed
  have IH: "emits P (HandleUntilApplied ss d')" if "named name d'" for d' using Cons.IH Cons.prems that by auto
  show ?case
    unfolding HandleUntilApplied_step emits_def
    by (rule spec_bind [OF s]) (auto intro!: spec_return spec_conseq [OF IH [unfolded emits_def]])
qed (simp add: emits_return)

lemma deletion_owned: "emits (owned_creation C name) (HandleUntilApplied (delete_steps X) d)"
proof (rule emits_HandleUntilApplied)
  fix s d assume "s \<in> set (delete_steps X)"
  then show "emits (owned_creation C name) (s d)"
    by (auto simp: delete_steps_def creating_effects_def
        intro: touches_owned [OF StatusStep_touches] touches_owned [OF AuthRegistrationRemoverStep_touches]
          touches_owned [OF ServiceAccountRemoverStep_touches] touches_owned [OF DeleteOutOfHealthConfigMapStep_touches]
          touches_owned [OF RemoveDoguConfigStep_touches] touches_owned [OF RemoveFinalizerStep_touches])
qed

lemma dogu_Reconcile_owned:
  assumes "lawful_owner (cx_L X)" "names_kept (cx_E X)"
  shows "emits (owned_creation (cx_C X) name) (dogu_Reconcile X name)"
proof -
  let ?P = "owned_creation (cx_C X) name"
  have change: "emits ?P (HandleUntilApplied (change_steps X) d)" if "named name d" for d
  proof (rule emits_HandleUntilApplied_named [of _ name])
    fix s d' assume "s \<in> set (change_steps X)" "named name d'"
    then show "emits ?P (s d')" using change_steps_owned [OF assms, of s d'] by simp
  qed (use change_steps_named [OF assms(2)] that in auto)
  have finish: "emits ?P (finish_reconcile X name d out)" for d out
    by (rule touches_owned [OF finish_reconcile_touches, of "{WDoguStatus}"]) (simp_all add: creating_effects_def)
  have requeue: "emits ?P (requeue_Handle (cx_E X) (cx_C X) d eo q)" for d eo q
    unfolding requeue_Handle_def handleRequeueEvent_def handleRequeueTime_def io_defs Let_def
    by (auto simp: owned_creation_other intro!: emits_rules)
  have get: "spec (get_dogu (cx_E X) name) (\<lambda>r t. list_all ?P t \<and> (\<forall>d. r = Inr d \<longrightarrow> named name d))"
    unfolding io_defs by (intro specI) (auto simp: owned_creation_other dest: names_keptD(1) [OF assms(2)])
  have start: "emits ?P (record_event a b)" for a b
    unfolding io_defs by (auto simp: owned_creation_other intro!: emits_rules)
  have body: "emits ?P (do {
          _ \<leftarrow> record_event EventTypeNormal ''ReconcileStarted'';
          if d_DeletionTimestamp d = None then do {
            (out, d1) \<leftarrow> HandleUntilApplied (change_steps X) d;
            finish_reconcile X name d1 out
          } else do {
            ((requeueAfter, cont, err), d1) \<leftarrow> HandleUntilApplied (delete_steps X) d;
            if cont then ret (no_requeue, None) else finish_reconcile X name d1 (requeueAfter, cont, IgnoreNotFound err)
          }
        })" if "named name d" for d
    using change [OF that] by (auto intro!: emits_bind emits_if emits_prod emits_return start finish deletion_owned)
  show ?thesis
    unfolding dogu_Reconcile_def emits_def
    by (rule spec_attempt [OF get]; rule spec_conseq [OF requeue [unfolded emits_def]] spec_conseq [OF body [unfolded emits_def]]; simp)
qed

end
