(* ===== verification/Progress.thy ===== *)
theory Progress
  imports Restart
begin

text \<open>
  Restarts come to an end. The cluster of this theory is a store: what it answers about the phase of a restart and about the
  wanted state of its dogu is what was written last, computed from the log of calls. In such a cluster a reconciliation
  of an active restart reaches the next phase or asks to be called again, and as many reconciliations as phases are left
  complete the restart once the dogu does what its spec says.
\<close>

section \<open>A cluster that keeps what was written\<close>

fun store_phase :: "string \<Rightarrow> event \<Rightarrow> restart_phase \<Rightarrow> restart_phase" where
  "store_phase name (Event (CUpdateRestartPhase x q) None) p = (if x = name then q else p)"
| "store_phase name _ p = p"

fun store_order :: "string \<Rightarrow> event \<Rightarrow> bool \<Rightarrow> bool" where
  "store_order name (Event (CUpdateDoguSpec x s) None) b = (if x = name then s_Stopped s else b)"
| "store_order name _ b = b"

definition stored_phase :: "string \<Rightarrow> restart_phase \<Rightarrow> log \<Rightarrow> restart_phase" where
  "stored_phase name p h = fold (store_phase name) h p"

definition stop_ordered :: "string \<Rightarrow> bool \<Rightarrow> log \<Rightarrow> bool" where
  "stop_ordered name b h = fold (store_order name) h b"

lemma stored_simps [simp]:
  "stored_phase x p [] = p" "stop_ordered x b [] = b"
  "stored_phase x p (h @ t) = stored_phase x (stored_phase x p h) t"
  "stop_ordered x b (h @ t) = stop_ordered x (stop_ordered x b h) t"
  "stored_phase x p (e # t) = stored_phase x (store_phase x e p) t"
  "stop_ordered x b (e # t) = stop_ordered x (store_order x e b) t"
  by (simp_all add: stored_phase_def stop_ordered_def)

text \<open>
  Restart \<open>name\<close> of \<open>dogu\<close> can be read with the stored phase, its dogu can be read, and updates succeed.
\<close>

definition restart_store :: "env \<Rightarrow> string \<Rightarrow> string \<Rightarrow> restart_phase \<Rightarrow> bool" where
  "restart_store E name dogu p0 \<longleftrightarrow>
     (\<forall>h. \<exists>r. a_GetRestart (E h) name = Inr r \<and> r_Name r = name \<and> r_DoguName r = dogu \<and> r_Phase r = stored_phase name p0 h) \<and>
     (\<forall>h. \<exists>d. a_GetDogu (E h) dogu = Inr d \<and> d_Name d = dogu) \<and>
     (\<forall>h x p. a_UpdateRestartPhase (E h) x p = Inr ()) \<and> (\<forall>h d f. \<exists>d'. a_UpdateDoguSpec (E h) d f = Inr d')"

text \<open>The dogu controller has brought the dogu into the state that was ordered last.\<close>

definition dogu_follows :: "env \<Rightarrow> string \<Rightarrow> bool \<Rightarrow> bool" where
  "dogu_follows E dogu b \<longleftrightarrow> (\<forall>h d. a_GetDogu (E h) dogu = Inr d \<longrightarrow> t_Stopped (d_Status d) = stop_ordered dogu b h)"

text \<open>While a restart waits for the stop or the start of the dogu, that is what was ordered.\<close>

definition order_fits :: "restart_phase \<Rightarrow> bool \<Rightarrow> bool" where
  "order_fits p b \<longleftrightarrow> (p = PhaseStopping \<longrightarrow> b) \<and> (p = PhaseStarting \<longrightarrow> \<not> b)"

definition waits :: "restart_phase \<Rightarrow> dogu \<Rightarrow> bool" where
  "waits p d \<longleftrightarrow> p = PhaseStopping \<and> \<not> t_Stopped (d_Status d) \<or> p = PhaseStarting \<and> t_Stopped (d_Status d)"

section \<open>Garbage collection writes neither phases nor specs\<close>

definition collects :: "event \<Rightarrow> bool" where
  "collects e \<longleftrightarrow> ev_call e = CListRestarts \<or> (\<exists>x. ev_call e = CDeleteRestart x)"

lemma collects_keeps:
  assumes "list_all collects t"
  shows "stored_phase x p t = p \<and> stop_ordered y b t = b \<and> phases_written t = []"
  using assms
proof (induction t)
  case (Cons e t)
  then show ?case by (cases e) (auto simp: collects_def)
qed simp

lemma delete_restarts_collects: "emits collects (delete_restarts E rs)"
  by (induction rs) (auto simp: io_defs collects_def intro!: emits_rules)

lemma DoGarbageCollection_collects: "emits collects (DoGarbageCollection L E S n)"
  unfolding DoGarbageCollection_def truncateDoguRestartHistory_def getDoguRestartsForDogu_def Let_def
  by (auto simp: io_defs collects_def split: sum.splits intro!: emits_rules delete_restarts_collects)

section \<open>One reconciliation\<close>

definition next_phase :: "restart_phase \<Rightarrow> dogu \<Rightarrow> restart_phase list" where
  "next_phase p d = (if waits p d then [] else take 1 (milestones p))"

text \<open>What the execution of an instruction leaves behind, before garbage is collected.\<close>

lemma execute_store:
  assumes "restart_store E (r_Name r) dogu p0" "ri_Restart i = Some r" "ri_Op i = RestartOperationFromRestartStatusPhase (r_Phase r)"
    and "ri_Op i \<noteq> op_ignore \<longrightarrow> ri_Dogu i = Some d \<and> d_Name d = dogu"
  shows "\<exists>res t. run_state (execute E i) h = (res, h @ t) \<and> snd res = None \<and> phases_written t = next_phase (r_Phase r) d \<and>
    stored_phase (r_Name r) (r_Phase r) t = last (r_Phase r # next_phase (r_Phase r) d) \<and>
    (order_fits (r_Phase r) b \<longrightarrow> order_fits (last (r_Phase r # next_phase (r_Phase r) d)) (stop_ordered dogu b t)) \<and>
    (waits (r_Phase r) d \<longrightarrow> res = (requeue_wait, None))"
proof -
  have up: "a_UpdateRestartPhase (E h) x p = Inr ()" "\<exists>d'. a_UpdateDoguSpec (E h) d f = Inr d'" for h x p f
    using assms(1) by (simp_all add: restart_store_def)
  obtain d' where d': "a_UpdateDoguSpec (E h) d (\<lambda>s. s\<lparr> s_Stopped := True \<rparr>) = Inr d'" using up(2) by blast
  obtain d'' where d'': "a_UpdateDoguSpec (E h) d (\<lambda>s. s\<lparr> s_Stopped := False \<rparr>) = Inr d''" using up(2) by blast
  show ?thesis
    using assms(2-4)
    by (cases "r_Phase r")
       (auto simp: execute_def with_dogu_def with_restart_def checkStartStop_def handleStartStop_def getCheckStartStopAttributes_def
         getHandleStartStopAttributes_def run_check_err updateDoguRestartPhase_def updateDoguSpecStopped_def err_only_def
         io_defs up(1) d' d'' next_phase_def waits_def order_fits_def requeue_wait_def)
qed

lemma restart_Reconcile_store:
  assumes "restart_store E name dogu p0" "stored_phase name p0 h = p"
  shows "\<exists>d h1 res t. a_GetDogu (E h1) dogu = Inr d \<and> stop_ordered dogu b0 h1 = stop_ordered dogu b0 h \<and>
    run_state (restart_Reconcile L E S name) h = (res, h @ t) \<and> phases_written t = next_phase p d \<and>
    stored_phase name p0 (h @ t) = last (p # next_phase p d) \<and>
    (order_fits p (stop_ordered dogu b0 h) \<longrightarrow> order_fits (last (p # next_phase p d)) (stop_ordered dogu b0 (h @ t))) \<and>
    (waits p d \<longrightarrow> res = (requeue_wait, None))"
proof -
  obtain r where r: "a_GetRestart (E h) name = Inr r" "r_Name r = name" "r_DoguName r = dogu" "r_Phase r = p"
    using assms by (auto simp: restart_store_def)
  let ?g = "[Event (CGetRestart name) None]"
  obtain d where d: "a_GetDogu (E (h @ ?g)) dogu = Inr d" "d_Name d = dogu" using assms(1) unfolding restart_store_def by blast
  let ?op = "RestartOperationFromRestartStatusPhase p"
  let ?i = "\<lparr> ri_Op = ?op, ri_Err = None, ri_Restart = Some r, ri_Dogu = (if ?op = op_ignore then None else Some d) \<rparr>"
  let ?t0 = "?g @ (if ?op = op_ignore then [] else [Event (CGetDogu dogu) None])"
  have i: "run_state (createRestartInstruction E name) h = (?i, h @ ?t0)"
    using r d by (simp add: createRestartInstruction_def io_defs)
  obtain result eo t1 where e: "run_state (execute E ?i) (h @ ?t0) = ((result, eo), h @ ?t0 @ t1)" "eo = None"
    and t1: "phases_written t1 = next_phase p d" "stored_phase name p t1 = last (p # next_phase p d)"
      "order_fits p (stop_ordered dogu b0 h) \<longrightarrow> order_fits (last (p # next_phase p d)) (stop_ordered dogu (stop_ordered dogu b0 h) t1)"
      "waits p d \<longrightarrow> result = requeue_wait"
    using execute_store [of E r dogu p0 ?i d "h @ ?t0" "stop_ordered dogu b0 h"] assms(1) r(2,4) d(2) by auto
  have t0: "stored_phase name p0 (h @ ?t0) = p" "stop_ordered dogu b0 (h @ ?t0) = stop_ordered dogu b0 h" "phases_written ?t0 = []"
    using assms(2) by simp_all
  obtain eo2 h2 where "run_state (DoGarbageCollection L E S dogu) (h @ ?t0 @ t1) = (eo2, h2)" by fastforce
  with emitsD [OF DoGarbageCollection_collects this] obtain t2 where
    t2: "run_state (DoGarbageCollection L E S dogu) (h @ ?t0 @ t1) = (eo2, (h @ ?t0 @ t1) @ t2)" "list_all collects t2" by auto
  let ?gc = "\<not> cr_Requeue result \<and> cr_RequeueAfter result = 0"
  define res where "res = (result, if ?gc then wrap_err ''failed to do garbagecollection for dogurestart'' eo2 else None)"
  define t where "t = ?t0 @ t1 @ (if ?gc then t2 else [])"
  have "run_state (restart_Reconcile L E S name) h = (res, h @ t)"
    using i e t2(1) r(3) by (simp add: restart_Reconcile_def res_def t_def)
  moreover have "phases_written t = next_phase p d" "stored_phase name p0 (h @ t) = last (p # next_phase p d)"
    "stop_ordered dogu b0 (h @ t) = stop_ordered dogu (stop_ordered dogu b0 h) t1"
    using t0 t1(1,2) collects_keeps [OF t2(2)] by (simp_all add: t_def del: last.simps)
  moreover have "waits p d \<longrightarrow> res = (requeue_wait, None)"
    using t1(4) by (simp add: res_def requeue_wait_def requeueWaitTimeout_def)
  moreover have "stop_ordered dogu b0 (h @ ?g) = stop_ordered dogu b0 h" by simp
  ultimately show ?thesis
    using d(1) t1(3) by - (rule exI [of _ d], rule exI [of _ "h @ ?g"], rule exI [of _ res], rule exI [of _ t], intro conjI, simp_all only:)
qed

section \<open>Completion\<close>

primrec restart_rounds :: "nat \<Rightarrow> lib \<Rightarrow> env \<Rightarrow> (dogu_restart list \<Rightarrow> dogu_restart list) \<Rightarrow> string \<Rightarrow> unit op" where
  "restart_rounds 0 L E S name = ret ()"
| "restart_rounds (Suc k) L E S name = do { _ \<leftarrow> restart_Reconcile L E S name; restart_rounds k L E S name }"

lemma milestones_tl: "milestones p = q # qs \<Longrightarrow> milestones q = qs"
  by (cases p) auto

lemma restart_rounds_complete:
  assumes "restart_store E name dogu p0" "dogu_follows E dogu b0"
    and "order_fits (stored_phase name p0 h) (stop_ordered dogu b0 h)"
  shows "\<exists>t. snd (run_state (restart_rounds (length (milestones (stored_phase name p0 h))) L E S name) h) = h @ t \<and>
    phases_written t = milestones (stored_phase name p0 h)"
  using assms(3)
proof (induction "milestones (stored_phase name p0 h)" arbitrary: h)
  case Nil
  then show ?case by (simp flip: Nil.hyps)
next
  case (Cons q qs)
  let ?p = "stored_phase name p0 h"
  obtain d h1 res t where d: "a_GetDogu (E h1) dogu = Inr d" "stop_ordered dogu b0 h1 = stop_ordered dogu b0 h"
    and t: "run_state (restart_Reconcile L E S name) h = (res, h @ t)" "phases_written t = next_phase ?p d"
      "stored_phase name p0 (h @ t) = last (?p # next_phase ?p d)"
      "order_fits (last (?p # next_phase ?p d)) (stop_ordered dogu b0 (h @ t))"
    using restart_Reconcile_store [OF assms(1) refl, of b0 h L S] Cons.prems by blast
  have "\<not> waits ?p d" using assms(2) d Cons.prems by (auto simp: waits_def dogu_follows_def order_fits_def)
  then have q: "next_phase ?p d = [q]" by (simp add: next_phase_def flip: Cons.hyps(2))
  have qs: "qs = milestones (stored_phase name p0 (h @ t))" using milestones_tl [OF Cons.hyps(2) [symmetric]] t(3) q by simp
  have "order_fits (stored_phase name p0 (h @ t)) (stop_ordered dogu b0 (h @ t))" using t(3,4) by simp
  from Cons.hyps(1) [OF qs this] obtain t' where
    "snd (run_state (restart_rounds (length qs) L E S name) (h @ t)) = (h @ t) @ t'" "phases_written t' = qs"
    using qs by metis
  then show ?case using t(1,2) q by (intro exI [of _ "t @ t'"]) (simp flip: Cons.hyps(2))
qed

end
