(* ===== verification/Example.thy ===== *)
theory Example
  imports Ownership Progress
begin

text \<open>
  A concrete instance of the parameters: a library, a cluster with one installed dogu, and the dogu itself. The
  properties are applied to it, which shows that their hypotheses can hold together.
\<close>

section \<open>The libraries\<close>

text \<open>Names are \<^verbatim>\<open>namespace/name\<close> and every version is valid; versions are ordered by their length.\<close>

definition simple_part :: "string \<Rightarrow> string" where
  "simple_part s = last (Split CHR ''/'' s)"

definition ex_lib :: lib where
  "ex_lib = \<lparr>
     lib_Getenv = (\<lambda>x. if x = ''NAMESPACE'' then Some ''ecosystem'' else None),
     lib_GetSimpleName = (\<lambda>n. simple_part (n_Name n)),
     lib_GetNamespace = (\<lambda>n. hd (Split CHR ''/'' (n_Name n))),
     lib_GetVersion = (\<lambda>n. Inr (Version (n_Version n))),
     lib_GetDependenciesOfType = (\<lambda>n t. filter (\<lambda>p. dep_Type p = t) (n_Dependencies n)),
     lib_GetOptionalDependenciesOfType = (\<lambda>n t. filter (\<lambda>p. dep_Type p = t) (n_OptionalDependencies n)),
     lib_DescriptorValidateSecurity = (\<lambda>_. None),
     lib_EffectiveCapabilities = (\<lambda>_. []),
     lib_CalcEffectiveCapabilities = (\<lambda>base dropped added. filter (\<lambda>c. c \<notin> set dropped) base @ added),
     lib_DecodeDescriptor = (\<lambda>_. Inl (ErrMsg ''invalid JSON'')),
     lib_GetSimpleNameVersion = (\<lambda>d. Inr \<lparr> snv_Name = simple_part (s_Name (d_Spec d)), snv_Version = Version (s_Version (d_Spec d)) \<rparr>),
     lib_GetSimpleDoguName = (\<lambda>d. simple_part (s_Name (d_Spec d))),
     lib_GetMinDataVolumeSize = (\<lambda>_. Inr (Quantity ''2'')),
     lib_GetDataVolumeName = (\<lambda>d. d_Name d @ ''-data''),
     lib_GetEphemeralDataVolumeName = (\<lambda>d. d_Name d @ ''-ephemeral''),
     lib_GetDoguNameLabel = (\<lambda>d. [(DoguLabelName, d_Name d)]),
     lib_GetPodLabels = (\<lambda>d. [(DoguLabelName, d_Name d), (DoguLabelVersion, s_Version (d_Spec d))]),
     lib_GetPodLabelsWithStatusVersion = (\<lambda>d. [(DoguLabelName, d_Name d), (DoguLabelVersion, t_InstalledVersion (d_Status d))]),
     lib_GetDevelopmentDoguMapName = (\<lambda>d. d_Name d @ ''-descriptor''),
     lib_ResourceValidateSecurity = (\<lambda>_. None),
     lib_SetControllerReference = (\<lambda>d owner. case owner of None \<Rightarrow> Inr (Some (d_Name d))
        | Some o' \<Rightarrow> if o' = d_Name d then Inr owner else Inl (ErrMsg ''already owned'')),
     lib_GVKForDogu = (\<lambda>_. Inr (''Dogu'', DoguAPIVersion)),
     lib_ParseVersion = (\<lambda>s. Inr (Version s)),
     lib_IsOlderThan = (\<lambda>v w. length (Raw v) < length (Raw w)),
     lib_IsNewerThan = (\<lambda>v w. length (Raw w) < length (Raw v)),
     lib_ParseVersionComparator = (\<lambda>s. Inr (\<lambda>v. Inr (length s \<le> length (Raw v)))),
     lib_QualifiedNameFromString = Inr,
     lib_ParseQuantity = (\<lambda>s. Inr (Quantity s)),
     lib_QuantityValue = (\<lambda>q. case Atoi (q_text q) of Inl _ \<Rightarrow> 0 | Inr n \<Rightarrow> n),
     lib_QuantityCmp = (\<lambda>q r. (case Atoi (q_text q) of Inl _ \<Rightarrow> 0 | Inr n \<Rightarrow> n) - (case Atoi (q_text r) of Inl _ \<Rightarrow> 0 | Inr n \<Rightarrow> n)),
     lib_SpecSizeEqual = (\<lambda>_ _. False),
     lib_SetStatusCondition = (\<lambda>cs c. c # filter (\<lambda>x. c_Type x \<noteq> c_Type c) cs),
     lib_ConditionIsFalse = (\<lambda>d t. case find_condition (t_Conditions (d_Status d)) t of None \<Rightarrow> False | Some c \<Rightarrow> c_Status c = ConditionFalse),
     lib_PhaseIsFailed = (\<lambda>p. p \<in> {PhaseDoguNotFound, PhaseFailedGetDogu, PhaseFailedStop, PhaseFailedStart}),
     lib_ConfigSet = (\<lambda>m k v. Inr (AList.update k v m)),
     lib_ConfigDeleteRecursive = (\<lambda>m k. filter (\<lambda>(k', v). \<not> HasPrefix k' k) m),
     lib_ConfigLookup = map_of,
     lib_EncodeCesServices = (\<lambda>_. Inr ''[]''),
     lib_DecodeCesServices = (\<lambda>_. Inr []),
     lib_EncodeExposedPorts = (\<lambda>_. Inr ''[]''),
     lib_ParseURL = (\<lambda>s. Inr \<lparr> url_User = None, url_Hostname = s, url_Port = [] \<rparr>),
     lib_DecodeCredentials = (\<lambda>_. Inr []),
     lib_URLJoinPath = (\<lambda>a b. Inr (a @ ''/'' @ b)),
     lib_FormatTime = (\<lambda>t. Itoa t),
     lib_ParseDuration = (\<lambda>s. Atoi s),
     lib_NewSPDYExecutor = (\<lambda>_. None),
     lib_MatchImageReference = (\<lambda>s. Inr (CHR '' '' \<notin> set s)),
     lib_RetryBound = 1 \<rparr>"

lemma ex_lib_conditions: "lawful_conditions ex_lib"
proof -
  have "find_condition (filter (\<lambda>x. c_Type x \<noteq> c_Type c) cs) t = find_condition cs t" if "t \<noteq> c_Type c" for cs c t
    using that by (induction cs) (auto simp: find_condition_def)
  then show ?thesis unfolding lawful_conditions_def by (auto simp: ex_lib_def find_condition_def)
qed

lemma ex_lib_config: "lawful_config ex_lib"
  by (simp add: lawful_config_def ex_lib_def update_conv')

section \<open>The cluster\<close>

definition no_object :: "'a res" where "no_object = Inl (ErrApi NotFound ''not found'')"
definition no_entry :: "'a res" where "no_entry = Inl (ErrReg RegNotFound ''not found'')"

text \<open>An empty cluster: nothing is found, updates succeed.\<close>

definition bare_cluster :: cluster where
  "bare_cluster = \<lparr>
     a_GetDogu = (\<lambda>_. no_object),
     a_ListDogus = (no_object),
     a_UpdateDogu = (\<lambda>d. Inr d),
     a_GetDeployment = (\<lambda>_. no_object),
     a_ListDeployments = (\<lambda>_. no_object),
     a_CreateDeployment = (\<lambda>_. no_object),
     a_UpdateDeployment = (\<lambda>d. Inr d),
     a_GetScale = (\<lambda>_. no_object),
     a_UpdateScale = (\<lambda>_ _. no_object),
     a_GetPod = (\<lambda>_. no_object),
     a_ListPods = (\<lambda>_. no_object),
     a_GetPodForLabels = (\<lambda>_. no_object),
     a_CreatePod = (\<lambda>_. no_object),
     a_DeletePods = (\<lambda>_. no_object),
     a_GetService = (\<lambda>_. no_object),
     a_ListServices = (\<lambda>_ _. no_object),
     a_CreateService = (\<lambda>_. no_object),
     a_UpdateService = (\<lambda>_. no_object),
     a_GetPVC = (\<lambda>_. no_object),
     a_CreatePVC = (\<lambda>_. no_object),
     a_UpdatePVC = (\<lambda>_. no_object),
     a_GetConfigMap = (\<lambda>_. no_object),
     a_CreateConfigMap = (\<lambda>_. no_object),
     a_UpdateConfigMap = (\<lambda>_. no_object),
     a_DeleteConfigMap = (\<lambda>_. no_object),
     a_GetSecret = (\<lambda>_. no_object),
     a_GetNetPol = (\<lambda>_. no_object),
     a_ListNetPols = (\<lambda>_. no_object),
     a_CreateNetPol = (\<lambda>_. no_object),
     a_UpdateNetPol = (\<lambda>_. no_object),
     a_DeleteNetPol = (\<lambda>_. no_object),
     a_DeleteNetPols = (\<lambda>_. no_object),
     a_GetCurrent = (\<lambda>_. no_entry),
     a_IsEnabled = (\<lambda>_. no_object),
     a_EnableVersion = (\<lambda>_. no_object),
     a_GetDescriptor = (\<lambda>_. no_entry),
     a_AddDescriptor = (\<lambda>_ _. no_object),
     a_DeleteDescriptors = (\<lambda>_. no_object),
     a_GetRemoteDescriptor = (\<lambda>_ _. no_object),
     a_ConfigGet = (\<lambda>_ _. no_entry),
     a_ConfigCreate = (\<lambda>_ _. no_object),
     a_ConfigUpdate = (\<lambda>_ _. no_object),
     a_ConfigSaveOrMerge = (\<lambda>_ _. no_object),
     a_ConfigDelete = (\<lambda>_ _. no_entry),
     a_SetOwnerReference = (\<lambda>_ _ _. no_object),
     a_GlobalConfigGet = (no_object),
     a_Exec = (\<lambda>_ _. no_object),
     a_Http = (\<lambda>_. no_object),
     a_PullImage = (\<lambda>_ _. no_object),
     a_ImageConfigFile = (\<lambda>_ _. no_object),
     a_ApplyYaml = (\<lambda>_ _. no_object),
     a_GetAuthReg = (\<lambda>_. no_object),
     a_CreateAuthReg = (\<lambda>_. no_object),
     a_UpdateAuthReg = (\<lambda>_. no_object),
     a_DeleteAuthReg = (\<lambda>_. no_object),
     a_GetRestart = (\<lambda>_. no_object),
     a_ListRestarts = (no_object),
     a_UpdateRestartPhase = (\<lambda>_ _. no_object),
     a_DeleteRestart = (\<lambda>_. no_object),
     a_HostAliases = (Inr []),
     a_UpdateDoguStatus = (\<lambda>d f. Inr (d\<lparr> d_Status := f (d_Status d) \<rparr>)),
     a_UpdateDoguSpec = (\<lambda>d f. Inr (d\<lparr> d_Spec := f (d_Spec d) \<rparr>)),
     a_Now = (0) \<rparr>"

lemma bare_cluster_status: "status_update_lawful (\<lambda>_. bare_cluster)"
  by (simp add: status_update_lawful_def bare_cluster_def) blast

section \<open>A dogu\<close>

definition ex_volume :: dvolume where
  "ex_volume = \<lparr> v_Name = ''data'', v_Path = ''/var/lib/data'', v_Owner = ''1000'', v_Group = ''1000'', v_NeedsBackup = True, v_Clients = [] \<rparr>"

definition ex_descriptor :: descriptor where
  "ex_descriptor = \<lparr> n_Name = ''official/redmine'', n_Version = ''5.1'', n_Image = ''registry/redmine'', n_Volumes = [ex_volume],
     n_Dependencies = [\<lparr> dep_Type = ''dogu'', dep_Name = ''postgresql'', dep_Version = [] \<rparr>], n_OptionalDependencies = [],
     n_ServiceAccounts = [\<lparr> sa_Type = ''postgresql'', sa_Kind = [], sa_Params = [] \<rparr>],
     n_HealthChecks = [], n_ExposedPorts = [], n_ExposedCommands = [\<lparr> ec_Name = ''pre-upgrade'', ec_Command = ''/pre-upgrade.sh'' \<rparr>],
     n_Configuration = [], n_RunAsNonRoot = False, n_ReadOnlyRootFS = False \<rparr>"

definition ex_dogu :: dogu where
  "ex_dogu = empty_dogu\<lparr> d_Name := ''redmine'', d_Namespace := ''ecosystem'',
     d_Spec := empty_spec\<lparr> s_Name := ''official/redmine'', s_Version := ''5.1'' \<rparr> \<rparr>"

definition ex_pvc :: pvc where
  "ex_pvc = \<lparr> pvc_Name = ''redmine'', pvc_Namespace = ''ecosystem'', pvc_Labels = [], pvc_Owner = None, pvc_DeletionTimestamp = None,
     pvc_StorageClassName = None, pvc_AccessModes = [], pvc_RequestStorage = Quantity ''3'', pvc_CapacityStorage = Quantity ''3'' \<rparr>"

definition ex_restart :: "string \<Rightarrow> restart_phase \<Rightarrow> int \<Rightarrow> dogu_restart" where
  "ex_restart x p t = \<lparr> r_Name = x, r_DoguName = ''redmine'', r_Phase = p, r_CreationTimestamp = t \<rparr>"

definition ex_config :: operator_config where
  "ex_config = \<lparr> oc_Namespace = ''ecosystem'',
     oc_DoguRegistry = \<lparr> dr_Endpoint = [], dr_Username = [], dr_Password = [], dr_URLSchema = [] \<rparr>, oc_Version = Version ''3.0'',
     oc_NetworkPoliciesEnabled = True, oc_AuthRegistrationEnabled = False, oc_DisablePostfixDependencyCheck = False,
     oc_RequeueTime = 5 \<rparr>"

definition ex_images :: config_map where
  "ex_images = \<lparr> cm_Name = OperatorAdditionalImagesConfigmapName, cm_Data =
     [(''chownInitImage'', ''busybox''), (''exporterImage'', ''exporter''), (''additionalMountsInitContainerImage'', ''mounts'')] \<rparr>"

definition ex_generator :: generator where
  "ex_generator = \<lparr> g_AdditionalImages = cm_Data ex_images, g_Stage = ''production'' \<rparr>"

text \<open>The cluster with the additional images, the descriptor of the dogu and an installed, healthy dependency.\<close>

definition ex_cluster :: cluster where
  "ex_cluster = bare_cluster\<lparr>
     a_GetDogu := (\<lambda>x. if x = ''redmine'' then Inr ex_dogu
        else if x = ''postgresql'' then Inr (ex_dogu\<lparr> d_Name := x, d_Status := empty_status\<lparr> t_Health := AvailableHealthStatus \<rparr> \<rparr>) else no_object),
     a_GetCurrent := (\<lambda>x. Inr \<lparr> snv_Name = x, snv_Version = Version ''5.1'' \<rparr>),
     a_GetDescriptor := (\<lambda>v. if snv_Name v = ''redmine'' then Inr ex_descriptor
        else Inr (ex_descriptor\<lparr> n_Name := ''official/postgresql'', n_Dependencies := [] \<rparr>)),
     a_ConfigGet := (\<lambda>_ x. Inr \<lparr> cfg_DoguName = x, cfg_Entries = [], cfg_LastUpdated = 0 \<rparr>),
     a_GetConfigMap := (\<lambda>x. if x = OperatorAdditionalImagesConfigmapName then Inr ex_images else no_object),
     a_CreateConfigMap := Inr,
     a_UpdateConfigMap := Inr \<rparr>"

definition ex_ctx :: ctx where
  "ex_ctx = \<lparr> cx_L = ex_lib, cx_E = (\<lambda>_. ex_cluster), cx_C = ex_config, cx_G = ex_generator, cx_Fuel = 5 \<rparr>"

lemma ex_ctx_sel [simp]: "cx_L ex_ctx = ex_lib" "cx_E ex_ctx = (\<lambda>_. ex_cluster)" "cx_C ex_ctx = ex_config"
  "cx_G ex_ctx = ex_generator" "cx_Fuel ex_ctx = 5"
  by (simp_all add: ex_ctx_def)

lemma ex_cluster_status: "status_update_lawful (\<lambda>_. ex_cluster)"
  using bare_cluster_status by (simp add: status_update_lawful_def ex_cluster_def)

lemmas ex_defs = ex_lib_def simple_part_def no_object_def no_entry_def bare_cluster_def ex_volume_def ex_descriptor_def
  ex_dogu_def ex_config_def ex_images_def ex_generator_def ex_cluster_def empty_dogu_def empty_spec_def empty_status_def empty_security_def

section \<open>What is generated for the dogu\<close>

definition ex_template :: pod_template where
  "ex_template = projr (fst (run_state (GetPodTemplate ex_lib (\<lambda>_. ex_cluster) ex_generator ex_dogu ex_descriptor) []))"

definition ex_template_log :: log where
  "ex_template_log = snd (run_state (GetPodTemplate ex_lib (\<lambda>_. ex_cluster) ex_generator ex_dogu ex_descriptor) [])"

lemma ex_template_run:
  "run_state (GetPodTemplate ex_lib (\<lambda>_. ex_cluster) ex_generator ex_dogu ex_descriptor) [] = (Inr ex_template, ex_template_log)"
proof -
  have "\<not> isl (fst (run_state (GetPodTemplate ex_lib (\<lambda>_. ex_cluster) ex_generator ex_dogu ex_descriptor) []))" by code_simp
  then show ?thesis by (simp add: prod_eq_iff ex_template_def ex_template_log_def)
qed

definition ex_probe :: probe where
  "ex_probe = \<lparr> pr_Handler = TCPProbe 8080, pr_TimeoutSeconds = 1, pr_PeriodSeconds = 10, pr_SuccessThreshold = 1, pr_FailureThreshold = 180 \<rparr>"

definition ex_container :: container where
  "ex_container = \<lparr> k_Name = ''redmine'', k_Image = [], k_Command = [], k_Args = [], k_Env = [], k_VolumeMounts = [], k_LivenessProbe = None,
     k_ReadinessProbe = None, k_StartupProbe = Some ex_probe, k_ImagePullPolicy = [],
     k_Resources = \<lparr> rq_Limits = [], rq_Requests = [] \<rparr>, k_SecurityContext = None, k_TerminationMessagePath = [], k_TerminationMessagePolicy = [] \<rparr>"

text \<open>Clusters in which a restart in the given phase is reconciled, the dogu being stopped or not; the last one refuses to stop it.\<close>

definition ex_restarting :: "restart_phase \<Rightarrow> bool \<Rightarrow> bool \<Rightarrow> cluster" where
  "ex_restarting p stopped refuse = ex_cluster\<lparr> a_GetRestart := (\<lambda>x. Inr (ex_restart x p 0)),
     a_GetDogu := (\<lambda>x. Inr (ex_dogu\<lparr> d_Status := (d_Status ex_dogu)\<lparr> t_Stopped := stopped \<rparr> \<rparr>)),
     a_UpdateDoguSpec := (\<lambda>d f. if refuse then Inl (ErrApi OtherReason ''timeout'') else Inr d) \<rparr>"

lemma ex_phase_change:
  assumes "q \<in> set (phases_written (snd (run_state (restart_Reconcile ex_lib (\<lambda>_. ex_restarting p stopped refuse) sort_restarts ''r'') [])))"
  shows "phase_change ex_lib sort_restarts p q"
  unfolding phase_change_def
  by (rule exI [of _ "\<lambda>_. ex_restarting p stopped refuse"], rule exI [of _ "[]"], rule exI [of _ "''r''"], rule exI [of _ "ex_restart ''r'' p 0"])
     (use assms in \<open>simp add: ex_restarting_def ex_restart_def\<close>)

lemma ex_phase_changes:
  "phase_change ex_lib sort_restarts PhaseNew PhaseFailedStop"
  "phase_change ex_lib sort_restarts PhaseFailedStop PhaseStopping"
  "phase_change ex_lib sort_restarts PhaseStopping PhaseStopped"
  "phase_change ex_lib sort_restarts PhaseStopped PhaseStarting"
  "phase_change ex_lib sort_restarts PhaseStarting PhaseCompleted"
  subgoal by (rule ex_phase_change [where stopped = False and refuse = True]) code_simp
  subgoal by (rule ex_phase_change [where stopped = False and refuse = False]) code_simp
  subgoal by (rule ex_phase_change [where stopped = True and refuse = False]) code_simp
  subgoal by (rule ex_phase_change [where stopped = True and refuse = False]) code_simp
  subgoal by (rule ex_phase_change [where stopped = False and refuse = False]) code_simp
  done

text \<open>A cluster that keeps what is written about a new restart, with a dogu that follows its spec at once.\<close>

definition ex_store :: env where
  "ex_store h = ex_cluster\<lparr> a_GetRestart := (\<lambda>x. Inr (ex_restart x (stored_phase x PhaseNew h) 0)),
     a_GetDogu := (\<lambda>x. Inr (ex_dogu\<lparr> d_Name := x, d_Status := (d_Status ex_dogu)\<lparr> t_Stopped := stop_ordered x False h \<rparr> \<rparr>)),
     a_UpdateRestartPhase := (\<lambda>_ _. Inr ()) \<rparr>"

lemma ex_store_keeps: "restart_store ex_store ''r'' ''redmine'' PhaseNew" "dogu_follows ex_store ''redmine'' False"
  by (simp_all add: restart_store_def dogu_follows_def ex_store_def ex_restart_def ex_cluster_def bare_cluster_def)

section \<open>A first reconciliation\<close>

text \<open>The cluster in which the service and the exec pod of the dogu are still missing, and accounts exist.\<close>

definition ex_installing :: cluster where
  "ex_installing = ex_cluster\<lparr>
     a_SetOwnerReference := (\<lambda>_ _ _. Inr ()), a_IsEnabled := (\<lambda>_. Inr True), a_PullImage := (\<lambda>_ _. Inr ()),
     a_ImageConfigFile := (\<lambda>_ _. Inr \<lparr> ic_Env = [], ic_Labels = [], ic_ExposedPorts = [''80/tcp''] \<rparr>),
     a_ConfigGet := (\<lambda>_ x. Inr \<lparr> cfg_DoguName = x, cfg_Entries = [(''sa-postgresql/username'', ''u'')], cfg_LastUpdated = 0 \<rparr>),
     a_CreateService := Inr \<rparr>"

definition ex_log :: log where
  "ex_log = snd (run_state (dogu_Reconcile (ex_ctx\<lparr> cx_E := (\<lambda>_. ex_installing) \<rparr>) ''redmine'') [])"

lemma ex_log_service:
  "\<exists>e \<in> set ex_log. created_object (ev_call e) = Some (KService, ''redmine'', Some ''redmine'')"
proof -
  have "list_ex (\<lambda>e. created_object (ev_call e) = Some (KService, ''redmine'', Some ''redmine'')) ex_log" by code_simp
  then show ?thesis by (simp add: list_ex_iff)
qed

lemma ex_names_kept: "names_kept (\<lambda>_. ex_installing)"
  by (auto simp: names_kept_def ex_installing_def ex_cluster_def bare_cluster_def ex_dogu_def no_object_def split: if_splits)

lemma ex_lawful_owner: "lawful_owner ex_lib"
  by (simp add: lawful_owner_def ex_lib_def)

text \<open>The requests of a controller, as documented.\<close>

definition ex_requests :: "controller_builder \<Rightarrow> object_event \<Rightarrow> string set" where
  "ex_requests b e =
     (if \<not> filter_passes (cb_EventFilter b) e then {}
      else (if oe_Kind e = cb_For b \<and> \<not> (cb_GenerationChanged b \<and> oe_Type e = UpdateEvent \<and> oe_Generation e = oe_OldGeneration e)
              then {oe_Name e} else {}) \<union>
           (case oe_Owner e of Some (k, x) \<Rightarrow> if k = cb_For b \<and> oe_Kind e \<in> set (cb_Owns b) then {x} else {} | None \<Rightarrow> {}))"

lemma ex_requests_lawful: "lawful_requests ex_requests"
  by (auto simp: lawful_requests_def ex_requests_def split: option.splits)

end
