(* ===== verification/Wiring.thy ===== *)
theory Wiring
  imports Startup "HOL-Library.Multiset"
begin

text \<open>
  The program entry (\<^verbatim>\<open>main.go\<close>): the table of constructors the operator hands to its dependency injection container, and
  the clients of \<^verbatim>\<open>initfx/k8s.go\<close>. The container knows a value by its Go type and, where there is one, by the name of its tag; it
  calls a constructor once all the parameters are there. Lemmas: the table provides no value twice, and there is an order in
  which every constructor finds its parameters.
\<close>

section \<open>Values of the container\<close>

text \<open>
  The Go types that are parameters or results of a constructor, by package; the prefix is the name of the package in
  \<^verbatim>\<open>main.go\<close>. Types of small packages share a datatype. A pointer to a type is written like the type, as no table entry
  has both, and the three types of the event channel are named after their constructors.
\<close>

datatype part_type =
    config_Version
  | config_OperatorConfig
  | authregistration_Manager
  | dependency_Validator
  | security_Validator
  | additionalMount_Validator
  | imageregistry_ImageRegistry
  | upgrade_Checker

datatype base_type =
    logr_Logger
  | fx_Lifecycle

datatype initfx_type =
    initfx_Args
  | initfx_CollectApplier
  | initfx_LocalDoguDescriptorRepository
  | initfx_OwnerReferenceSetter
  | initfx_DoguConfigRepository

datatype runtime_type =
    ctrlMan_Options
  | ctrlMan_Manager
  | client_Client

datatype k8s_type =
    rest_Config
  | runtime_Scheme
  | kubernetes_Interface
  | rest_Interface
  | v1_ConfigMapInterface
  | v1_SecretInterface
  | appsv1_DeploymentInterface
  | v1_PodInterface
  | v1_ServiceInterface
  | v1_PersistentVolumeClaimInterface
  | record_EventRecorder

datatype lib_type =
    repository_ConfigMapClient
  | repository_SecretClient
  | doguClient_EcoSystemV2Interface
  | doguClient_DoguInterface
  | doguClient_DoguRestartInterface
  | authRegClientV1_ApiV1Interface
  | authRegClientV1_AuthRegistrationInterface
  | dogu_VersionRegistry
  | dogu_LocalDoguDescriptorRepository
  | dogu_RemoteDoguDescriptorRepository

datatype health_type =
    health_HealthShutdownHandler
  | health_DeploymentAvailabilityChecker
  | health_DoguHealthStatusUpdater
  | health_DoguHealthChecker
  | health_StartupHandler
  | health_ShutdownHandler

datatype controllers_type =
    controllers_RequeueHandler
  | controllers_DoguRestartGarbageCollector
  | controllers_DoguEvents
  | controllers_DoguEventsIn
  | controllers_DoguEventsOut
  | controllers_DoguDeleteUseCase
  | controllers_DoguInstallOrChangeUseCase
  | controllers_DoguReconciler
  | controllers_GlobalConfigReconciler
  | controllers_DoguRestartReconciler

datatype resource_type =
    resource_CollectApplier
  | resource_AdditionalImages
  | resource_GlobalConfigRepository
  | resource_DoguConfigRepository
  | resource_RequirementsGenerator
  | resource_HostAliasGenerator
  | resource_SecurityContextGenerator
  | resource_DoguResourceGenerator
  | resource_ResourceUpserter

datatype work_type =
    exec_CommandExecutor
  | exec_ExecPodFactory
  | exec_FileExtractor
  | serviceaccount_SensitiveDoguConfigRepository
  | serviceaccount_ServiceAccountCreator
  | serviceaccount_ServiceAccountRemover

datatype registry_type =
    cesregistry_LocalDoguFetcher
  | cesregistry_ResourceDoguFetcher
  | cesregistry_DoguRegistrator

datatype upgrade_steps_type =
    upgradeSteps_ResourceUpserter
  | upgradeSteps_RestartAfterConfigChangeStep
  | upgradeSteps_PreUpgradeStatusStep
  | upgradeSteps_RegisterDoguVersionStep
  | upgradeSteps_UpdateDeploymentVersionStep
  | upgradeSteps_DeleteExecPodStep
  | upgradeSteps_PostUpgradeStep
  | upgradeSteps_InstalledVersionStep
  | upgradeSteps_RegenerateDeploymentStep
  | upgradeSteps_UpdateStartedAtStep
  | upgradeSteps_RetroactiveServiceAccountStep

datatype manager_type =
    manager_DoguRestartManager
  | manager_DoguExportManager
  | manager_SupportManager
  | manager_AdditionalMountManager
  | manager_DeploymentManager

datatype install_type =
    install_ConditionUpdater
  | install_InitializeConditionsStep
  | install_HealthCheckStep
  | install_FetchRemoteDoguDescriptorStep
  | install_ValidationStep
  | install_PauseReconciliationStep
  | install_CreateFinalizerStep
  | install_CreateDoguConfigStep
  | install_DoguConfigOwnerReferenceStep
  | install_CreateSensitiveDoguConfigStep
  | install_SensitiveDoguConfigOwnerReferenceStep
  | install_RegisterDoguVersionStep
  | install_LocalDoguDescriptorOwnerReferenceStep
  | install_RemoveServiceAccountStep
  | install_AuthRegistrationStep
  | install_ServiceAccountStep
  | install_ServiceStep
  | install_CreateExecPodStep
  | install_CustomK8sResourceStep
  | install_CreateVolumeStep
  | install_NetworkPoliciesStep
  | install_CreateDeploymentStep

datatype deletion_type =
    deletion_StatusStep
  | deletion_AuthRegistrationRemoverStep
  | deletion_ServiceAccountRemoverStep
  | deletion_DeleteOutOfHealthConfigMapStep
  | deletion_RemoveSensitiveDoguConfigStep
  | deletion_RemoveFinalizerStep

datatype postinstall_type =
    postinstall_StartStopStep
  | postinstall_VolumeExpanderStep
  | postinstall_MismatchedStorageClassWarningStep
  | postinstall_SecurityContextStep
  | postinstall_ExportModeStep
  | postinstall_SupportModeStep
  | postinstall_AdditionalMountsStep

datatype key =
    PartType part_type
  | BaseType base_type
  | InitfxType initfx_type
  | RuntimeType runtime_type
  | K8sType k8s_type
  | LibType lib_type
  | HealthType health_type
  | ControllersType controllers_type
  | ResourceType resource_type
  | WorkType work_type
  | RegistryType registry_type
  | UpgradeStepsType upgrade_steps_type
  | ManagerType manager_type
  | InstallType install_type
  | DeletionType deletion_type
  | PostinstallType postinstall_type
  | Tag string key

section \<open>Providers\<close>

text \<open>
  A provider is a constructor as annotated: \<^verbatim>\<open>fx.ParamTags\<close> tags its parameters, \<^verbatim>\<open>fx.As\<close> replaces its result by interfaces
  and \<^verbatim>\<open>fx.ResultTags\<close> tags them; an error result is no value of the container. The parameters of the constructors that are
  not the operator's own (\<^verbatim>\<open>ctrl.GetConfig\<close> and the repositories of the registry library) are arguments of the table.
\<close>

datatype provider = Provider (pv_Func: string) (pv_Needs: "key list") (pv_Gives: "key list")

definition base_providers :: "provider list" where
  "base_providers =
    [Provider ''newVersion'' [] [PartType config_Version],
     Provider ''logging.NewLogger'' [] [BaseType logr_Logger],
     Provider ''initfx.NewOperatorConfig'' [PartType config_Version] [PartType config_OperatorConfig],
     Provider ''initfx.GetArgs'' [] [InitfxType initfx_Args]]"

definition k8s_providers :: "key list \<Rightarrow> provider list" where
  "k8s_providers cfg =
    [Provider ''initfx.NewManagerOptions''
       [InitfxType initfx_Args, PartType config_OperatorConfig]
       [RuntimeType ctrlMan_Options],
     Provider ''ctrl.GetConfig'' cfg [K8sType rest_Config],
     Provider ''initfx.NewScheme'' [RuntimeType ctrlMan_Manager] [K8sType runtime_Scheme],
     Provider ''initfx.NewK8sClient'' [RuntimeType ctrlMan_Manager] [RuntimeType client_Client],
     Provider ''initfx.NewKubernetesClientSet'' [K8sType rest_Config] [K8sType kubernetes_Interface],
     Provider ''initfx.NewRestClient'' [K8sType kubernetes_Interface] [K8sType rest_Interface],
     Provider ''initfx.NewConfigMapInterface''
       [K8sType kubernetes_Interface, PartType config_OperatorConfig]
       [K8sType v1_ConfigMapInterface, LibType repository_ConfigMapClient],
     Provider ''initfx.NewSecretInterface''
       [K8sType kubernetes_Interface, PartType config_OperatorConfig]
       [K8sType v1_SecretInterface, LibType repository_SecretClient],
     Provider ''initfx.NewDeploymentInterface''
       [K8sType kubernetes_Interface, PartType config_OperatorConfig]
       [K8sType appsv1_DeploymentInterface],
     Provider ''initfx.NewPodInterface''
       [K8sType kubernetes_Interface, PartType config_OperatorConfig]
       [K8sType v1_PodInterface],
     Provider ''initfx.NewServiceInterface''
       [K8sType kubernetes_Interface, PartType config_OperatorConfig]
       [K8sType v1_ServiceInterface],
     Provider ''initfx.NewPersistentVolumeClaimInterface''
       [K8sType kubernetes_Interface, PartType config_OperatorConfig]
       [K8sType v1_PersistentVolumeClaimInterface],
     Provider ''initfx.NewEcoSystemClientSet'' [K8sType rest_Config] [LibType doguClient_EcoSystemV2Interface],
     Provider ''initfx.NewDoguInterface''
       [LibType doguClient_EcoSystemV2Interface, PartType config_OperatorConfig]
       [LibType doguClient_DoguInterface],
     Provider ''initfx.NewDoguRestartInterface''
       [LibType doguClient_EcoSystemV2Interface, PartType config_OperatorConfig]
       [LibType doguClient_DoguRestartInterface],
     Provider ''initfx.NewAuthRegistrationClientSet'' [K8sType rest_Config] [LibType authRegClientV1_ApiV1Interface],
     Provider ''initfx.NewAuthRegistrationInterface''
       [LibType authRegClientV1_ApiV1Interface, PartType config_OperatorConfig]
       [LibType authRegClientV1_AuthRegistrationInterface],
     Provider ''health.NewShutdownHandler''
       [LibType doguClient_DoguInterface]
       [HealthType health_HealthShutdownHandler],
     Provider ''initfx.NewControllerManager''
       [BaseType fx_Lifecycle, BaseType logr_Logger, RuntimeType ctrlMan_Options, K8sType rest_Config,
        HealthType health_HealthShutdownHandler]
       [RuntimeType ctrlMan_Manager],
     Provider ''initfx.NewEventRecorder'' [RuntimeType ctrlMan_Manager] [K8sType record_EventRecorder],
     Provider ''controllers.NewDoguRequeueHandler''
       [LibType doguClient_DoguInterface, K8sType record_EventRecorder, PartType config_OperatorConfig]
       [ControllersType controllers_RequeueHandler]]"

definition own_providers :: "key list \<Rightarrow> key list \<Rightarrow> key list \<Rightarrow> provider list" where
  "own_providers glob dconf sconf =
    [Provider ''health.NewAvailabilityChecker'' [] [HealthType health_DeploymentAvailabilityChecker],
     Provider ''health.NewDoguStatusUpdater''
       [K8sType record_EventRecorder, K8sType v1_ConfigMapInterface, K8sType v1_PodInterface]
       [HealthType health_DoguHealthStatusUpdater],
     Provider ''initfx.NewCollectApplier''
       [K8sType rest_Config]
       [InitfxType initfx_CollectApplier, ResourceType resource_CollectApplier],
     Provider ''initfx.GetAdditionalImages'' [K8sType v1_ConfigMapInterface] [ResourceType resource_AdditionalImages],
     Provider ''initfx.NewCommandExecutor''
       [RuntimeType client_Client, K8sType rest_Config, K8sType kubernetes_Interface, K8sType rest_Interface]
       [WorkType exec_CommandExecutor],
     Provider ''exec.NewExecPodFactory''
       [RuntimeType client_Client, WorkType exec_CommandExecutor]
       [WorkType exec_ExecPodFactory],
     Provider ''exec.NewPodFileExtractor'' [WorkType exec_ExecPodFactory] [WorkType exec_FileExtractor],
     Provider ''initfx.NewDoguVersionRegistry'' [K8sType v1_ConfigMapInterface] [LibType dogu_VersionRegistry],
     Provider ''initfx.NewLocalDoguDescriptorRepository''
       [K8sType v1_ConfigMapInterface]
       [LibType dogu_LocalDoguDescriptorRepository, InitfxType initfx_LocalDoguDescriptorRepository],
     Provider ''initfx.NewLocalDoguDescriptorRepository''
       [K8sType v1_ConfigMapInterface]
       [Tag ''localDoguDescriptorRepository'' (InitfxType initfx_OwnerReferenceSetter)],
     Provider ''initfx.NewLocalDoguFetcher''
       [LibType dogu_VersionRegistry, LibType dogu_LocalDoguDescriptorRepository]
       [RegistryType cesregistry_LocalDoguFetcher],
     Provider ''repository.NewGlobalConfigRepository'' glob [ResourceType resource_GlobalConfigRepository],
     Provider ''repository.NewDoguConfigRepository'' dconf [ResourceType resource_DoguConfigRepository],
     Provider ''repository.NewDoguConfigRepository''
       dconf
       [Tag ''normalDoguConfig'' (InitfxType initfx_DoguConfigRepository),
        Tag ''normalDoguConfig'' (InitfxType initfx_OwnerReferenceSetter)],
     Provider ''repository.NewSensitiveDoguConfigRepository''
       sconf
       [WorkType serviceaccount_SensitiveDoguConfigRepository],
     Provider ''repository.NewSensitiveDoguConfigRepository''
       sconf
       [Tag ''sensitiveDoguConfig'' (InitfxType initfx_DoguConfigRepository),
        Tag ''sensitiveDoguConfig'' (InitfxType initfx_OwnerReferenceSetter)],
     Provider ''serviceaccount.NewCreator''
       [WorkType serviceaccount_SensitiveDoguConfigRepository, RegistryType cesregistry_LocalDoguFetcher,
        WorkType exec_CommandExecutor, RuntimeType client_Client, K8sType kubernetes_Interface,
        PartType config_OperatorConfig]
       [WorkType serviceaccount_ServiceAccountCreator],
     Provider ''serviceaccount.NewRemover''
       [WorkType serviceaccount_SensitiveDoguConfigRepository, RegistryType cesregistry_LocalDoguFetcher,
        WorkType exec_CommandExecutor, RuntimeType client_Client, K8sType kubernetes_Interface,
        PartType config_OperatorConfig]
       [WorkType serviceaccount_ServiceAccountRemover],
     Provider ''authregistration.NewManager''
       [LibType authRegClientV1_AuthRegistrationInterface, K8sType v1_SecretInterface,
        WorkType serviceaccount_SensitiveDoguConfigRepository, RegistryType cesregistry_LocalDoguFetcher]
       [PartType authregistration_Manager],
     Provider ''dependency.NewCompositeDependencyValidator''
       [PartType config_OperatorConfig, RegistryType cesregistry_LocalDoguFetcher]
       [PartType dependency_Validator],
     Provider ''security.NewValidator'' [] [PartType security_Validator],
     Provider ''additionalMount.NewValidator''
       [K8sType v1_ConfigMapInterface, K8sType v1_SecretInterface]
       [PartType additionalMount_Validator],
     Provider ''initfx.NewRemoteDoguDescriptorRepository''
       [PartType config_OperatorConfig]
       [LibType dogu_RemoteDoguDescriptorRepository],
     Provider ''initfx.NewResourceDoguFetcher''
       [RuntimeType client_Client, LibType dogu_RemoteDoguDescriptorRepository]
       [RegistryType cesregistry_ResourceDoguFetcher],
     Provider ''resource.NewRequirementsGenerator''
       [ResourceType resource_DoguConfigRepository]
       [ResourceType resource_RequirementsGenerator],
     Provider ''initfx.NewHostAliasGenerator''
       [ResourceType resource_GlobalConfigRepository]
       [ResourceType resource_HostAliasGenerator],
     Provider ''resource.NewSecurityContextGenerator'' [] [ResourceType resource_SecurityContextGenerator],
     Provider ''resource.NewResourceGenerator''
       [K8sType runtime_Scheme, ResourceType resource_RequirementsGenerator, ResourceType resource_HostAliasGenerator,
        ResourceType resource_SecurityContextGenerator, ResourceType resource_AdditionalImages]
       [ResourceType resource_DoguResourceGenerator],
     Provider ''resource.NewUpserter''
       [RuntimeType client_Client, K8sType runtime_Scheme, ResourceType resource_DoguResourceGenerator,
        PartType config_OperatorConfig]
       [ResourceType resource_ResourceUpserter, UpgradeStepsType upgradeSteps_ResourceUpserter],
     Provider ''cesregistry.NewCESDoguRegistrator''
       [LibType dogu_VersionRegistry, LibType dogu_LocalDoguDescriptorRepository]
       [RegistryType cesregistry_DoguRegistrator],
     Provider ''initfx.NewImageRegistry'' [] [PartType imageregistry_ImageRegistry],
     Provider ''manager.NewDoguRestartManager''
       [LibType doguClient_DoguInterface, K8sType appsv1_DeploymentInterface]
       [ManagerType manager_DoguRestartManager],
     Provider ''garbagecollection.NewDoguRestartGarbageCollector''
       [LibType doguClient_DoguRestartInterface]
       [ControllersType controllers_DoguRestartGarbageCollector],
     Provider ''health.NewDoguConditionUpdater''
       [LibType doguClient_DoguInterface]
       [InstallType install_ConditionUpdater],
     Provider ''health.NewDoguChecker''
       [PartType config_OperatorConfig, LibType doguClient_EcoSystemV2Interface,
        RegistryType cesregistry_LocalDoguFetcher]
       [HealthType health_DoguHealthChecker],
     Provider ''manager.NewDoguExportManager''
       [LibType doguClient_DoguInterface, K8sType v1_PodInterface, K8sType appsv1_DeploymentInterface,
        ResourceType resource_ResourceUpserter, RegistryType cesregistry_LocalDoguFetcher,
        K8sType record_EventRecorder]
       [ManagerType manager_DoguExportManager],
     Provider ''manager.NewDoguSupportManager''
       [RuntimeType client_Client, RegistryType cesregistry_LocalDoguFetcher,
        ResourceType resource_DoguResourceGenerator, K8sType record_EventRecorder]
       [ManagerType manager_SupportManager],
     Provider ''manager.NewDoguAdditionalMountManager''
       [K8sType appsv1_DeploymentInterface, ResourceType resource_DoguResourceGenerator,
        RegistryType cesregistry_LocalDoguFetcher, ResourceType resource_RequirementsGenerator,
        PartType additionalMount_Validator, ResourceType resource_AdditionalImages]
       [ManagerType manager_AdditionalMountManager],
     Provider ''manager.NewDeploymentManager''
       [K8sType v1_PodInterface, K8sType appsv1_DeploymentInterface]
       [ManagerType manager_DeploymentManager],
     Provider ''upgrade.NewChecker'' [RegistryType cesregistry_LocalDoguFetcher] [PartType upgrade_Checker],
     Provider ''controllers.NewDoguEvents'' [] [ControllersType controllers_DoguEvents],
     Provider ''controllers.NewDoguEventsIn''
       [ControllersType controllers_DoguEvents]
       [ControllersType controllers_DoguEventsIn],
     Provider ''controllers.NewDoguEventsOut''
       [ControllersType controllers_DoguEvents]
       [ControllersType controllers_DoguEventsOut]]"

definition deletion_providers :: "provider list" where
  "deletion_providers =
    [Provider ''deletion.NewStatusStep'' [LibType doguClient_DoguInterface] [DeletionType deletion_StatusStep],
     Provider ''deletion.NewAuthRegistrationRemoverStep''
       [PartType authregistration_Manager]
       [DeletionType deletion_AuthRegistrationRemoverStep],
     Provider ''deletion.NewServiceAccountRemoverStep''
       [WorkType serviceaccount_ServiceAccountRemover, RegistryType cesregistry_LocalDoguFetcher]
       [DeletionType deletion_ServiceAccountRemoverStep],
     Provider ''deletion.NewDeleteOutOfHealthConfigMapStep''
       [HealthType health_DoguHealthStatusUpdater]
       [DeletionType deletion_DeleteOutOfHealthConfigMapStep],
     Provider ''deletion.NewRemoveDoguConfigStep''
       [Tag ''sensitiveDoguConfig'' (InitfxType initfx_DoguConfigRepository)]
       [DeletionType deletion_RemoveSensitiveDoguConfigStep],
     Provider ''deletion.NewRemoveFinalizerStep''
       [RuntimeType client_Client]
       [DeletionType deletion_RemoveFinalizerStep]]"

definition change_providers :: "provider list" where
  "change_providers =
    [Provider ''install.NewInitializeConditionsStep''
       [InstallType install_ConditionUpdater]
       [InstallType install_InitializeConditionsStep],
     Provider ''install.NewHealthCheckStep''
       [RuntimeType client_Client, HealthType health_DeploymentAvailabilityChecker,
        HealthType health_DoguHealthStatusUpdater, RegistryType cesregistry_LocalDoguFetcher,
        LibType doguClient_DoguInterface]
       [InstallType install_HealthCheckStep],
     Provider ''install.NewFetchRemoteDoguDescriptorStep''
       [RuntimeType client_Client, LibType dogu_LocalDoguDescriptorRepository,
        RegistryType cesregistry_ResourceDoguFetcher]
       [InstallType install_FetchRemoteDoguDescriptorStep],
     Provider ''install.NewValidationStep''
       [HealthType health_DoguHealthChecker, RegistryType cesregistry_LocalDoguFetcher, PartType dependency_Validator,
        PartType security_Validator, PartType additionalMount_Validator, K8sType record_EventRecorder]
       [InstallType install_ValidationStep],
     Provider ''install.NewPauseReconciliationStep''
       [LibType doguClient_DoguInterface]
       [InstallType install_PauseReconciliationStep],
     Provider ''install.NewCreateFinalizerStep'' [RuntimeType client_Client] [InstallType install_CreateFinalizerStep],
     Provider ''install.NewCreateConfigStep''
       [Tag ''normalDoguConfig'' (InitfxType initfx_DoguConfigRepository)]
       [InstallType install_CreateDoguConfigStep],
     Provider ''install.NewOwnerReferenceStep''
       [Tag ''normalDoguConfig'' (InitfxType initfx_OwnerReferenceSetter), K8sType runtime_Scheme]
       [InstallType install_DoguConfigOwnerReferenceStep],
     Provider ''install.NewCreateConfigStep''
       [Tag ''sensitiveDoguConfig'' (InitfxType initfx_DoguConfigRepository)]
       [InstallType install_CreateSensitiveDoguConfigStep],
     Provider ''install.NewOwnerReferenceStep''
       [Tag ''sensitiveDoguConfig'' (InitfxType initfx_OwnerReferenceSetter), K8sType runtime_Scheme]
       [InstallType install_SensitiveDoguConfigOwnerReferenceStep],
     Provider ''install.NewRegisterDoguVersionStep''
       [RegistryType cesregistry_LocalDoguFetcher, RegistryType cesregistry_DoguRegistrator]
       [InstallType install_RegisterDoguVersionStep],
     Provider ''install.NewOwnerReferenceStep''
       [Tag ''localDoguDescriptorRepository'' (InitfxType initfx_OwnerReferenceSetter), K8sType runtime_Scheme]
       [InstallType install_LocalDoguDescriptorOwnerReferenceStep],
     Provider ''install.NewRemoveServiceAccountStep''
       [WorkType serviceaccount_ServiceAccountRemover, RegistryType cesregistry_LocalDoguFetcher,
        LibType doguClient_DoguInterface]
       [InstallType install_RemoveServiceAccountStep],
     Provider ''install.NewAuthRegistrationStep''
       [PartType authregistration_Manager, PartType config_OperatorConfig]
       [InstallType install_AuthRegistrationStep],
     Provider ''install.NewServiceAccountStep''
       [WorkType serviceaccount_ServiceAccountCreator, RegistryType cesregistry_LocalDoguFetcher]
       [InstallType install_ServiceAccountStep],
     Provider ''install.NewServiceStep''
       [PartType imageregistry_ImageRegistry, K8sType v1_ServiceInterface, ResourceType resource_DoguResourceGenerator,
        RegistryType cesregistry_LocalDoguFetcher]
       [InstallType install_ServiceStep],
     Provider ''install.NewCreateExecPodStep''
       [RuntimeType client_Client, K8sType record_EventRecorder, RegistryType cesregistry_LocalDoguFetcher,
        WorkType exec_ExecPodFactory]
       [InstallType install_CreateExecPodStep],
     Provider ''install.NewCustomK8sResourceStep''
       [K8sType record_EventRecorder, RegistryType cesregistry_LocalDoguFetcher, WorkType exec_ExecPodFactory,
        WorkType exec_FileExtractor, ResourceType resource_CollectApplier]
       [InstallType install_CustomK8sResourceStep],
     Provider ''install.NewCreateVolumeStep''
       [RegistryType cesregistry_LocalDoguFetcher, ResourceType resource_ResourceUpserter,
        K8sType v1_PersistentVolumeClaimInterface]
       [InstallType install_CreateVolumeStep],
     Provider ''install.NewNetworkPoliciesStep''
       [ResourceType resource_ResourceUpserter, RegistryType cesregistry_LocalDoguFetcher, K8sType v1_ServiceInterface]
       [InstallType install_NetworkPoliciesStep],
     Provider ''install.NewCreateDeploymentStep''
       [RuntimeType client_Client, ResourceType resource_ResourceUpserter, RegistryType cesregistry_LocalDoguFetcher]
       [InstallType install_CreateDeploymentStep],
     Provider ''postinstall.NewStartStopStep''
       [RuntimeType client_Client, K8sType appsv1_DeploymentInterface, RegistryType cesregistry_LocalDoguFetcher,
        LibType doguClient_DoguInterface]
       [PostinstallType postinstall_StartStopStep],
     Provider ''postinstall.NewVolumeExpanderStep''
       [RuntimeType client_Client, LibType doguClient_DoguInterface, RegistryType cesregistry_LocalDoguFetcher]
       [PostinstallType postinstall_VolumeExpanderStep],
     Provider ''postinstall.NewMismatchedStorageClassWarningStep''
       [RuntimeType client_Client, K8sType record_EventRecorder]
       [PostinstallType postinstall_MismatchedStorageClassWarningStep],
     Provider ''postinstall.NewSecurityContextStep''
       [RegistryType cesregistry_LocalDoguFetcher, ResourceType resource_SecurityContextGenerator,
        K8sType appsv1_DeploymentInterface]
       [PostinstallType postinstall_SecurityContextStep],
     Provider ''postinstall.NewExportModeStep''
       [ManagerType manager_DoguExportManager]
       [PostinstallType postinstall_ExportModeStep],
     Provider ''postinstall.NewSupportModeStep''
       [ManagerType manager_SupportManager, LibType doguClient_DoguInterface, K8sType appsv1_DeploymentInterface]
       [PostinstallType postinstall_SupportModeStep],
     Provider ''postinstall.NewAdditionalMountsStep''
       [ManagerType manager_AdditionalMountManager]
       [PostinstallType postinstall_AdditionalMountsStep],
     Provider ''upgradeSteps.NewRestartAfterConfigChangeStep''
       [Tag ''normalDoguConfig'' (InitfxType initfx_DoguConfigRepository),
        Tag ''sensitiveDoguConfig'' (InitfxType initfx_DoguConfigRepository),
        ManagerType manager_DoguRestartManager, ManagerType manager_DeploymentManager,
        ResourceType resource_GlobalConfigRepository, LibType doguClient_DoguInterface]
       [UpgradeStepsType upgradeSteps_RestartAfterConfigChangeStep],
     Provider ''upgradeSteps.NewPreUpgradeStatusStep''
       [PartType upgrade_Checker, LibType doguClient_DoguInterface]
       [UpgradeStepsType upgradeSteps_PreUpgradeStatusStep],
     Provider ''upgradeSteps.NewRegisterDoguVersionStep''
       [RegistryType cesregistry_LocalDoguFetcher, RegistryType cesregistry_DoguRegistrator]
       [UpgradeStepsType upgradeSteps_RegisterDoguVersionStep],
     Provider ''upgradeSteps.NewUpdateDeploymentVersionStep''
       [RuntimeType client_Client, ResourceType resource_ResourceUpserter, K8sType appsv1_DeploymentInterface,
        RegistryType cesregistry_LocalDoguFetcher, WorkType exec_ExecPodFactory, WorkType exec_CommandExecutor]
       [UpgradeStepsType upgradeSteps_UpdateDeploymentVersionStep],
     Provider ''upgradeSteps.NewDeleteExecPodStep''
       [RegistryType cesregistry_LocalDoguFetcher, WorkType exec_ExecPodFactory]
       [UpgradeStepsType upgradeSteps_DeleteExecPodStep],
     Provider ''upgradeSteps.NewPostUpgradeStep''
       [RuntimeType client_Client, K8sType appsv1_DeploymentInterface, RegistryType cesregistry_LocalDoguFetcher,
        WorkType exec_CommandExecutor]
       [UpgradeStepsType upgradeSteps_PostUpgradeStep],
     Provider ''upgradeSteps.NewInstalledVersionStep''
       [LibType doguClient_DoguInterface]
       [UpgradeStepsType upgradeSteps_InstalledVersionStep],
     Provider ''upgradeSteps.NewRegenerateDeploymentStep''
       [RegistryType cesregistry_LocalDoguFetcher, K8sType appsv1_DeploymentInterface,
        ResourceType resource_DoguResourceGenerator]
       [UpgradeStepsType upgradeSteps_RegenerateDeploymentStep],
     Provider ''upgradeSteps.NewUpdateStartedAtStep''
       [LibType doguClient_DoguInterface, ManagerType manager_DeploymentManager]
       [UpgradeStepsType upgradeSteps_UpdateStartedAtStep],
     Provider ''upgradeSteps.NewRetroactiveServiceAccountStep''
       [ControllersType controllers_DoguEventsIn, LibType doguClient_DoguInterface,
        RegistryType cesregistry_LocalDoguFetcher]
       [UpgradeStepsType upgradeSteps_RetroactiveServiceAccountStep]]"

definition use_case_providers :: "provider list" where
  "use_case_providers =
    [Provider ''usecase.NewDoguDeleteUseCase''
       [DeletionType deletion_StatusStep, DeletionType deletion_AuthRegistrationRemoverStep,
        DeletionType deletion_ServiceAccountRemoverStep, DeletionType deletion_DeleteOutOfHealthConfigMapStep,
        DeletionType deletion_RemoveSensitiveDoguConfigStep, DeletionType deletion_RemoveFinalizerStep]
       [Tag ''doguDeleteUseCase'' (ControllersType controllers_DoguDeleteUseCase)],
     Provider ''usecase.NewDoguDeleteUseCase''
       [DeletionType deletion_StatusStep, DeletionType deletion_AuthRegistrationRemoverStep,
        DeletionType deletion_ServiceAccountRemoverStep, DeletionType deletion_DeleteOutOfHealthConfigMapStep,
        DeletionType deletion_RemoveSensitiveDoguConfigStep, DeletionType deletion_RemoveFinalizerStep]
       [ControllersType controllers_DoguDeleteUseCase],
     Provider ''usecase.NewDoguInstallOrChangeUseCase''
       [InstallType install_InitializeConditionsStep, InstallType install_HealthCheckStep,
        InstallType install_FetchRemoteDoguDescriptorStep, InstallType install_ValidationStep,
        InstallType install_PauseReconciliationStep, InstallType install_CreateFinalizerStep,
        InstallType install_CreateDoguConfigStep, InstallType install_DoguConfigOwnerReferenceStep,
        InstallType install_CreateSensitiveDoguConfigStep,
        InstallType install_SensitiveDoguConfigOwnerReferenceStep, InstallType install_RemoveServiceAccountStep,
        InstallType install_RegisterDoguVersionStep, InstallType install_LocalDoguDescriptorOwnerReferenceStep,
        InstallType install_AuthRegistrationStep, InstallType install_ServiceAccountStep,
        InstallType install_ServiceStep, InstallType install_CreateExecPodStep,
        InstallType install_CustomK8sResourceStep, InstallType install_CreateVolumeStep,
        InstallType install_NetworkPoliciesStep, InstallType install_CreateDeploymentStep,
        PostinstallType postinstall_StartStopStep, PostinstallType postinstall_VolumeExpanderStep,
        PostinstallType postinstall_MismatchedStorageClassWarningStep,
        PostinstallType postinstall_SecurityContextStep, PostinstallType postinstall_ExportModeStep,
        PostinstallType postinstall_SupportModeStep, PostinstallType postinstall_AdditionalMountsStep,
        UpgradeStepsType upgradeSteps_PreUpgradeStatusStep,
        UpgradeStepsType upgradeSteps_UpdateDeploymentVersionStep,
        UpgradeStepsType upgradeSteps_DeleteExecPodStep, UpgradeStepsType upgradeSteps_PostUpgradeStep,
        UpgradeStepsType upgradeSteps_RegenerateDeploymentStep,
        UpgradeStepsType upgradeSteps_RegisterDoguVersionStep,
        UpgradeStepsType upgradeSteps_InstalledVersionStep, UpgradeStepsType upgradeSteps_UpdateStartedAtStep,
        UpgradeStepsType upgradeSteps_RestartAfterConfigChangeStep,
        UpgradeStepsType upgradeSteps_RetroactiveServiceAccountStep]
       [Tag ''doguInstallOrChangeUseCase'' (ControllersType controllers_DoguInstallOrChangeUseCase)],
     Provider ''usecase.NewDoguInstallOrChangeUseCase''
       [InstallType install_InitializeConditionsStep, InstallType install_HealthCheckStep,
        InstallType install_FetchRemoteDoguDescriptorStep, InstallType install_ValidationStep,
        InstallType install_PauseReconciliationStep, InstallType install_CreateFinalizerStep,
        InstallType install_CreateDoguConfigStep, InstallType install_DoguConfigOwnerReferenceStep,
        InstallType install_CreateSensitiveDoguConfigStep,
        InstallType install_SensitiveDoguConfigOwnerReferenceStep, InstallType install_RemoveServiceAccountStep,
        InstallType install_RegisterDoguVersionStep, InstallType install_LocalDoguDescriptorOwnerReferenceStep,
        InstallType install_AuthRegistrationStep, InstallType install_ServiceAccountStep,
        InstallType install_ServiceStep, InstallType install_CreateExecPodStep,
        InstallType install_CustomK8sResourceStep, InstallType install_CreateVolumeStep,
        InstallType install_NetworkPoliciesStep, InstallType install_CreateDeploymentStep,
        PostinstallType postinstall_StartStopStep, PostinstallType postinstall_VolumeExpanderStep,
        PostinstallType postinstall_MismatchedStorageClassWarningStep,
        PostinstallType postinstall_SecurityContextStep, PostinstallType postinstall_ExportModeStep,
        PostinstallType postinstall_SupportModeStep, PostinstallType postinstall_AdditionalMountsStep,
        UpgradeStepsType upgradeSteps_PreUpgradeStatusStep,
        UpgradeStepsType upgradeSteps_UpdateDeploymentVersionStep,
        UpgradeStepsType upgradeSteps_DeleteExecPodStep, UpgradeStepsType upgradeSteps_PostUpgradeStep,
        UpgradeStepsType upgradeSteps_RegenerateDeploymentStep,
        UpgradeStepsType upgradeSteps_RegisterDoguVersionStep,
        UpgradeStepsType upgradeSteps_InstalledVersionStep, UpgradeStepsType upgradeSteps_UpdateStartedAtStep,
        UpgradeStepsType upgradeSteps_RestartAfterConfigChangeStep,
        UpgradeStepsType upgradeSteps_RetroactiveServiceAccountStep]
       [ControllersType controllers_DoguInstallOrChangeUseCase]]"

definition reconciler_providers :: "provider list" where
  "reconciler_providers =
    [Provider ''controllers.NewDoguReconciler''
       [RuntimeType client_Client,
        Tag ''doguInstallOrChangeUseCase'' (ControllersType controllers_DoguInstallOrChangeUseCase),
        Tag ''doguDeleteUseCase'' (ControllersType controllers_DoguDeleteUseCase),
        LibType doguClient_DoguInterface, ControllersType controllers_RequeueHandler,
        ControllersType controllers_DoguEventsOut, K8sType record_EventRecorder, RuntimeType ctrlMan_Manager,
        PartType config_OperatorConfig]
       [ControllersType controllers_DoguReconciler],
     Provider ''controllers.NewGlobalConfigReconciler''
       [LibType doguClient_DoguInterface, ControllersType controllers_DoguEventsIn, RuntimeType ctrlMan_Manager]
       [ControllersType controllers_GlobalConfigReconciler],
     Provider ''controllers.NewDoguRestartReconciler''
       [LibType doguClient_DoguRestartInterface, LibType doguClient_DoguInterface, K8sType record_EventRecorder,
        ControllersType controllers_DoguRestartGarbageCollector, RuntimeType ctrlMan_Manager]
       [ControllersType controllers_DoguRestartReconciler]]"

definition runner_providers :: "provider list" where
  "runner_providers =
    [Provider ''health.NewStartupHandler''
       [RuntimeType ctrlMan_Manager, LibType doguClient_DoguInterface, ControllersType controllers_DoguEventsIn]
       [HealthType health_StartupHandler],
     Provider ''health.NewShutdownHandler'' [LibType doguClient_DoguInterface] [HealthType health_ShutdownHandler]]"

definition options :: "key list \<Rightarrow> key list \<Rightarrow> key list \<Rightarrow> key list \<Rightarrow> provider list" where
  "options cfg glob dconf sconf =
    base_providers @ k8s_providers cfg @ own_providers glob dconf sconf @ deletion_providers @ change_providers @
    use_case_providers @ reconciler_providers @ runner_providers"

definition invokes :: "key list" where
  "invokes =
    [ControllersType controllers_DoguReconciler,
     ControllersType controllers_DoguRestartReconciler,
     ControllersType controllers_GlobalConfigReconciler,
     HealthType health_StartupHandler]"

lemmas table_defs = options_def base_providers_def k8s_providers_def own_providers_def deletion_providers_def change_providers_def
  use_case_providers_def reconciler_providers_def runner_providers_def

section \<open>Constructing everything\<close>

text \<open>
  The container has one value of its own, the life cycle, to which the controller manager adds its hooks. A list of providers
  is buildable in its order if each one finds its parameters among what came before.
\<close>

definition container_values :: "key list" where
  "container_values = [BaseType fx_Lifecycle]"

definition provided :: "provider list \<Rightarrow> key list" where
  "provided ps = concat (map pv_Gives ps)"

fun buildable :: "key list \<Rightarrow> provider list \<Rightarrow> bool" where
  "buildable vs [] = True"
| "buildable vs (p # ps) = (list_all (List.member vs) (pv_Needs p) \<and> buildable (pv_Gives p @ vs) ps)"

definition supplied :: "key list \<Rightarrow> provider list \<Rightarrow> bool" where
  "supplied vs ps = list_all (\<lambda>p. list_all (\<lambda>k. List.member vs k \<or> List.member (provided ps) k) (pv_Needs p)) ps"

lemma provided_simps [simp]:
  "provided [] = []" "provided (p # ps) = pv_Gives p @ provided ps" "provided (ps @ qs) = provided ps @ provided qs"
  by (simp_all add: provided_def)

lemma set_provided: "k \<in> set (provided ps) \<longleftrightarrow> (\<exists>p\<in>set ps. k \<in> set (pv_Gives p))"
  by (auto simp: provided_def)

text \<open>
  A ranking of the values shows that such an order exists: if every parameter of a provider has a lower rank than each of its
  results, sorting the providers by the rank of their results makes the table buildable.
\<close>

definition ranked :: "(key \<Rightarrow> nat) \<Rightarrow> provider \<Rightarrow> bool" where
  "ranked f p = (pv_Gives p \<noteq> [] \<and> list_all (\<lambda>k. list_all (\<lambda>g. f k < f g) (pv_Gives p)) (pv_Needs p))"

definition provider_rank :: "(key \<Rightarrow> nat) \<Rightarrow> provider \<Rightarrow> nat" where
  "provider_rank f p = Min (f ` set (pv_Gives p))"

lemma ranked_before:
  assumes "ranked f p" "k \<in> set (pv_Needs p)" "k \<in> set (pv_Gives q)"
  shows "provider_rank f q < provider_rank f p"
proof -
  have "provider_rank f q \<le> f k" using assms(3) by (simp add: provider_rank_def)
  moreover have "f k < provider_rank f p" using assms(1,2) by (simp add: provider_rank_def ranked_def list_all_iff)
  ultimately show ?thesis by simp
qed

lemma buildable_if_earlier:
  assumes "\<And>i k. i < length ps \<Longrightarrow> k \<in> set (pv_Needs (ps ! i)) \<Longrightarrow> k \<in> set vs \<or> (\<exists>j<i. k \<in> set (pv_Gives (ps ! j)))"
  shows "buildable vs ps"
  using assms
proof (induction ps arbitrary: vs)
  case (Cons p ps)
  have "list_all (List.member vs) (pv_Needs p)"
    using Cons.prems [of 0] by (auto simp: list_all_iff)
  moreover have "buildable (pv_Gives p @ vs) ps"
  proof (rule Cons.IH)
    fix i k assume "i < length ps" "k \<in> set (pv_Needs (ps ! i))"
    then have "k \<in> set vs \<or> (\<exists>j<Suc i. k \<in> set (pv_Gives ((p # ps) ! j)))" using Cons.prems [of "Suc i"] by simp
    then show "k \<in> set (pv_Gives p @ vs) \<or> (\<exists>j<i. k \<in> set (pv_Gives (ps ! j)))" by (auto simp: less_Suc_eq_0_disj)
  qed
  ultimately show ?case by simp
qed simp

lemma buildable_by_rank:
  assumes "list_all (ranked f) ps" "supplied vs ps"
  shows "buildable vs (sort_key (provider_rank f) ps)"
proof (rule buildable_if_earlier)
  fix i k
  let ?qs = "sort_key (provider_rank f) ps"
  assume i: "i < length ?qs" and k: "k \<in> set (pv_Needs (?qs ! i))"
  have p: "?qs ! i \<in> set ps" using nth_mem [OF i] by simp
  show "k \<in> set vs \<or> (\<exists>j<i. k \<in> set (pv_Gives (?qs ! j)))"
  proof (cases "k \<in> set vs")
    case False
    then obtain q where q: "q \<in> set ps" "k \<in> set (pv_Gives q)"
      using assms(2) p k by (auto simp: supplied_def list_all_iff set_provided)
    then obtain j where j: "j < length ?qs" "?qs ! j = q" by (metis in_set_conv_nth set_sort)
    have "provider_rank f (?qs ! j) < provider_rank f (?qs ! i)"
      using ranked_before [OF _ k q(2)] assms(1) p j(2) by (simp add: list_all_iff)
    then have "j < i" using sorted_nth_mono [OF sorted_sort_key, of i j "provider_rank f" ps] i j(1)
      by (auto simp: not_less [symmetric] intro: ccontr)
    then show ?thesis using j(2) q(2) by blast
  qed simp
qed

section \<open>The table of the operator\<close>

primrec stage :: "key \<Rightarrow> nat" where
  "stage (BaseType x) = 0"
| "stage (PartType x) = (case x of config_Version \<Rightarrow> 0 | config_OperatorConfig \<Rightarrow> 1 | _ \<Rightarrow> 6)"
| "stage (InitfxType x) = (case x of initfx_Args \<Rightarrow> 1 | _ \<Rightarrow> 4)"
| "stage (RuntimeType x) = (case x of ctrlMan_Options \<Rightarrow> 3 | ctrlMan_Manager \<Rightarrow> 5 | client_Client \<Rightarrow> 6)"
| "stage (K8sType x) = (case x of rest_Config \<Rightarrow> 1 | kubernetes_Interface \<Rightarrow> 2 | record_EventRecorder \<Rightarrow> 6 |
     runtime_Scheme \<Rightarrow> 6 | _ \<Rightarrow> 3)"
| "stage (LibType x) = (case x of doguClient_EcoSystemV2Interface \<Rightarrow> 2 | authRegClientV1_ApiV1Interface \<Rightarrow> 2 |
     dogu_VersionRegistry \<Rightarrow> 4 | dogu_LocalDoguDescriptorRepository \<Rightarrow> 4 | _ \<Rightarrow> 3)"
| "stage (HealthType x) = (case x of health_HealthShutdownHandler \<Rightarrow> 4 | _ \<Rightarrow> 7)"
| "stage (ControllersType x) = (case x of controllers_DoguEvents \<Rightarrow> 1 | controllers_DoguEventsIn \<Rightarrow> 2 |
     controllers_DoguEventsOut \<Rightarrow> 2 | controllers_DoguRestartGarbageCollector \<Rightarrow> 4 | controllers_RequeueHandler \<Rightarrow> 7 |
     controllers_DoguDeleteUseCase \<Rightarrow> 11 | controllers_DoguInstallOrChangeUseCase \<Rightarrow> 11 | _ \<Rightarrow> 12)"
| "stage (ResourceType x) = (case x of resource_HostAliasGenerator \<Rightarrow> 5 | resource_RequirementsGenerator \<Rightarrow> 5 |
     resource_DoguResourceGenerator \<Rightarrow> 7 | resource_ResourceUpserter \<Rightarrow> 8 | _ \<Rightarrow> 4)"
| "stage (WorkType x) = (case x of serviceaccount_SensitiveDoguConfigRepository \<Rightarrow> 4 | exec_CommandExecutor \<Rightarrow> 7 |
     exec_FileExtractor \<Rightarrow> 9 | _ \<Rightarrow> 8)"
| "stage (RegistryType x) = (case x of cesregistry_ResourceDoguFetcher \<Rightarrow> 7 | _ \<Rightarrow> 5)"
| "stage (ManagerType x) = 9"
| "stage (InstallType x) = (case x of install_ConditionUpdater \<Rightarrow> 4 | _ \<Rightarrow> 10)"
| "stage (UpgradeStepsType x) = (case x of upgradeSteps_ResourceUpserter \<Rightarrow> 8 | _ \<Rightarrow> 10)"
| "stage (DeletionType x) = 10"
| "stage (PostinstallType x) = 10"
| "stage (Tag t k) = stage k"

lemma options_distinct: "distinct (provided (options cfg glob dconf sconf))"
  by (simp add: table_defs)

lemma invokes_provided: "set invokes \<subseteq> set (provided (options cfg glob dconf sconf))"
  by (simp add: invokes_def table_defs)

lemma options_ranked:
  assumes "cfg = []" "set glob \<subseteq> {LibType repository_ConfigMapClient}" "set dconf \<subseteq> {LibType repository_ConfigMapClient}"
    and "set sconf \<subseteq> {LibType repository_SecretClient}"
  shows "list_all (ranked stage) (options cfg glob dconf sconf)"
proof -
  have lower: "list_all (\<lambda>k. stage k < 4) glob" "list_all (\<lambda>k. stage k < 4) dconf" "list_all (\<lambda>k. stage k < 4) sconf"
    using assms(2-4) by (auto simp: list_all_iff)
  show ?thesis using lower by (simp add: table_defs ranked_def assms(1))
qed

lemma options_supplied:
  assumes "cfg = []" "set glob \<subseteq> {LibType repository_ConfigMapClient}" "set dconf \<subseteq> {LibType repository_ConfigMapClient}"
    and "set sconf \<subseteq> {LibType repository_SecretClient}"
  shows "supplied container_values (options cfg glob dconf sconf)"
proof -
  define found where "found k = (List.member container_values k \<or> List.member (provided (options cfg glob dconf sconf)) k)" for k
  have "list_all found (container_values @ provided (options cfg glob dconf sconf))"
    by (simp add: list_all_iff found_def)
  then have all: "list_all found (container_values @ provided (options [] [] [] []))"
    by (simp add: table_defs)
  have ext: "list_all found glob" "list_all found dconf" "list_all found sconf"
    using assms(2-4) all by (auto simp: list_all_iff container_values_def table_defs)
  have "list_all (\<lambda>p. list_all found (pv_Needs p)) (options cfg glob dconf sconf)"
    using all ext by (simp add: table_defs container_values_def assms(1))
  then show ?thesis by (simp add: supplied_def list_all_iff found_def)
qed

theorem options_buildable:
  assumes "cfg = []" "set glob \<subseteq> {LibType repository_ConfigMapClient}" "set dconf \<subseteq> {LibType repository_ConfigMapClient}"
    and "set sconf \<subseteq> {LibType repository_SecretClient}"
  shows "\<exists>qs. mset qs = mset (options cfg glob dconf sconf) \<and> buildable container_values qs"
  using buildable_by_rank [OF options_ranked [OF assms] options_supplied [OF assms]] by (metis mset_sort)

text \<open>
  The constructor that makes a value, and the constructor its first parameter comes from; for the steps on configurations that
  parameter is the repository they work on.
\<close>

definition maker :: "provider list \<Rightarrow> key \<Rightarrow> provider option" where
  "maker ps k = find (\<lambda>p. List.member (pv_Gives p) k) ps"

definition first_source :: "provider list \<Rightarrow> key \<Rightarrow> string option" where
  "first_source ps k =
    (case map_option pv_Needs (maker ps k) of Some (n # _) \<Rightarrow> map_option pv_Func (maker ps n) | _ \<Rightarrow> None)"

lemma maker_SomeD: "maker ps k = Some p \<Longrightarrow> p \<in> set ps \<and> k \<in> set (pv_Gives p)"
  by (auto simp: maker_def find_Some_iff)

lemma unique_maker:
  "distinct (provided ps) \<Longrightarrow> p \<in> set ps \<Longrightarrow> q \<in> set ps \<Longrightarrow> k \<in> set (pv_Gives p) \<Longrightarrow> k \<in> set (pv_Gives q) \<Longrightarrow> p = q"
  by (induction ps) (auto simp: set_provided disjoint_iff)

lemma maker_part:
  assumes "distinct (provided ps)" "set g \<subseteq> set ps" "maker g k = Some p"
  shows "maker ps k = Some p"
proof -
  have p: "p \<in> set ps" "k \<in> set (pv_Gives p)" using maker_SomeD [OF assms(3)] assms(2) by auto
  then obtain q where q: "maker ps k = Some q"
    by (cases "maker ps k") (auto simp: maker_def find_None_iff)
  with unique_maker [OF assms(1)] p maker_SomeD [OF q] show ?thesis by blast
qed

lemma first_source_parts:
  assumes "distinct (provided ps)" "set g \<subseteq> set ps" "set g' \<subseteq> set ps"
    and "map_option (\<lambda>p. take 1 (pv_Needs p)) (maker g k) = Some [n]" "map_option pv_Func (maker g' n) = Some f"
  shows "first_source ps k = Some f"
proof -
  obtain p where p: "maker g k = Some p" "take 1 (pv_Needs p) = [n]" using assms(4) by auto
  then obtain ns where "pv_Needs p = n # ns" by (cases "pv_Needs p") auto
  moreover obtain q where q: "maker g' n = Some q" "pv_Func q = f" using assms(5) by auto
  ultimately show ?thesis
    using maker_part [OF assms(1,2) p(1)] maker_part [OF assms(1,3) q(1)] q(2) by (simp add: first_source_def)
qed

lemma config_step_makers:
  "list_all (\<lambda>k. map_option (\<lambda>p. take 1 (pv_Needs p)) (maker change_providers k) =
      Some [Tag ''normalDoguConfig'' (InitfxType initfx_DoguConfigRepository)])
    [InstallType install_CreateDoguConfigStep, UpgradeStepsType upgradeSteps_RestartAfterConfigChangeStep]"
  "map_option (\<lambda>p. take 1 (pv_Needs p)) (maker change_providers (InstallType install_DoguConfigOwnerReferenceStep)) =
    Some [Tag ''normalDoguConfig'' (InitfxType initfx_OwnerReferenceSetter)]"
  "map_option (\<lambda>p. take 1 (pv_Needs p)) (maker change_providers (InstallType install_CreateSensitiveDoguConfigStep)) =
    Some [Tag ''sensitiveDoguConfig'' (InitfxType initfx_DoguConfigRepository)]"
  "map_option (\<lambda>p. take 1 (pv_Needs p)) (maker change_providers (InstallType install_SensitiveDoguConfigOwnerReferenceStep)) =
    Some [Tag ''sensitiveDoguConfig'' (InitfxType initfx_OwnerReferenceSetter)]"
  "map_option (\<lambda>p. take 1 (pv_Needs p)) (maker deletion_providers (DeletionType deletion_RemoveSensitiveDoguConfigStep)) =
    Some [Tag ''sensitiveDoguConfig'' (InitfxType initfx_DoguConfigRepository)]"
  by (simp_all add: maker_def change_providers_def deletion_providers_def)

lemma config_repository_makers:
  "map_option pv_Func (maker (own_providers glob dconf sconf) (Tag ''normalDoguConfig'' (InitfxType initfx_DoguConfigRepository))) =
    Some ''repository.NewDoguConfigRepository''"
  "map_option pv_Func (maker (own_providers glob dconf sconf) (Tag ''normalDoguConfig'' (InitfxType initfx_OwnerReferenceSetter))) =
    Some ''repository.NewDoguConfigRepository''"
  "map_option pv_Func (maker (own_providers glob dconf sconf) (Tag ''sensitiveDoguConfig'' (InitfxType initfx_DoguConfigRepository))) =
    Some ''repository.NewSensitiveDoguConfigRepository''"
  "map_option pv_Func (maker (own_providers glob dconf sconf) (Tag ''sensitiveDoguConfig'' (InitfxType initfx_OwnerReferenceSetter))) =
    Some ''repository.NewSensitiveDoguConfigRepository''"
  by (simp_all add: maker_def own_providers_def)

lemma options_parts:
  "set change_providers \<subseteq> set (options cfg glob dconf sconf)" "set deletion_providers \<subseteq> set (options cfg glob dconf sconf)"
  "set (own_providers glob dconf sconf) \<subseteq> set (options cfg glob dconf sconf)"
  by (auto simp: options_def)

lemmas change_step_source = first_source_parts [OF options_distinct options_parts(1,3)]
  and deletion_step_source = first_source_parts [OF options_distinct options_parts(2,3)]

lemma normal_config_sources:
  "list_all (\<lambda>k. first_source (options cfg glob dconf sconf) k = Some ''repository.NewDoguConfigRepository'')
    [InstallType install_CreateDoguConfigStep, InstallType install_DoguConfigOwnerReferenceStep,
     UpgradeStepsType upgradeSteps_RestartAfterConfigChangeStep]"
  using config_step_makers(1) change_step_source [OF _ config_repository_makers(1)]
    change_step_source [OF config_step_makers(2) config_repository_makers(2)] by simp

lemma sensitive_config_sources:
  "list_all (\<lambda>k. first_source (options cfg glob dconf sconf) k = Some ''repository.NewSensitiveDoguConfigRepository'')
    [InstallType install_CreateSensitiveDoguConfigStep, InstallType install_SensitiveDoguConfigOwnerReferenceStep,
     DeletionType deletion_RemoveSensitiveDoguConfigStep]"
  using change_step_source [OF config_step_makers(3) config_repository_makers(3)]
    change_step_source [OF config_step_makers(4) config_repository_makers(4)]
    deletion_step_source [OF config_step_makers(5) config_repository_makers(3)] by simp

section \<open>Clients\<close>

text \<open>
  The clients for resources in a namespace: the argument is the namespace each is asked for.
\<close>

datatype k8s_client =
    Dogus (client_namespace: string)
  | DoguRestarts (client_namespace: string)
  | AuthRegistrations (client_namespace: string)
  | ConfigMaps (client_namespace: string)
  | Secrets (client_namespace: string)
  | Deployments (client_namespace: string)
  | Pods (client_namespace: string)
  | Services (client_namespace: string)
  | PersistentVolumeClaims (client_namespace: string)

definition NewDoguInterface :: "operator_config \<Rightarrow> k8s_client" where
  "NewDoguInterface config = Dogus (oc_Namespace config)"

definition NewDoguRestartInterface :: "operator_config \<Rightarrow> k8s_client" where
  "NewDoguRestartInterface config = DoguRestarts (oc_Namespace config)"

definition NewAuthRegistrationInterface :: "operator_config \<Rightarrow> k8s_client" where
  "NewAuthRegistrationInterface config = AuthRegistrations (oc_Namespace config)"

definition NewConfigMapInterface :: "operator_config \<Rightarrow> k8s_client" where
  "NewConfigMapInterface config = ConfigMaps (oc_Namespace config)"

definition NewSecretInterface :: "operator_config \<Rightarrow> k8s_client" where
  "NewSecretInterface config = Secrets (oc_Namespace config)"

definition NewDeploymentInterface :: "operator_config \<Rightarrow> k8s_client" where
  "NewDeploymentInterface config = Deployments (oc_Namespace config)"

definition NewPodInterface :: "operator_config \<Rightarrow> k8s_client" where
  "NewPodInterface config = Pods (oc_Namespace config)"

definition NewServiceInterface :: "operator_config \<Rightarrow> k8s_client" where
  "NewServiceInterface config = Services (oc_Namespace config)"

definition NewPersistentVolumeClaimInterface :: "operator_config \<Rightarrow> k8s_client" where
  "NewPersistentVolumeClaimInterface config = PersistentVolumeClaims (oc_Namespace config)"

lemmas client_defs = NewDoguInterface_def NewDoguRestartInterface_def NewAuthRegistrationInterface_def NewConfigMapInterface_def
  NewSecretInterface_def NewDeploymentInterface_def NewPodInterface_def NewServiceInterface_def NewPersistentVolumeClaimInterface_def

end
