(* ===== verification/Spec2Isabelle.thy ===== *)
theory Spec2Isabelle
  imports Example Wiring
begin

text \<open>
  \<^bold>\<open>The program.\<close> The dogu operator is a Kubernetes controller: it brings the deployments, volume claims, services,
  network policies, accounts and configurations of dogus (applications) into the state their \<^verbatim>\<open>Dogu\<close> resources ask for.
  The controller (\<^verbatim>\<open>controllers/dogu_controller.go\<close>) reads a resource and runs one of two lists of steps
  (\<^verbatim>\<open>usecase/usecase.go\<close>): six steps if the resource is being deleted, thirty-eight if it is to be installed or changed. A step
  looks at the cluster, does at most its own part of the work and says whether the next step may run. The result goes to
  the requeue handler (\<^verbatim>\<open>dogu_requeue_handler.go\<close>). A second controller does the same for changes of the global
  configuration, a third one (\<^verbatim>\<open>dogurestart_controller.go\<close>, \<^verbatim>\<open>restartInstruction.go\<close>) drives the phases of \<^verbatim>\<open>DoguRestart\<close>
  resources and collects old ones (\<^verbatim>\<open>garbagecollection\<close>).

  \<^bold>\<open>How it is modelled.\<close> Every operation is a function in a state monad whose state is the log of the external calls made
  so far, each with its outcome (Prelude). What is outside the repository answers the calls: an environment \<open>E\<close> maps the
  log to a \<open>cluster\<close>, the record of all answers (Cluster), so the cluster may change between any two calls in any way. Pure
  library functions (version parsing, label helpers, JSON, quantities, the process environment) are the record \<open>lib\<close>.
  Theorems hold for all of them; what a theorem needs to know of them is a named hypothesis (\<open>status_update_lawful\<close>,
  \<open>names_kept\<close>, \<open>lawful_config\<close>, \<open>lawful_conditions\<close>, \<open>lawful_owner\<close>, \<open>lawful_requests\<close>, \<open>restart_sorter\<close>), and theory Example gives an instance that satisfies it. A cluster that does
  not change is the constant environment \<open>\<lambda>_. K\<close>. Go errors are values of type \<open>err\<close> with the chains that \<^verbatim>\<open>errors.As\<close> follows;
  operations return \<open>err + 'a\<close> or \<open>err option\<close>. A nil dereference is the error \<open>ErrPanic\<close>. A map that is iterated is an association
  list, whose order is arbitrary since no theorem fixes it.

  \<^bold>\<open>Theories and sources\<close> (paths below \<^verbatim>\<open>src/controllers\<close>):
  \<^item> Prelude: errors, the monad, the calculus of \<open>spec\<close>, \<open>emits\<close>, \<open>ordered\<close> (one event only after another) and
    \<open>establishes\<close>; GoStrings: the parts of Go's string packages in use; Objects: the resources and descriptors as records;
    Cluster: calls, answers, library.
  \<^item> Annotation (\<^verbatim>\<open>annotation\<close>), Config (\<^verbatim>\<open>config\<close>), Registry (\<^verbatim>\<open>cesregistry\<close>), Dependency (\<^verbatim>\<open>dependency\<close>), Health (\<^verbatim>\<open>health\<close>).
  \<^item> Volumes (\<^verbatim>\<open>resource/volumeGenerator.go\<close>, \<^verbatim>\<open>additionalMount\<close>, \<^verbatim>\<open>security\<close>), PodSpec (\<^verbatim>\<open>resource/resource_generator.go\<close>,
    \<^verbatim>\<open>podSpecBuilder.go\<close>, \<^verbatim>\<open>requirementsGenerator.go\<close>, \<^verbatim>\<open>securityContext.go\<close>), Exec (\<^verbatim>\<open>exec\<close>,
    \<^verbatim>\<open>resource/customK8sCollectApplier.go\<close>), Images (\<^verbatim>\<open>initfx/additionalImages.go\<close>, \<^verbatim>\<open>imageregistry\<close>), Upsert (\<^verbatim>\<open>resource/upserter.go\<close>, \<^verbatim>\<open>networkPolicyGenerator.go\<close>).
  \<^item> ServiceAccount (\<^verbatim>\<open>serviceaccount\<close>), Auth (\<^verbatim>\<open>authregistration\<close>), Managers (\<^verbatim>\<open>manager\<close>, \<^verbatim>\<open>upgrade\<close>).
  \<^item> Steps_Install, Steps_Delete, Steps_Post, Steps_Upgrade: one definition per step of \<^verbatim>\<open>steps/install\<close>, \<^verbatim>\<open>steps/deletion\<close>,
    \<^verbatim>\<open>steps/postinstall\<close>, \<^verbatim>\<open>steps/upgrade\<close>, the whole \<^verbatim>\<open>Run\<close> method; Usecase (\<^verbatim>\<open>usecase\<close>).
  \<^item> Restart (restart controller, garbage collection), Progress (what a restart does in a cluster that is a store) and Controller (dogu controller, requeue handler, global configuration).
  \<^item> Startup (\<^verbatim>\<open>logging\<close>, \<^verbatim>\<open>initfx\<close>, the \<^verbatim>\<open>setupWithManager\<close> methods): log level, command line, manager, and which events reach
    which controller. The calls of the controller-runtime have a log of their own there. Wiring (\<^verbatim>\<open>main.go\<close>,
    \<^verbatim>\<open>initfx/k8s.go\<close>): the table of constructors with their parameters and results, and the clients.
  \<^item> Footprint: which effects each operation and each step can have; Pipeline: what holds across the steps of a list;
    Ownership: no step renames the resource, and what a reconciliation creates belongs to its dogu; Example: the instance
    used by the witnesses.

  \<^bold>\<open>Interfaces.\<close> The locales state what one part relies on and are interpreted on the model: \<open>upsert_client\<close> (get, create and
  update of a kind of resource, four interpretations), \<open>dependency_validator\<close> and \<open>composed_validators\<close> (the two validators and their
  composition), \<open>gated_steps\<close> (a list of steps with a gate: the finalizer, and the three clean-ups of a deletion) and
  \<open>restart_sorter\<close> (the sort of the garbage collection).

  The definitions have the names of the Go functions; a step is \<open>dogu \<Rightarrow> (step_result \<times> dogu) op\<close>, since a step also replaces the
  resource it works on. A loop of a Go function is a recursive function with the suffix \<open>_loop\<close> or a name of its own.

  \<^bold>\<open>What is shown.\<close> Safety and order of whole reconciliations: deletion cleans up before the finalizers go (C1), a paused dogu is
  left alone (C2), the first step that does not proceed decides (C3), the finalizer precedes all resources (C4), a change
  deletes no configuration (C5), nothing is installed unvalidated or as a downgrade (C6, C7), an upgrade runs the pre-upgrade
  script first (C8). Meaning of results: readiness (C9), requeueing (C10, C11, C12), global configuration (C13), single steps
  (C14, C15, C40). Restarts: they complete in a cluster that keeps what is written (C16), each reconciliation is one step of the
  machine \<open>restart_step\<close> and completion implies a stop and a start (C17, C18); garbage collection (C19).
  Accounts: round trip of credentials, order of account and credentials, idempotence, synchronisation (C20 to C23). Generated
  resources: auxiliary images, mounts, confinement, claims, what network policies admit, the contract of an upsert (C24 to C31; the locale
  \<open>upsert_client\<close> proves it once for four kinds of resources). The dependency check: it computes a reference function, returns
  on well-founded dependencies and not on cycles (C32 to C34). Events: what a reconciliation creates is owned by its dogu and
  watched (C35). Ports, start-up configuration, dependency injection, command line (C36 to C39).

  \<^bold>\<open>Fuel.\<close> The recursion of \<^verbatim>\<open>CheckDependenciesRecursive\<close> is bounded by \<open>cx_Fuel\<close>; running out of it is the value \<open>None\<close>, and a stack
  overflow for the caller. By C33 fuel above the rank of the dogu is enough for every well-founded set of installed dependencies; by C34
  no fuel is enough on a cycle. \<open>lib_RetryBound\<close> is the number of further attempts of the retry library, which gives up after
  some time; the theorems hold for each bound. All other loops are structural recursions.

  \<^bold>\<open>Not modelled.\<close> Log lines; the declarations of interfaces; the bodies of constructors that only fill a struct; the
  texts that formatted messages insert (a message is the constant part of its format); the work queue of controller-runtime, whose reconciliations of one resource do not overlap, and time, except where a value of it
  is compared. Third-party code (the crane pull, the SPDY stream, the regular expression for images, JSON, versions) is a call
  or a parameter.
\<close>

section \<open>Reconciliation of a dogu\<close>



text \<open>
  C2. A paused dogu: the reconciliation never reports it as applied, and all it changes is the status of the resource,
  the health config map, and the local copy of the descriptor (with the development config map it came from). No
  deployment, volume, service, account or network policy is touched.
\<close>

theorem paused_dogu_untouched:
  assumes "status_update_lawful (cx_E X)" "s_PauseReconciliation (d_Spec d)"
  shows "\<exists>t. snd (run_state (HandleUntilApplied (change_steps X) d) h) = h @ t \<and>
    list_all (within {WDoguStatus, WConfigMap, WAddDescriptor, WDeleteConfigMap}) t \<and>
    \<not> fst (snd (fst (fst (run_state (HandleUntilApplied (change_steps X) d) h))))"
proof -
  obtain q cont e d' h' where r: "run_state (HandleUntilApplied (change_steps X) d) h = (((q, cont, e), d'), h')"
    by (metis surj_pair)
  with paused_reconciliation [OF assms r] show ?thesis by auto
qed

theorem paused_dogu_untouched_witness:
  "\<not> fst (snd (fst (fst (run_state (HandleUntilApplied (change_steps ex_ctx)
      (ex_dogu\<lparr> d_Spec := (d_Spec ex_dogu)\<lparr> s_PauseReconciliation := True \<rparr> \<rparr>)) []))))"
  using paused_dogu_untouched [of ex_ctx "ex_dogu\<lparr> d_Spec := (d_Spec ex_dogu)\<lparr> s_PauseReconciliation := True \<rparr> \<rparr>" "[]"]
  by (simp add: ex_cluster_status)

text \<open>
  C3. A run of a list of steps is applied exactly if every step let it proceed, each on the resource and log its
  predecessor left; otherwise it ends at the first step that did not, with that step's requeue time and error.
\<close>

theorem first_failing_step_decides:
  assumes "run_state (HandleUntilApplied ss d) h = (((q, cont, e), d'), h')"
  shows "if cont then passes ss d h d' h'
    else \<exists>pre s post d1 h1 r. ss = pre @ s # post \<and> passes pre d h d1 h1 \<and> run_state (s d1) h1 = ((r, d'), h') \<and>
      \<not> proceeds r \<and> outcome_of r = (q, False, e)"
  using assms HandleUntilApplied_applied [of ss d h d' h'] HandleUntilApplied_stopped [of ss d h q e d' h'] by auto

theorem first_failing_step_decides_witness:
  "passes [CreateFinalizerStep ex_ctx] (ex_dogu\<lparr> d_Finalizers := [finalizerName] \<rparr>) []
     (ex_dogu\<lparr> d_Finalizers := [finalizerName] \<rparr>) []"
  using first_failing_step_decides [of "[CreateFinalizerStep ex_ctx]" "ex_dogu\<lparr> d_Finalizers := [finalizerName] \<rparr>" "[]"
      0 True None "ex_dogu\<lparr> d_Finalizers := [finalizerName] \<rparr>" "[]"]
  by (simp add: HandleUntilApplied_step CreateFinalizerStep_def)

text \<open>
  C4. The finalizer comes first: from the step that creates it on, nothing but the resource and its status is changed
  before an update that carries the finalizer has succeeded, if the resource does not have it yet; and the change is
  not reported as applied without such an update.
\<close>

theorem finalizer_before_resources:
  assumes "finalizerName \<notin> set (d_Finalizers d)"
    and "run_state (HandleUntilApplied (drop 5 (change_steps X)) d) h = (((q, cont, e), d'), h')"
  shows "\<exists>t. h' = h @ t \<and> precedes sets_finalizer changes_cluster t \<and> (cont \<longrightarrow> list_ex sets_finalizer t)"
  by (rule finalizer_first [OF assms])

theorem finalizer_before_resources_witness:
  "\<exists>t. snd (run_state (HandleUntilApplied (drop 5 (change_steps ex_ctx)) ex_dogu) []) = [] @ t \<and>
    precedes sets_finalizer changes_cluster t"
proof -
  obtain q cont e d' h' where r: "run_state (HandleUntilApplied (drop 5 (change_steps ex_ctx)) ex_dogu) [] = (((q, cont, e), d'), h')"
    by (metis surj_pair)
  have "finalizerName \<notin> set (d_Finalizers ex_dogu)" by (simp add: ex_dogu_def empty_dogu_def)
  from finalizer_before_resources [OF this r] r show ?thesis by auto
qed





text \<open>
  C7. A downgrade that is not forced ends the reconciliation: the validation aborts it with a warning as its last call, the
  change is not reported as applied, and nothing is changed but the status of the resource, the health config map and the
  local copy of the descriptor.
\<close>

theorem downgrade_aborts:
  assumes "status_update_lawful (cx_E X)" "installed_throughout X d n0" "unallowed_downgrade (cx_L X) d n0"
    and "run_state (HandleUntilApplied (change_steps X) d) h = (((q, cont, e), d'), h')"
  shows "\<not> cont \<and> (\<exists>t. h' = h @ t \<and> list_all (within {WDoguStatus, WConfigMap, WAddDescriptor, WDeleteConfigMap}) t) \<and>
    (\<exists>t. run_state (ValidationStep X d) h = ((Abort, d), h @ t @ [Event (CRecord EventTypeWarning ''Installation'') None]))"
  using downgrade_reconciliation [OF assms] ValidationStep_downgrade [of X d h n0] assms(2,3) by (simp add: installed_throughout_def)

theorem downgrade_aborts_witness:
  "\<not> fst (snd (fst (fst (run_state (HandleUntilApplied (change_steps ex_ctx)
      (ex_dogu\<lparr> d_Spec := (d_Spec ex_dogu)\<lparr> s_Version := ''4'' \<rparr> \<rparr>)) []))))"
proof -
  let ?d = "ex_dogu\<lparr> d_Spec := (d_Spec ex_dogu)\<lparr> s_Version := ''4'' \<rparr> \<rparr>"
  obtain q cont e d' h' where r: "run_state (HandleUntilApplied (change_steps ex_ctx) ?d) [] = (((q, cont, e), d'), h')"
    by (metis surj_pair)
  have "fst (run_state (FetchInstalled (\<lambda>_. ex_cluster) ''redmine'') h) = Inr ex_descriptor" for h
    using FetchInstalled_run [of ex_cluster "''redmine''" h] by (auto simp: installed_def ex_cluster_def)
  then have "installed_throughout ex_ctx ?d ex_descriptor"
    by (simp add: installed_throughout_def same_spec_as_def ex_lib_def simple_part_def ex_dogu_def)
  moreover have "unallowed_downgrade ex_lib ?d ex_descriptor"
    by (simp add: unallowed_downgrade_def isOlder_def ex_lib_def simple_part_def ex_dogu_def ex_descriptor_def empty_spec_def)
  ultimately show ?thesis
    using downgrade_aborts [of ex_ctx ?d ex_descriptor "[]" q cont e d' h'] r by (simp add: ex_cluster_status)
qed



text \<open>
  C9. Readiness: after the steps, the resource is read again and its ready condition is set for its current
  generation; the condition is true exactly if all steps of the change were applied.
\<close>

theorem ready_iff_applied:
  assumes "a_GetDogu (cx_E X h) name = Inr d" "d_DeletionTimestamp d = None"
    and "run_state (HandleUntilApplied (change_steps X) d)
      (h @ [Event (CGetDogu name) None, Event (CRecord EventTypeNormal ''ReconcileStarted'') None]) = ((out, d1), h1)"
    and "a_GetDogu (cx_E X h1) name = Inr d2"
  shows "\<exists>c eo t. snd (run_state (dogu_Reconcile X name) h) = h1 @ [Event (CGetDogu name) None,
      Event (CUpdateDoguStatus (d_Name d2) (set_condition (cx_L X) c (d_Status d2))) eo] @ t \<and>
    c_Type c = ConditionReady \<and> c_ObservedGeneration c = d_Generation d2 \<and>
    (c_Status c = ConditionTrue \<longleftrightarrow> passes (change_steps X) d
       (h @ [Event (CGetDogu name) None, Event (CRecord EventTypeNormal ''ReconcileStarted'') None]) d1 h1)"
proof -
  obtain q cont e where out: "out = (q, cont, e)" by (metis surj_pair)
  let ?h = "h @ [Event (CGetDogu name) None, Event (CRecord EventTypeNormal ''ReconcileStarted'') None]"
  have "passes (change_steps X) d ?h d1 h1 \<longleftrightarrow> cont"
    using assms(3) HandleUntilApplied_applied [of "change_steps X" d ?h d1 h1] by (auto simp: out)
  moreover have "cont \<Longrightarrow> q = 0 \<and> e = None"
    using HandleUntilApplied_True assms(3) by (auto simp: out)
  ultimately have "c_Status (ready_condition out) = ConditionTrue \<longleftrightarrow> passes (change_steps X) d ?h d1 h1"
    by (auto simp: out ready_condition_True)
  then show ?thesis
    using finish_reconcile_log [of X h1 name d2 d1 out] assms(4) dogu_Reconcile_change [OF assms(1-3)]
    by (auto simp: ready_condition_type intro!: exI [of _ "(ready_condition out)\<lparr> c_ObservedGeneration := d_Generation d2 \<rparr>"])
qed

theorem ready_iff_applied_witness:
  "\<exists>c h1 eo t. snd (run_state (dogu_Reconcile ex_ctx ''redmine'') []) = h1 @ [Event (CGetDogu ''redmine'') None,
      Event (CUpdateDoguStatus ''redmine'' (set_condition ex_lib c (d_Status ex_dogu))) eo] @ t \<and> c_Type c = ConditionReady"
proof -
  let ?h = "[Event (CGetDogu ''redmine'') None, Event (CRecord EventTypeNormal ''ReconcileStarted'') None]"
  obtain out d1 h1 where r: "run_state (HandleUntilApplied (change_steps ex_ctx) ex_dogu) ?h = ((out, d1), h1)"
    by (metis surj_pair)
  have "a_GetDogu ex_cluster ''redmine'' = Inr ex_dogu" "d_DeletionTimestamp ex_dogu = None" "d_Name ex_dogu = ''redmine''"
    by (simp_all add: ex_cluster_def ex_dogu_def empty_dogu_def)
  then show ?thesis
    using ready_iff_applied [of ex_ctx "[]" "''redmine''" ex_dogu out d1 h1 ex_dogu] r by auto
qed



text \<open>
  C11. Deletions are not retried: for a resource that is being deleted, \<^verbatim>\<open>Reconcile\<close> never asks for a requeue and never
  returns an error, even if a deletion step failed.
\<close>

theorem failed_deletion_not_requeued:
  assumes "being_deleted (cx_E X) name"
  shows "fst (run_state (dogu_Reconcile X name) h) = (no_requeue, None)"
  by (rule deletion_not_requeued [OF assms])

theorem failed_deletion_not_requeued_witness:
  "fst (run_state (dogu_Reconcile (ex_ctx\<lparr> cx_E := (\<lambda>_. ex_cluster\<lparr>
      a_GetDogu := (\<lambda>x. Inr (ex_dogu\<lparr> d_Name := x, d_DeletionTimestamp := Some 1 \<rparr>)),
      a_DeleteAuthReg := (\<lambda>_. Inl (ErrApi OtherReason ''timeout'')) \<rparr>) \<rparr>) ''redmine'') []) = (no_requeue, None)"
  by (rule failed_deletion_not_requeued)
     (auto simp: being_deleted_def deleting_def ex_cluster_def bare_cluster_def)

text \<open>
  C12. If the resource cannot be read at the start of a reconciliation, the request is dropped: no error, no requeue
  and no further call, whether the resource is gone or the API server failed.
\<close>

theorem unreadable_resource_dropped:
  assumes "a_GetDogu (cx_E X h) name = Inl e"
  shows "run_state (dogu_Reconcile X name) h = ((no_requeue, None), h @ [Event (CGetDogu name) (Some e)])"
  by (rule dogu_Reconcile_unreadable [OF assms])

theorem unreadable_resource_dropped_witness:
  "run_state (dogu_Reconcile (ex_ctx\<lparr> cx_E := (\<lambda>_. ex_cluster\<lparr> a_GetDogu := (\<lambda>_. Inl (ErrApi OtherReason ''timeout'')) \<rparr>) \<rparr>)
      ''redmine'') [] =
    ((no_requeue, None), [] @ [Event (CGetDogu ''redmine'') (Some (ErrApi OtherReason ''timeout''))])"
  by (rule unreadable_resource_dropped) simp

text \<open>
  C13. A change of the global configuration reconciles every dogu: of all config maps, events of the global configuration
  alone reach its controller, which sends the listed dogus to the dogu controller, each once and in the order of the
  list; if they cannot be listed, the error is returned.
\<close>

theorem global_config_enqueues_all:
  assumes "lawful_requests R" "oe_Kind e = KConfigMap"
  shows "R global_controller_builder e = (if oe_Name e = globalConfigMapName then {globalConfigMapName} else {}) \<and>
    run_state (global_Reconcile E) h =
      (case a_ListDogus (E h) of
         Inl e \<Rightarrow> ((no_requeue, Some e), h @ [Event CListDogus (Some e)])
       | Inr ds \<Rightarrow> ((no_requeue, None), h @ Event CListDogus None # map (\<lambda>d. Event (CEnqueue (d_Name d)) None) ds))"
  using global_config_requests [OF assms] global_Reconcile_run by auto

theorem global_config_enqueues_all_witness:
  "ex_requests global_controller_builder \<lparr> oe_Type = UpdateEvent, oe_Kind = KConfigMap, oe_Name = globalConfigMapName,
      oe_OldGeneration = 0, oe_Generation = 0, oe_Owner = None \<rparr> = {globalConfigMapName}"
  using global_config_enqueues_all [OF ex_requests_lawful, of "\<lparr> oe_Type = UpdateEvent, oe_Kind = KConfigMap, oe_Name = globalConfigMapName,
      oe_OldGeneration = 0, oe_Generation = 0, oe_Owner = None \<rparr>" "\<lambda>_. ex_cluster" "[]"] by simp

text \<open>
  C14. Starting and stopping: the step sets the scale of the dogu's own deployment only, to 0 or 1, to 0 if the spec says
  stopped, and never lets the reconciliation proceed after it.
\<close>

theorem scale_only_as_wanted:
  assumes "run_state (StartStopStep X d) h = ((r, d'), h @ t)" "Event (CUpdateScale m k) eo \<in> set t"
  shows "m = d_Name d \<and> k \<in> {0, 1} \<and> (s_Stopped (d_Spec d) \<longrightarrow> k = 0) \<and> \<not> proceeds r"
  by (rule StartStopStep_scale [OF assms])

theorem scale_only_as_wanted_witness:
  "\<not> proceeds (fst (fst (run_state (StartStopStep (ex_ctx\<lparr> cx_E := (\<lambda>_. ex_cluster\<lparr> a_GetScale := (\<lambda>_. Inr 1),
      a_UpdateScale := (\<lambda>_ k. Inr k) \<rparr>) \<rparr>) (ex_dogu\<lparr> d_Spec := (d_Spec ex_dogu)\<lparr> s_Stopped := True \<rparr> \<rparr>)) [])))"
proof -
  let ?X = "ex_ctx\<lparr> cx_E := (\<lambda>_. ex_cluster\<lparr> a_GetScale := (\<lambda>_. Inr 1), a_UpdateScale := (\<lambda>_ k. Inr k) \<rparr>) \<rparr>"
  let ?d = "ex_dogu\<lparr> d_Spec := (d_Spec ex_dogu)\<lparr> s_Stopped := True \<rparr> \<rparr>"
  let ?r = "run_state (StartStopStep ?X ?d) []"
  have "Event (CUpdateScale ''redmine'' 0) None \<in> set (snd ?r)"
    by (simp add: StartStopStep_def shouldBeStopped_def run_attempt io_defs ex_cluster_def bare_cluster_def ex_dogu_def empty_dogu_def)
  then show ?thesis
    using scale_only_as_wanted [of ?X ?d "[]" "fst (fst ?r)" "snd (fst ?r)" "snd ?r" "''redmine''" 0 None] by simp
qed

text \<open>
  C15. The volume must be large enough: in a stable cluster the reconciliation proceeds past the volume step only if the
  dogu needs no volume claim, or its claim has at least the capacity the resource asks for.
\<close>

theorem volume_large_enough:
  assumes "cx_E X = (\<lambda>_. K)" "run_state (VolumeExpanderStep X d) h = ((r, d'), h')" "proceeds r"
  shows "\<exists>n. installed K (d_Name d) = Inr n \<and> (hasPvc n \<longrightarrow>
    (\<exists>p q. a_GetPVC K (d_Name d) = Inr p \<and> lib_GetMinDataVolumeSize (cx_L X) d = Inr q \<and> capacity_resized (cx_L X) p q))"
  by (rule VolumeExpanderStep_proceeds [OF assms])

theorem volume_large_enough_witness:
  "\<exists>p q. a_GetPVC (ex_cluster\<lparr> a_GetPVC := (\<lambda>_. Inr ex_pvc) \<rparr>) ''redmine'' = Inr p \<and>
    lib_GetMinDataVolumeSize ex_lib ex_dogu = Inr q \<and> capacity_resized ex_lib p q"
proof -
  let ?K = "ex_cluster\<lparr> a_GetPVC := (\<lambda>_. Inr ex_pvc) \<rparr>"
  let ?r = "run_state (VolumeExpanderStep (ex_ctx\<lparr> cx_E := (\<lambda>_. ?K) \<rparr>) ex_dogu) []"
  have "proceeds (fst (fst ?r))" by code_simp
  moreover have "installed ?K ''redmine'' = Inr ex_descriptor" "hasPvc ex_descriptor" "d_Name ex_dogu = ''redmine''"
    by (simp_all add: installed_def ex_cluster_def hasPvc_def ex_descriptor_def ex_volume_def ex_dogu_def)
  ultimately show ?thesis
    using volume_large_enough [of "ex_ctx\<lparr> cx_E := (\<lambda>_. ?K) \<rparr>" ?K ex_dogu "[]" "fst (fst ?r)" "snd (fst ?r)" "snd ?r"]
    by auto
qed

section \<open>Restarts\<close>

text \<open>
  C16. Restarts complete: in a cluster that keeps what is written, a reconciliation of a restart takes it to its next phase, or
  writes nothing and asks to be called again in five seconds; and if the dogu does what its spec says, as many
  reconciliations as phases are left take the restart through all of them (for a new one: stopping, stopped, starting,
  completed).
\<close>

theorem restart_completes:
  assumes "restart_store E name dogu p0" "order_fits (stored_phase name p0 h) (stop_ordered dogu b0 h)"
  shows "(\<exists>res t. run_state (restart_Reconcile L E sorter name) h = (res, h @ t) \<and>
      (phases_written t = take 1 (milestones (stored_phase name p0 h)) \<or> phases_written t = [] \<and> res = (requeue_wait, None))) \<and>
    (dogu_follows E dogu b0 \<longrightarrow>
      (\<exists>t. snd (run_state (restart_rounds (length (milestones (stored_phase name p0 h))) L E sorter name) h) = h @ t \<and>
         phases_written t = milestones (stored_phase name p0 h)))"
proof
  let ?p = "stored_phase name p0 h"
  obtain d res t where "run_state (restart_Reconcile L E sorter name) h = (res, h @ t)" "phases_written t = next_phase ?p d"
    "waits ?p d \<longrightarrow> res = (requeue_wait, None)"
    using restart_Reconcile_store [OF assms(1) refl, of b0 h L sorter] by blast
  then show "\<exists>res t. run_state (restart_Reconcile L E sorter name) h = (res, h @ t) \<and>
      (phases_written t = take 1 (milestones ?p) \<or> phases_written t = [] \<and> res = (requeue_wait, None))"
    by (cases "waits ?p d") (auto simp: next_phase_def)
qed (use restart_rounds_complete [OF assms(1) _ assms(2)] in blast)

theorem restart_completes_witness:
  "\<exists>t. snd (run_state (restart_rounds 4 ex_lib ex_store sort_restarts ''r'') []) = [] @ t \<and>
    phases_written t = [PhaseStopping, PhaseStopped, PhaseStarting, PhaseCompleted]"
  using restart_completes [OF ex_store_keeps(1), of "[]" False ex_lib sort_restarts] ex_store_keeps(2)
  by (simp add: order_fits_def numeral_eq_Suc)

text \<open>
  C17. The restart machine: a reconciliation of a restart writes at most one phase, and that phase is a step of the
  machine from the phase the restart had; in particular a completed or abandoned restart is never changed again.
\<close>

theorem restart_takes_one_step:
  assumes "a_GetRestart (E h) name = Inr r"
  shows "\<exists>t. snd (run_state (restart_Reconcile L E sorter name) h) = h @ t \<and>
    (phases_written t = [] \<or> (\<exists>q. phases_written t = [q] \<and> restart_step (r_Phase r) q)) \<and>
    (r_Phase r \<in> {PhaseCompleted, PhaseDoguNotFound, PhaseFailedGetDogu} \<longrightarrow> phases_written t = [])"
proof -
  obtain res h' where r: "run_state (restart_Reconcile L E sorter name) h = (res, h')" by fastforce
  from restart_Reconcile_one_step [OF assms r] obtain t where "h' = h @ t" "one_step (r_Phase r) t" by blast
  with r show ?thesis by (auto simp: one_step_def dest: restart_step_active)
qed

theorem restart_takes_one_step_witness:
  "\<exists>t. snd (run_state (restart_Reconcile ex_lib (\<lambda>_. ex_cluster\<lparr> a_GetRestart := (\<lambda>x. Inr (ex_restart x PhaseNew 0)) \<rparr>)
      sort_restarts ''r1'') []) = [] @ t \<and>
    (phases_written t = [] \<or> (\<exists>q. phases_written t = [q] \<and> restart_step PhaseNew q)) \<and>
    (PhaseNew \<in> {PhaseCompleted, PhaseDoguNotFound, PhaseFailedGetDogu} \<longrightarrow> phases_written t = [])"
  using restart_takes_one_step [of "\<lambda>_. ex_cluster\<lparr> a_GetRestart := (\<lambda>x. Inr (ex_restart x PhaseNew 0)) \<rparr>" "[]" "''r1''"
      "ex_restart ''r1'' PhaseNew 0" ex_lib sort_restarts]
  by (simp add: ex_restart_def)



text \<open>
  C19. Garbage collection keeps the newest restarts: of the given restarts exactly the configured number is kept (or all
  if there are fewer), every other one is deleted, and no deleted one is newer than a kept one.
\<close>

theorem garbage_collection_keeps_newest:
  assumes "restart_sorter S" "historyLimit L v f = Inr lim" "0 \<le> lim"
  shows "\<exists>del keep t. S items = del @ keep \<and> length keep = min (nat lim) (length items) \<and>
    snd (run_state (truncateDoguRestartHistory L E S items v f) h) = h @ t \<and>
    map ev_call t = map (\<lambda>r. CDeleteRestart (r_Name r)) del \<and>
    list_all (\<lambda>r. list_all (\<lambda>s. r_CreationTimestamp r \<le> r_CreationTimestamp s) keep) del"
proof -
  obtain res h' where r: "run_state (truncateDoguRestartHistory L E S items v f) h = (res, h')" by fastforce
  with truncate_deletes [OF assms r] show ?thesis by (auto simp: list_all_iff)
qed

theorem garbage_collection_keeps_newest_witness:
  "\<exists>del keep t. sort_restarts [ex_restart ''b'' PhaseCompleted 2, ex_restart ''a'' PhaseCompleted 1] = del @ keep \<and>
    length keep = min (nat 1) (length [ex_restart ''b'' PhaseCompleted 2, ex_restart ''a'' PhaseCompleted 1]) \<and>
    snd (run_state (truncateDoguRestartHistory ex_lib (\<lambda>_. ex_cluster) sort_restarts
      [ex_restart ''b'' PhaseCompleted 2, ex_restart ''a'' PhaseCompleted 1] ''LIMIT'' 1) []) = [] @ t \<and>
    map ev_call t = map (\<lambda>r. CDeleteRestart (r_Name r)) del \<and>
    list_all (\<lambda>r. list_all (\<lambda>s. r_CreationTimestamp r \<le> r_CreationTimestamp s) keep) del"
  by (rule garbage_collection_keeps_newest) (simp_all add: sort_restarts.restart_sorter_axioms historyLimit_def ex_lib_def)

section \<open>Service accounts and authentication\<close>

text \<open>
  C20. Round trip of credentials: what a create command prints, one line per credential, is parsed back to the same
  credentials, if keys and values contain no colon, line break or outer blanks and a line fits into the read buffer.
\<close>

theorem credentials_round_trip:
  assumes "list_all printable_credential m" "distinct (map fst m)"
  shows "parseServiceCommandOutput (print_credentials m) = Inr m"
  using assms parse_printed_lines [of m "[]"] by (simp add: parseServiceCommandOutput_def read_lines_print)

theorem credentials_round_trip_witness:
  "parseServiceCommandOutput (print_credentials [(''username'', ''redmine_1''), (''password'', ''s3cret'')]) =
    Inr [(''username'', ''redmine_1''), (''password'', ''s3cret'')]"
  by (rule credentials_round_trip)
     (simp_all add: printable_credential_def printable_def trimmed_def is_space_def bufferSize_def)


text \<open>
  C22. Creating accounts is idempotent: if the configuration already has credentials for every account of the descriptor,
  \<^verbatim>\<open>CreateAll\<close> reads the configuration and does nothing else.
\<close>

theorem existing_accounts_kept:
  assumes "a_ConfigGet (E h) SensitiveConfig (lib_GetSimpleName L n) = Inr cfg"
    and "list_all (account_settled cfg) (n_ServiceAccounts n)"
  shows "run_state (CreateAll L E C n) h = (None, h @ [Event (CConfigGet SensitiveConfig (lib_GetSimpleName L n)) None])"
  using assms by (simp add: CreateAll_def run_attempt io_defs createAll_loop_settled)

theorem existing_accounts_kept_witness:
  "run_state (CreateAll ex_lib (\<lambda>_. ex_cluster\<lparr> a_ConfigGet := (\<lambda>_ x. Inr \<lparr> cfg_DoguName = x,
      cfg_Entries = [(''sa-postgresql/username'', ''u'')], cfg_LastUpdated = 0 \<rparr>) \<rparr>) ex_config ex_descriptor) [] =
    (None, [] @ [Event (CConfigGet SensitiveConfig (lib_GetSimpleName ex_lib ex_descriptor)) None])"
proof (rule existing_accounts_kept)
  show "list_all (account_settled \<lparr> cfg_DoguName = ''redmine'', cfg_Entries = [(''sa-postgresql/username'', ''u'')], cfg_LastUpdated = 0 \<rparr>)
      (n_ServiceAccounts ex_descriptor)" by code_simp
qed (simp add: ex_lib_def ex_descriptor_def simple_part_def)



section \<open>Generated resources\<close>

text \<open>
  C24. The auxiliary images: if they can be read at the start of the operator, there is an accepted image reference under
  each of the three keys; with the image for changing owners, the init container for it is left out of a generated pod
  only if the dogu has no volume of its own.
\<close>

theorem additional_images_complete:
  assumes "run_state (GetAdditionalImages L E) h = (Inr images, h')"
  shows "list_all (\<lambda>key. valid_image L (smap_get images key)) imageKeys \<and>
    (\<forall>L' n d rq c. getChownInitContainer L' n d (smap_get images ''chownInitImage'') rq = Inr c \<longrightarrow>
      (c = None \<longleftrightarrow> filterVolumesWithClient (n_Volumes n) doguOperatorClient = []))"
proof -
  note valid = GetAdditionalImages_valid [OF assms]
  have "''chownInitImage'' \<in> set imageKeys" by (simp add: imageKeys_def)
  from getChownInitContainer_present [OF valid [OF this]] valid show ?thesis by (auto simp: list_all_iff)
qed

theorem additional_images_complete_witness:
  "list_all (\<lambda>key. valid_image ex_lib (smap_get (cm_Data ex_images) key)) imageKeys"
proof -
  have "run_state (GetAdditionalImages ex_lib (\<lambda>_. ex_cluster)) [] =
      (Inr (cm_Data ex_images), [Event (CGetConfigMap OperatorAdditionalImagesConfigmapName) None])"
    by (simp add: GetAdditionalImages_def run_attempt io_defs ex_cluster_def ex_images_def imageKeys_def imageForKey_def
        verifyImageTag_def smap_get_def ex_lib_def)
  from additional_images_complete [OF this] show ?thesis by blast
qed

text \<open>
  C25. Every volume mount has its volume: in a generated pod template, each mount of the init containers and of the dogu
  container names a volume of the pod.
\<close>

theorem mounts_have_volumes:
  assumes "run_state (GetPodTemplate L E G d n) h = (Inr t, h')"
  shows "list_all (\<lambda>c. mounts_covered (p_Volumes t) (k_VolumeMounts c)) (p_InitContainers t @ take 1 (p_Containers t))"
  by (rule template_mounts [OF assms])

theorem mounts_have_volumes_witness:
  "list_all (\<lambda>c. mounts_covered (p_Volumes ex_template) (k_VolumeMounts c)) (p_InitContainers ex_template @ take 1 (p_Containers ex_template))"
  by (rule mounts_have_volumes [OF ex_template_run])

text \<open>
  C26. Containers are confined: every init container, the dogu container and every sidecar of a generated pod template
  has a security context that drops all capabilities, and none is privileged.
\<close>

theorem containers_confined:
  assumes "run_state (GetPodTemplate L E G d n) h = (Inr t, h')"
  shows "list_all confined (p_InitContainers t @ p_Containers t)"
  by (rule template_confined [OF assms])

theorem containers_confined_witness: "list_all confined (p_InitContainers ex_template @ p_Containers ex_template)"
  by (rule containers_confined [OF ex_template_run])

text \<open>
  C27. One claim per pod: the volumes generated for a dogu contain at most one volume claim, however many of its volumes
  are to be backed up.
\<close>

theorem at_most_one_claim:
  assumes "CreateVolumes L d n x = Inr vs"
  shows "length (filter is_claim_volume vs) \<le> 1"
  by (rule CreateVolumes_one_claim [OF assms])

theorem at_most_one_claim_witness:
  "length (filter is_claim_volume (projr (CreateVolumes ex_lib ex_dogu ex_descriptor False))) \<le> 1"
proof (rule at_most_one_claim)
  have "\<not> isl (CreateVolumes ex_lib ex_dogu ex_descriptor False)" by code_simp
  then show "CreateVolumes ex_lib ex_dogu ex_descriptor False = Inr (projr (CreateVolumes ex_lib ex_dogu ex_descriptor False))" by simp
qed

text \<open>
  C28. What network policies admit: the deny-all policy selects the pods of the dogu and admits nothing; a generated
  dependency policy admits exactly traffic from the dogu to its dependency, and the ingress policy traffic from the
  gateway to the dogu, from pods in the dogu's own namespace.
\<close>

theorem network_policies_admit:
  assumes "generateDenyAllPolicy L d n = Inr deny" "generateNetPol L d n dep ty = Inr np"
  shows "(selects (np_Selector deny) dst \<longleftrightarrow> map_of dst DoguLabelName = Some (lib_GetSimpleName L n)) \<and>
    \<not> np_admits deny src ns dst \<and>
    (np_admits np src ns dst \<longleftrightarrow> map_of ns namespaceNameLabel = Some (d_Namespace d) \<and>
      (case ty of
         netPolTypeDogu \<Rightarrow> map_of dst DoguLabelName = Some dep \<and> map_of src DoguLabelName = Some (lib_GetSimpleName L n)
       | netPolTypeComponent \<Rightarrow> map_of dst componentNameLabel = Some dep \<and> map_of src DoguLabelName = Some (lib_GetSimpleName L n)
       | netPolTypeIngress \<Rightarrow> map_of dst DoguLabelName = Some (lib_GetSimpleName L n) \<and>
           map_of src componentNameLabel = Some gatewayComponentName))"
  using generateDenyAllPolicy_admits [OF assms(1)] generateNetPol_admits [OF assms(2)] by blast

theorem network_policies_admit_witness:
  "\<not> np_admits (projr (generateDenyAllPolicy ex_lib ex_dogu ex_descriptor)) [] [] [(DoguLabelName, ''redmine'')]"
proof -
  have "\<not> isl (generateDenyAllPolicy ex_lib ex_dogu ex_descriptor)"
    "\<not> isl (generateNetPol ex_lib ex_dogu ex_descriptor ''postgresql'' netPolTypeDogu)" by code_simp+
  then have "generateDenyAllPolicy ex_lib ex_dogu ex_descriptor = Inr (projr (generateDenyAllPolicy ex_lib ex_dogu ex_descriptor))"
    "generateNetPol ex_lib ex_dogu ex_descriptor ''postgresql'' netPolTypeDogu =
      Inr (projr (generateNetPol ex_lib ex_dogu ex_descriptor ''postgresql'' netPolTypeDogu))" by simp_all
  from network_policies_admit [OF this] show ?thesis by blast
qed


text \<open>
  C30. Volume claims: a claim that exists and is not being deleted is left alone, and a claim is created only after a
  look for it found none.
\<close>

theorem existing_claim_kept:
  assumes "a_GetPVC (E h) (pvc_Name p) = Inr actual" "pvc_DeletionTimestamp actual = None"
  shows "run_state (upsertPVC E p) h = (None, h @ [Event (CGetPVC (pvc_Name p)) None]) \<and>
    (\<exists>t. snd (run_state (upsertPVC E' p) h) = h @ t \<and> precedes (claim_missing (pvc_Name p)) creates_claim t)"
  using upsertPVC_keeps_existing [of E h p actual] assms upsertPVC_ordered [of p E'] unfolding ordered_def spec_def by blast

theorem existing_claim_kept_witness:
  "run_state (upsertPVC (\<lambda>_. ex_cluster\<lparr> a_GetPVC := (\<lambda>_. Inr ex_pvc) \<rparr>) ex_pvc) [] = (None, [] @ [Event (CGetPVC (pvc_Name ex_pvc)) None])"
  using existing_claim_kept [of "\<lambda>_. ex_cluster\<lparr> a_GetPVC := (\<lambda>_. Inr ex_pvc) \<rparr>" "[]" ex_pvc ex_pvc]
  by (simp add: ex_pvc_def)

text \<open>
  C31. Applying a deployment: after reads only, either the generation failed and nothing is written, or the deployment
  is looked up once and then created if it was not found, updated if it was, and not written on any other error; the
  returned deployment is the one written.
\<close>

theorem deployment_upsert_contract:
  "\<exists>t. snd (run_state (UpsertDoguDeployment L E G d n patch) h) = h @ t \<and>
    reads_then (deployment_upserted (d_Name d)) (fst (run_state (UpsertDoguDeployment L E G d n patch) h)) t"
  using UpsertDoguDeployment_writes [of L E G d n patch] unfolding spec_def by blast

section \<open>Dependencies and health\<close>




text \<open>
  C34. It does not return on a cycle: if every dogu of a set has an installed dependency in the set, the check of such a
  dogu runs out of any fuel.
\<close>

theorem dependency_cycle_diverges:
  assumes "\<And>n. n \<in> S \<Longrightarrow> \<exists>m \<in> S. follows L K C n m" "n \<in> S"
  shows "fst (run_state (CheckDependenciesRecursive L (\<lambda>_. K) C k n) h) = None"
  using dependency_errors_diverges [OF assms] by (simp add: CheckDependenciesRecursive_errors)

theorem dependency_cycle_diverges_witness:
  "fst (run_state (CheckDependenciesRecursive ex_lib (\<lambda>_. ex_cluster\<lparr> a_GetDescriptor := (\<lambda>_. Inr ex_descriptor) \<rparr>) ex_config 3 ex_descriptor) []) = None"
  by (rule dependency_cycle_diverges [where S = "{ex_descriptor}"])
     (auto simp: follows_def followed_dependencies_def ex_lib_def ex_descriptor_def installed_def ex_cluster_def isSkippedDependency_def ex_config_def)

section \<open>Events and start-up\<close>

text \<open>
  C35. Whatever changes an object made for a dogu starts a reconciliation of that dogu: every deployment, service, claim,
  network policy, pod and auth registration that a reconciliation of the dogu creates has the dogu as its controlling
  owner and is of a kind its controller watches, so any later event of the object enqueues exactly this dogu.
\<close>

theorem created_objects_watched:
  assumes "lawful_owner (cx_L X)" "names_kept (cx_E X)" "lawful_requests R"
    and "run_state (dogu_Reconcile X name) h = (r, h @ t)" "e \<in> set t" "created_object (ev_call e) = Some (kind, x, owner)"
    and "oe_Kind ev = kind" "oe_Owner ev = map_option (Pair KDogu) owner"
  shows "R (dogu_controller_builder (oc_AuthRegistrationEnabled (cx_C X))) ev = {name}"
proof -
  from emitsD [OF dogu_Reconcile_owned [OF assms(1,2)] assms(4)] assms(5)
  have "owned_creation (cx_C X) name e" by (auto simp: list_all_iff)
  with assms(6) have "owner = Some name" "kind \<in> set (cb_Owns (dogu_controller_builder (oc_AuthRegistrationEnabled (cx_C X))))"
    by (simp_all add: owned_creation_def)
  with owned_event_requests [OF assms(3)] assms(7,8) show ?thesis by simp
qed

theorem created_objects_watched_witness:
  "ex_requests (dogu_controller_builder False) \<lparr> oe_Type = DeleteEvent, oe_Kind = KService, oe_Name = ''redmine'',
      oe_OldGeneration = 1, oe_Generation = 1, oe_Owner = Some (KDogu, ''redmine'') \<rparr> = {''redmine''}"
proof -
  let ?X = "ex_ctx\<lparr> cx_E := (\<lambda>_. ex_installing) \<rparr>"
  obtain r where r: "run_state (dogu_Reconcile ?X ''redmine'') [] = (r, [] @ ex_log)"
    by (metis append_Nil ex_log_def prod.collapse)
  obtain e where e: "e \<in> set ex_log" "created_object (ev_call e) = Some (KService, ''redmine'', Some ''redmine'')"
    using ex_log_service by blast
  show ?thesis
    using created_objects_watched [OF _ _ ex_requests_lawful r e(1,2)] ex_lawful_owner ex_names_kept by (simp add: ex_config_def)
qed

section \<open>Annotations, configuration, modes\<close>

text \<open>
  C36. Exposed ports: a port number below \<open>2 ^ 31\<close> with a protocol is parsed back from its text, and without a protocol as
  TCP; whatever the text, a parsed port is a 32 bit integer.
\<close>

theorem port_round_trip:
  assumes "n < 2 ^ 31" "CHR ''/'' \<notin> set proto"
  shows "SplitImagePortConfig (digits_of n @ ''/'' @ proto) = Inr (int n, ToUpper proto) \<and>
    SplitImagePortConfig (digits_of n) = Inr (int n, ''TCP'') \<and>
    (\<forall>s p q. SplitImagePortConfig s = Inr (p, q) \<longrightarrow> - (2 ^ 31) \<le> p \<and> p < 2 ^ 31)"
  using SplitImagePortConfig_print [OF assms] SplitImagePortConfig_range by blast

theorem port_round_trip_witness:
  "SplitImagePortConfig (digits_of 8080 @ ''/'' @ ''tcp'') = Inr (8080, ToUpper ''tcp'')"
  using port_round_trip [of 8080 "''tcp''"] by simp


text \<open>
  Support mode is recognised: a generated template does not count as being in support mode, and the same template counts as
  such once support mode was switched on for the dogu's container.
\<close>

lemma support_mode_recognised:
  assumes "run_state (GetPodTemplate L E G d n) h = (Inr t, h')" "list_ex (\<lambda>c. k_Name c = d_Name d) (p_Containers t)"
  shows "\<not> isDeploymentInSupportMode (dep\<lparr> dep_Template := t \<rparr>) \<and>
    isDeploymentInSupportMode (dep\<lparr> dep_Template := setDoguPodTemplateInSupportMode d t \<rparr>)"
  using template_not_in_support_mode [OF assms(1)] support_template_detected [OF assms(2)] by blast

text \<open>
  C38. The program can be put together: no value is provided by two constructors, the reconcilers and runners that are asked for
  are provided, and there is an order of all the constructors in which each finds its parameters. The steps on the
  normal configuration work on the repository of config maps, those on the sensitive configuration on that of secrets. The
  signatures of the constructors from libraries are hypotheses.
\<close>

theorem container_complete:
  assumes "cfg = []" "set glob \<subseteq> {LibType repository_ConfigMapClient}" "set dconf \<subseteq> {LibType repository_ConfigMapClient}"
    and "set sconf \<subseteq> {LibType repository_SecretClient}"
  shows "distinct (provided (options cfg glob dconf sconf)) \<and> set invokes \<subseteq> set (provided (options cfg glob dconf sconf)) \<and>
    (\<exists>qs. mset qs = mset (options cfg glob dconf sconf) \<and> buildable container_values qs) \<and>
    list_all (\<lambda>k. first_source (options cfg glob dconf sconf) k = Some ''repository.NewDoguConfigRepository'')
      [InstallType install_CreateDoguConfigStep, InstallType install_DoguConfigOwnerReferenceStep,
       UpgradeStepsType upgradeSteps_RestartAfterConfigChangeStep] \<and>
    list_all (\<lambda>k. first_source (options cfg glob dconf sconf) k = Some ''repository.NewSensitiveDoguConfigRepository'')
      [InstallType install_CreateSensitiveDoguConfigStep, InstallType install_SensitiveDoguConfigOwnerReferenceStep,
       DeletionType deletion_RemoveSensitiveDoguConfigStep]"
  by (intro conjI options_distinct invokes_provided options_buildable [OF assms] normal_config_sources sensitive_config_sources)

theorem container_complete_witness:
  "\<exists>qs. mset qs = mset (options [] [LibType repository_ConfigMapClient] [LibType repository_ConfigMapClient]
      [LibType repository_SecretClient]) \<and> buildable container_values qs"
proof -
  have "set [LibType repository_ConfigMapClient] \<subseteq> {LibType repository_ConfigMapClient}"
    "set [LibType repository_SecretClient] \<subseteq> {LibType repository_SecretClient}" by simp_all
  from container_complete [OF refl this(1) this(1) this(2)] show ?thesis by blast
qed

text \<open>
  C39. The command line: settings written in any order and spelling are read back, the last one of a kind counts, the
  manager watches the namespace of the operator only, and an unknown flag ends the program with code 2.
\<close>

theorem command_line_round_trip:
  assumes "list_all2 written xs ws" "args = [] \<or> no_flag (hd args)"
  shows "NewManagerOptions (prog # concat ws @ args) C = Started \<lparr>
      mo_MetricsBindAddress = mf_MetricsAddr (fold apply_setting xs default_flags), mo_DefaultNamespaces = [oc_Namespace C],
      mo_WebhookPort = 9443, mo_HealthProbeBindAddress = mf_ProbeAddr (fold apply_setting xs default_flags),
      mo_LeaderElection = mf_LeaderElection (fold apply_setting xs default_flags), mo_LeaderElectionID = ''951e217a.cloudogu.com'' \<rparr> \<and>
    (\<forall>name. name \<noteq> [] \<and> hd name \<noteq> CHR ''-'' \<and> CHR ''='' \<notin> set name \<and>
       name \<notin> {''leader-elect'', ''metrics-bind-address'', ''health-probe-bind-address'', ''help'', ''h''} \<longrightarrow>
       NewManagerOptions (prog # concat ws @ (''--'' @ name) # args) C = Exited 2)"
  using flag_Parse_stops [OF assms(2)] flag_Parse_unknown
  by (auto simp: NewManagerOptions_def flag_Parse_settings [OF assms(1)] simp del: flag_Parse.simps)

theorem command_line_round_trip_witness:
  "NewManagerOptions [''operator'', ''--leader-elect'', ''-metrics-bind-address'', '':9090''] ex_config = Started \<lparr>
      mo_MetricsBindAddress = '':9090'', mo_DefaultNamespaces = [''ecosystem''], mo_WebhookPort = 9443,
      mo_HealthProbeBindAddress = '':8081'', mo_LeaderElection = True, mo_LeaderElectionID = ''951e217a.cloudogu.com'' \<rparr>"
proof -
  have "written (LeaderElection True) [''--leader-elect'']" "written (MetricsAddr '':9090'') [''-metrics-bind-address'', '':9090'']"
    using switch [of "''--''"] separate [of "''-''" "'':9090''"] by simp_all
  then have "list_all2 written [LeaderElection True, MetricsAddr '':9090''] [[''--leader-elect''], [''-metrics-bind-address'', '':9090'']]"
    by simp
  from command_line_round_trip [OF this, of "[]" "''operator''" ex_config] show ?thesis by (simp add: default_flags_def ex_config_def)
qed

text \<open>
  Startup probes during an upgrade: raising the failure threshold of the dogu's container and reverting to the generated probe
  afterwards gives back the generated containers.
\<close>

lemma startup_probe_restored:
  assumes "list_ex (\<lambda>c. k_Name c = name \<and> k_StartupProbe c = Some p) cs" "distinct (map k_Name cs)"
  shows "revert_probe name (Some p) (increase_threshold name cs) = Some cs"
  using revert_increase [of cs name "Some p"] assms by (auto simp: list_ex_iff)



end
